(* ===== verification/Prelude.thy ===== *)
theory Prelude
  imports Main "HOL-Library.Word" "HOL-Library.AList" "HOL-Library.Multiset"
begin

text \<open>
  What every component of the development shares: the Go types it is written over, the part of
  \<^verbatim>\<open>strconv\<close> and \<^verbatim>\<open>strings\<close> that the sources under \<^verbatim>\<open>src/internal\<close> use, and the generic
  lemmas on decimal numerals and separated strings that carry the component proofs.

  \<^item> A Go \<^verbatim>\<open>string\<close> or \<^verbatim>\<open>[]byte\<close> is a \<^typ>\<open>string\<close>, one \<^typ>\<open>char\<close> per byte.
  \<^item> A Go \<^verbatim>\<open>int\<close> or \<^verbatim>\<open>int64\<close> is an \<^typ>\<open>int\<close>; \<open>wrap64\<close> is written where an operation may leave
    the 64-bit range. A \<^verbatim>\<open>uint64\<close> is a \<^typ>\<open>64 word\<close>.
  \<^item> White space and letter case are those of ASCII.
\<close>

section \<open>Collections of the development\<close>

named_theorems dis_rt
  \<open>round trips of the DIS readers over the DIS writers\<close>
named_theorems dec_simps
  \<open>decimal numerals: printing, parsing, lengths\<close>

section \<open>Go integers\<close>

definition max_int64 :: int where "max_int64 = 9223372036854775807"
definition min_int64 :: int where "min_int64 = - 9223372036854775808"

text \<open>The two's complement value a 64-bit operation stores for a mathematical result.\<close>

definition wrap64 :: "int \<Rightarrow> int" where
  "wrap64 i = (i + 9223372036854775808) mod 18446744073709551616 - 9223372036854775808"

abbreviation is_int64 :: "int \<Rightarrow> bool" where
  "is_int64 i \<equiv> min_int64 \<le> i \<and> i \<le> max_int64"

lemma wrap64_id [simp]: "is_int64 i \<Longrightarrow> wrap64 i = i"
  by (simp add: wrap64_def min_int64_def max_int64_def)

lemma wrap64_range: "is_int64 (wrap64 i)"
  by (simp add: wrap64_def min_int64_def max_int64_def)

lemma sint_word_of_int64 [simp]: "sint (word_of_int i :: 64 word) = wrap64 i"
  by (simp add: int_word_sint wrap64_def)

text \<open>The quotient of Go, which truncates towards zero.\<close>

definition goquot :: "int \<Rightarrow> int \<Rightarrow> int" where
  "goquot a b = sgn a * sgn b * (\<bar>a\<bar> div \<bar>b\<bar>)"

lemma goquot_nonneg [simp]: "0 \<le> a \<Longrightarrow> 0 < b \<Longrightarrow> goquot a b = a div b"
  by (cases "a = 0") (simp_all add: goquot_def)

section \<open>Decimal numerals: the part of strconv the sources use\<close>

definition digit_char :: "nat \<Rightarrow> char" where
  "digit_char d = char_of (48 + d)"

definition is_digit :: "char \<Rightarrow> bool" where
  "is_digit c = (48 \<le> (of_char c :: nat) \<and> (of_char c :: nat) \<le> 57)"

definition digit_val :: "char \<Rightarrow> nat" where
  "digit_val c = (of_char c :: nat) - 48"

text \<open>The decimal digits of a number, most significant first, without leading zeros.\<close>

fun dec_digits :: "nat \<Rightarrow> string" where
  "dec_digits n =
     (if n < 10 then [digit_char n] else dec_digits (n div 10) @ [digit_char (n mod 10)])"

declare dec_digits.simps [simp del]

definition dec_val :: "string \<Rightarrow> nat" where
  "dec_val s = foldl (\<lambda>a c. 10 * a + digit_val c) 0 s"

text \<open>\<^verbatim>\<open>strconv.FormatInt(i, 10)\<close>, which is also \<^verbatim>\<open>strconv.Itoa\<close> and the \<^verbatim>\<open>%d\<close> verb.\<close>

definition FormatInt :: "int \<Rightarrow> string" where
  "FormatInt i = (if i < 0 then ''-'' @ dec_digits (nat (- i)) else dec_digits (nat i))"

datatype num_error = ErrSyntax | ErrRange

text \<open>
  \<^verbatim>\<open>strconv.ParseInt(s, 10, 64)\<close>: the value and the error. As in Go the value is 0 after a syntax
  error and the nearest bound after a range error, which matters where a caller drops the error.
\<close>

definition ParseInt :: "string \<Rightarrow> int \<times> num_error option" where
  "ParseInt s =
     (let neg = (case s of c # _ \<Rightarrow> c = CHR ''-'' | [] \<Rightarrow> False);
          d = (case s of c # cs \<Rightarrow> if c = CHR ''-'' \<or> c = CHR ''+'' then cs else s | [] \<Rightarrow> [])
      in if d = [] \<or> \<not> list_all is_digit d then (0, Some ErrSyntax)
         else let n = int (dec_val d)
              in if \<not> neg \<and> n > max_int64 then (max_int64, Some ErrRange)
                 else if neg \<and> - n < min_int64 then (min_int64, Some ErrRange)
                 else (if neg then - n else n, None))"

text \<open>\<^verbatim>\<open>strconv.Atoi\<close> agrees with \<^verbatim>\<open>ParseInt\<close> on a 64-bit platform.\<close>

abbreviation Atoi :: "string \<Rightarrow> int \<times> num_error option" where
  "Atoi \<equiv> ParseInt"

subsection \<open>Printing and parsing agree\<close>

lemma digit_char_props [simp]:
  assumes "d < 10"
  shows "is_digit (digit_char d)" "digit_val (digit_char d) = d"
  using assms by (simp_all add: is_digit_def digit_val_def digit_char_def)

lemma digit_char_eval [simp]:
  "digit_char 0 = CHR ''0''" "digit_char 1 = CHR ''1''" "digit_char (Suc 0) = CHR ''1''"
  "digit_char 2 = CHR ''2''" "digit_char 3 = CHR ''3''" "digit_char 4 = CHR ''4''"
  "digit_char 5 = CHR ''5''" "digit_char 6 = CHR ''6''" "digit_char 7 = CHR ''7''"
  "digit_char 8 = CHR ''8''" "digit_char 9 = CHR ''9''"
  by code_simp+

lemma dec_digits_small [dec_simps]: "n < 10 \<Longrightarrow> dec_digits n = [digit_char n]"
  by (simp add: dec_digits.simps)

lemma dec_digits_step [dec_simps]:
  "\<not> n < 10 \<Longrightarrow> dec_digits n = dec_digits (n div 10) @ [digit_char (n mod 10)]"
  by (subst dec_digits.simps) simp

lemma dec_digits_not_Nil [simp]: "dec_digits n \<noteq> []"
  by (subst dec_digits.simps) simp

lemma dec_digits_all_digits [simp]: "list_all is_digit (dec_digits n)"
  by (induction n rule: dec_digits.induct) (subst dec_digits.simps, simp)

lemma dec_val_snoc: "dec_val (s @ [c]) = 10 * dec_val s + digit_val c"
  by (simp add: dec_val_def)

lemma dec_val_dec_digits [simp]: "dec_val (dec_digits n) = n"
proof (induction n rule: dec_digits.induct)
  case (1 n)
  show ?case
  proof (cases "n < 10")
    case True
    then show ?thesis by (simp add: dec_digits_small dec_val_def)
  next
    case False
    then show ?thesis using 1 by (simp add: dec_digits_step dec_val_snoc)
  qed
qed

lemma dec_digits_inject [simp]: "dec_digits m = dec_digits n \<longleftrightarrow> m = n"
  by (metis dec_val_dec_digits)

lemma set_dec_digits: "c \<in> set (dec_digits n) \<Longrightarrow> is_digit c"
  using dec_digits_all_digits [of n] by (simp only: list_all_iff)

lemma length_dec_digits_le: "0 < k \<Longrightarrow> n < 10 ^ k \<Longrightarrow> length (dec_digits n) \<le> k"
proof (induction k arbitrary: n)
  case (Suc k)
  show ?case
  proof (cases "n < 10")
    case True
    then show ?thesis by (simp add: dec_digits_small)
  next
    case False
    with Suc.prems have "0 < k" by (cases k) auto
    moreover have "n div 10 < 10 ^ k" using Suc.prems by (simp add: less_mult_imp_div_less)
    ultimately have "length (dec_digits (n div 10)) \<le> k" by (rule Suc.IH)
    then show ?thesis using False by (simp add: dec_digits_step)
  qed
qed simp

lemma length_dec_digits_less: "1 < n \<Longrightarrow> length (dec_digits n) < n"
proof (induction n rule: dec_digits.induct)
  case (1 n)
  show ?case
  proof (cases "n < 10")
    case True
    then show ?thesis using 1 by (simp add: dec_digits_small)
  next
    case False
    then have "length (dec_digits (n div 10)) \<le> n div 10"
      using 1 by (cases "1 < n div 10") (auto simp: dec_digits_small dest: less_imp_le)
    then show ?thesis using False by (simp add: dec_digits_step)
  qed
qed

text \<open>The first digit of a positive number is not zero, so a count is never taken for a sign.\<close>

lemma dec_digits_hd: "0 < n \<Longrightarrow> hd (dec_digits n) \<noteq> CHR ''0''"
proof (induction n rule: dec_digits.induct)
  case (1 n)
  show ?case
  proof (cases "n < 10")
    case True
    have "(of_char (digit_char n) :: nat) \<noteq> of_char (CHR ''0'')"
      using True 1 by (simp add: digit_char_def)
    then show ?thesis using True by (auto simp: dec_digits_small)
  next
    case False
    then show ?thesis using 1 by (simp add: dec_digits_step)
  qed
qed

lemma is_digit_sign [simp]: "\<not> is_digit CHR ''-''" "\<not> is_digit CHR ''+''"
  by (simp_all add: is_digit_def)

lemma hd_dec_digits_digit: "is_digit (hd (dec_digits n))"
  using set_dec_digits [of "hd (dec_digits n)" n] by simp

lemma ParseInt_dec_digits:
  "ParseInt (dec_digits n) =
     (if n < 9223372036854775808 then (int n, None) else (max_int64, Some ErrRange))"
proof -
  obtain c cs where "dec_digits n = c # cs" by (cases "dec_digits n") simp_all
  moreover have "is_digit c" using hd_dec_digits_digit [of n] calculation by simp
  then have "c \<noteq> CHR ''-''" "c \<noteq> CHR ''+''" by auto
  ultimately show ?thesis
    using dec_digits_all_digits [of n] dec_val_dec_digits [of n]
    by (simp add: ParseInt_def Let_def max_int64_def)
qed

lemma ParseInt_minus_dec_digits:
  "ParseInt (CHR ''-'' # dec_digits n) =
     (if min_int64 \<le> - int n then (- int n, None) else (min_int64, Some ErrRange))"
  by (simp add: ParseInt_def Let_def)

lemma Atoi_FormatInt [dec_simps]: "is_int64 i \<Longrightarrow> ParseInt (FormatInt i) = (i, None)"
  by (auto simp: FormatInt_def ParseInt_dec_digits ParseInt_minus_dec_digits max_int64_def)

lemma FormatInt_inject [simp]: "FormatInt i = FormatInt j \<longleftrightarrow> i = j"
proof
  assume eq: "FormatInt i = FormatInt j"
  have hd: "hd (FormatInt k) = CHR ''-'' \<longleftrightarrow> k < 0" for k
    using hd_dec_digits_digit [of "nat k"] by (auto simp: FormatInt_def)
  then have "i < 0 \<longleftrightarrow> j < 0" using eq by metis
  with eq show "i = j" by (auto simp: FormatInt_def split: if_splits)
qed simp

lemma FormatInt_no_dot: "CHR ''.'' \<notin> set (FormatInt i)"
  by (auto simp: FormatInt_def is_digit_def dest!: set_dec_digits)

lemma FormatInt_not_Nil [simp]: "FormatInt i \<noteq> []"
  by (simp add: FormatInt_def)

section \<open>Arrays of counters\<close>

text \<open>
  \<^verbatim>\<open>if s >= 0 && s < len(a) { a[s]++ }\<close>, and the decrement that is guarded against underflow, as the
  counters of the job manager and of the queues do it.
\<close>

definition incr_at :: "int \<Rightarrow> int list \<Rightarrow> int list" where
  "incr_at s a = (if 0 \<le> s \<and> s < int (length a) then a[nat s := a ! nat s + 1] else a)"

definition decr_at :: "int \<Rightarrow> int list \<Rightarrow> int list" where
  "decr_at s a =
     (if 0 \<le> s \<and> s < int (length a) \<and> a ! nat s > 0 then a[nat s := a ! nat s - 1] else a)"

lemma length_counters [simp]:
  "length (incr_at s a) = length a" "length (decr_at s a) = length a"
  by (simp_all add: incr_at_def decr_at_def)

lemma incr_at_nth:
  "i < length a \<Longrightarrow> incr_at s a ! i = a ! i + (if s = int i then 1 else 0)"
  by (auto simp: incr_at_def nth_list_update)

lemma decr_at_nth:
  "i < length a \<Longrightarrow> decr_at s a ! i = a ! i - (if s = int i \<and> a ! i > 0 then 1 else 0)"
  by (auto simp: decr_at_def nth_list_update)

lemma counters_nonneg:
  "\<forall>x \<in> set a. 0 \<le> x \<Longrightarrow> \<forall>x \<in> set (incr_at s a). 0 \<le> x"
  "\<forall>x \<in> set a. 0 \<le> x \<Longrightarrow> \<forall>x \<in> set (decr_at s a). 0 \<le> x"
  by (auto simp: incr_at_def decr_at_def dest!: set_update_subset_insert [THEN subsetD])

lemmas counter_nth = incr_at_nth decr_at_nth

end
