(* ===== verification/Dis_Codec.thy ===== *)
theory Dis_Codec
  imports Prelude
begin

text \<open>
  The DIS (``data is strings'') number and string codec of \<^verbatim>\<open>src/internal/dis/codec.go\<close>.

  A reader is a function from the bytes that are left on the stream to a result and the bytes left
  after it, so that a caller that drops an error still sees what the failed read consumed. A writer
  is the string of bytes it appends; the errors of the underlying connection are not modelled.
  The interface the message layer relies on is the locale \<open>dis_codec\<close>: it is interpreted here on
  \<open>WriteUint\<close>/\<open>ReadUint\<close>, \<open>WriteInt\<close>/\<open>ReadInt\<close> and \<open>WriteString\<close>/\<open>ReadString\<close>.
\<close>

section \<open>Readers\<close>

text \<open>
  The errors a read can return. \<open>EOF\<close> and \<open>UnexpectedEOF\<close> are those of package \<^verbatim>\<open>io\<close>;
  \<open>Wrapped\<close> is \<^verbatim>\<open>fmt.Errorf\<close> with \<^verbatim>\<open>%w\<close>, a new error value that differs from the one it wraps;
  \<open>Panic\<close> is the run-time panic of \<^verbatim>\<open>make\<close> for a length that is out of range.
\<close>

datatype dis_error =
    EOF
  | UnexpectedEOF
  | ParseDigits num_error
  | NonDigit char
  | LeadingZero
  | UnexpectedByte char
  | UnexpectedNegative
  | Wrapped string dis_error
  | Panic

type_synonym 'a reader = "string \<Rightarrow> (dis_error + 'a) \<times> string"

definition returnR :: "'a \<Rightarrow> 'a reader" where
  "returnR x s = (Inr x, s)"

definition failR :: "dis_error \<Rightarrow> 'a reader" where
  "failR e s = (Inl e, s)"

definition bindR :: "'a reader \<Rightarrow> ('a \<Rightarrow> 'b reader) \<Rightarrow> 'b reader" where
  "bindR m f s = (case m s of (Inl e, r) \<Rightarrow> (Inl e, r) | (Inr x, r) \<Rightarrow> f x r)"

text \<open>\<^verbatim>\<open>if err != nil { return ..., fmt.Errorf("label: %w", err) }\<close>; a panic is not an error value.\<close>

definition wrapErr :: "string \<Rightarrow> dis_error \<Rightarrow> dis_error" where
  "wrapErr lbl e = (if e = Panic then Panic else Wrapped lbl e)"

definition wrapR :: "string \<Rightarrow> 'a reader \<Rightarrow> 'a reader" where
  "wrapR lbl m s = (case m s of (Inl e, r) \<Rightarrow> (Inl (wrapErr lbl e), r) | (Inr x, r) \<Rightarrow> (Inr x, r))"

text \<open>A call whose result and error are both dropped.\<close>

definition ignoreR :: "'a reader \<Rightarrow> 'b reader \<Rightarrow> 'b reader" where
  "ignoreR m k s = (case m s of (Inl Panic, r) \<Rightarrow> (Inl Panic, r) | (_, r) \<Rightarrow> k r)"

text \<open>The loop that reads \<open>n\<close> items, stopping at the first error.\<close>

primrec repeatR :: "nat \<Rightarrow> 'a reader \<Rightarrow> 'a list reader" where
  "repeatR 0 m = returnR []"
| "repeatR (Suc n) m = bindR m (\<lambda>x. bindR (repeatR n m) (\<lambda>xs. returnR (x # xs)))"

text \<open>
  \<^verbatim>\<open>make([]byte, n)\<close>: the length, unless it is negative or beyond the largest allocation of a
  64-bit platform, where \<^verbatim>\<open>make\<close> panics.
\<close>

definition max_alloc :: int where "max_alloc = 281474976710656"

definition make_bytes :: "int \<Rightarrow> nat option" where
  "make_bytes n = (if 0 \<le> n \<and> n \<le> max_alloc then Some (nat n) else None)"

text \<open>\<^verbatim>\<open>io.ReadFull\<close> into a buffer of \<open>n\<close> bytes.\<close>

definition ReadFull :: "nat \<Rightarrow> string reader" where
  "ReadFull n s =
     (if n \<le> length s then (Inr (take n s), drop n s)
      else if s = [] then (Inl EOF, [])
      else (Inl UnexpectedEOF, []))"

definition readBuf :: "int \<Rightarrow> string reader" where
  "readBuf n s = (case make_bytes n of None \<Rightarrow> (Inl Panic, s) | Some k \<Rightarrow> ReadFull k s)"

text \<open>The loop over the remaining digits of a count, in 64-bit arithmetic.\<close>

fun countDigits :: "int \<Rightarrow> string \<Rightarrow> dis_error + int" where
  "countDigits ndigs [] = Inr ndigs"
| "countDigits ndigs (b # bs) =
     (if \<not> is_digit b then Inl (NonDigit b)
      else countDigits (wrap64 (10 * ndigs + int (digit_val b))) bs)"

lemma readBuf_length: "readBuf n s = (x, r) \<Longrightarrow> length r \<le> length s"
  by (auto simp: readBuf_def ReadFull_def split: option.splits if_splits)

function disrsi :: "int \<Rightarrow> (int \<times> bool) reader" where
  "disrsi cnt s = (case s of
      [] \<Rightarrow> (Inl EOF, [])
    | c # rest \<Rightarrow>
        if c = CHR ''+'' \<or> c = CHR ''-'' then
          (case readBuf cnt rest of
             (Inl e, r) \<Rightarrow> (Inl e, r)
           | (Inr buf, r) \<Rightarrow>
               (case ParseInt buf of
                  (val, None) \<Rightarrow> (Inr (val, c = CHR ''-''), r)
                | (_, Some e) \<Rightarrow> (Inl (ParseDigits e), r)))
        else if is_digit c \<and> c \<noteq> CHR ''0'' then
          (if cnt > 1 then
             (case readBuf (cnt - 1) rest of
                (Inl e, r) \<Rightarrow> (Inl e, r)
              | (Inr buf, r) \<Rightarrow>
                  (case countDigits (int (digit_val c)) buf of
                     Inl e \<Rightarrow> (Inl e, r)
                   | Inr ndigs \<Rightarrow> disrsi ndigs r))
           else disrsi (int (digit_val c)) rest)
        else if c = CHR ''0'' then (Inl LeadingZero, rest)
        else (Inl (UnexpectedByte c), rest))"
  by pat_completeness auto
termination
  by (relation "measure (\<lambda>(_, s). length s)") (auto dest: readBuf_length [OF sym])

declare disrsi.simps [simp del]

definition ReadUint :: "64 word reader" where
  "ReadUint =
     bindR (wrapR ''dis: ReadUint'' (disrsi 1))
       (\<lambda>(val, negate). if negate then failR UnexpectedNegative else returnR (word_of_int val))"

definition ReadInt :: "int reader" where
  "ReadInt =
     bindR (wrapR ''dis: ReadInt'' (disrsi 1))
       (\<lambda>(val, negate). returnR (if negate then wrap64 (- val) else val))"

definition ReadString :: "string reader" where
  "ReadString =
     bindR (wrapR ''dis: ReadString length'' ReadUint)
       (\<lambda>len. if len = 0 then returnR []
              else wrapR ''dis: ReadString data'' (readBuf (uint len)))"

section \<open>Writers\<close>

text \<open>The loop that puts the chain of digit counts in front of the sign.\<close>

function countChain :: "nat \<Rightarrow> string \<Rightarrow> string" where
  "countChain ndigs prefix =
     (if ndigs > 1
      then countChain (length (dec_digits ndigs)) (dec_digits ndigs @ prefix)
      else prefix)"
  by pat_completeness auto
termination
  by (relation "measure fst") (auto simp: length_dec_digits_less)

declare countChain.simps [simp del]

definition WriteUint :: "64 word \<Rightarrow> string" where
  "WriteUint val =
     (let digits = dec_digits (unat val)
      in countChain (length digits) ''+'' @ digits)"

definition WriteInt :: "int \<Rightarrow> string" where
  "WriteInt val =
     (let sign = (if val < 0 then ''-'' else ''+'');
          val' = (if val < 0 then wrap64 (- val) else val);
          digits = FormatInt val'
      in countChain (length digits) sign @ digits)"

definition WriteString :: "string \<Rightarrow> string" where
  "WriteString s = WriteUint (of_nat (length s)) @ s"

section \<open>Laws of the readers\<close>

lemma bindR_returnR [simp]: "bindR (returnR x) f = f x"
  by (simp add: bindR_def returnR_def fun_eq_iff)

lemma bindR_assoc [simp]: "bindR (bindR m f) g = bindR m (\<lambda>x. bindR (f x) g)"
  by (simp add: bindR_def fun_eq_iff split: prod.splits sum.splits)

lemma bindR_ignoreR [simp]: "bindR (ignoreR m k) g = ignoreR m (bindR k g)"
  by (simp add: bindR_def ignoreR_def fun_eq_iff split: prod.splits sum.splits dis_error.splits)

lemma bindR_if [simp]: "bindR (if b then m else n) f = (if b then bindR m f else bindR n f)"
  by simp

section \<open>The interface of a wire format\<close>

text \<open>
  What the message layer relies on: a reader applied to what the writer produced, followed by
  anything, returns the value and leaves exactly what followed. The values for which that is
  promised are those with \<open>valid\<close>.
\<close>

locale dis_codec =
  fixes wr :: "'a \<Rightarrow> string"
    and rd :: "'a reader"
    and valid :: "'a \<Rightarrow> bool"
  assumes round_trip: "valid x \<Longrightarrow> rd (wr x @ rest) = (Inr x, rest)"
begin

lemma round_trip_bind: "valid x \<Longrightarrow> bindR rd f (wr x @ rest) = f x rest"
  by (simp add: bindR_def round_trip)

lemma round_trip_wrap: "valid x \<Longrightarrow> wrapR l rd (wr x @ rest) = (Inr x, rest)"
  by (simp add: wrapR_def round_trip)

lemma round_trip_wrap_bind: "valid x \<Longrightarrow> bindR (wrapR l rd) f (wr x @ rest) = f x rest"
  by (simp add: bindR_def round_trip_wrap)

lemma round_trip_ignore: "valid x \<Longrightarrow> ignoreR rd k (wr x @ rest) = k rest"
  by (simp add: ignoreR_def round_trip)

lemma round_trip_list:
  "list_all valid xs \<Longrightarrow> repeatR (length xs) rd (concat (map wr xs) @ rest) = (Inr xs, rest)"
  by (induction xs) (simp_all add: returnR_def bindR_def round_trip)

text \<open>No encoding is a proper prefix of another one, so a stream of items has one reading.\<close>

lemma prefix_free:
  assumes "valid x" "valid y" "wr x @ r = wr y @ r'"
  shows "x = y \<and> r = r'"
proof -
  have "(Inr x, r) = (Inr y :: dis_error + 'a, r')"
    using round_trip [OF assms(1)] round_trip [OF assms(2)] assms(3) by metis
  then show ?thesis by simp
qed

end

section \<open>Reading back what was written\<close>

lemma countDigits_dec:
  assumes "list_all is_digit ds" "int (foldl (\<lambda>a c. 10 * a + digit_val c) a ds) \<le> max_int64"
  shows "countDigits (int a) ds = Inr (int (foldl (\<lambda>a c. 10 * a + digit_val c) a ds))"
  using assms
proof (induction ds arbitrary: a)
  case (Cons d ds)
  let ?f = "\<lambda>a c. 10 * a + digit_val c"
  have mono: "b \<le> foldl ?f b ds" for b
  proof (induction ds arbitrary: b)
    case (Cons c cs)
    have "b \<le> ?f b c" by simp
    also have "\<dots> \<le> foldl ?f (?f b c) cs" by (rule Cons.IH)
    finally show ?case by simp
  qed simp
  have "int (?f a d) \<le> max_int64"
    using Cons.prems(2) mono [of "?f a d"] by simp
  then have "wrap64 (int (?f a d)) = int (?f a d)"
    by (intro wrap64_id) (auto simp: min_int64_def)
  then show ?case using Cons.prems Cons.IH [of "?f a d"] by simp
qed simp

lemma readBuf_append:
  assumes "int (length xs) \<le> max_alloc"
  shows "readBuf (int (length xs)) (xs @ rest) = (Inr xs, rest)"
  using assms by (simp add: readBuf_def make_bytes_def ReadFull_def)

text \<open>The reader, asked for a count of the right number of digits, moves on to that count.\<close>

lemma disrsi_count:
  assumes "1 < n" "n < 10 ^ 18"
  shows "disrsi (int (length (dec_digits n))) (dec_digits n @ rest) = disrsi (int n) rest"
proof -
  obtain c cs where ds: "dec_digits n = c # cs" by (cases "dec_digits n") simp_all
  have c: "is_digit c" "c \<noteq> CHR ''0''"
    using hd_dec_digits_digit [of n] dec_digits_hd [of n] assms ds by simp_all
  then have sign: "c \<noteq> CHR ''+''" "c \<noteq> CHR ''-''" by auto
  have cs: "list_all is_digit cs" using dec_digits_all_digits [of n] ds by simp
  have "length (dec_digits n) \<le> 18" using assms by (intro length_dec_digits_le) simp_all
  then have alloc: "int (length cs) \<le> max_alloc" using ds by (simp add: max_alloc_def)
  have val: "foldl (\<lambda>a c. 10 * a + digit_val c) (digit_val c) cs = n"
    using dec_val_dec_digits [of n] ds by (simp add: dec_val_def)
  then have "countDigits (int (digit_val c)) cs = Inr (int n)"
    using countDigits_dec [OF cs, of "digit_val c"] assms by (simp add: max_int64_def)
  then have step: "disrsi (int (Suc (length cs))) (c # cs @ rest) = disrsi (int n) rest"
    if "cs \<noteq> []"
    using that c sign by (subst disrsi.simps) (simp add: readBuf_append [OF alloc])
  show ?thesis
  proof (cases "cs = []")
    case True
    then have "digit_val c = n" using val by simp
    then show ?thesis using ds c sign True by (simp add: disrsi.simps [of 1])
  next
    case False
    then show ?thesis using step ds by simp
  qed
qed

lemma disrsi_countChain:
  assumes "0 < n" "n < 10 ^ 18"
  shows "disrsi 1 (countChain n p @ rest) = disrsi (int n) (p @ rest)"
  using assms
proof (induction n p rule: countChain.induct)
  case (1 n p)
  show ?case
  proof (cases "1 < n")
    case True
    have "length (dec_digits n) < n" using True by (rule length_dec_digits_less)
    moreover have "0 < length (dec_digits n)" by simp
    ultimately show ?thesis
      using 1 True disrsi_count [OF True] by (subst countChain.simps) simp
  next
    case False
    then have "n = 1" using 1 by simp
    then show ?thesis by (simp add: countChain.simps)
  qed
qed

lemma disrsi_signed_digits:
  assumes "ds \<noteq> []" "length ds < 100" "c = CHR ''+'' \<or> c = CHR ''-''"
  shows "disrsi 1 (countChain (length ds) [c] @ ds @ rest) =
     (case ParseInt ds of (v, None) \<Rightarrow> (Inr (v, c = CHR ''-''), rest)
                        | (_, Some e) \<Rightarrow> (Inl (ParseDigits e), rest))"
proof -
  have "disrsi 1 (countChain (length ds) [c] @ ds @ rest) = disrsi (int (length ds)) (c # ds @ rest)"
    using assms by (subst disrsi_countChain) simp_all
  moreover have "readBuf (int (length ds)) (ds @ rest) = (Inr ds, rest)"
    using assms by (intro readBuf_append) (simp add: max_alloc_def)
  ultimately show ?thesis using assms(3)
    by (simp add: disrsi.simps split: prod.splits option.splits)
qed

lemma length_dec_digits_20: "n < 2 ^ 64 \<Longrightarrow> length (dec_digits n) \<le> 20"
  by (rule length_dec_digits_le) simp_all

lemma ReadUint_WriteUint:
  "ReadUint (WriteUint v @ rest) =
     (if unat v < 2 ^ 63 then (Inr v, rest)
      else (Inl (Wrapped ''dis: ReadUint'' (ParseDigits ErrRange)), rest))"
proof -
  have "unat v < 2 ^ 64" using unsigned_less [of v] by simp
  then have "length (dec_digits (unat v)) < 100" using length_dec_digits_20 by fastforce
  from disrsi_signed_digits [OF _ this, of "CHR ''+''" rest] show ?thesis
    by (simp add: ReadUint_def WriteUint_def Let_def bindR_def wrapR_def wrapErr_def returnR_def
        ParseInt_dec_digits max_int64_def)
qed

text \<open>
  The signed writer negates in 64-bit arithmetic, which leaves the least integer negative: its
  digits then carry a second sign, which the reader's \<^verbatim>\<open>ParseInt\<close> accepts and negates back.
\<close>

lemma length_FormatInt:
  assumes "is_int64 w"
  shows "length (FormatInt w) \<le> 21"
proof -
  have "\<bar>w\<bar> < 18446744073709551616" using assms unfolding min_int64_def max_int64_def by linarith
  then have "nat \<bar>w\<bar> < 2 ^ 64" by (simp add: nat_less_iff)
  then have "length (dec_digits (nat \<bar>w\<bar>)) \<le> 20" by (rule length_dec_digits_20)
  then show ?thesis by (cases "w < 0") (simp_all add: FormatInt_def)
qed

lemma wrap64_neg_neg: "is_int64 v \<Longrightarrow> wrap64 (- wrap64 (- v)) = v"
  by (cases "v = min_int64") (simp_all add: wrap64_def min_int64_def max_int64_def)

lemma ReadInt_WriteInt:
  assumes "is_int64 v"
  shows "ReadInt (WriteInt v @ rest) = (Inr v, rest)"
proof -
  define c where "c = (if v < 0 then CHR ''-'' else CHR ''+'')"
  define w where "w = (if v < 0 then wrap64 (- v) else v)"
  have r: "is_int64 w" using assms wrap64_range [of "- v"] by (simp add: w_def)
  have "FormatInt w \<noteq> []" "length (FormatInt w) < 100"
    using length_FormatInt [OF r] by (simp_all add: FormatInt_def)
  then have "disrsi 1 (countChain (length (FormatInt w)) [c] @ FormatInt w @ rest) =
      (Inr (w, v < 0), rest)"
    using disrsi_signed_digits [of "FormatInt w" c rest] Atoi_FormatInt [OF r] by (simp add: c_def)
  moreover have "WriteInt v = countChain (length (FormatInt w)) [c] @ FormatInt w"
    by (simp add: WriteInt_def Let_def w_def c_def)
  ultimately show ?thesis
    using wrap64_neg_neg [OF assms]
    by (simp add: ReadInt_def bindR_def wrapR_def returnR_def w_def)
qed

lemma ReadString_WriteString:
  assumes "int (length s) \<le> max_alloc"
  shows "ReadString (WriteString s @ rest) = (Inr s, rest)"
proof -
  let ?n = "of_nat (length s) :: 64 word"
  have n: "unat ?n = length s"
    using assms by (simp add: unat_of_nat max_alloc_def)
  have "ReadUint (WriteUint ?n @ s @ rest) = (Inr ?n, s @ rest)"
    using assms n by (simp add: ReadUint_WriteUint max_alloc_def)
  moreover have "uint ?n = int (length s)" using n by (metis uint_nat)
  moreover have "?n = 0 \<longleftrightarrow> s = []" using n by (metis length_0_conv unat_eq_zero)
  ultimately show ?thesis
    using readBuf_append [OF assms, of rest]
    by (auto simp: ReadString_def WriteString_def bindR_def wrapR_def returnR_def)
qed

section \<open>A read that succeeds consumes input\<close>

lemma disrsi_consumes: "disrsi n s = (Inr x, r) \<Longrightarrow> length r < length s"
proof (induction s arbitrary: n rule: length_induct)
  case (1 s)
  show ?case
  proof (cases s)
    case Nil
    then show ?thesis using 1 by (simp add: disrsi.simps)
  next
    case (Cons c rest)
    have IH: "length r < Suc (length rest)"
      if "disrsi m y = (Inr x, r)" "length y \<le> length rest" for m y
    proof -
      have "length y < length s" using that(2) Cons by simp
      with 1(1) that(1) have "length r < length y" by blast
      then show ?thesis using that(2) by simp
    qed
    from 1(2) Cons show ?thesis
      by (subst (asm) disrsi.simps)
        (auto split: if_splits prod.splits sum.splits option.splits dest: IH dest!: readBuf_length)
  qed
qed

lemma bindR_InrD:
  "bindR m f s = (Inr y, r) \<Longrightarrow> \<exists>x t. m s = (Inr x, t) \<and> f x t = (Inr y, r)"
  by (auto simp: bindR_def split: prod.splits sum.splits)

lemma wrapR_Inr [simp]: "wrapR l m s = (Inr x, r) \<longleftrightarrow> m s = (Inr x, r)"
  by (auto simp: wrapR_def split: prod.splits sum.splits)

lemma ReadUint_consumes: "ReadUint s = (Inr x, r) \<Longrightarrow> length r < length s"
  by (auto simp: ReadUint_def failR_def returnR_def dest!: bindR_InrD disrsi_consumes split: if_splits)

lemma ReadString_consumes: "ReadString s = (Inr x, r) \<Longrightarrow> length r < length s"
  by (auto simp: ReadString_def returnR_def dest!: bindR_InrD ReadUint_consumes readBuf_length
      split: if_splits)

section \<open>The codec implements the interface\<close>

definition small_uint :: "64 word \<Rightarrow> bool" where
  "small_uint v \<longleftrightarrow> unat v < 2 ^ 63"

definition small_string :: "string \<Rightarrow> bool" where
  "small_string s \<longleftrightarrow> int (length s) \<le> max_alloc"

lemma small_uint_lit [simp]:
  "small_uint 0" "small_uint 1"
  "small_uint (numeral k) \<longleftrightarrow> unat (numeral k :: 64 word) < 2 ^ 63"
  by (simp_all add: small_uint_def)

lemma small_string_short [simp]: "length s \<le> 1000 \<Longrightarrow> small_string s"
  by (simp add: small_string_def max_alloc_def)

lemma small_uint_of_int [simp]: "0 \<le> i \<Longrightarrow> i \<le> max_int64 \<Longrightarrow> small_uint (word_of_int i)"
  by (simp add: small_uint_def max_int64_def unat_eq_nat_uint uint_word_of_int nat_less_iff)

lemma small_uint_of_nat [simp]: "int n \<le> max_int64 \<Longrightarrow> small_uint (of_nat n)"
  by (simp add: small_uint_def unat_of_nat max_int64_def)

lemma unat_of_nat_small: "int n \<le> max_int64 \<Longrightarrow> unat (of_nat n :: 64 word) = n"
  by (simp add: unat_of_nat max_int64_def)

lemma uint_of_nat_small: "int n \<le> max_int64 \<Longrightarrow> uint (of_nat n :: 64 word) = int n"
  using unat_of_nat_small by (metis uint_nat)

interpretation uint_codec: dis_codec WriteUint ReadUint small_uint
  by unfold_locales (simp add: ReadUint_WriteUint small_uint_def)

interpretation int_codec: dis_codec WriteInt ReadInt "\<lambda>v. is_int64 v"
  by unfold_locales (simp add: ReadInt_WriteInt)

interpretation str_codec: dis_codec WriteString ReadString small_string
  by unfold_locales (simp add: ReadString_WriteString small_string_def)

lemmas dis_field_rt =
  uint_codec.round_trip uint_codec.round_trip_bind uint_codec.round_trip_wrap uint_codec.round_trip_wrap_bind uint_codec.round_trip_ignore
  int_codec.round_trip int_codec.round_trip_bind int_codec.round_trip_wrap int_codec.round_trip_wrap_bind int_codec.round_trip_ignore
  str_codec.round_trip str_codec.round_trip_bind str_codec.round_trip_wrap str_codec.round_trip_wrap_bind str_codec.round_trip_ignore

declare dis_field_rt [dis_rt]

end
