(* ===== verification/Dis_Message.thy ===== *)
theory Dis_Message
  imports Dis_Codec
begin

text \<open>
  The batch messages of \<^verbatim>\<open>src/internal/dis/message.go\<close> and \<^verbatim>\<open>src/internal/dis/protocol.go\<close>: request
  headers, replies, attribute lists, request bodies and the messages of the MOMs. The attribute
  list and the status object are interpretations of \<open>dis_codec\<close>, so that the lists of them inherit
  the round trip. The text of an error label leaves out the index of the attribute it names.
\<close>

section \<open>Constants of the protocol\<close>

abbreviation (input) PbsBatchProtType :: int where "PbsBatchProtType \<equiv> 2"
abbreviation (input) PbsBatchProtVer :: int where "PbsBatchProtVer \<equiv> 2"
abbreviation (input) ISProtocolType :: int where "ISProtocolType \<equiv> 4"

abbreviation (input) BatchReqConnect :: int where "BatchReqConnect \<equiv> 0"
abbreviation (input) BatchReqQueueJob :: int where "BatchReqQueueJob \<equiv> 1"
abbreviation (input) BatchReqJobCred :: int where "BatchReqJobCred \<equiv> 2"
abbreviation (input) BatchReqJobScript :: int where "BatchReqJobScript \<equiv> 3"
abbreviation (input) BatchReqRdytoCommit :: int where "BatchReqRdytoCommit \<equiv> 4"
abbreviation (input) BatchReqCommit :: int where "BatchReqCommit \<equiv> 5"
abbreviation (input) BatchReqDeleteJob :: int where "BatchReqDeleteJob \<equiv> 6"
abbreviation (input) BatchReqHoldJob :: int where "BatchReqHoldJob \<equiv> 7"
abbreviation (input) BatchReqLocateJob :: int where "BatchReqLocateJob \<equiv> 8"
abbreviation (input) BatchReqManager :: int where "BatchReqManager \<equiv> 9"
abbreviation (input) BatchReqMessJob :: int where "BatchReqMessJob \<equiv> 10"
abbreviation (input) BatchReqModifyJob :: int where "BatchReqModifyJob \<equiv> 11"
abbreviation (input) BatchReqMoveJob :: int where "BatchReqMoveJob \<equiv> 12"
abbreviation (input) BatchReqReleaseJob :: int where "BatchReqReleaseJob \<equiv> 13"
abbreviation (input) BatchReqRerun :: int where "BatchReqRerun \<equiv> 14"
abbreviation (input) BatchReqRunJob :: int where "BatchReqRunJob \<equiv> 15"
abbreviation (input) BatchReqSelectJobs :: int where "BatchReqSelectJobs \<equiv> 16"
abbreviation (input) BatchReqShutdown :: int where "BatchReqShutdown \<equiv> 17"
abbreviation (input) BatchReqSignalJob :: int where "BatchReqSignalJob \<equiv> 18"
abbreviation (input) BatchReqStatusJob :: int where "BatchReqStatusJob \<equiv> 19"
abbreviation (input) BatchReqStatusQueue :: int where "BatchReqStatusQueue \<equiv> 20"
abbreviation (input) BatchReqStatusServer :: int where "BatchReqStatusServer \<equiv> 21"
abbreviation (input) BatchReqCheckpointJob :: int where "BatchReqCheckpointJob \<equiv> 27"
abbreviation (input) BatchReqQueueJob2 :: int where "BatchReqQueueJob2 \<equiv> 29"
abbreviation (input) BatchReqCommit2 :: int where "BatchReqCommit2 \<equiv> 30"
abbreviation (input) BatchReqJobScript2 :: int where "BatchReqJobScript2 \<equiv> 31"
abbreviation (input) BatchReqAuthenUser :: int where "BatchReqAuthenUser \<equiv> 49"
abbreviation (input) BatchReqOrderJob :: int where "BatchReqOrderJob \<equiv> 50"
abbreviation (input) BatchReqJobObit :: int where "BatchReqJobObit \<equiv> 56"
abbreviation (input) BatchReqStatusNode :: int where "BatchReqStatusNode \<equiv> 58"
abbreviation (input) BatchReqDisconnect :: int where "BatchReqDisconnect \<equiv> 59"
abbreviation (input) BatchReqAltAuthenUser :: int where "BatchReqAltAuthenUser \<equiv> 61"
abbreviation (input) BatchReqAuthToken :: int where "BatchReqAuthToken \<equiv> 63"

abbreviation (input) ReplyChoiceNull :: int where "ReplyChoiceNull \<equiv> 1"
abbreviation (input) ReplyChoiceQueue :: int where "ReplyChoiceQueue \<equiv> 2"
abbreviation (input) ReplyChoiceRdytoCom :: int where "ReplyChoiceRdytoCom \<equiv> 3"
abbreviation (input) ReplyChoiceCommit :: int where "ReplyChoiceCommit \<equiv> 4"
abbreviation (input) ReplyChoiceStatus :: int where "ReplyChoiceStatus \<equiv> 6"
abbreviation (input) ReplyChoiceText :: int where "ReplyChoiceText \<equiv> 7"

abbreviation (input) PbsErrNone :: int where "PbsErrNone \<equiv> 0"
abbreviation (input) PbseUnkjobid :: int where "PbseUnkjobid \<equiv> 15001"
abbreviation (input) PbseBadReq :: int where "PbseBadReq \<equiv> 15004"
abbreviation (input) PbseUnkQue :: int where "PbseUnkQue \<equiv> 15006"
abbreviation (input) PbsePerm :: int where "PbsePerm \<equiv> 15007"
abbreviation (input) PbseUnkNode :: int where "PbseUnkNode \<equiv> 15039"
abbreviation (input) PbseInternal :: int where "PbseInternal \<equiv> 15044"
abbreviation (input) PbseSystem :: int where "PbseSystem \<equiv> 15045"
abbreviation (input) PbseUnkReq :: int where "PbseUnkReq \<equiv> 15048"

abbreviation (input) MgrObjServer :: int where "MgrObjServer \<equiv> 1"
abbreviation (input) MgrObjQueue :: int where "MgrObjQueue \<equiv> 2"
abbreviation (input) MgrObjJob :: int where "MgrObjJob \<equiv> 3"
abbreviation (input) MgrObjNode :: int where "MgrObjNode \<equiv> 4"

text \<open>The Go conversions \<^verbatim>\<open>uint64(i)\<close> and \<^verbatim>\<open>int(u)\<close>.\<close>

abbreviation uint64 :: "int \<Rightarrow> 64 word" where "uint64 \<equiv> word_of_int"
abbreviation goint :: "64 word \<Rightarrow> int" where "goint \<equiv> sint"

section \<open>Headers and replies\<close>

record RequestHeader =
  rh_Protocol :: int
  rh_Version :: int
  rh_ReqType :: int
  rh_User :: string

definition ReadRequestHeader :: "RequestHeader reader" where
  "ReadRequestHeader =
     bindR (wrapR ''read proto'' ReadUint) (\<lambda>proto.
     bindR (wrapR ''read version'' ReadUint) (\<lambda>ver.
     bindR (wrapR ''read reqtype'' ReadUint) (\<lambda>reqType.
     bindR (wrapR ''read user'' ReadString) (\<lambda>user.
     returnR \<lparr>rh_Protocol = goint proto, rh_Version = goint ver,
              rh_ReqType = goint reqType, rh_User = user\<rparr>))))"

definition WriteRequestHeader :: "int \<Rightarrow> string \<Rightarrow> string" where
  "WriteRequestHeader reqType user =
     WriteUint (uint64 PbsBatchProtType) @ WriteUint (uint64 PbsBatchProtVer) @
     WriteUint (uint64 reqType) @ WriteString user"

definition reply_has_data :: "int \<Rightarrow> bool" where
  "reply_has_data choice \<longleftrightarrow>
     choice = ReplyChoiceQueue \<or> choice = ReplyChoiceRdytoCom \<or> choice = ReplyChoiceCommit \<or>
     choice = ReplyChoiceText"

definition WriteReply :: "int \<Rightarrow> int \<Rightarrow> int \<Rightarrow> string \<Rightarrow> string" where
  "WriteReply code auxCode choice dat =
     WriteUint (uint64 PbsBatchProtType) @ WriteUint (uint64 PbsBatchProtVer) @
     WriteInt code @ WriteInt auxCode @ WriteUint (uint64 choice) @
     (if reply_has_data choice then WriteString dat else [])"

definition SendOkReply :: string where
  "SendOkReply = WriteReply PbsErrNone 0 ReplyChoiceNull []"

definition SendErrorReply :: "int \<Rightarrow> int \<Rightarrow> string" where
  "SendErrorReply errCode auxCode = WriteReply errCode auxCode ReplyChoiceNull []"

definition SendJobIDReply :: "int \<Rightarrow> string \<Rightarrow> string" where
  "SendJobIDReply choice jobID = WriteReply PbsErrNone 0 choice jobID"

definition SendTextReply :: "string \<Rightarrow> string" where
  "SendTextReply txt = WriteReply PbsErrNone 0 ReplyChoiceText txt"

definition ReadReply :: "(int \<times> int \<times> int \<times> string) reader" where
  "ReadReply =
     bindR (wrapR ''read reply proto'' ReadUint) (\<lambda>_.
     bindR (wrapR ''read reply ver'' ReadUint) (\<lambda>_.
     bindR (wrapR ''read reply code'' ReadInt) (\<lambda>code.
     bindR (wrapR ''read reply auxcode'' ReadInt) (\<lambda>auxCode.
     bindR (wrapR ''read reply choice'' ReadUint) (\<lambda>choiceU.
     let choice = goint choiceU in
     bindR (if reply_has_data choice then ReadString else returnR []) (\<lambda>dat.
     returnR (code, auxCode, choice, dat)))))))"

definition WriteReqExtend :: "string \<Rightarrow> string" where
  "WriteReqExtend ext = (if ext = [] then WriteUint 0 else WriteUint 1 @ WriteString ext)"

definition ReadReqExtend :: "string reader" where
  "ReadReqExtend = bindR ReadUint (\<lambda>hasExt. if hasExt = 0 then returnR [] else ReadString)"

section \<open>Attribute lists\<close>

record SvrAttrl =
  sa_Name :: string
  sa_HasResc :: bool
  sa_Resc :: string
  sa_Value :: string
  sa_Op :: int

text \<open>One turn of the loop of \<^verbatim>\<open>ReadSvrAttrl\<close>.\<close>

definition ReadAttr :: "SvrAttrl reader" where
  "ReadAttr =
     bindR (wrapR ''read attr size'' ReadUint) (\<lambda>_.
     bindR (wrapR ''read attr name'' ReadString) (\<lambda>name.
     bindR (wrapR ''read attr hasResc'' ReadUint) (\<lambda>hasResc.
     bindR (if hasResc \<noteq> 0 then wrapR ''read attr resc'' ReadString else returnR []) (\<lambda>resc.
     bindR (wrapR ''read attr value'' ReadString) (\<lambda>value.
     bindR (wrapR ''read attr op'' ReadUint) (\<lambda>op.
     returnR \<lparr>sa_Name = name, sa_HasResc = (hasResc \<noteq> 0), sa_Resc = resc,
              sa_Value = value, sa_Op = goint op\<rparr>))))))"

text \<open>
  \<^verbatim>\<open>make([]T, 0, n)\<close> for an element of \<open>sz\<close> bytes: it panics beyond the largest allocation.
\<close>

definition makeSlice :: "int \<Rightarrow> 64 word \<Rightarrow> unit reader" where
  "makeSlice sz n s = (if sz * uint n \<le> max_alloc then (Inr (), s) else (Inl Panic, s))"

definition ReadSvrAttrl :: "SvrAttrl list reader" where
  "ReadSvrAttrl =
     bindR (wrapR ''read attr count'' ReadUint) (\<lambda>cnt.
     bindR (makeSlice 64 cnt) (\<lambda>_.
     repeatR (unat cnt) ReadAttr))"

definition attrSize :: "SvrAttrl \<Rightarrow> int" where
  "attrSize a =
     int (length (sa_Name a)) + int (length (sa_Value a)) + 2 +
     (if sa_HasResc a then int (length (sa_Resc a)) + 1 else 0)"

definition WriteAttr :: "SvrAttrl \<Rightarrow> string" where
  "WriteAttr a =
     WriteUint (uint64 (attrSize a)) @ WriteString (sa_Name a) @
     (if sa_HasResc a then WriteUint 1 @ WriteString (sa_Resc a) else WriteUint 0) @
     WriteString (sa_Value a) @ WriteUint (uint64 (sa_Op a))"

definition WriteSvrAttrl :: "SvrAttrl list \<Rightarrow> string" where
  "WriteSvrAttrl attrs = WriteUint (of_nat (length attrs)) @ concat (map WriteAttr attrs)"

record StatusObject =
  so_Type :: int
  so_Name :: string
  so_Attrs :: "SvrAttrl list"

definition WriteStatusObject :: "StatusObject \<Rightarrow> string" where
  "WriteStatusObject obj =
     WriteUint (uint64 (so_Type obj)) @ WriteString (so_Name obj) @ WriteSvrAttrl (so_Attrs obj)"

definition WriteStatusReply :: "StatusObject list \<Rightarrow> string" where
  "WriteStatusReply objects =
     WriteUint (uint64 PbsBatchProtType) @ WriteUint (uint64 PbsBatchProtVer) @
     WriteInt PbsErrNone @ WriteInt 0 @ WriteUint (uint64 ReplyChoiceStatus) @
     WriteUint (of_nat (length objects)) @ concat (map WriteStatusObject objects)"

section \<open>Request bodies\<close>

definition ReadJobObit :: "(string \<times> int \<times> SvrAttrl list) reader" where
  "ReadJobObit =
     bindR (wrapR ''read obit jobid'' ReadString) (\<lambda>jobID.
     bindR (wrapR ''read obit exit status'' ReadInt) (\<lambda>exitStatus.
     bindR (wrapR ''read obit attrs'' ReadSvrAttrl) (\<lambda>attrs.
     returnR (jobID, exitStatus, attrs))))"

definition ReadQueueJobBody :: "(string \<times> string \<times> SvrAttrl list) reader" where
  "ReadQueueJobBody =
     bindR (wrapR ''read queuejob id'' ReadString) (\<lambda>jobID.
     bindR (wrapR ''read queuejob dest'' ReadString) (\<lambda>dest.
     bindR (wrapR ''read queuejob attrs'' ReadSvrAttrl) (\<lambda>attrs.
     returnR (jobID, dest, attrs))))"

definition ReadJobScriptBody :: "(string \<times> string) reader" where
  "ReadJobScriptBody =
     bindR ReadUint (\<lambda>_. bindR ReadUint (\<lambda>_. bindR ReadUint (\<lambda>_.
     bindR ReadString (\<lambda>jobID.
     bindR ReadString (\<lambda>scriptData.
     returnR (jobID, scriptData))))))"

definition ReadCommitBody :: "string reader" where
  "ReadCommitBody = ReadString"

definition ReadDeleteJobBody :: "string reader" where
  "ReadDeleteJobBody =
     ignoreR ReadUint (ignoreR ReadUint (bindR ReadString (\<lambda>jobID.
     ignoreR ReadSvrAttrl (returnR jobID))))"

definition ReadSignalJobBody :: "(string \<times> string) reader" where
  "ReadSignalJobBody =
     bindR ReadString (\<lambda>jobID. bindR ReadString (\<lambda>signal. returnR (jobID, signal)))"

definition ReadStatusBody :: "(string \<times> SvrAttrl list) reader" where
  "ReadStatusBody =
     bindR ReadString (\<lambda>ident. bindR ReadSvrAttrl (\<lambda>attrs. returnR (ident, attrs)))"

definition ReadManagerBody :: "(int \<times> int \<times> string \<times> SvrAttrl list) reader" where
  "ReadManagerBody =
     bindR ReadUint (\<lambda>command. bindR ReadUint (\<lambda>objType.
     bindR ReadString (\<lambda>objName. bindR ReadSvrAttrl (\<lambda>attrs.
     returnR (goint command, goint objType, objName, attrs)))))"

definition ReadHoldJobBody :: "(string \<times> SvrAttrl list) reader" where
  "ReadHoldJobBody =
     ignoreR ReadUint (ignoreR ReadUint (bindR ReadString (\<lambda>jobID.
     bindR ReadSvrAttrl (\<lambda>attrs. returnR (jobID, attrs)))))"

definition ReadModifyJobBody :: "(string \<times> SvrAttrl list) reader" where
  "ReadModifyJobBody =
     ignoreR ReadUint (ignoreR ReadUint (bindR ReadString (\<lambda>jobID.
     bindR ReadSvrAttrl (\<lambda>attrs. returnR (jobID, attrs)))))"

definition ReadRunJobBody :: "(string \<times> string) reader" where
  "ReadRunJobBody =
     bindR ReadString (\<lambda>jobID. bindR ReadString (\<lambda>dest. returnR (jobID, dest)))"

definition ReadMoveJobBody :: "(string \<times> string) reader" where
  "ReadMoveJobBody =
     bindR ReadString (\<lambda>jobID. bindR ReadString (\<lambda>dest. returnR (jobID, dest)))"

definition ReadLocateJobBody :: "string reader" where
  "ReadLocateJobBody = ReadString"

definition ReadJobCredBody :: "(int \<times> string) reader" where
  "ReadJobCredBody =
     bindR ReadUint (\<lambda>credType. bindR ReadString (\<lambda>credData. returnR (goint credType, credData)))"

section \<open>Status messages of the MOMs\<close>

record ISMessage =
  is_Version :: int
  is_Command :: int
  is_MomPort :: int
  is_RmPort :: int
  is_Items :: "string list"

text \<open>
  The loop of \<^verbatim>\<open>ReadISMessage\<close>. Its test \<^verbatim>\<open>err == io.EOF\<close> compares error values, so it only holds for
  the error \<open>EOF\<close> itself and not for an error that wraps it.
\<close>

function readISItems :: "string list reader" where
  "readISItems s = (case ReadString s of
      (Inl e, r) \<Rightarrow> if e = EOF then (Inr [], r) else (Inl (wrapErr ''read IS item'' e), r)
    | (Inr x, r) \<Rightarrow>
        if x = ''END_OF_LINE'' then (Inr [], r)
        else (case readISItems r of
                (Inl e, r') \<Rightarrow> (Inl e, r')
              | (Inr xs, r') \<Rightarrow> (Inr (x # xs), r')))"
  by pat_completeness auto
termination
  by (relation "measure length") (auto dest: ReadString_consumes [OF sym])

declare readISItems.simps [simp del]

definition ReadISMessage :: "ISMessage reader" where
  "ReadISMessage =
     bindR (wrapR ''read IS version'' ReadInt) (\<lambda>ver.
     bindR (wrapR ''read IS command'' ReadInt) (\<lambda>cmd.
     bindR (wrapR ''read IS mom_port'' ReadUint) (\<lambda>momPort.
     bindR (wrapR ''read IS rm_port'' ReadUint) (\<lambda>rmPort.
     bindR readISItems (\<lambda>items.
     returnR \<lparr>is_Version = ver, is_Command = cmd, is_MomPort = goint momPort,
              is_RmPort = goint rmPort, is_Items = items\<rparr>)))))"

text \<open>
  \<^verbatim>\<open>SendStatusUpdate\<close> of \<^verbatim>\<open>src/internal/mom/server/connection.go\<close>: the message a MOM sends, from the
  items of its status. The host name, the status items and whether this is the first update are
  those the MOM reads from its host.
\<close>

definition SendStatusUpdate :: "int \<Rightarrow> int \<Rightarrow> string \<Rightarrow> bool \<Rightarrow> string list \<Rightarrow> string" where
  "SendStatusUpdate momPort rmPort shortHost firstUpdate statusItems =
     WriteInt 4 @ WriteInt 3 @ WriteInt 4 @
     WriteUint (uint64 momPort) @ WriteUint (uint64 rmPort) @
     WriteString (''node='' @ shortHost) @
     (if firstUpdate then WriteString ''first_update=true'' else []) @
     concat (map WriteString statusItems) @
     WriteString ''END_OF_LINE''"

text \<open>
  \<^verbatim>\<open>SendJobObit\<close> of the same file, with the resources in the order in which the loop over the map
  visits them.
\<close>

definition SendJobObit :: "string \<Rightarrow> int \<Rightarrow> (string \<times> string) list \<Rightarrow> string" where
  "SendJobObit jobID exitStatus resources =
     WriteRequestHeader BatchReqJobObit ''root'' @
     WriteString jobID @ WriteInt exitStatus @
     WriteUint (of_nat (length resources)) @
     concat (map (\<lambda>(name, value).
       WriteUint (of_nat (length ''resources_used'' + length name + length value + 3)) @
       WriteString ''resources_used'' @ WriteUint 1 @ WriteString name @
       WriteString value @ WriteUint 1) resources) @
     WriteUint 0"

text \<open>\<^verbatim>\<open>SkipSvrAttrl\<close> of \<^verbatim>\<open>src/internal/mom/dis/message.go\<close>.\<close>

definition SkipAttr :: "unit reader" where
  "SkipAttr =
     bindR ReadUint (\<lambda>_. bindR ReadString (\<lambda>_. bindR ReadUint (\<lambda>hasResc.
     bindR (if hasResc \<noteq> 0 then ReadString else returnR []) (\<lambda>_.
     bindR ReadString (\<lambda>_. bindR ReadUint (\<lambda>_. returnR ()))))))"

definition SkipSvrAttrl :: "unit reader" where
  "SkipSvrAttrl =
     bindR (wrapR ''dis: skip attrl count'' ReadUint) (\<lambda>cnt.
     bindR (repeatR (unat cnt) SkipAttr) (\<lambda>_. returnR ()))"

section \<open>Round trips\<close>

abbreviation field_int :: "int \<Rightarrow> bool" where
  "field_int i \<equiv> 0 \<le> i \<and> i \<le> max_int64"

lemma field_int_is_int64 [simp]: "field_int i \<Longrightarrow> is_int64 i"
  by (simp add: min_int64_def)

definition valid_attr :: "SvrAttrl \<Rightarrow> bool" where
  "valid_attr a \<longleftrightarrow>
     small_string (sa_Name a) \<and> small_string (sa_Value a) \<and> small_string (sa_Resc a) \<and>
     (\<not> sa_HasResc a \<longrightarrow> sa_Resc a = []) \<and> field_int (sa_Op a)"

definition valid_attrs :: "SvrAttrl list \<Rightarrow> bool" where
  "valid_attrs attrs \<longleftrightarrow> list_all valid_attr attrs \<and> 64 * int (length attrs) \<le> max_alloc"

lemma attrSize_field: "valid_attr a \<Longrightarrow> field_int (attrSize a)"
  by (auto simp: valid_attr_def attrSize_def small_string_def max_alloc_def max_int64_def)

lemma ReadAttr_WriteAttr:
  assumes "valid_attr a"
  shows "ReadAttr (WriteAttr a @ rest) = (Inr a, rest)"
  using assms attrSize_field [OF assms]
  by (cases a) (auto simp: ReadAttr_def WriteAttr_def valid_attr_def dis_rt returnR_def)

interpretation attr_codec: dis_codec WriteAttr ReadAttr valid_attr
  by unfold_locales (rule ReadAttr_WriteAttr)

lemma ReadSvrAttrl_WriteSvrAttrl:
  assumes "valid_attrs attrs"
  shows "ReadSvrAttrl (WriteSvrAttrl attrs @ rest) = (Inr attrs, rest)"
proof -
  let ?n = "of_nat (length attrs) :: 64 word"
  have le: "int (length attrs) \<le> max_int64"
    using assms by (simp add: valid_attrs_def max_alloc_def max_int64_def)
  note n = unat_of_nat_small [OF le] and u = uint_of_nat_small [OF le]
  have small: "small_uint ?n" using le by simp
  show ?thesis
    using assms n u small attr_codec.round_trip_list
    by (simp add: ReadSvrAttrl_def WriteSvrAttrl_def valid_attrs_def uint_codec.round_trip_wrap_bind
        makeSlice_def bindR_def [of "makeSlice _ _"])
qed

interpretation attrs_codec: dis_codec WriteSvrAttrl ReadSvrAttrl valid_attrs
  by unfold_locales (rule ReadSvrAttrl_WriteSvrAttrl)

lemmas dis_list_rt =
  attrs_codec.round_trip attrs_codec.round_trip_bind attrs_codec.round_trip_wrap
  attrs_codec.round_trip_wrap_bind attrs_codec.round_trip_ignore

declare dis_list_rt [dis_rt]

lemma ReadRequestHeader_Write:
  "field_int reqType \<Longrightarrow> small_string user \<Longrightarrow>
   ReadRequestHeader (WriteRequestHeader reqType user @ rest) =
     (Inr \<lparr>rh_Protocol = PbsBatchProtType, rh_Version = PbsBatchProtVer,
           rh_ReqType = reqType, rh_User = user\<rparr>, rest)"
  by (simp add: ReadRequestHeader_def WriteRequestHeader_def dis_rt returnR_def)

lemma ReadReply_WriteReply:
  assumes "is_int64 code" "is_int64 auxCode" "field_int choice" "small_string dat"
  shows "ReadReply (WriteReply code auxCode choice dat @ rest) =
     (Inr (code, auxCode, choice, if reply_has_data choice then dat else []), rest)"
  using assms
  by (simp add: ReadReply_def WriteReply_def dis_rt Let_def returnR_def)

lemma ReadReqExtend_WriteReqExtend:
  "small_string ext \<Longrightarrow> ReadReqExtend (WriteReqExtend ext @ rest) = (Inr ext, rest)"
  by (simp add: ReadReqExtend_def WriteReqExtend_def dis_rt returnR_def)

lemma WriteInt_nonneg: "field_int i \<Longrightarrow> WriteInt i = WriteUint (uint64 i)"
  by (simp add: WriteInt_def WriteUint_def FormatInt_def max_int64_def unat_eq_nat_uint
      uint_word_of_int)

lemma readISItems_WriteString:
  assumes "list_all small_string items" "''END_OF_LINE'' \<notin> set items"
  shows "readISItems (concat (map WriteString items) @ WriteString ''END_OF_LINE'' @ rest) =
    (Inr items, rest)"
  using assms
proof (induction items)
  case Nil
  then show ?case by (subst readISItems.simps) (simp add: dis_rt)
next
  case (Cons x items)
  then show ?case by (subst readISItems.simps) (simp add: dis_rt eq_commute [of x])
qed

lemma bindR_error:
  "bindR m f s = (Inl e, r) \<Longrightarrow>
     m s = (Inl e, r) \<or> (\<exists>x t. m s = (Inr x, t) \<and> f x t = (Inl e, r))"
  by (auto simp: bindR_def split: prod.splits sum.splits)

lemma wrapR_not_EOF: "wrapR l m s \<noteq> (Inl EOF, r)"
  by (auto simp: wrapR_def wrapErr_def split: prod.splits sum.splits)

lemma ReadString_not_EOF: "ReadString s \<noteq> (Inl EOF, r)"
  by (auto simp: ReadString_def returnR_def wrapR_not_EOF dest!: bindR_error split: if_splits)

lemma readISItems_error:
  "fst (readISItems s) = Inl e \<Longrightarrow> e = Panic \<or> (\<exists>e'. e = Wrapped ''read IS item'' e')"
  by (induction s rule: readISItems.induct)
    (subst (asm) readISItems.simps,
      auto simp: wrapErr_def split: prod.splits sum.splits if_splits)

lemma SkipAttr_ReadAttr: "ReadAttr s = (Inr a, r) \<Longrightarrow> SkipAttr s = (Inr (), r)"
  by (auto simp: ReadAttr_def SkipAttr_def returnR_def dest!: bindR_InrD split: if_splits)
    (simp_all add: bindR_def returnR_def)

lemma repeatR_simulates:
  assumes step: "\<And>s x r. m s = (Inr x, r) \<Longrightarrow> \<exists>y. m' s = (Inr y, r)"
  shows "repeatR n m s = (Inr xs, r) \<Longrightarrow> \<exists>ys. repeatR n m' s = (Inr ys, r)"
proof (induction n arbitrary: s xs r)
  case (Suc n)
  then obtain x t xs' where "m s = (Inr x, t)" "repeatR n m t = (Inr xs', r)"
    by (auto simp: returnR_def dest!: bindR_InrD)
  moreover obtain y ys where "m' s = (Inr y, t)" "repeatR n m' t = (Inr ys, r)"
    using step [OF calculation(1)] Suc.IH [OF calculation(2)] by blast
  ultimately show ?case by (auto simp: bindR_def returnR_def)
qed (auto simp: returnR_def)

end
