(* ===== verification/Go_Strings.thy ===== *)
theory Go_Strings
  imports Prelude
begin

text \<open>
  The part of package \<^verbatim>\<open>strings\<close> and of \<^verbatim>\<open>fmt.Sscanf\<close> that the components use, and Go maps with string
  keys. A map is an association list: the order of the list stands for the order in which a
  \<^verbatim>\<open>range\<close> loop visits the map, which Go leaves open, so a theorem about every list covers every order.
\<close>

section \<open>Characters and trimming\<close>

definition is_space :: "char \<Rightarrow> bool" where
  "is_space c = (let n = (of_char c :: nat) in (9 \<le> n \<and> n \<le> 13) \<or> n = 32)"

definition TrimSpace :: "string \<Rightarrow> string" where
  "TrimSpace s = rev (dropWhile is_space (rev (dropWhile is_space s)))"

definition to_lower :: "char \<Rightarrow> char" where
  "to_lower c = (let n = (of_char c :: nat) in if 65 \<le> n \<and> n \<le> 90 then char_of (n + 32) else c)"

definition ToLower :: "string \<Rightarrow> string" where
  "ToLower s = map to_lower s"

definition EqualFold :: "string \<Rightarrow> string \<Rightarrow> bool" where
  "EqualFold a b \<longleftrightarrow> ToLower a = ToLower b"

definition HasPrefix :: "string \<Rightarrow> string \<Rightarrow> bool" where
  "HasPrefix s p \<longleftrightarrow> take (length p) s = p"

definition HasSuffix :: "string \<Rightarrow> string \<Rightarrow> bool" where
  "HasSuffix s p \<longleftrightarrow> length p \<le> length s \<and> drop (length s - length p) s = p"

definition TrimSuffix :: "string \<Rightarrow> string \<Rightarrow> string" where
  "TrimSuffix s p = (if HasSuffix s p then take (length s - length p) s else s)"

definition TrimPrefix :: "string \<Rightarrow> string \<Rightarrow> string" where
  "TrimPrefix s p = (if HasPrefix s p then drop (length p) s else s)"

section \<open>Splitting and joining\<close>

text \<open>\<^verbatim>\<open>strings.Split(s, sep)\<close> for a separator of one byte.\<close>

fun Split :: "char \<Rightarrow> string \<Rightarrow> string list" where
  "Split c [] = [[]]"
| "Split c (x # xs) =
     (if x = c then [] # Split c xs
      else (case Split c xs of [] \<Rightarrow> [[x]] | y # ys \<Rightarrow> (x # y) # ys))"

fun Join :: "string \<Rightarrow> string list \<Rightarrow> string" where
  "Join sep [] = []"
| "Join sep [x] = x"
| "Join sep (x # y # ys) = x @ sep @ Join sep (y # ys)"

fun split_spaces :: "string \<Rightarrow> string list" where
  "split_spaces [] = [[]]"
| "split_spaces (x # xs) =
     (if is_space x then [] # split_spaces xs
      else (case split_spaces xs of [] \<Rightarrow> [[x]] | y # ys \<Rightarrow> (x # y) # ys))"

definition Fields :: "string \<Rightarrow> string list" where
  "Fields s = filter (\<lambda>x. x \<noteq> []) (split_spaces s)"

text \<open>
  The text before and behind the first \<open>c\<close>: \<^verbatim>\<open>s[:i]\<close> and \<^verbatim>\<open>s[i+1:]\<close> for \<^verbatim>\<open>i := strings.IndexByte(s, c)\<close>,
  or None where the index is negative.
\<close>

definition cut :: "char \<Rightarrow> string \<Rightarrow> (string \<times> string) option" where
  "cut c s = (if c \<in> set s then Some (takeWhile (\<lambda>x. x \<noteq> c) s, tl (dropWhile (\<lambda>x. x \<noteq> c) s))
              else None)"

text \<open>\<^verbatim>\<open>strings.Split(s, c)[0]\<close>.\<close>

definition before :: "char \<Rightarrow> string \<Rightarrow> string" where
  "before c s = takeWhile (\<lambda>x. x \<noteq> c) s"

text \<open>
  \<^verbatim>\<open>fmt.Sscanf(s, "%d", &x)\<close>: leading blanks, a sign, the longest run of digits; None where it fails
  and leaves \<^verbatim>\<open>x\<close> as it was.
\<close>

definition ScanInt :: "string \<Rightarrow> int option" where
  "ScanInt s =
     (let t = dropWhile (\<lambda>c. is_space c \<and> c \<noteq> CHR 0x0A) s;
          d = (case t of c # cs \<Rightarrow> if c = CHR ''-'' \<or> c = CHR ''+'' then cs else t | [] \<Rightarrow> []);
          sgn = (case t of c # _ \<Rightarrow> if c = CHR ''-'' then ''-'' else [] | [] \<Rightarrow> [])
      in case ParseInt (sgn @ takeWhile is_digit d) of (v, None) \<Rightarrow> Some v | (_, Some _) \<Rightarrow> None)"

section \<open>Maps\<close>

type_synonym 'v smap = "(string \<times> 'v) list"

abbreviation mget :: "'v smap \<Rightarrow> string \<Rightarrow> 'v option" where
  "mget m k \<equiv> map_of m k"

abbreviation mput :: "string \<Rightarrow> 'v \<Rightarrow> 'v smap \<Rightarrow> 'v smap" where
  "mput \<equiv> AList.update"

abbreviation mdel :: "string \<Rightarrow> 'v smap \<Rightarrow> 'v smap" where
  "mdel \<equiv> AList.delete"

abbreviation is_map :: "'v smap \<Rightarrow> bool" where
  "is_map m \<equiv> distinct (map fst m)"

text \<open>The value a Go map of strings gives for a key that it may lack.\<close>

definition sget :: "string smap \<Rightarrow> string \<Rightarrow> string" where
  "sget m k = (case mget m k of Some v \<Rightarrow> v | None \<Rightarrow> [])"

section \<open>Lemmas\<close>

declare map_of_eq_Some_iff [simp del] Some_eq_map_of_iff [simp del]

lemma Split_not_Nil [simp]: "Split c s \<noteq> []"
  by (cases s) (auto split: list.splits)

lemma Split_no_sep: "c \<notin> set s \<Longrightarrow> Split c s = [s]"
  by (induction s) auto

lemma Split_append: "c \<notin> set a \<Longrightarrow> Split c (a @ c # b) = a # Split c b"
  by (induction a) auto

lemma Split_Join:
  assumes "xs \<noteq> []" "\<forall>x \<in> set xs. c \<notin> set x"
  shows "Split c (Join [c] xs) = xs"
  using assms by (induction "[c]" xs rule: Join.induct) (auto simp: Split_no_sep Split_append)

lemma Split_parts: "x \<in> set (Split c s) \<Longrightarrow> c \<notin> set x"
  by (induction s arbitrary: x) (auto split: list.splits if_splits)

lemma Join_Cons_hd: "Join sep ((x # a) # l) = x # Join sep (a # l)"
  by (cases l) simp_all

lemma Join_Split: "Join [c] (Split c s) = s"
proof (induction s)
  case (Cons x xs)
  then show ?case by (cases "Split c xs") (auto simp: neq_Nil_conv Join_Cons_hd)
qed simp

lemma hd_Split: "hd (Split c s) = before c s"
  by (induction s) (auto simp: before_def split: list.splits)

lemma before_no_sep [simp]: "c \<notin> set (before c s)"
  by (auto simp: before_def dest: set_takeWhileD)

lemma before_append [simp]: "c \<notin> set a \<Longrightarrow> before c (a @ c # b) = a"
  by (induction a) (auto simp: before_def)

lemma cut_append: "c \<notin> set a \<Longrightarrow> cut c (a @ c # b) = Some (a, b)"
  by (induction a) (auto simp: cut_def)

lemma dropWhile_hd: "s \<noteq> [] \<Longrightarrow> \<not> P (hd s) \<Longrightarrow> dropWhile P s = s"
  by (cases s) simp_all

lemma TrimSpace_id:
  assumes "s \<noteq> [] \<Longrightarrow> \<not> is_space (hd s) \<and> \<not> is_space (last s)"
  shows "TrimSpace s = s"
  using assms by (cases "s = []") (simp_all add: TrimSpace_def dropWhile_hd hd_rev)

lemma TrimSpace_no_space: "\<forall>c \<in> set s. \<not> is_space c \<Longrightarrow> TrimSpace s = s"
  by (rule TrimSpace_id) simp

lemma is_digit_not_space: "is_digit c \<Longrightarrow> \<not> is_space c"
  by (auto simp: is_digit_def is_space_def Let_def)

lemma is_digit_not_dot: "is_digit c \<Longrightarrow> c \<noteq> CHR ''.''"
  by (auto simp: is_digit_def)

lemma mget_mput: "mget (mput k v m) k' = (if k' = k then Some v else mget m k')"
  by (simp add: update_conv')

lemma mget_mdel: "mget (mdel k m) k' = (if k' = k then None else mget m k')"
  by (simp add: delete_conv')

lemma is_map_mput: "is_map m \<Longrightarrow> is_map (mput k v m)"
  by (rule distinct_update)

lemma is_map_mdel: "is_map m \<Longrightarrow> is_map (mdel k m)"
  by (rule distinct_delete)

lemmas map_laws = mget_mput mget_mdel is_map_mput is_map_mdel

section \<open>Counting the entries of a map\<close>

definition mcount :: "('v \<Rightarrow> bool) \<Rightarrow> 'v smap \<Rightarrow> int" where
  "mcount P m = int (length (filter (\<lambda>(_, v). P v) m))"

lemma mcount_Nil [simp]: "mcount P [] = 0"
  by (simp add: mcount_def)

lemma mcount_Cons [simp]: "mcount P ((k, v) # m) = (if P v then 1 else 0) + mcount P m"
  by (simp add: mcount_def)

lemma mcount_nonneg [simp]: "0 \<le> mcount P m"
  by (simp add: mcount_def)

lemma mcount_mput_new:
  "mget m k = None \<Longrightarrow> mcount P (mput k v m) = mcount P m + (if P v then 1 else 0)"
  by (induction m) (auto split: if_splits)

lemma mcount_mput_old:
  "is_map m \<Longrightarrow> mget m k = Some w \<Longrightarrow>
   mcount P (mput k v m) = mcount P m - (if P w then 1 else 0) + (if P v then 1 else 0)"
proof (induction m)
  case (Cons kv m)
  obtain k' v' where "kv = (k', v')" by (cases kv)
  with Cons show ?case by (cases "k' = k") (auto split: if_splits)
qed simp

lemma mcount_mdel:
  "is_map m \<Longrightarrow> mget m k = Some w \<Longrightarrow>
   mcount P (mdel k m) = mcount P m - (if P w then 1 else 0)"
proof (induction m)
  case (Cons kv m)
  obtain k' v' where kv: "kv = (k', v')" by (cases kv)
  show ?case
  proof (cases "k' = k")
    case True
    then have "k \<notin> fst ` set m" using Cons.prems kv by auto
    then have "mdel k m = m" by (rule delete_id)
    then show ?thesis using True Cons.prems kv by (auto simp: delete_simps)
  next
    case False
    then show ?thesis using Cons kv by (auto simp: delete_simps)
  qed
qed simp

lemma mcount_pos: "mget m k = Some w \<Longrightarrow> P w \<Longrightarrow> 0 < mcount P m"
  by (induction m) (auto split: if_splits simp: add_pos_nonneg)

lemma mcount_cong: "(\<And>k v. (k, v) \<in> set m \<Longrightarrow> P v = Q v) \<Longrightarrow> mcount P m = mcount Q m"
  unfolding mcount_def by (rule arg_cong [of _ _ "\<lambda>l. int (length l)"], rule filter_cong) auto

lemmas mcount_laws = mcount_mput_new mcount_mput_old mcount_mdel

section \<open>Named objects kept by a manager\<close>

text \<open>
  The interface of the job and queue managers: objects are kept under their own name; an added
  object is found under its name, a removed name is gone, other names are not touched.
\<close>

locale registry =
  fixes get :: "'m \<Rightarrow> string \<Rightarrow> 'v option"
    and add :: "'m \<Rightarrow> 'v \<Rightarrow> 'm"
    and remove :: "'m \<Rightarrow> string \<Rightarrow> 'm"
    and key :: "'v \<Rightarrow> string"
    and inv :: "'m \<Rightarrow> bool"
  assumes get_add: "inv m \<Longrightarrow> get (add m v) k = (if k = key v then Some v else get m k)"
    and get_remove: "inv m \<Longrightarrow> get (remove m n) k = (if k = n then None else get m k)"
    and inv_add: "inv m \<Longrightarrow> inv (add m v)"
    and inv_remove: "inv m \<Longrightarrow> inv (remove m n)"
    and get_key: "inv m \<Longrightarrow> get m k = Some v \<Longrightarrow> key v = k"
begin

lemma add_then_get: "inv m \<Longrightarrow> get (add m v) (key v) = Some v"
  by (simp add: get_add)

lemma remove_then_get: "inv m \<Longrightarrow> get (remove m n) n = None"
  by (simp add: get_remove)

lemma add_remove_restores:
  "inv m \<Longrightarrow> get m (key v) = None \<Longrightarrow> get (remove (add m v) (key v)) = get m"
  by (rule ext) (simp add: get_add get_remove inv_add)

lemma frame_add: "inv m \<Longrightarrow> k \<noteq> key v \<Longrightarrow> get (add m v) k = get m k"
  by (simp add: get_add)

end

end
