(* ===== verification/Dis_Client.thy ===== *)
theory Dis_Client
  imports Dis_Message Go_Strings
begin

text \<open>
  The client side of the protocol: the codec of \<^verbatim>\<open>src/internal/cli/dis/codec.go\<close> (of which
  \<^verbatim>\<open>src/internal/sched/dis/codec.go\<close> is a copy) and the operations of
  \<^verbatim>\<open>src/internal/cli/client/client.go\<close>.

  The client codec writes as the server codec does. Its reader does not check the digits of a
  count and does not wrap errors; it accepts whatever the server's reader accepts, with the same
  result (\<open>cliDisrsi_simulates\<close>), so it is an interpretation of \<open>dis_codec\<close> as well.

  A connection is a function that takes the state of the server and the bytes of a request and
  returns the new state and the bytes of the reply.
\<close>

section \<open>The client codec\<close>

text \<open>The count loop: \<^verbatim>\<open>int(b-'0')\<close> is the byte difference, which wraps.\<close>

fun cliCountDigits :: "int \<Rightarrow> string \<Rightarrow> int" where
  "cliCountDigits ndigs [] = ndigs"
| "cliCountDigits ndigs (b # bs) =
     cliCountDigits (wrap64 (10 * ndigs + (int (of_char b) - 48) mod 256)) bs"

function cliDisrsi :: "int \<Rightarrow> (int \<times> bool) reader" where
  "cliDisrsi cnt s = (case s of
      [] \<Rightarrow> (Inl EOF, [])
    | c # rest \<Rightarrow>
        if c = CHR ''+'' \<or> c = CHR ''-'' then
          (case readBuf cnt rest of
             (Inl e, r) \<Rightarrow> (Inl e, r)
           | (Inr buf, r) \<Rightarrow>
               (case ParseInt buf of
                  (val, None) \<Rightarrow> (Inr (val, c = CHR ''-''), r)
                | (_, Some e) \<Rightarrow> (Inl (ParseDigits e), r)))
        else if is_digit c \<and> c \<noteq> CHR ''0'' then
          (if cnt > 1 then
             (case readBuf (cnt - 1) rest of
                (Inl e, r) \<Rightarrow> (Inl e, r)
              | (Inr buf, r) \<Rightarrow> cliDisrsi (cliCountDigits (int (digit_val c)) buf) r)
           else cliDisrsi (int (digit_val c)) rest)
        else if c = CHR ''0'' then (Inl LeadingZero, rest)
        else (Inl (UnexpectedByte c), rest))"
  by pat_completeness auto
termination
  by (relation "measure (\<lambda>(_, s). length s)") (auto dest: readBuf_length [OF sym])

declare cliDisrsi.simps [simp del]

definition cliReadUint :: "64 word reader" where
  "cliReadUint =
     bindR (cliDisrsi 1)
       (\<lambda>(val, negate). if negate then failR UnexpectedNegative else returnR (word_of_int val))"

definition cliReadInt :: "int reader" where
  "cliReadInt =
     bindR (cliDisrsi 1)
       (\<lambda>(val, negate). returnR (if negate then wrap64 (- val) else val))"

definition cliReadString :: "string reader" where
  "cliReadString =
     bindR cliReadUint (\<lambda>len. if len = 0 then returnR [] else readBuf (uint len))"

definition cliReadAttr :: "SvrAttrl reader" where
  "cliReadAttr =
     bindR cliReadUint (\<lambda>_.
     bindR cliReadString (\<lambda>name.
     bindR cliReadUint (\<lambda>hasResc.
     bindR (if hasResc \<noteq> 0 then cliReadString else returnR []) (\<lambda>resc.
     bindR cliReadString (\<lambda>value.
     bindR cliReadUint (\<lambda>op.
     returnR \<lparr>sa_Name = name, sa_HasResc = (hasResc \<noteq> 0), sa_Resc = resc,
              sa_Value = value, sa_Op = goint op\<rparr>))))))"

definition cliReadSvrAttrl :: "SvrAttrl list reader" where
  "cliReadSvrAttrl =
     bindR cliReadUint (\<lambda>cnt.
     bindR (makeSlice 64 cnt) (\<lambda>_. repeatR (unat cnt) cliReadAttr))"

section \<open>Requests and replies of the client\<close>

datatype client_error =
    ReplyError dis_error
  | Rejected int
  | UnexpectedChoice int

type_synonym 'st connection = "'st \<Rightarrow> string \<Rightarrow> 'st \<times> string"

definition writeHeader :: "string \<Rightarrow> int \<Rightarrow> string" where
  "writeHeader user reqType =
     WriteUint 2 @ WriteUint 2 @ WriteUint (uint64 reqType) @ WriteString user"

definition readReply :: "(int \<times> int \<times> int \<times> string) reader" where
  "readReply =
     bindR cliReadUint (\<lambda>_.
     bindR cliReadUint (\<lambda>_.
     bindR cliReadInt (\<lambda>code.
     bindR cliReadInt (\<lambda>auxCode.
     bindR cliReadUint (\<lambda>choiceU.
     let choice = goint choiceU in
     bindR (if reply_has_data choice then cliReadString else returnR []) (\<lambda>dat.
     returnR (code, auxCode, choice, dat)))))))"

definition readStatusObject :: "StatusObject reader" where
  "readStatusObject =
     bindR (wrapR ''read obj type'' cliReadUint) (\<lambda>objType.
     bindR (wrapR ''read obj name'' cliReadString) (\<lambda>name.
     bindR (wrapR ''read obj attrs'' cliReadSvrAttrl) (\<lambda>attrs.
     returnR \<lparr>so_Type = goint objType, so_Name = name, so_Attrs = attrs\<rparr>)))"

text \<open>
  The status reply: the value is the list of objects or the error the server or the reply choice
  gives; the element of the slice that \<^verbatim>\<open>make\<close> reserves has 48 bytes.
\<close>

definition readStatusReply :: "(client_error + StatusObject list) reader" where
  "readStatusReply =
     bindR cliReadUint (\<lambda>_.
     bindR cliReadUint (\<lambda>_.
     bindR cliReadInt (\<lambda>code.
     bindR cliReadInt (\<lambda>_.
     bindR cliReadUint (\<lambda>choice.
     if code \<noteq> 0 then returnR (Inl (Rejected code))
     else if goint choice \<noteq> ReplyChoiceStatus then returnR (Inl (UnexpectedChoice (goint choice)))
     else
       bindR (wrapR ''read status count'' cliReadUint) (\<lambda>cnt.
       bindR (makeSlice 48 cnt) (\<lambda>_.
       bindR (repeatR (unat cnt) readStatusObject) (\<lambda>objects.
       returnR (Inr objects)))))))))"

text \<open>What every simple operation does with the reply: the error of the read, then the code.\<close>

definition replyOk :: "string \<Rightarrow> client_error + (int \<times> string)" where
  "replyOk rep = (case fst (readReply rep) of
      Inl e \<Rightarrow> Inl (ReplyError e)
    | Inr (code, _, choice, dat) \<Rightarrow> if code \<noteq> 0 then Inl (Rejected code) else Inr (choice, dat))"

definition call :: "'st connection \<Rightarrow> 'st \<Rightarrow> string \<Rightarrow> 'st \<times> (client_error + unit)" where
  "call srv st msg = (let (st', rep) = srv st msg in
     (st', case replyOk rep of Inl e \<Rightarrow> Inl e | Inr _ \<Rightarrow> Inr ()))"

definition status_msg :: "string \<Rightarrow> int \<Rightarrow> string \<Rightarrow> string" where
  "status_msg user reqType ident =
     writeHeader user reqType @ WriteString ident @ WriteSvrAttrl [] @ WriteString []"

definition sendStatusRequest ::
  "'st connection \<Rightarrow> 'st \<Rightarrow> string \<Rightarrow> int \<Rightarrow> string \<Rightarrow> 'st \<times> (client_error + StatusObject list)" where
  "sendStatusRequest srv st user reqType ident =
     (let (st', rep) = srv st (status_msg user reqType ident)
      in (st', case fst (readStatusReply rep) of Inl e \<Rightarrow> Inl (ReplyError e) | Inr res \<Rightarrow> res))"

definition queueJob_msg :: "string \<Rightarrow> string \<Rightarrow> SvrAttrl list \<Rightarrow> string" where
  "queueJob_msg user queue attrs =
     writeHeader user BatchReqQueueJob2 @ WriteString [] @ WriteString queue @
     WriteSvrAttrl attrs @ WriteString []"

definition jobScript_msg :: "string \<Rightarrow> string \<Rightarrow> string \<Rightarrow> string" where
  "jobScript_msg user jobID script =
     writeHeader user BatchReqJobScript2 @ WriteUint 0 @ WriteUint 0 @
     WriteUint (of_nat (length script)) @ WriteString jobID @ WriteString script @ WriteString []"

definition SubmitJob ::
  "'st connection \<Rightarrow> 'st \<Rightarrow> string \<Rightarrow> string \<Rightarrow> SvrAttrl list \<Rightarrow> string \<Rightarrow>
   'st \<times> (client_error + string)" where
  "SubmitJob srv st user queue attrs script =
     (let (st1, rep1) = srv st (queueJob_msg user queue attrs) in
      case replyOk rep1 of
        Inl e \<Rightarrow> (st1, Inl e)
      | Inr (choice, jobID) \<Rightarrow>
          if choice \<noteq> ReplyChoiceQueue then (st1, Inl (UnexpectedChoice choice))
          else let (st2, r2) = call srv st1 (jobScript_msg user jobID script)
               in (st2, case r2 of Inl e \<Rightarrow> Inl e | Inr _ \<Rightarrow> Inr jobID))"

definition deleteJob_msg :: "string \<Rightarrow> string \<Rightarrow> string \<Rightarrow> string" where
  "deleteJob_msg user jobID ext =
     writeHeader user BatchReqDeleteJob @ WriteUint 0 @ WriteUint (uint64 MgrObjJob) @
     WriteString jobID @ WriteSvrAttrl [] @ WriteString ext"

definition DeleteJobExtend :: "'st connection \<Rightarrow> 'st \<Rightarrow> string \<Rightarrow> string \<Rightarrow> string \<Rightarrow>
    'st \<times> (client_error + unit)" where
  "DeleteJobExtend srv st user jobID ext = call srv st (deleteJob_msg user jobID ext)"

definition holdAttr :: "string \<Rightarrow> SvrAttrl" where
  "holdAttr holdType =
     \<lparr>sa_Name = ''Hold_Types'', sa_HasResc = False, sa_Resc = [], sa_Value = holdType, sa_Op = 1\<rparr>"

definition HoldJob_msg :: "string \<Rightarrow> string \<Rightarrow> string \<Rightarrow> string" where
  "HoldJob_msg user jobID holdType =
     writeHeader user BatchReqHoldJob @ WriteUint 0 @ WriteUint (uint64 MgrObjJob) @
     WriteString jobID @ WriteSvrAttrl [holdAttr holdType] @ WriteString []"

definition ReleaseJob_msg :: "string \<Rightarrow> string \<Rightarrow> string \<Rightarrow> string" where
  "ReleaseJob_msg user jobID holdType =
     writeHeader user BatchReqReleaseJob @ WriteUint 0 @ WriteUint (uint64 MgrObjJob) @
     WriteString jobID @ WriteSvrAttrl [holdAttr holdType] @ WriteString []"

definition Manager_msg :: "string \<Rightarrow> int \<Rightarrow> int \<Rightarrow> string \<Rightarrow> SvrAttrl list \<Rightarrow> string" where
  "Manager_msg user cmd objType objName attrs =
     writeHeader user BatchReqManager @ WriteUint (uint64 cmd) @ WriteUint (uint64 objType) @
     WriteString objName @ WriteSvrAttrl attrs @ WriteString []"

definition ModifyJob_msg :: "string \<Rightarrow> string \<Rightarrow> SvrAttrl list \<Rightarrow> string" where
  "ModifyJob_msg user jobID attrs =
     writeHeader user BatchReqModifyJob @ WriteUint 0 @ WriteUint (uint64 MgrObjJob) @
     WriteString jobID @ WriteSvrAttrl attrs @ WriteString []"

definition RunJob_msg :: "string \<Rightarrow> string \<Rightarrow> string \<Rightarrow> string" where
  "RunJob_msg user jobID destination =
     writeHeader user BatchReqRunJob @ WriteString jobID @ WriteString destination @ WriteString []"

definition SignalJob_msg :: "string \<Rightarrow> string \<Rightarrow> string \<Rightarrow> string" where
  "SignalJob_msg user jobID signal =
     writeHeader user BatchReqSignalJob @ WriteString jobID @ WriteString signal @ WriteString []"

definition SelectJobs_msg :: "string \<Rightarrow> SvrAttrl list \<Rightarrow> string" where
  "SelectJobs_msg user attrs =
     writeHeader user BatchReqSelectJobs @ WriteString [] @ WriteSvrAttrl attrs @ WriteString []"

definition MoveJob_msg :: "string \<Rightarrow> string \<Rightarrow> string \<Rightarrow> string" where
  "MoveJob_msg user jobID destination =
     writeHeader user BatchReqMoveJob @ WriteString jobID @ WriteString destination @ WriteString []"

definition RerunJob_msg :: "string \<Rightarrow> string \<Rightarrow> bool \<Rightarrow> string" where
  "RerunJob_msg user jobID force =
     writeHeader user BatchReqRerun @ WriteString jobID @
     WriteString (if force then ''RERUNFORCE'' else [])"

definition OrderJob_msg :: "string \<Rightarrow> string \<Rightarrow> string \<Rightarrow> string" where
  "OrderJob_msg user jobID1 jobID2 =
     writeHeader user BatchReqOrderJob @ WriteString jobID1 @ WriteString jobID2 @ WriteString []"

definition MessJob_msg :: "string \<Rightarrow> string \<Rightarrow> int \<Rightarrow> string \<Rightarrow> string" where
  "MessJob_msg user jobID fileOpt message =
     writeHeader user BatchReqMessJob @ WriteString jobID @ WriteUint (uint64 fileOpt) @
     WriteString message @ WriteString []"

definition CheckpointJob_msg :: "string \<Rightarrow> string \<Rightarrow> string" where
  "CheckpointJob_msg user jobID =
     writeHeader user BatchReqCheckpointJob @ WriteString jobID @ WriteString []"

text \<open>The operations: send the request, then read the reply and its code.\<close>

definition HoldJob :: "'st connection \<Rightarrow> 'st \<Rightarrow> string \<Rightarrow> string \<Rightarrow> string \<Rightarrow> 'st \<times> (client_error + unit)" where
  "HoldJob srv st user jobID holdType = call srv st (HoldJob_msg user jobID holdType)"

definition ReleaseJobReq :: "'st connection \<Rightarrow> 'st \<Rightarrow> string \<Rightarrow> string \<Rightarrow> string \<Rightarrow> 'st \<times> (client_error + unit)" where
  "ReleaseJobReq srv st user jobID holdType = call srv st (ReleaseJob_msg user jobID holdType)"

definition Manager :: "'st connection \<Rightarrow> 'st \<Rightarrow> string \<Rightarrow> int \<Rightarrow> int \<Rightarrow> string \<Rightarrow> SvrAttrl list \<Rightarrow> 'st \<times> (client_error + unit)" where
  "Manager srv st user cmd objType objName attrs = call srv st (Manager_msg user cmd objType objName attrs)"

definition ModifyJob :: "'st connection \<Rightarrow> 'st \<Rightarrow> string \<Rightarrow> string \<Rightarrow> SvrAttrl list \<Rightarrow> 'st \<times> (client_error + unit)" where
  "ModifyJob srv st user jobID attrs = call srv st (ModifyJob_msg user jobID attrs)"

definition RunJob :: "'st connection \<Rightarrow> 'st \<Rightarrow> string \<Rightarrow> string \<Rightarrow> string \<Rightarrow> 'st \<times> (client_error + unit)" where
  "RunJob srv st user jobID destination = call srv st (RunJob_msg user jobID destination)"

definition SignalJob :: "'st connection \<Rightarrow> 'st \<Rightarrow> string \<Rightarrow> string \<Rightarrow> string \<Rightarrow> 'st \<times> (client_error + unit)" where
  "SignalJob srv st user jobID signal = call srv st (SignalJob_msg user jobID signal)"

definition MoveJob :: "'st connection \<Rightarrow> 'st \<Rightarrow> string \<Rightarrow> string \<Rightarrow> string \<Rightarrow> 'st \<times> (client_error + unit)" where
  "MoveJob srv st user jobID destination = call srv st (MoveJob_msg user jobID destination)"

definition RerunJob :: "'st connection \<Rightarrow> 'st \<Rightarrow> string \<Rightarrow> string \<Rightarrow> bool \<Rightarrow> 'st \<times> (client_error + unit)" where
  "RerunJob srv st user jobID force = call srv st (RerunJob_msg user jobID force)"

definition OrderJob :: "'st connection \<Rightarrow> 'st \<Rightarrow> string \<Rightarrow> string \<Rightarrow> string \<Rightarrow> 'st \<times> (client_error + unit)" where
  "OrderJob srv st user jobID1 jobID2 = call srv st (OrderJob_msg user jobID1 jobID2)"

definition MessJob :: "'st connection \<Rightarrow> 'st \<Rightarrow> string \<Rightarrow> string \<Rightarrow> int \<Rightarrow> string \<Rightarrow> 'st \<times> (client_error + unit)" where
  "MessJob srv st user jobID fileOpt message = call srv st (MessJob_msg user jobID fileOpt message)"

definition CheckpointJob :: "'st connection \<Rightarrow> 'st \<Rightarrow> string \<Rightarrow> string \<Rightarrow> 'st \<times> (client_error + unit)" where
  "CheckpointJob srv st user jobID = call srv st (CheckpointJob_msg user jobID)"

definition SelectJobs :: "'st connection \<Rightarrow> 'st \<Rightarrow> string \<Rightarrow> SvrAttrl list \<Rightarrow>
    'st \<times> (client_error + string list)" where
  "SelectJobs srv st user attrs =
     (let (st', rep) = srv st (SelectJobs_msg user attrs) in
      (st', case replyOk rep of
         Inl e \<Rightarrow> Inl e
       | Inr (_, dat) \<Rightarrow> Inr (filter (\<lambda>i. i \<noteq> []) (map TrimSpace (Split CHR 0x0A dat)))))"

definition authenticate_msg :: "string \<Rightarrow> int \<Rightarrow> string \<Rightarrow> string" where
  "authenticate_msg user timestamp token =
     writeHeader user BatchReqAuthToken @ WriteUint (uint64 timestamp) @ WriteString token @
     WriteString []"

section \<open>The client codec accepts what the server codec accepts\<close>

lemma cliCountDigits_eq:
  "countDigits n bs = Inr m \<Longrightarrow> cliCountDigits n bs = m"
proof (induction bs arbitrary: n)
  case (Cons b bs)
  then have "is_digit b" by (simp split: if_splits)
  then have "(int (of_char b) - 48) mod 256 = int (digit_val b)"
    by (simp add: is_digit_def digit_val_def)
  then show ?case using Cons by (simp split: if_splits)
qed simp

definition simulates :: "'a reader \<Rightarrow> 'a reader \<Rightarrow> bool" where
  "simulates m m' \<longleftrightarrow> (\<forall>s x r. m s = (Inr x, r) \<longrightarrow> m' s = (Inr x, r))"

lemma simulatesI [intro]: "(\<And>s x r. m s = (Inr x, r) \<Longrightarrow> m' s = (Inr x, r)) \<Longrightarrow> simulates m m'"
  by (simp add: simulates_def)

lemma simulatesD: "simulates m m' \<Longrightarrow> m s = (Inr x, r) \<Longrightarrow> m' s = (Inr x, r)"
  by (simp add: simulates_def)

lemma simulates_refl: "simulates m m"
  by blast

lemma simulates_bind:
  assumes "simulates m m'" "\<And>x. simulates (f x) (f' x)"
  shows "simulates (bindR m f) (bindR m' f')"
proof
  fix s y r assume "bindR m f s = (Inr y, r)"
  then obtain x t where "m s = (Inr x, t)" "f x t = (Inr y, r)" by (blast dest: bindR_InrD)
  with assms show "bindR m' f' s = (Inr y, r)"
    by (simp add: bindR_def simulatesD [of m] simulatesD [of "f x"])
qed

lemma simulates_wrap: "simulates m m' \<Longrightarrow> simulates (wrapR l m) m'"
  by (simp add: simulates_def)

lemma simulates_if:
  "simulates m m' \<Longrightarrow> simulates n n' \<Longrightarrow> simulates (if b then m else n) (if b then m' else n')"
  by simp

lemma simulates_repeat: "simulates m m' \<Longrightarrow> simulates (repeatR n m) (repeatR n m')"
  by (induction n) (auto intro!: simulates_bind simulates_refl)

lemmas simulates_intros = simulates_bind simulates_wrap simulates_if simulates_repeat simulates_refl

lemma cliDisrsi_simulates: "disrsi n s = (Inr x, r) \<Longrightarrow> cliDisrsi n s = (Inr x, r)"
proof (induction s arbitrary: n rule: length_induct)
  case (1 s)
  show ?case
  proof (cases s)
    case Nil
    then show ?thesis using 1 by (simp add: disrsi.simps)
  next
    case (Cons c rest)
    have IH: "cliDisrsi m y = (Inr x, r)"
      if "disrsi m y = (Inr x, r)" "length y \<le> length rest" for m y
      using 1(1) that Cons less_Suc_eq_le by (metis length_Cons)
    from 1(2) Cons show ?thesis
      by (subst (asm) disrsi.simps, subst cliDisrsi.simps)
        (auto split: if_splits prod.splits sum.splits option.splits
          intro!: IH dest: readBuf_length simp: cliCountDigits_eq)
  qed
qed

lemma cliReadUint_simulates: "simulates ReadUint cliReadUint"
  unfolding ReadUint_def cliReadUint_def
  by (intro simulates_intros) (auto intro: cliDisrsi_simulates)

lemma cliReadInt_simulates: "simulates ReadInt cliReadInt"
  unfolding ReadInt_def cliReadInt_def
  by (intro simulates_intros) (auto intro: cliDisrsi_simulates)

lemma cliReadString_simulates: "simulates ReadString cliReadString"
  unfolding ReadString_def cliReadString_def
  by (intro simulates_intros cliReadUint_simulates)

lemmas cli_simulates = cliReadUint_simulates cliReadInt_simulates cliReadString_simulates

lemma cliReadSvrAttrl_simulates: "simulates ReadSvrAttrl cliReadSvrAttrl"
  unfolding ReadSvrAttrl_def cliReadSvrAttrl_def ReadAttr_def cliReadAttr_def
  by (intro simulates_intros cli_simulates)

text \<open>A reader that accepts at least as much serves the same format.\<close>

locale dis_codec_sim = dis_codec wr rd valid
  for wr :: "'a \<Rightarrow> string" and rd :: "'a reader" and valid :: "'a \<Rightarrow> bool" +
  fixes rd' :: "'a reader"
  assumes sim: "simulates rd rd'"
begin

lemma sim_round_trip: "valid x \<Longrightarrow> rd' (wr x @ rest) = (Inr x, rest)"
  by (rule simulatesD [OF sim round_trip])

end

sublocale dis_codec_sim \<subseteq> client: dis_codec wr rd' valid
  by unfold_locales (rule sim_round_trip)

interpretation cli_uint: dis_codec_sim WriteUint ReadUint small_uint cliReadUint
  by unfold_locales (rule cliReadUint_simulates)

interpretation cli_int: dis_codec_sim WriteInt ReadInt "\<lambda>v. is_int64 v" cliReadInt
  by unfold_locales (rule cliReadInt_simulates)

interpretation cli_str: dis_codec_sim WriteString ReadString small_string cliReadString
  by unfold_locales (rule cliReadString_simulates)

interpretation cli_attrs: dis_codec_sim WriteSvrAttrl ReadSvrAttrl valid_attrs cliReadSvrAttrl
  by unfold_locales (rule cliReadSvrAttrl_simulates)

lemmas cli_field_rt =
  cli_uint.client.round_trip cli_uint.client.round_trip_bind cli_uint.client.round_trip_wrap_bind
  cli_int.client.round_trip cli_int.client.round_trip_bind
  cli_str.client.round_trip cli_str.client.round_trip_bind cli_str.client.round_trip_wrap_bind
  cli_attrs.client.round_trip cli_attrs.client.round_trip_bind cli_attrs.client.round_trip_wrap_bind

declare cli_field_rt [dis_rt]

section \<open>The client reads the replies the server writes\<close>

lemma readReply_WriteReply:
  assumes "is_int64 code" "is_int64 auxCode" "field_int choice" "small_string dat"
  shows "readReply (WriteReply code auxCode choice dat @ rest) =
     (Inr (code, auxCode, choice, if reply_has_data choice then dat else []), rest)"
  using assms
  by (simp add: readReply_def WriteReply_def dis_rt Let_def returnR_def)

definition valid_object :: "StatusObject \<Rightarrow> bool" where
  "valid_object obj \<longleftrightarrow>
     field_int (so_Type obj) \<and> small_string (so_Name obj) \<and> valid_attrs (so_Attrs obj)"

lemma readStatusObject_Write:
  "valid_object obj \<Longrightarrow> readStatusObject (WriteStatusObject obj @ rest) = (Inr obj, rest)"
  by (cases obj) (simp add: valid_object_def readStatusObject_def WriteStatusObject_def dis_rt
      returnR_def)

interpretation status_codec: dis_codec WriteStatusObject readStatusObject valid_object
  by unfold_locales (rule readStatusObject_Write)

end
