(* ===== verification/Server_Request.thy ===== *)
theory Server_Request
  imports Dis_Client
begin

text \<open>
  How the server takes a request off a connection: the header read of \<^verbatim>\<open>handleConnection\<close>, the body
  read at the start of each handler that \<^verbatim>\<open>dispatchRequest\<close> chooses by the request type, and the
  extension read after it (\<^verbatim>\<open>src/internal/server/server.go\<close>). The handlers themselves are in the
  theory of the server.
\<close>

datatype request =
    RConnect
  | RQueueJob string "SvrAttrl list"
  | RJobCred
  | RJobScript string string bool
  | RRdytoCommit string
  | RCommit string
  | RDeleteJob string
  | RHoldJob string
  | RModifyJob string "SvrAttrl list"
  | RStatusJob string
  | RStatusQueue string
  | RStatusServer
  | RStatusNode string
  | RManager int int string "SvrAttrl list"
  | RShutdown
  | RSignalJob string string
  | RJobObit string int "SvrAttrl list"
  | RRunJob string string
  | RDisconnect
  | RAuthenUser "64 word"
  | RAltAuthenUser
  | RAuthToken "64 word" string
  | RLocateJob string
  | RSelectJobs
  | RReleaseJob string
  | RMoveJob string string
  | RRerun string
  | ROrderJob string string
  | RMessJob string string
  | RCheckpointJob string
  | RUnhandled int

text \<open>
  The body of a request, with what its handler keeps of it. \<^verbatim>\<open>AuthenUser\<close>, \<^verbatim>\<open>AltAuthenUser\<close> and
  \<^verbatim>\<open>AuthToken\<close> read the extension themselves and drop its error; \<^verbatim>\<open>Rerun\<close> reads it as a plain string.
\<close>

definition readBody :: "int \<Rightarrow> request reader" where
  "readBody t =
    (if t = BatchReqConnect then returnR RConnect
     else if t = BatchReqQueueJob \<or> t = BatchReqQueueJob2 then
       bindR ReadQueueJobBody (\<lambda>(_, dest, attrs). returnR (RQueueJob dest attrs))
     else if t = BatchReqJobCred then bindR ReadJobCredBody (\<lambda>_. returnR RJobCred)
     else if t = BatchReqJobScript \<or> t = BatchReqJobScript2 then
       bindR ReadJobScriptBody (\<lambda>(jobID, dat).
         returnR (RJobScript jobID dat (t = BatchReqJobScript2)))
     else if t = BatchReqRdytoCommit then bindR ReadCommitBody (\<lambda>j. returnR (RRdytoCommit j))
     else if t = BatchReqCommit \<or> t = BatchReqCommit2 then
       bindR ReadCommitBody (\<lambda>j. returnR (RCommit j))
     else if t = BatchReqDeleteJob then bindR ReadDeleteJobBody (\<lambda>j. returnR (RDeleteJob j))
     else if t = BatchReqHoldJob then bindR ReadHoldJobBody (\<lambda>(j, _). returnR (RHoldJob j))
     else if t = BatchReqModifyJob then
       bindR ReadModifyJobBody (\<lambda>(j, attrs). returnR (RModifyJob j attrs))
     else if t = BatchReqStatusJob then bindR ReadStatusBody (\<lambda>(i, _). returnR (RStatusJob i))
     else if t = BatchReqStatusQueue then bindR ReadStatusBody (\<lambda>(i, _). returnR (RStatusQueue i))
     else if t = BatchReqStatusServer then bindR ReadStatusBody (\<lambda>_. returnR RStatusServer)
     else if t = BatchReqStatusNode then bindR ReadStatusBody (\<lambda>(i, _). returnR (RStatusNode i))
     else if t = BatchReqManager then
       bindR ReadManagerBody (\<lambda>(c, ot, n, attrs). returnR (RManager c ot n attrs))
     else if t = BatchReqShutdown then returnR RShutdown
     else if t = BatchReqSignalJob then
       bindR ReadSignalJobBody (\<lambda>(j, sig). returnR (RSignalJob j sig))
     else if t = BatchReqJobObit then
       bindR ReadJobObit (\<lambda>(j, ex, attrs). returnR (RJobObit j ex attrs))
     else if t = BatchReqRunJob then bindR ReadRunJobBody (\<lambda>(j, d). returnR (RRunJob j d))
     else if t = BatchReqDisconnect then returnR RDisconnect
     else if t = BatchReqAuthenUser then
       bindR ReadUint (\<lambda>port. ignoreR ReadReqExtend (returnR (RAuthenUser port)))
     else if t = BatchReqAltAuthenUser then
       ignoreR ReadUint (ignoreR ReadString (ignoreR ReadReqExtend (returnR RAltAuthenUser)))
     else if t = BatchReqAuthToken then
       bindR ReadUint (\<lambda>ts. bindR ReadString (\<lambda>token.
         ignoreR ReadReqExtend (returnR (RAuthToken ts token))))
     else if t = BatchReqLocateJob then bindR ReadLocateJobBody (\<lambda>j. returnR (RLocateJob j))
     else if t = BatchReqSelectJobs then bindR ReadStatusBody (\<lambda>_. returnR RSelectJobs)
     else if t = BatchReqReleaseJob then bindR ReadHoldJobBody (\<lambda>(j, _). returnR (RReleaseJob j))
     else if t = BatchReqMoveJob then bindR ReadMoveJobBody (\<lambda>(j, d). returnR (RMoveJob j d))
     else if t = BatchReqRerun then
       bindR ReadString (\<lambda>j. ignoreR ReadString (returnR (RRerun j)))
     else if t = BatchReqOrderJob then
       bindR ReadString (\<lambda>j1. bindR ReadString (\<lambda>j2. returnR (ROrderJob j1 j2)))
     else if t = BatchReqMessJob then
       bindR ReadString (\<lambda>j. bindR ReadUint (\<lambda>_. bindR ReadString (\<lambda>m. returnR (RMessJob j m))))
     else if t = BatchReqCheckpointJob then bindR ReadString (\<lambda>j. returnR (RCheckpointJob j))
     else returnR (RUnhandled t))"

text \<open>Whether the loop of \<^verbatim>\<open>handleConnection\<close> reads an extension after the handler.\<close>

definition hasExtension :: "int \<Rightarrow> bool" where
  "hasExtension t \<longleftrightarrow>
     t \<noteq> BatchReqConnect \<and> t \<noteq> BatchReqDisconnect \<and> t \<noteq> BatchReqAuthenUser \<and>
     t \<noteq> BatchReqAltAuthenUser \<and> t \<noteq> BatchReqAuthToken \<and> t \<noteq> BatchReqRerun"

datatype incoming =
    IncomingIS ISMessage
  | IncomingBatch RequestHeader request

datatype conn_error =
    UnknownProtocol int
  | ReadFailed dis_error
  | ExtensionFailed dis_error request

text \<open>
  One turn of the loop of \<^verbatim>\<open>handleConnection\<close>, as far as it reads: the protocol type first, then an
  IS message or a batch request. An extension that cannot be read ends the connection after the
  handler has run, so that error still carries the request.
\<close>

definition readMessage :: "string \<Rightarrow> (conn_error + incoming) \<times> string" where
  "readMessage s = (case ReadUint s of
      (Inl e, r) \<Rightarrow> (Inl (ReadFailed e), r)
    | (Inr proto, r) \<Rightarrow>
        if goint proto = ISProtocolType then
          (case ReadISMessage r of
             (Inl e, r') \<Rightarrow> (Inl (ReadFailed e), r')
           | (Inr m, r') \<Rightarrow> (Inr (IncomingIS m), r'))
        else if goint proto \<noteq> PbsBatchProtType then (Inl (UnknownProtocol (goint proto)), r)
        else
          (case bindR ReadUint (\<lambda>ver. bindR ReadUint (\<lambda>reqType. bindR ReadString (\<lambda>user.
                  returnR \<lparr>rh_Protocol = goint proto, rh_Version = goint ver,
                           rh_ReqType = goint reqType, rh_User = user\<rparr>))) r of
             (Inl e, r1) \<Rightarrow> (Inl (ReadFailed e), r1)
           | (Inr hdr, r1) \<Rightarrow>
               (case readBody (rh_ReqType hdr) r1 of
                  (Inl e, r2) \<Rightarrow> (Inl (ReadFailed e), r2)
                | (Inr req, r2) \<Rightarrow>
                    if hasExtension (rh_ReqType hdr) then
                      (case ReadReqExtend r2 of
                         (Inl e, r3) \<Rightarrow> (Inl (ExtensionFailed e req), r3)
                       | (Inr _, r3) \<Rightarrow> (Inr (IncomingBatch hdr req), r3))
                    else (Inr (IncomingBatch hdr req), r2))))"

section \<open>Requests of the clients and of the MOMs reach their handler\<close>

abbreviation batch_hdr :: "int \<Rightarrow> string \<Rightarrow> RequestHeader" where
  "batch_hdr t user \<equiv> \<lparr>rh_Protocol = 2, rh_Version = 2, rh_ReqType = t, rh_User = user\<rparr>"

text \<open>A batch message is a header, a body and an extension; this reads the header part once.\<close>

lemma readMessage_batch:
  assumes "field_int t" "small_string user"
    and body: "readBody t (body @ ext) = (Inr req, ext)"
    and ext: "if hasExtension t then \<exists>e. ReadReqExtend ext = (Inr e, rest) else ext = rest"
  shows "readMessage (writeHeader user t @ body @ ext) = (Inr (IncomingBatch (batch_hdr t user) req), rest)"
  using assms
  by (auto simp: readMessage_def writeHeader_def dis_rt returnR_def split: if_splits)

lemma empty_extension: "ReadReqExtend (WriteString [] @ rest) = (Inr [], rest)"
proof -
  have "WriteString [] = WriteUint 0" by (simp add: WriteString_def)
  then show ?thesis by (simp add: ReadReqExtend_def dis_rt returnR_def)
qed

lemmas message_simps =
  readMessage_def writeHeader_def readBody_def hasExtension_def empty_extension returnR_def dis_rt

lemma valid_attrs_Nil [simp]: "valid_attrs []"
  by (simp add: valid_attrs_def max_alloc_def)

lemma valid_attrs_hold [simp]: "small_string h \<Longrightarrow> valid_attrs [holdAttr h]"
  by (simp add: valid_attrs_def valid_attr_def holdAttr_def max_alloc_def max_int64_def)

lemma small_string_length [simp]: "small_string s \<Longrightarrow> small_uint (of_nat (length s))"
  by (simp add: small_string_def max_alloc_def max_int64_def)

lemma queueJob_received:
  "small_string user \<Longrightarrow> small_string queue \<Longrightarrow> valid_attrs attrs \<Longrightarrow>
   readMessage (queueJob_msg user queue attrs @ rest) =
     (Inr (IncomingBatch (batch_hdr BatchReqQueueJob2 user) (RQueueJob queue attrs)), rest)"
  by (simp add: queueJob_msg_def ReadQueueJobBody_def message_simps)

lemma jobScript_received:
  "small_string user \<Longrightarrow> small_string jobID \<Longrightarrow> small_string script \<Longrightarrow>
   readMessage (jobScript_msg user jobID script @ rest) =
     (Inr (IncomingBatch (batch_hdr BatchReqJobScript2 user) (RJobScript jobID script True)), rest)"
  by (simp add: jobScript_msg_def ReadJobScriptBody_def message_simps)

lemma HoldJob_received:
  "small_string user \<Longrightarrow> small_string jobID \<Longrightarrow> small_string h \<Longrightarrow>
   readMessage (HoldJob_msg user jobID h @ rest) =
     (Inr (IncomingBatch (batch_hdr BatchReqHoldJob user) (RHoldJob jobID)), rest)"
  by (simp add: HoldJob_msg_def ReadHoldJobBody_def message_simps)

lemma ReleaseJob_received:
  "small_string user \<Longrightarrow> small_string jobID \<Longrightarrow> small_string h \<Longrightarrow>
   readMessage (ReleaseJob_msg user jobID h @ rest) =
     (Inr (IncomingBatch (batch_hdr BatchReqReleaseJob user) (RReleaseJob jobID)), rest)"
  by (simp add: ReleaseJob_msg_def ReadHoldJobBody_def message_simps)

lemma Manager_received:
  "small_string user \<Longrightarrow> field_int cmd \<Longrightarrow> field_int objType \<Longrightarrow> small_string objName \<Longrightarrow>
   valid_attrs attrs \<Longrightarrow>
   readMessage (Manager_msg user cmd objType objName attrs @ rest) =
     (Inr (IncomingBatch (batch_hdr BatchReqManager user) (RManager cmd objType objName attrs)), rest)"
  by (simp add: Manager_msg_def ReadManagerBody_def message_simps)

lemma ModifyJob_received:
  "small_string user \<Longrightarrow> small_string jobID \<Longrightarrow> valid_attrs attrs \<Longrightarrow>
   readMessage (ModifyJob_msg user jobID attrs @ rest) =
     (Inr (IncomingBatch (batch_hdr BatchReqModifyJob user) (RModifyJob jobID attrs)), rest)"
  by (simp add: ModifyJob_msg_def ReadModifyJobBody_def message_simps)

lemma RunJob_received:
  "small_string user \<Longrightarrow> small_string jobID \<Longrightarrow> small_string dest \<Longrightarrow>
   readMessage (RunJob_msg user jobID dest @ rest) =
     (Inr (IncomingBatch (batch_hdr BatchReqRunJob user) (RRunJob jobID dest)), rest)"
  by (simp add: RunJob_msg_def ReadRunJobBody_def message_simps)

lemma MoveJob_received:
  "small_string user \<Longrightarrow> small_string jobID \<Longrightarrow> small_string dest \<Longrightarrow>
   readMessage (MoveJob_msg user jobID dest @ rest) =
     (Inr (IncomingBatch (batch_hdr BatchReqMoveJob user) (RMoveJob jobID dest)), rest)"
  by (simp add: MoveJob_msg_def ReadMoveJobBody_def message_simps)

lemma RerunJob_received:
  "small_string user \<Longrightarrow> small_string jobID \<Longrightarrow>
   readMessage (RerunJob_msg user jobID force @ rest) =
     (Inr (IncomingBatch (batch_hdr BatchReqRerun user) (RRerun jobID)), rest)"
  by (simp add: RerunJob_msg_def message_simps)

lemma OrderJob_received:
  "small_string user \<Longrightarrow> small_string jobID \<Longrightarrow> small_string jobID2 \<Longrightarrow>
   readMessage (OrderJob_msg user jobID jobID2 @ rest) =
     (Inr (IncomingBatch (batch_hdr BatchReqOrderJob user) (ROrderJob jobID jobID2)), rest)"
  by (simp add: OrderJob_msg_def message_simps)

lemma deleteJob_received:
  "small_string user \<Longrightarrow> small_string jobID \<Longrightarrow>
   readMessage (deleteJob_msg user jobID [] @ rest) =
     (Inr (IncomingBatch (batch_hdr BatchReqDeleteJob user) (RDeleteJob jobID)), rest)"
  by (simp add: deleteJob_msg_def ReadDeleteJobBody_def message_simps)

lemma status_received:
  "small_string user \<Longrightarrow> small_string ident \<Longrightarrow>
   readMessage (status_msg user BatchReqStatusJob ident @ rest) =
     (Inr (IncomingBatch (batch_hdr BatchReqStatusJob user) (RStatusJob ident)), rest)"
  by (simp add: status_msg_def ReadStatusBody_def message_simps)

lemma authenticate_received:
  "small_string user \<Longrightarrow> field_int ts \<Longrightarrow> small_string token \<Longrightarrow>
   readMessage (authenticate_msg user ts token @ rest) =
     (Inr (IncomingBatch (batch_hdr BatchReqAuthToken user) (RAuthToken (uint64 ts) token)), rest)"
  by (simp add: authenticate_msg_def message_simps ignoreR_def [of ReadReqExtend])

section \<open>Properties of the wire protocol\<close>

text \<open>
C21: Signed integers survive the wire: for every 64-bit integer, the least one included (whose
negation overflows), \<^verbatim>\<open>ReadInt\<close> returns from what \<^verbatim>\<open>WriteInt\<close> wrote exactly that integer and leaves
the bytes behind it untouched.
\<close>

theorem int_round_trip:
  assumes "is_int64 v"
  shows "ReadInt (WriteInt v @ rest) = (Inr v, rest)"
  using assms by (rule ReadInt_WriteInt)

theorem int_round_trip_witness:
  "ReadInt (WriteInt (- 9223372036854775808) @ ''+5'') = (Inr (- 9223372036854775808), ''+5'')"
  by (rule int_round_trip) (simp_all add: min_int64_def max_int64_def)

text \<open>
C22: Unsigned integers survive the wire exactly when they are below 2 to the 63: \<^verbatim>\<open>ReadUint\<close> parses
with the signed \<^verbatim>\<open>ParseInt\<close>, so a larger value that \<^verbatim>\<open>WriteUint\<close> wrote is a range error.
\<close>

theorem uint_round_trip_exact:
  "ReadUint (WriteUint v @ rest) =
     (if unat v < 2 ^ 63 then (Inr v, rest)
      else (Inl (Wrapped ''dis: ReadUint'' (ParseDigits ErrRange)), rest))"
  by (rule ReadUint_WriteUint)

text \<open>
C23: Attribute lists survive the wire: the server's and the client's \<^verbatim>\<open>ReadSvrAttrl\<close> return the list
that \<^verbatim>\<open>WriteSvrAttrl\<close> wrote, and the MOM's \<^verbatim>\<open>SkipSvrAttrl\<close> consumes the same bytes.
\<close>

theorem attribute_list_round_trip:
  assumes "valid_attrs attrs"
  shows "ReadSvrAttrl (WriteSvrAttrl attrs @ rest) = (Inr attrs, rest) \<and>
    cliReadSvrAttrl (WriteSvrAttrl attrs @ rest) = (Inr attrs, rest) \<and>
    SkipSvrAttrl (WriteSvrAttrl attrs @ rest) = (Inr (), rest)"
proof -
  have read: "ReadSvrAttrl (WriteSvrAttrl attrs @ rest) = (Inr attrs, rest)"
    using assms by (rule ReadSvrAttrl_WriteSvrAttrl)
  then obtain cnt t where "ReadUint (WriteSvrAttrl attrs @ rest) = (Inr cnt, t)"
    and "repeatR (unat cnt) ReadAttr t = (Inr attrs, rest)"
    by (auto simp: ReadSvrAttrl_def makeSlice_def dest!: bindR_InrD split: if_splits)
  moreover have "\<exists>ys. repeatR (unat cnt) SkipAttr t = (Inr ys, rest)"
    using calculation(2) by (rule repeatR_simulates [rotated]) (blast dest: SkipAttr_ReadAttr)
  ultimately have "SkipSvrAttrl (WriteSvrAttrl attrs @ rest) = (Inr (), rest)"
    by (auto simp: SkipSvrAttrl_def bindR_def wrapR_def returnR_def)
  with read assms show ?thesis by (simp add: cli_attrs.client.round_trip)
qed

theorem attribute_list_round_trip_witness:
  "ReadSvrAttrl (WriteSvrAttrl [holdAttr ''u''] @ ''+0'') = (Inr [holdAttr ''u''], ''+0'')"
  using attribute_list_round_trip [of "[holdAttr ''u'']" "''+0''"] by simp

text \<open>
C20: The replies the server writes are the replies the command-line client reads: code, auxiliary
code and choice are returned unchanged, and the data exactly for the choices that carry data.
\<close>

theorem reply_round_trip:
  assumes "is_int64 code" "is_int64 auxCode" "field_int choice" "small_string dat"
  shows "readReply (WriteReply code auxCode choice dat @ rest) =
     (Inr (code, auxCode, choice, if reply_has_data choice then dat else []), rest)"
  using assms by (rule readReply_WriteReply)

theorem reply_round_trip_witness:
  "readReply (SendErrorReply PbsePerm 0 @ ''x'') = (Inr (15007, 0, 1, []), ''x'')"
  using reply_round_trip [of 15007 0 1 "[]" "''x''"]
  by (simp add: SendErrorReply_def reply_has_data_def min_int64_def max_int64_def)





text \<open>
C19: The status reply of the server is read back by the client as the same list of objects, with
their types, names and attributes.
\<close>

theorem status_reply_round_trip:
  assumes "list_all valid_object objects" "48 * int (length objects) \<le> max_alloc"
  shows "readStatusReply (WriteStatusReply objects @ rest) = (Inr (Inr objects), rest)"
proof -
  let ?n = "of_nat (length objects) :: 64 word"
  have le: "int (length objects) \<le> max_int64"
    using assms(2) by (simp add: max_alloc_def max_int64_def)
  note n = unat_of_nat_small [OF le] and u = uint_of_nat_small [OF le]
  have small: "small_uint ?n" using le by simp
  have "makeSlice 48 ?n s = (Inr (), s)" for s
    using assms(2) by (simp only: makeSlice_def u) simp
  moreover have "repeatR (unat ?n) readStatusObject
      (concat (map WriteStatusObject objects) @ rest) = (Inr objects, rest)"
    using status_codec.round_trip_list [OF assms(1)] n by simp
  ultimately show ?thesis
    using small
    by (simp add: readStatusReply_def WriteStatusReply_def dis_rt max_int64_def min_int64_def
        bindR_def [of "makeSlice _ _"] bindR_def [of "repeatR _ _"] returnR_def del: of_nat_Suc)
qed

theorem status_reply_round_trip_witness:
  "readStatusReply (WriteStatusReply
      [\<lparr>so_Type = MgrObjJob, so_Name = ''7.srv'', so_Attrs = [holdAttr ''n'']\<rparr>] @ ''x'') =
   (Inr (Inr [\<lparr>so_Type = 3, so_Name = ''7.srv'', so_Attrs = [holdAttr ''n'']\<rparr>]), ''x'')"
  by (rule status_reply_round_trip) (simp_all add: valid_object_def max_int64_def max_alloc_def)

definition obitAttr :: "string \<times> string \<Rightarrow> SvrAttrl" where
  "obitAttr nv = \<lparr>sa_Name = ''resources_used'', sa_HasResc = True, sa_Resc = fst nv,
     sa_Value = snd nv, sa_Op = 1\<rparr>"

lemma SendJobObit_attrs:
  "SendJobObit jobID ex res =
     writeHeader ''root'' BatchReqJobObit @ WriteString jobID @ WriteInt ex @
     WriteSvrAttrl (map obitAttr res) @ WriteUint 0"
proof -
  have "(of_nat (length ''resources_used'' + length n + length v + 3) :: 64 word) =
      uint64 (attrSize (obitAttr (n, v)))" for n v
    by (simp add: attrSize_def obitAttr_def)
  then show ?thesis
    by (auto simp: SendJobObit_def WriteRequestHeader_def writeHeader_def WriteSvrAttrl_def
        WriteAttr_def obitAttr_def comp_def intro!: arg_cong [of _ _ concat])
qed

text \<open>
C25: The messages of the MOMs reach the server: a status update is read as the IS message with its
ports and items in order, and a job obituary as the obituary of that job with its exit status and
one \<^verbatim>\<open>resources_used\<close> attribute per resource.
\<close>

theorem mom_messages_received:
  assumes "field_int momPort" "field_int rmPort" "small_string (''node='' @ host)"
    and "list_all small_string items" "''END_OF_LINE'' \<notin> set items"
    and "small_string jobID" "is_int64 ex" "valid_attrs (map obitAttr res)"
  shows "readMessage (SendStatusUpdate momPort rmPort host first items @ rest) =
      (Inr (IncomingIS \<lparr>is_Version = 3, is_Command = 4, is_MomPort = momPort, is_RmPort = rmPort,
         is_Items = (''node='' @ host) # (if first then [''first_update=true''] else []) @ items\<rparr>),
       rest) \<and>
    readMessage (SendJobObit jobID ex res @ rest) =
      (Inr (IncomingBatch (batch_hdr BatchReqJobObit ''root'') (RJobObit jobID ex (map obitAttr res))),
       rest)"
proof
  let ?items = "(''node='' @ host) # (if first then [''first_update=true''] else []) @ items"
  have "readISItems (concat (map WriteString ?items) @ WriteString ''END_OF_LINE'' @ rest) =
      (Inr ?items, rest)"
    using assms by (intro readISItems_WriteString) auto
  moreover have "concat (map WriteString ?items) =
      WriteString (''node='' @ host) @ (if first then WriteString ''first_update=true'' else []) @
      concat (map WriteString items)"
    by simp
  ultimately have items: "readISItems (WriteString (''node='' @ host) @
        (if first then WriteString ''first_update=true'' else []) @ concat (map WriteString items) @
        WriteString ''END_OF_LINE'' @ rest) = (Inr ?items, rest)"
    by (simp only: append_assoc)
  have proto: "ReadUint (WriteInt 4 @ r) = (Inr 4, r)" for r
    using WriteInt_nonneg [of 4] by (simp add: max_int64_def dis_rt)
  have "is_int64 3" "is_int64 4" by (simp_all add: max_int64_def min_int64_def)
  with items proto assms show "readMessage (SendStatusUpdate momPort rmPort host first items @ rest) =
      (Inr (IncomingIS \<lparr>is_Version = 3, is_Command = 4, is_MomPort = momPort, is_RmPort = rmPort,
         is_Items = ?items\<rparr>), rest)"
    by (simp add: readMessage_def SendStatusUpdate_def ReadISMessage_def dis_rt
        bindR_def [of readISItems] returnR_def del: append.append_Cons)
next
  have "ReadReqExtend (WriteUint 0 @ rest) = (Inr [], rest)"
    by (simp add: ReadReqExtend_def dis_rt returnR_def)
  with assms show "readMessage (SendJobObit jobID ex res @ rest) =
      (Inr (IncomingBatch (batch_hdr BatchReqJobObit ''root'') (RJobObit jobID ex (map obitAttr res))),
       rest)"
    by (simp add: SendJobObit_attrs ReadJobObit_def message_simps)
qed

theorem mom_messages_received_witness:
  "readMessage (SendStatusUpdate 15002 15003 ''n1'' True [''ncpus=4'', ''state=free''] @ []) =
      (Inr (IncomingIS \<lparr>is_Version = 3, is_Command = 4, is_MomPort = 15002, is_RmPort = 15003,
         is_Items = [''node=n1'', ''first_update=true'', ''ncpus=4'', ''state=free'']\<rparr>), [])"
  using mom_messages_received [of 15002 15003 "''n1''" "[''ncpus=4'', ''state=free'']" "''7.srv''" 0
    "[(''mem'', ''4kb'')]" True "[]"]
  by (simp add: max_int64_def min_int64_def valid_attrs_def valid_attr_def obitAttr_def max_alloc_def)

text \<open>
C26: A status message that ends without \<^verbatim>\<open>END_OF_LINE\<close> is refused as a whole. The loop of
\<^verbatim>\<open>ReadISMessage\<close> means to accept the end of the stream in its place (\<^verbatim>\<open>err == io.EOF\<close>), but
\<^verbatim>\<open>ReadString\<close> wraps every error, so that test never holds.
\<close>

theorem unterminated_status_refused:
  assumes "list_all small_string items" "''END_OF_LINE'' \<notin> set items"
  shows "readISItems (concat (map WriteString items)) =
    (Inl (Wrapped ''read IS item''
       (Wrapped ''dis: ReadString length'' (Wrapped ''dis: ReadUint'' EOF))), [])"
  using assms
proof (induction items)
  case Nil
  show ?case
    by (subst readISItems.simps)
      (simp add: ReadString_def ReadUint_def bindR_def wrapR_def wrapErr_def disrsi.simps)
next
  case (Cons x items)
  then show ?case by (subst readISItems.simps) (simp add: dis_rt eq_commute [of x])
qed

theorem unterminated_status_refused_witness:
  "readISItems (WriteString ''state=free'' @ []) =
    (Inl (Wrapped ''read IS item''
       (Wrapped ''dis: ReadString length'' (Wrapped ''dis: ReadUint'' EOF))), [])"
  using unterminated_status_refused [of "[''state=free'']"] by simp

end
