(* ===== verification/Job_Model.thy ===== *)
theory Job_Model
  imports Go_Strings
begin

text \<open>
  The job record and its operations, \<^verbatim>\<open>src/internal/job/job.go\<close>. A \<^verbatim>\<open>time.Time\<close> is None when it is the
  zero time and otherwise the seconds it stands for; an operation that reads the clock takes the
  current time as an argument. The lock of the record is left out: an operation is one step.
\<close>

type_synonym gotime = "int option"

section \<open>States\<close>

abbreviation (input) StateTransit :: int where "StateTransit \<equiv> 0"
abbreviation (input) StateQueued :: int where "StateQueued \<equiv> 1"
abbreviation (input) StateHeld :: int where "StateHeld \<equiv> 2"
abbreviation (input) StateWaiting :: int where "StateWaiting \<equiv> 3"
abbreviation (input) StateRunning :: int where "StateRunning \<equiv> 4"
abbreviation (input) StateExiting :: int where "StateExiting \<equiv> 5"
abbreviation (input) StateComplete :: int where "StateComplete \<equiv> 6"
abbreviation (input) StateProvisioning :: int where "StateProvisioning \<equiv> 7"

abbreviation (input) SubstateTransitQ :: int where "SubstateTransitQ \<equiv> 0"
abbreviation (input) SubstateQueued :: int where "SubstateQueued \<equiv> 10"
abbreviation (input) SubstateHeld :: int where "SubstateHeld \<equiv> 20"
abbreviation (input) SubstateWaiting :: int where "SubstateWaiting \<equiv> 30"
abbreviation (input) SubstateRunning :: int where "SubstateRunning \<equiv> 42"
abbreviation (input) SubstateExiting :: int where "SubstateExiting \<equiv> 50"
abbreviation (input) SubstateComplete :: int where "SubstateComplete \<equiv> 59"

definition StateNames :: "int \<Rightarrow> string option" where
  "StateNames s =
     (if s = StateTransit then Some ''T'' else if s = StateQueued then Some ''Q''
      else if s = StateHeld then Some ''H'' else if s = StateWaiting then Some ''W''
      else if s = StateRunning then Some ''R'' else if s = StateExiting then Some ''E''
      else if s = StateComplete then Some ''C'' else if s = StateProvisioning then Some ''D''
      else None)"

section \<open>Jobs\<close>

record Job =
  j_ID :: string
  j_Name :: string
  j_Owner :: string
  j_Queue :: string
  j_Server :: string
  j_HashName :: string
  j_State :: int
  j_Substate :: int
  j_ExecHost :: string
  j_ExecPort :: int
  j_SessionID :: int
  j_ExitStatus :: int
  j_CreateTime :: gotime
  j_QueueTime :: gotime
  j_StartTime :: gotime
  j_CompTime :: gotime
  j_ModifyTime :: gotime
  j_MTime :: gotime
  j_ExecutionTime :: gotime
  j_Script :: string
  j_ScriptFile :: string
  j_ScriptArgs :: string
  j_StdoutPath :: string
  j_StderrPath :: string
  j_JoinPath :: string
  j_Checkpoint :: string
  j_ResourceReq :: "string smap"
  j_ResourceUsed :: "string smap"
  j_EUser :: string
  j_EGroup :: string
  j_Shell :: string
  j_UserList :: string
  j_Account :: string
  j_Attrs :: "string smap"
  j_VariableList :: "string smap"
  j_KeepFiles :: string
  j_FaultTolerant :: string
  j_JobRadix :: string
  j_ReqVersion :: string
  j_Priority :: int
  j_Rerunnable :: string
  j_MailPoints :: string
  j_MailUsers :: string
  j_Comment :: string
  j_DependList :: string
  j_StageinList :: string
  j_StageoutList :: string
  j_GroupList :: string
  j_JobArrayReq :: string
  j_InitWorkDir :: string
  j_RootDir :: string
  j_NodeCount :: int
  j_TaskCount :: int
  j_NeedNodes :: string
  j_ProvisionVM :: string
  j_ProvisionNode :: string
  j_Modified :: bool
  j_FromRoute :: bool
  j_HoldTypes :: string
  j_Interactive :: bool

text \<open>The zero value of the struct, which a composite literal starts from.\<close>

definition zeroJob :: Job where
  "zeroJob =
     \<lparr>j_ID = [], j_Name = [], j_Owner = [], j_Queue = [], j_Server = [], j_HashName = [],
      j_State = 0, j_Substate = 0, j_ExecHost = [], j_ExecPort = 0, j_SessionID = 0,
      j_ExitStatus = 0, j_CreateTime = None, j_QueueTime = None, j_StartTime = None,
      j_CompTime = None, j_ModifyTime = None, j_MTime = None, j_ExecutionTime = None,
      j_Script = [], j_ScriptFile = [], j_ScriptArgs = [], j_StdoutPath = [], j_StderrPath = [],
      j_JoinPath = [], j_Checkpoint = [], j_ResourceReq = [], j_ResourceUsed = [], j_EUser = [],
      j_EGroup = [], j_Shell = [], j_UserList = [], j_Account = [], j_Attrs = [],
      j_VariableList = [], j_KeepFiles = [], j_FaultTolerant = [], j_JobRadix = [],
      j_ReqVersion = [], j_Priority = 0, j_Rerunnable = [], j_MailPoints = [], j_MailUsers = [],
      j_Comment = [], j_DependList = [], j_StageinList = [], j_StageoutList = [],
      j_GroupList = [], j_JobArrayReq = [], j_InitWorkDir = [], j_RootDir = [], j_NodeCount = 0,
      j_TaskCount = 0, j_NeedNodes = [], j_ProvisionVM = [], j_ProvisionNode = [],
      j_Modified = False, j_FromRoute = False, j_HoldTypes = [], j_Interactive = False\<rparr>"

definition NewJob :: "int \<Rightarrow> string \<Rightarrow> string \<Rightarrow> string \<Rightarrow> Job" where
  "NewJob now ident queue server =
     zeroJob\<lparr>j_ID := ident, j_Queue := queue, j_Server := server, j_State := StateTransit,
       j_Substate := SubstateTransitQ, j_CreateTime := Some now\<rparr>"

definition StateName :: "Job \<Rightarrow> string" where
  "StateName j = (case StateNames (j_State j) of Some n \<Rightarrow> n | None \<Rightarrow> ''?'')"

definition IsRunning :: "Job \<Rightarrow> bool" where
  "IsRunning j \<longleftrightarrow> j_State j = StateRunning"

definition IsQueued :: "Job \<Rightarrow> bool" where
  "IsQueued j \<longleftrightarrow> j_State j = StateQueued"

definition IsProvisioning :: "Job \<Rightarrow> bool" where
  "IsProvisioning j \<longleftrightarrow> j_State j = StateProvisioning"

definition IsComplete :: "Job \<Rightarrow> bool" where
  "IsComplete j \<longleftrightarrow> j_State j = StateComplete"

definition CloneForArray :: "int \<Rightarrow> Job \<Rightarrow> int \<Rightarrow> string \<Rightarrow> Job" where
  "CloneForArray now j index server =
     \<lparr>j_ID = j_ID j, j_Name = j_Name j, j_Owner = j_Owner j, j_Queue = j_Queue j,
      j_Server = server, j_HashName = j_HashName j, j_State = StateTransit,
      j_Substate = SubstateTransitQ, j_ExecHost = j_ExecHost j, j_ExecPort = j_ExecPort j,
      j_SessionID = j_SessionID j, j_ExitStatus = j_ExitStatus j, j_CreateTime = Some now,
      j_QueueTime = None, j_StartTime = None, j_CompTime = None, j_ModifyTime = None,
      j_MTime = None, j_ExecutionTime = None, j_Script = j_Script j,
      j_ScriptFile = j_ScriptFile j, j_ScriptArgs = j_ScriptArgs j,
      j_StdoutPath = j_StdoutPath j, j_StderrPath = j_StderrPath j, j_JoinPath = j_JoinPath j,
      j_Checkpoint = j_Checkpoint j, j_ResourceReq = j_ResourceReq j,
      j_ResourceUsed = j_ResourceUsed j, j_EUser = j_EUser j, j_EGroup = j_EGroup j,
      j_Shell = j_Shell j, j_UserList = j_UserList j, j_Account = j_Account j,
      j_Attrs = j_Attrs j, j_VariableList = j_VariableList j, j_KeepFiles = j_KeepFiles j,
      j_FaultTolerant = j_FaultTolerant j, j_JobRadix = j_JobRadix j,
      j_ReqVersion = j_ReqVersion j, j_Priority = j_Priority j, j_Rerunnable = j_Rerunnable j,
      j_MailPoints = j_MailPoints j, j_MailUsers = j_MailUsers j, j_Comment = j_Comment j,
      j_DependList = j_DependList j, j_StageinList = j_StageinList j,
      j_StageoutList = j_StageoutList j, j_GroupList = j_GroupList j,
      j_JobArrayReq = FormatInt index, j_InitWorkDir = j_InitWorkDir j, j_RootDir = j_RootDir j,
      j_NodeCount = j_NodeCount j, j_TaskCount = j_TaskCount j, j_NeedNodes = j_NeedNodes j,
      j_ProvisionVM = j_ProvisionVM j, j_ProvisionNode = j_ProvisionNode j, j_Modified = True,
      j_FromRoute = j_FromRoute j, j_HoldTypes = j_HoldTypes j, j_Interactive = j_Interactive j\<rparr>"

definition SetState :: "int \<Rightarrow> int \<Rightarrow> int \<Rightarrow> Job \<Rightarrow> Job" where
  "SetState now state substate j =
     (let j1 = j\<lparr>j_State := state, j_Substate := substate, j_MTime := Some now, j_Modified := True\<rparr>
      in if state = StateQueued then
           (if j_QueueTime j1 = None then j1\<lparr>j_QueueTime := Some now\<rparr> else j1)
         else if state = StateRunning then j1\<lparr>j_StartTime := Some now\<rparr>
         else if state = StateComplete then j1\<lparr>j_CompTime := Some now\<rparr>
         else j1)"

section \<open>What a state change keeps\<close>

lemma SetState_simps [simp]:
  "j_State (SetState now s ss j) = s"
  "j_Substate (SetState now s ss j) = ss"
  "j_ID (SetState now s ss j) = j_ID j"
  "j_Queue (SetState now s ss j) = j_Queue j"
  "j_Owner (SetState now s ss j) = j_Owner j"
  "j_ExecHost (SetState now s ss j) = j_ExecHost j"
  "j_ResourceReq (SetState now s ss j) = j_ResourceReq j"
  "j_HoldTypes (SetState now s ss j) = j_HoldTypes j"
  "j_ExecutionTime (SetState now s ss j) = j_ExecutionTime j"
  "j_DependList (SetState now s ss j) = j_DependList j"
  "j_EGroup (SetState now s ss j) = j_EGroup j"
  by (simp_all add: SetState_def Let_def)

end
