(* ===== verification/Job_Manager.thy ===== *)
theory Job_Manager
  imports Job_Model
begin

text \<open>
  The job manager, \<^verbatim>\<open>src/internal/job/manager.go\<close>: the jobs by identifier, the identifiers it gives
  out and the counters it keeps per state. The manager implements the \<open>registry\<close> interface; its
  counters agree with the jobs as long as states change through the manager (\<open>jm_step\<close>).
\<close>

record JobManager =
  jm_jobs :: "Job smap"
  jm_nextJobID :: int
  jm_serverName :: string
  jm_stateCounts :: "int list"

definition NewJobManager :: "string \<Rightarrow> int \<Rightarrow> JobManager" where
  "NewJobManager serverName startingJobID =
     \<lparr>jm_jobs = [], jm_nextJobID = startingJobID, jm_serverName = serverName,
      jm_stateCounts = replicate 7 0\<rparr>"

definition NextJobID :: "JobManager \<Rightarrow> string \<times> JobManager" where
  "NextJobID m =
     (FormatInt (jm_nextJobID m) @ ''.'' @ jm_serverName m,
      m\<lparr>jm_nextJobID := wrap64 (jm_nextJobID m + 1)\<rparr>)"

definition GetNextJobIDNum :: "JobManager \<Rightarrow> int" where
  "GetNextJobIDNum m = jm_nextJobID m"

definition SetNextJobIDNum :: "JobManager \<Rightarrow> int \<Rightarrow> JobManager" where
  "SetNextJobIDNum m n = m\<lparr>jm_nextJobID := n\<rparr>"

definition AddJob :: "JobManager \<Rightarrow> Job \<Rightarrow> JobManager" where
  "AddJob m j =
     m\<lparr>jm_jobs := mput (j_ID j) j (jm_jobs m),
       jm_stateCounts := incr_at (j_State j) (jm_stateCounts m)\<rparr>"

definition RemoveJob :: "JobManager \<Rightarrow> string \<Rightarrow> JobManager" where
  "RemoveJob m ident = (case mget (jm_jobs m) ident of
      None \<Rightarrow> m
    | Some j \<Rightarrow> m\<lparr>jm_stateCounts := decr_at (j_State j) (jm_stateCounts m),
                  jm_jobs := mdel ident (jm_jobs m)\<rparr>)"

text \<open>The scan over the live jobs for a short identifier; the first one the loop meets wins.\<close>

definition shortMatch :: "string \<Rightarrow> string \<Rightarrow> string \<Rightarrow> bool" where
  "shortMatch ident serverName stored = (case cut CHR ''.'' stored of
      Some (num, host) \<Rightarrow> num = ident \<and> EqualFold host serverName
    | None \<Rightarrow> False)"

definition GetJob :: "JobManager \<Rightarrow> string \<Rightarrow> Job option" where
  "GetJob m ident0 =
     (let ident = TrimSpace ident0 in
      case mget (jm_jobs m) ident of
        Some j \<Rightarrow> Some j
      | None \<Rightarrow>
          if CHR ''.'' \<in> set ident then None
          else (case mget (jm_jobs m) (ident @ ''.'' @ jm_serverName m) of
                  Some j \<Rightarrow> Some j
                | None \<Rightarrow>
                    map_option snd
                      (find (\<lambda>(stored, _). shortMatch ident (jm_serverName m) stored) (jm_jobs m))))"

definition UpdateJobState :: "int \<Rightarrow> JobManager \<Rightarrow> string \<Rightarrow> int \<Rightarrow> int \<Rightarrow> JobManager" where
  "UpdateJobState now m ident newState newSubstate = (case mget (jm_jobs m) ident of
      None \<Rightarrow> m
    | Some j \<Rightarrow>
        m\<lparr>jm_jobs := mput ident (SetState now newState newSubstate j) (jm_jobs m),
          jm_stateCounts := incr_at newState (decr_at (j_State j) (jm_stateCounts m))\<rparr>)"

definition AllJobs :: "JobManager \<Rightarrow> Job list" where
  "AllJobs m = map snd (jm_jobs m)"

definition QueuedJobs :: "JobManager \<Rightarrow> Job list" where
  "QueuedJobs m = filter (\<lambda>j. j_State j = StateQueued) (AllJobs m)"

definition RunningJobs :: "JobManager \<Rightarrow> Job list" where
  "RunningJobs m = filter (\<lambda>j. j_State j = StateRunning \<or> j_State j = StateExiting) (AllJobs m)"

definition JobCount :: "JobManager \<Rightarrow> int" where
  "JobCount m = int (length (jm_jobs m))"

definition StateCount :: "JobManager \<Rightarrow> int \<Rightarrow> int" where
  "StateCount m state =
     (if 0 \<le> state \<and> state < int (length (jm_stateCounts m)) then jm_stateCounts m ! nat state
      else 0)"

definition CountByState :: "JobManager \<Rightarrow> int \<Rightarrow> int" where
  "CountByState m state = mcount (\<lambda>j. j_State j = state) (jm_jobs m)"

definition JobsInQueue :: "JobManager \<Rightarrow> string \<Rightarrow> Job list" where
  "JobsInQueue m queueName = filter (\<lambda>j. j_Queue j = queueName) (AllJobs m)"

definition CompletedJobs :: "JobManager \<Rightarrow> Job list" where
  "CompletedJobs m = filter (\<lambda>j. j_State j = StateComplete) (AllJobs m)"

definition CountJobsByOwner :: "JobManager \<Rightarrow> string \<Rightarrow> int" where
  "CountJobsByOwner m owner = mcount (\<lambda>j. j_Owner j = owner) (jm_jobs m)"

definition CountRunningByOwner :: "JobManager \<Rightarrow> string \<Rightarrow> int" where
  "CountRunningByOwner m owner =
     mcount (\<lambda>j. j_State j = StateRunning \<and> j_Owner j = owner) (jm_jobs m)"

definition CountRunningByGroup :: "JobManager \<Rightarrow> string \<Rightarrow> int" where
  "CountRunningByGroup m grp =
     mcount (\<lambda>j. j_State j = StateRunning \<and> j_EGroup j = grp) (jm_jobs m)"

definition CountByStateInQueue :: "JobManager \<Rightarrow> string \<Rightarrow> int list \<Rightarrow> int" where
  "CountByStateInQueue m queueName states =
     mcount (\<lambda>j. j_Queue j = queueName \<and> j_State j \<in> set states) (jm_jobs m)"

definition CountQueuedByOwnerInQueue :: "JobManager \<Rightarrow> string \<Rightarrow> string \<Rightarrow> int" where
  "CountQueuedByOwnerInQueue m queueName owner =
     mcount (\<lambda>j. j_Queue j = queueName \<and>
        (j_State j = StateQueued \<or> j_State j = StateProvisioning) \<and> j_Owner j = owner) (jm_jobs m)"

definition CountRunningByOwnerInQueue :: "JobManager \<Rightarrow> string \<Rightarrow> string \<Rightarrow> int" where
  "CountRunningByOwnerInQueue m queueName owner =
     mcount (\<lambda>j. j_Queue j = queueName \<and> j_State j = StateRunning \<and> j_Owner j = owner) (jm_jobs m)"

section \<open>The manager as a registry\<close>

definition jobs_ok :: "JobManager \<Rightarrow> bool" where
  "jobs_ok m \<longleftrightarrow>
     is_map (jm_jobs m) \<and> (\<forall>k j. mget (jm_jobs m) k = Some j \<longrightarrow> j_ID j = k)"

definition lookupJob :: "JobManager \<Rightarrow> string \<Rightarrow> Job option" where
  "lookupJob m ident = mget (jm_jobs m) ident"

text \<open>A change to the job object that the manager holds under an identifier.\<close>

definition updJob :: "string \<Rightarrow> (Job \<Rightarrow> Job) \<Rightarrow> JobManager \<Rightarrow> JobManager" where
  "updJob ident f m = (case mget (jm_jobs m) ident of
      Some j \<Rightarrow> m\<lparr>jm_jobs := mput ident (f j) (jm_jobs m)\<rparr>
    | None \<Rightarrow> m)"

lemma lookupJob_updJob:
  "lookupJob (updJob i f m) k = (if k = i then map_option f (lookupJob m i) else lookupJob m k)"
  by (simp add: updJob_def lookupJob_def map_laws split: option.split)

lemma jobs_ok_updJob: "jobs_ok m \<Longrightarrow> (\<And>j. j_ID (f j) = j_ID j) \<Longrightarrow> jobs_ok (updJob i f m)"
  by (auto simp: jobs_ok_def updJob_def map_laws split: option.splits)

interpretation job_registry: registry lookupJob AddJob RemoveJob j_ID jobs_ok
  by unfold_locales
    (auto simp: lookupJob_def AddJob_def RemoveJob_def jobs_ok_def map_laws split: option.splits if_splits)

section \<open>Counters\<close>

definition counters_ok :: "JobManager \<Rightarrow> bool" where
  "counters_ok m \<longleftrightarrow>
     length (jm_stateCounts m) = 7 \<and>
     (\<forall>i < 7. jm_stateCounts m ! i = CountByState m (int i))"

definition ids_fresh :: "JobManager \<Rightarrow> bool" where
  "ids_fresh m \<longleftrightarrow>
     (\<forall>n. jm_nextJobID m \<le> n \<longrightarrow> lookupJob m (FormatInt n @ ''.'' @ jm_serverName m) = None)"

text \<open>
  The ways the server changes the manager: a submission takes the next identifier and adds a job
  under it; other jobs (the tasks of an array) come under identifiers of their own; jobs are
  removed, and change state through \<open>UpdateJobState\<close>.
\<close>

inductive jm_step :: "JobManager \<Rightarrow> JobManager \<Rightarrow> bool" where
  submit: "jm_nextJobID m < max_int64 \<Longrightarrow> j_ID j = fst (NextJobID m) \<Longrightarrow>
     jm_step m (AddJob (snd (NextJobID m)) j)"
| add: "lookupJob m (j_ID j) = None \<Longrightarrow>
     (\<And>n. jm_nextJobID m \<le> n \<Longrightarrow> j_ID j \<noteq> FormatInt n @ ''.'' @ jm_serverName m) \<Longrightarrow>
     jm_step m (AddJob m j)"
| remove: "jm_step m (RemoveJob m ident)"
| update: "jm_step m (UpdateJobState now m ident s ss)"

inductive jm_reachable :: "string \<Rightarrow> int \<Rightarrow> JobManager \<Rightarrow> bool" for srv start where
  init: "0 \<le> start \<Longrightarrow> jm_reachable srv start (NewJobManager srv start)"
| step: "jm_reachable srv start m \<Longrightarrow> jm_step m m' \<Longrightarrow> jm_reachable srv start m'"

lemma counters_ok_AddJob:
  "counters_ok m \<Longrightarrow> lookupJob m (j_ID j) = None \<Longrightarrow> counters_ok (AddJob m j)"
  by (auto simp: counters_ok_def AddJob_def CountByState_def lookupJob_def counter_nth mcount_laws)

lemma counters_ok_RemoveJob:
  assumes "counters_ok m" "jobs_ok m"
  shows "counters_ok (RemoveJob m ident)"
proof (cases "mget (jm_jobs m) ident")
  case (Some j)
  then have "0 < mcount (\<lambda>j'. j_State j' = j_State j) (jm_jobs m)" by (rule mcount_pos) simp
  then show ?thesis
    using assms Some
    by (auto simp: counters_ok_def RemoveJob_def CountByState_def jobs_ok_def counter_nth mcount_laws)
qed (use assms in \<open>simp add: RemoveJob_def\<close>)

lemma counters_ok_UpdateJobState:
  assumes "counters_ok m" "jobs_ok m"
  shows "counters_ok (UpdateJobState now m ident s ss)"
proof (cases "mget (jm_jobs m) ident")
  case (Some j)
  then have "0 < mcount (\<lambda>j'. j_State j' = j_State j) (jm_jobs m)" by (rule mcount_pos) simp
  then show ?thesis
    using assms Some
    by (auto simp: counters_ok_def UpdateJobState_def CountByState_def jobs_ok_def counter_nth
        mcount_laws)
qed (use assms in \<open>simp add: UpdateJobState_def\<close>)

lemma jobs_ok_UpdateJobState: "jobs_ok m \<Longrightarrow> jobs_ok (UpdateJobState now m ident s ss)"
  by (auto simp: jobs_ok_def UpdateJobState_def map_laws split: option.splits)

lemma jobs_ok_NextJobID [simp]: "jobs_ok (snd (NextJobID m)) = jobs_ok m"
  by (simp add: jobs_ok_def NextJobID_def)

lemma counters_ok_NextJobID [simp]: "counters_ok (snd (NextJobID m)) = counters_ok m"
  by (simp add: counters_ok_def NextJobID_def CountByState_def)

lemma lookupJob_NextJobID [simp]: "lookupJob (snd (NextJobID m)) = lookupJob m"
  by (simp add: lookupJob_def NextJobID_def fun_eq_iff)

lemma jm_names [simp]:
  "jm_serverName (AddJob m j) = jm_serverName m" "jm_nextJobID (AddJob m j) = jm_nextJobID m"
  "jm_serverName (RemoveJob m i) = jm_serverName m" "jm_nextJobID (RemoveJob m i) = jm_nextJobID m"
  "jm_serverName (UpdateJobState now m i s ss) = jm_serverName m"
  "jm_nextJobID (UpdateJobState now m i s ss) = jm_nextJobID m"
  by (simp_all add: AddJob_def RemoveJob_def UpdateJobState_def split: option.splits)

lemma lookupJob_UpdateJobState:
  "lookupJob (UpdateJobState now m i s ss) k =
     (if k = i then map_option (SetState now s ss) (lookupJob m i) else lookupJob m k)"
  by (simp add: lookupJob_def UpdateJobState_def map_laws split: option.splits)

definition jm_inv :: "JobManager \<Rightarrow> bool" where
  "jm_inv m \<longleftrightarrow> jobs_ok m \<and> counters_ok m \<and> ids_fresh m \<and> 0 \<le> jm_nextJobID m"

lemma jm_inv_init: "0 \<le> start \<Longrightarrow> jm_inv (NewJobManager srv start)"
  by (auto simp: jm_inv_def jobs_ok_def counters_ok_def ids_fresh_def lookupJob_def
      NewJobManager_def CountByState_def)

lemma jm_inv_step: "jm_step m m' \<Longrightarrow> jm_inv m \<Longrightarrow> jm_inv m'"
proof (induction rule: jm_step.induct)
  case (submit m j)
  let ?m = "snd (NextJobID m)"
  have ok: "jobs_ok ?m" "counters_ok ?m" using submit by (simp_all add: jm_inv_def)
  have new: "lookupJob ?m (j_ID j) = None"
    using submit by (simp add: jm_inv_def ids_fresh_def) (simp add: NextJobID_def)
  have nxt: "jm_nextJobID ?m = jm_nextJobID m + 1"
    using submit by (simp add: NextJobID_def jm_inv_def min_int64_def)
  have "lookupJob ?m (FormatInt n @ ''.'' @ jm_serverName ?m) = None"
    if "jm_nextJobID ?m \<le> n" for n
    using that nxt submit by (simp add: jm_inv_def ids_fresh_def) (simp add: NextJobID_def)
  moreover have "j_ID j \<noteq> FormatInt n @ ''.'' @ jm_serverName ?m" if "jm_nextJobID ?m \<le> n" for n
    using that nxt submit(2) by (auto simp: NextJobID_def)
  ultimately have "ids_fresh (AddJob ?m j)"
    using ok by (simp add: ids_fresh_def job_registry.get_add eq_commute [of _ "j_ID j"])
  then show ?case
    using ok new nxt submit
    by (simp add: jm_inv_def counters_ok_AddJob job_registry.inv_add)
next
  case (add m j)
  then show ?case
    by (auto simp: jm_inv_def ids_fresh_def counters_ok_AddJob job_registry.inv_add
        job_registry.get_add eq_commute [of _ "j_ID j"])
next
  case (remove m ident)
  then show ?case
    by (auto simp: jm_inv_def ids_fresh_def counters_ok_RemoveJob job_registry.inv_remove
        job_registry.get_remove)
next
  case (update now m ident s ss)
  then show ?case
    by (auto simp: jm_inv_def ids_fresh_def counters_ok_UpdateJobState jobs_ok_UpdateJobState
        lookupJob_UpdateJobState)
qed

lemma jm_inv_reachable: "jm_reachable srv start m \<Longrightarrow> jm_inv m"
  by (induction rule: jm_reachable.induct) (auto intro: jm_inv_init jm_inv_step)

section \<open>Finding a job\<close>

lemma find_shortMatch:
  "find (\<lambda>(stored, _). P stored) m = None \<longleftrightarrow> (\<forall>k v. (k, v) \<in> set m \<longrightarrow> \<not> P k)"
  by (auto simp: find_None_iff)

lemma find_shortMatch_Some:
  "find (\<lambda>(stored, _). P stored) m = Some (k, v) \<Longrightarrow> (k, v) \<in> set m \<and> P k"
  by (auto simp: find_Some_iff) (metis nth_mem)

text \<open>The identifiers a request may use for the job stored under \<open>k\<close>.\<close>

definition names_job :: "JobManager \<Rightarrow> string \<Rightarrow> string \<Rightarrow> bool" where
  "names_job m ident k \<longleftrightarrow>
     TrimSpace ident = k \<or>
     CHR ''.'' \<notin> set (TrimSpace ident) \<and>
       (k = TrimSpace ident @ ''.'' @ jm_serverName m \<or>
        shortMatch (TrimSpace ident) (jm_serverName m) k)"

lemma GetJob_sound:
  assumes "jobs_ok m" "GetJob m ident = Some j"
  shows "lookupJob m (j_ID j) = Some j \<and> names_job m ident (j_ID j)"
  using assms
  by (auto simp: GetJob_def jobs_ok_def lookupJob_def names_job_def Let_def
      split: option.splits if_splits dest!: find_shortMatch_Some intro: map_of_is_SomeI)

lemma GetJob_complete:
  assumes "lookupJob m k = Some j" "names_job m ident k"
  shows "GetJob m ident \<noteq> None"
proof
  assume "GetJob m ident = None"
  with assms show False
    by (auto simp: GetJob_def lookupJob_def names_job_def Let_def find_shortMatch
        split: option.splits if_splits dest: map_of_SomeD)
qed

lemma GetJob_dotted:
  "CHR ''.'' \<in> set (TrimSpace ident) \<Longrightarrow> GetJob m ident = lookupJob m (TrimSpace ident)"
  by (simp add: GetJob_def lookupJob_def Let_def split: option.split)

section \<open>Properties of the job manager\<close>


definition oneJobManager :: JobManager where
  "oneJobManager = AddJob (snd (NextJobID (NewJobManager ''s'' 1))) (NewJob 0 ''1.s'' ''q'' ''s'')"

lemma oneJobManager_reachable: "jm_reachable ''s'' 1 oneJobManager"
  unfolding oneJobManager_def
  by (rule jm_reachable.step [OF jm_reachable.init jm_step.submit])
    (simp_all add: NewJobManager_def NewJob_def NextJobID_def max_int64_def FormatInt_def
      dec_digits.simps)




text \<open>
C28: \<^verbatim>\<open>GetJob\<close> resolves exactly the identifiers it documents: it returns a live job that the given
identifier names (in full, or as a short number with this server's name in any case), and it
returns nothing only when no live job is named. An identifier with a dot is compared exactly.
\<close>

theorem get_job_spec:
  assumes "jobs_ok m"
  shows "(case GetJob m ident of
      Some j \<Rightarrow> lookupJob m (j_ID j) = Some j \<and> names_job m ident (j_ID j)
    | None \<Rightarrow> (\<forall>k. names_job m ident k \<longrightarrow> lookupJob m k = None)) \<and>
    (CHR ''.'' \<in> set (TrimSpace ident) \<longrightarrow> GetJob m ident = lookupJob m (TrimSpace ident))"
proof
  show "case GetJob m ident of
      Some j \<Rightarrow> lookupJob m (j_ID j) = Some j \<and> names_job m ident (j_ID j)
    | None \<Rightarrow> (\<forall>k. names_job m ident k \<longrightarrow> lookupJob m k = None)"
  proof (cases "GetJob m ident")
    case None
    then show ?thesis by simp (metis GetJob_complete not_None_eq)
  next
    case (Some j)
    then show ?thesis using GetJob_sound [OF assms Some] by simp
  qed
qed (simp add: GetJob_dotted)

theorem get_job_spec_witness:
  "jobs_ok oneJobManager \<and> lookupJob oneJobManager ''1.s'' \<noteq> None \<and>
   (\<exists>j. GetJob oneJobManager '' 1 '' = Some j \<and> names_job oneJobManager '' 1 '' (j_ID j)) \<and>
   GetJob oneJobManager ''1.S'' = None"
proof -
  have ok: "jobs_ok oneJobManager"
    using jm_inv_reachable [OF oneJobManager_reachable] by (simp add: jm_inv_def)
  have j: "lookupJob oneJobManager ''1.s'' = Some (NewJob 0 ''1.s'' ''q'' ''s'')"
    "lookupJob oneJobManager ''1.S'' = None"
    by (simp_all add: lookupJob_def oneJobManager_def AddJob_def NewJobManager_def NextJobID_def
        NewJob_def)
  have t: "TrimSpace '' 1 '' = ''1''" "TrimSpace ''1.S'' = ''1.S''"
    by (simp_all add: TrimSpace_def is_space_def)
  have n: "names_job oneJobManager '' 1 '' ''1.s''"
    by (simp add: names_job_def t oneJobManager_def AddJob_def NewJobManager_def NextJobID_def)
  have "GetJob oneJobManager '' 1 '' \<noteq> None"
    using get_job_spec [OF ok, of "'' 1 ''"] n j by (auto split: option.splits)
  then show ?thesis
    using get_job_spec [OF ok, of "'' 1 ''"] get_job_spec [OF ok, of "''1.S''"] ok j t
    by (auto split: option.splits)
qed

end
