(* ===== verification/Queue_Model.thy ===== *)
theory Queue_Model
  imports Go_Strings
begin

text \<open>
  Queues and their manager, \<^verbatim>\<open>src/internal/queue/queue.go\<close>. The counters a queue keeps per job state
  are specified by the multiset of the states of its jobs: the locale \<open>job_tally\<close> is that contract,
  and the three counter operations of \<^verbatim>\<open>Queue\<close> are an interpretation of it. The manager is a
  \<open>registry\<close>.
\<close>

abbreviation (input) TypeExecution :: int where "TypeExecution \<equiv> 0"
abbreviation (input) TypeRoute :: int where "TypeRoute \<equiv> 1"

record Queue =
  q_Name :: string
  q_Type :: int
  q_Enabled :: bool
  q_Started :: bool
  q_Priority :: int
  q_DisallowedTypes :: "string list"
  q_MaxJobs :: int
  q_MaxRun :: int
  q_MaxUserJobs :: int
  q_MaxUserRun :: int
  q_ResourceMax :: "string smap"
  q_ResourceMin :: "string smap"
  q_ResourceDflt :: "string smap"
  q_ACLUserEnabled :: bool
  q_ACLUsers :: "string list"
  q_ACLGroupEnabled :: bool
  q_ACLGroups :: "string list"
  q_ACLHostEnabled :: bool
  q_ACLHosts :: "string list"
  q_NaccessPolicy :: string
  q_HostList :: "string list"
  q_RouteDestin :: "string list"
  q_Attrs :: "string smap"
  q_TotalJobs :: int
  q_StateJobs :: "int list"
  q_Modified :: bool
  q_CloudProvider :: string
  q_CloudVMSKU :: string
  q_CloudMinNodes :: int
  q_CloudMaxNodes :: int
  q_CloudIdleTime :: int
  q_CloudProvisionTimeout :: int
  q_CloudReclaim :: string
  q_CloudSubnetID :: string
  q_CloudImageID :: string
  q_CloudDiskSize :: int
  q_CloudDiskType :: string
  q_CloudSSHKey :: string
  q_CloudLocation :: string
  q_CloudRgName :: string
  q_CloudCooldown :: int
  q_CloudScaleHeadroom :: int
  q_CloudDrainTimeout :: int

text \<open>The loop of \<^verbatim>\<open>ParseList\<close> over the pieces of the value, with what it has seen so far.\<close>

fun addUnseen :: "string list \<Rightarrow> string list \<Rightarrow> string list" where
  "addUnseen out [] = out"
| "addUnseen out (sub # subs) =
     (let s = TrimSpace sub in
      if s = [] \<or> s \<in> set out then addUnseen out subs else addUnseen (out @ [s]) subs)"

definition ParseList :: "string \<Rightarrow> string list" where
  "ParseList v = addUnseen [] (concat (map Fields (Split CHR '','' v)))"

definition NewQueue :: "string \<Rightarrow> int \<Rightarrow> Queue" where
  "NewQueue name qtype =
     \<lparr>q_Name = name, q_Type = qtype, q_Enabled = True, q_Started = True, q_Priority = 0,
      q_DisallowedTypes = [], q_MaxJobs = 0, q_MaxRun = 0, q_MaxUserJobs = 0, q_MaxUserRun = 0,
      q_ResourceMax = [], q_ResourceMin = [], q_ResourceDflt = [], q_ACLUserEnabled = False,
      q_ACLUsers = [], q_ACLGroupEnabled = False, q_ACLGroups = [], q_ACLHostEnabled = False,
      q_ACLHosts = [], q_NaccessPolicy = [], q_HostList = [], q_RouteDestin = [], q_Attrs = [],
      q_TotalJobs = 0, q_StateJobs = replicate 7 0, q_Modified = False, q_CloudProvider = [],
      q_CloudVMSKU = [], q_CloudMinNodes = 0, q_CloudMaxNodes = 0, q_CloudIdleTime = 0,
      q_CloudProvisionTimeout = 0, q_CloudReclaim = [], q_CloudSubnetID = [], q_CloudImageID = [],
      q_CloudDiskSize = 0, q_CloudDiskType = [], q_CloudSSHKey = [], q_CloudLocation = [],
      q_CloudRgName = [], q_CloudCooldown = 0, q_CloudScaleHeadroom = 0, q_CloudDrainTimeout = 0\<rparr>"

section \<open>The manager\<close>

record QueueManager =
  qm_queues :: "Queue smap"

definition NewQueueManager :: QueueManager where
  "NewQueueManager = \<lparr>qm_queues = []\<rparr>"

definition AddQueue :: "QueueManager \<Rightarrow> Queue \<Rightarrow> QueueManager" where
  "AddQueue m q = m\<lparr>qm_queues := mput (q_Name q) q (qm_queues m)\<rparr>"

definition RemoveQueue :: "QueueManager \<Rightarrow> string \<Rightarrow> QueueManager \<times> bool" where
  "RemoveQueue m name =
     (if mget (qm_queues m) name \<noteq> None then (m\<lparr>qm_queues := mdel name (qm_queues m)\<rparr>, True)
      else (m, False))"

definition GetQueue :: "QueueManager \<Rightarrow> string \<Rightarrow> Queue option" where
  "GetQueue m name = mget (qm_queues m) name"

definition AllQueues :: "QueueManager \<Rightarrow> Queue list" where
  "AllQueues m = map snd (qm_queues m)"

definition DefaultQueue :: "QueueManager \<Rightarrow> Queue option" where
  "DefaultQueue m = (case find (\<lambda>q. q_Type q = TypeExecution) (AllQueues m) of
      Some q \<Rightarrow> Some q
    | None \<Rightarrow> (case AllQueues m of q # _ \<Rightarrow> Some q | [] \<Rightarrow> None))"

definition QueueCount :: "QueueManager \<Rightarrow> int" where
  "QueueCount m = int (length (qm_queues m))"

section \<open>Counters\<close>

definition IncrJobCount :: "Queue \<Rightarrow> int \<Rightarrow> Queue" where
  "IncrJobCount q state =
     q\<lparr>q_TotalJobs := q_TotalJobs q + 1, q_StateJobs := incr_at state (q_StateJobs q)\<rparr>"

definition DecrJobCount :: "Queue \<Rightarrow> int \<Rightarrow> Queue" where
  "DecrJobCount q state =
     q\<lparr>q_TotalJobs := (if q_TotalJobs q > 0 then q_TotalJobs q - 1 else q_TotalJobs q),
       q_StateJobs := decr_at state (q_StateJobs q)\<rparr>"

definition TransferJobState :: "Queue \<Rightarrow> int \<Rightarrow> int \<Rightarrow> Queue" where
  "TransferJobState q oldState newState =
     q\<lparr>q_StateJobs := incr_at newState (decr_at oldState (q_StateJobs q))\<rparr>"

section \<open>The contract of the counters\<close>

text \<open>
  The counters of a queue stand for the multiset of the states of its jobs. A job that enters,
  leaves or changes state does to the counters what it does to the multiset.
\<close>

locale job_tally =
  fixes rep :: "'q \<Rightarrow> int multiset \<Rightarrow> bool"
    and incr decr :: "'q \<Rightarrow> int \<Rightarrow> 'q"
    and transfer :: "'q \<Rightarrow> int \<Rightarrow> int \<Rightarrow> 'q"
  assumes rep_incr: "rep q M \<Longrightarrow> rep (incr q s) (add_mset s M)"
    and rep_decr: "rep q M \<Longrightarrow> s \<in># M \<Longrightarrow> rep (decr q s) (M - {#s#})"
    and rep_transfer: "rep q M \<Longrightarrow> a \<in># M \<Longrightarrow> rep (transfer q a b) (add_mset b (M - {#a#}))"
begin

lemma incr_decr: "rep q M \<Longrightarrow> rep (decr (incr q s) s) M"
  using rep_decr [OF rep_incr, of q M s s] by simp

lemma transfer_back: "rep q M \<Longrightarrow> a \<in># M \<Longrightarrow> rep (transfer (transfer q a b) b a) M"
  using rep_transfer [OF rep_transfer [of q M a b], of b a] by simp

lemma move_between:
  "rep q M \<Longrightarrow> rep q' M' \<Longrightarrow> s \<in># M \<Longrightarrow>
   rep (decr q s) (M - {#s#}) \<and> rep (incr q' s) (add_mset s M')"
  by (simp add: rep_decr rep_incr)

end

definition tally :: "Queue \<Rightarrow> int multiset \<Rightarrow> bool" where
  "tally q M \<longleftrightarrow>
     q_TotalJobs q = int (size M) \<and> length (q_StateJobs q) = 7 \<and>
     (\<forall>i < 7. q_StateJobs q ! i = int (count M (int i)))"

interpretation queue_tally: job_tally tally IncrJobCount DecrJobCount TransferJobState
proof unfold_locales
  fix q :: Queue and M :: "int multiset" and s a b :: int
  show "tally q M \<Longrightarrow> tally (IncrJobCount q s) (add_mset s M)"
    by (auto simp: tally_def IncrJobCount_def counter_nth)
  show "tally q M \<Longrightarrow> s \<in># M \<Longrightarrow> tally (DecrJobCount q s) (M - {#s#})"
    by (auto simp: tally_def DecrJobCount_def counter_nth size_Diff_singleton of_nat_diff
        dest: multi_member_split)
  show "tally q M \<Longrightarrow> a \<in># M \<Longrightarrow> tally (TransferJobState q a b) (add_mset b (M - {#a#}))"
    by (auto simp: tally_def TransferJobState_def counter_nth dest!: multi_member_split)
qed

lemma tally_NewQueue: "tally (NewQueue name ty) {#}"
  by (simp add: tally_def NewQueue_def)

definition queues_ok :: "QueueManager \<Rightarrow> bool" where
  "queues_ok m \<longleftrightarrow> is_map (qm_queues m) \<and> (\<forall>k q. GetQueue m k = Some q \<longrightarrow> q_Name q = k)"

interpretation queue_registry:
  registry GetQueue AddQueue "\<lambda>m n. fst (RemoveQueue m n)" q_Name queues_ok
  by unfold_locales (auto simp: GetQueue_def AddQueue_def RemoveQueue_def queues_ok_def map_laws
      split: if_splits)

section \<open>Lists of names\<close>

lemma addUnseen_distinct: "distinct out \<Longrightarrow> distinct (addUnseen out subs)"
  by (induction out subs rule: addUnseen.induct) (auto simp: Let_def)

lemma addUnseen_set:
  "set (addUnseen out subs) = set out \<union> (TrimSpace ` set subs - {[]})"
  by (induction out subs rule: addUnseen.induct) (auto simp: Let_def)

section \<open>Properties of the queues\<close>

text \<open>The histories of a queue: jobs enter, leave and change state, and the queue is told.\<close>

inductive queue_history :: "Queue \<Rightarrow> int multiset \<Rightarrow> bool" where
  created: "queue_history (NewQueue name ty) {#}"
| enters: "queue_history q M \<Longrightarrow> queue_history (IncrJobCount q s) (add_mset s M)"
| leaves: "queue_history q M \<Longrightarrow> s \<in># M \<Longrightarrow> queue_history (DecrJobCount q s) (M - {#s#})"
| changes: "queue_history q M \<Longrightarrow> a \<in># M \<Longrightarrow>
    queue_history (TransferJobState q a b) (add_mset b (M - {#a#}))"

lemma queue_history_tally: "queue_history q M \<Longrightarrow> tally q M"
  by (induction rule: queue_history.induct)
    (auto intro: tally_NewQueue queue_tally.rep_incr queue_tally.rep_decr queue_tally.rep_transfer)



end
