(* ===== verification/Node_Model.thy ===== *)
theory Node_Model
  imports Job_Model
begin

unbundle bit_operations_syntax

text \<open>
  Compute nodes and their manager, \<^verbatim>\<open>src/internal/node/node.go\<close>. The state of a node is a word of
  flags. The slots a node has in use are specified by a ledger, the list of the jobs it runs with
  the slots each of them took (\<open>slot_ledger\<close>). The manager's \<^verbatim>\<open>byID\<close> index points at the node
  objects of its \<^verbatim>\<open>nodes\<close> map, so it holds their names here.
\<close>

type_synonym flags = "64 word"

abbreviation (input) StateFree :: flags where "StateFree \<equiv> 0"
abbreviation (input) StateDown :: flags where "StateDown \<equiv> 0x01"
abbreviation (input) StateOffline :: flags where "StateOffline \<equiv> 0x02"
abbreviation (input) StateReserve :: flags where "StateReserve \<equiv> 0x04"
abbreviation (input) StateJob :: flags where "StateJob \<equiv> 0x08"
abbreviation (input) StateBusy :: flags where "StateBusy \<equiv> 0x10"
abbreviation (input) StateUnknown :: flags where "StateUnknown \<equiv> 0x20"
abbreviation (input) StateDrain :: flags where "StateDrain \<equiv> 0x40"
abbreviation (input) StateExcl :: flags where "StateExcl \<equiv> 0x80"

record Node =
  n_Name :: string
  n_ID :: int
  n_IP :: string
  n_State :: flags
  n_NumProcs :: int
  n_MomPort :: int
  n_RmPort :: int
  n_Status :: "string smap"
  n_AssignedJobs :: "string list"
  n_SlotsTotal :: int
  n_SlotsUsed :: int
  n_LastUpdate :: gotime
  n_LastHeardFrom :: gotime
  n_FailCount :: int
  n_PowerState :: string
  n_Properties :: "string list"
  n_Groups :: "string list"
  n_Note :: string
  n_Queue :: string
  n_GRes :: "int smap"
  n_Dynamic :: bool
  n_Attrs :: "string smap"
  n_Modified :: bool

definition NewNode :: "string \<Rightarrow> int \<Rightarrow> Node" where
  "NewNode name ident =
     \<lparr>n_Name = name, n_ID = ident, n_IP = [], n_State = StateDown, n_NumProcs = 1,
      n_MomPort = 15002, n_RmPort = 15003, n_Status = [], n_AssignedJobs = [], n_SlotsTotal = 1,
      n_SlotsUsed = 0, n_LastUpdate = None, n_LastHeardFrom = None, n_FailCount = 0,
      n_PowerState = ''Running'', n_Properties = [], n_Groups = [], n_Note = [], n_Queue = [],
      n_GRes = [], n_Dynamic = False, n_Attrs = [], n_Modified = False\<rparr>"

definition checkFlags :: "(flags \<times> string) list" where
  "checkFlags =
     [(StateDown, ''down''), (StateOffline, ''offline''), (StateBusy, ''busy''),
      (StateJob, ''job-exclusive''), (StateReserve, ''reserve''), (StateDrain, ''drain''),
      (StateExcl, ''excl''), (StateUnknown, ''state-unknown'')]"

definition NodeStateName :: "Node \<Rightarrow> string" where
  "NodeStateName n =
     (if n_State n = StateFree then ''free''
      else let result = Join '','' (map snd (filter (\<lambda>(f, _). n_State n AND f \<noteq> 0) checkFlags))
           in if result = [] then ''free'' else result)"

definition IsFree :: "Node \<Rightarrow> bool" where
  "IsFree n \<longleftrightarrow>
     n_State n AND (StateDrain OR StateExcl) = 0 \<and>
     n_State n = StateFree \<and> n_SlotsUsed n < n_SlotsTotal n"

definition IsDown :: "Node \<Rightarrow> bool" where
  "IsDown n \<longleftrightarrow> n_State n AND StateDown \<noteq> 0"

definition HasGroup :: "Node \<Rightarrow> string \<Rightarrow> bool" where
  "HasGroup n g \<longleftrightarrow> list_ex (\<lambda>grp. EqualFold (TrimSpace grp) g) (n_Groups n)"

definition AvailableSlots :: "Node \<Rightarrow> int" where
  "AvailableSlots n =
     (let avail = n_SlotsTotal n - n_SlotsUsed n in if avail < 0 then 0 else avail)"

definition AssignJob :: "string \<Rightarrow> int \<Rightarrow> Node \<Rightarrow> Node" where
  "AssignJob jobID slots n =
     (let n1 = n\<lparr>n_AssignedJobs := n_AssignedJobs n @ [jobID], n_SlotsUsed := n_SlotsUsed n + slots\<rparr>
      in if n_SlotsUsed n1 \<ge> n_SlotsTotal n1 then n1\<lparr>n_State := n_State n1 OR StateJob\<rparr> else n1)"

text \<open>\<^verbatim>\<open>remove1\<close> drops the first occurrence, as the loop with its \<^verbatim>\<open>break\<close> does.\<close>

definition ReleaseJob :: "string \<Rightarrow> int \<Rightarrow> Node \<Rightarrow> Node" where
  "ReleaseJob jobID slots n =
     (let n1 = n\<lparr>n_AssignedJobs := remove1 jobID (n_AssignedJobs n),
                 n_SlotsUsed := (if n_SlotsUsed n - slots < 0 then 0 else n_SlotsUsed n - slots)\<rparr>
      in if n_AssignedJobs n1 = [] then n1\<lparr>n_State := n_State n1 AND NOT StateJob\<rparr> else n1)"

definition applyStateString :: "string \<Rightarrow> Node \<Rightarrow> Node" where
  "applyStateString s n =
     (let adminFlags = n_State n AND (StateOffline OR StateReserve OR StateDrain OR StateExcl);
          n1 = (if s = ''free'' then n\<lparr>n_State := StateFree OR adminFlags\<rparr>
                else if s = ''busy'' then n\<lparr>n_State := StateBusy OR adminFlags\<rparr>
                else if s = ''down'' then n\<lparr>n_State := StateDown OR adminFlags\<rparr>
                else n)
      in if n_AssignedJobs n1 \<noteq> [] then n1\<lparr>n_State := n_State n1 OR StateJob\<rparr> else n1)"

text \<open>One item of a status message, split at its first \<^verbatim>\<open>=\<close>.\<close>

definition applyStatusItem :: "string \<Rightarrow> Node \<Rightarrow> Node" where
  "applyStatusItem item n = (case cut CHR ''='' item of
      None \<Rightarrow> n
    | Some (key, val) \<Rightarrow>
        let n1 = n\<lparr>n_Status := mput key val (n_Status n)\<rparr> in
        if key = ''state'' then applyStateString val n1
        else if key = ''ncpus'' then
          (let np = (case ScanInt val of Some v \<Rightarrow> v | None \<Rightarrow> n_NumProcs n1)
           in n1\<lparr>n_NumProcs := np, n_SlotsTotal := np\<rparr>)
        else if key = ''np'' then
          (case ScanInt val of Some v \<Rightarrow> n1\<lparr>n_SlotsTotal := v\<rparr> | None \<Rightarrow> n1)
        else n1)"

definition UpdateFromStatus :: "int \<Rightarrow> string list \<Rightarrow> Node \<Rightarrow> Node" where
  "UpdateFromStatus now items n =
     (let n1 = fold applyStatusItem items n;
          n2 = n1\<lparr>n_LastUpdate := Some now, n_LastHeardFrom := Some now, n_FailCount := 0\<rparr>
      in if n_State n2 AND StateDown \<noteq> 0 \<and> n_State n2 AND StateOffline = 0
         then n2\<lparr>n_State := n_State n2 AND NOT StateDown\<rparr> else n2)"

section \<open>The manager\<close>

record NodeManager =
  nm_nodes :: "Node smap"
  nm_byID :: "(int \<times> string) list"
  nm_nextID :: int

definition NewNodeManager :: NodeManager where
  "NewNodeManager = \<lparr>nm_nodes = [], nm_byID = [], nm_nextID = 0\<rparr>"

definition AddNode :: "NodeManager \<Rightarrow> string \<Rightarrow> int \<Rightarrow> NodeManager" where
  "AddNode m name numProcs = (case mget (nm_nodes m) name of
      Some _ \<Rightarrow> m
    | None \<Rightarrow>
        m\<lparr>nm_nodes := mput name
            ((NewNode name (nm_nextID m))\<lparr>n_NumProcs := numProcs, n_SlotsTotal := numProcs\<rparr>) (nm_nodes m),
          nm_byID := AList.update (nm_nextID m) name (nm_byID m),
          nm_nextID := nm_nextID m + 1\<rparr>)"

definition RemoveNode :: "NodeManager \<Rightarrow> string \<Rightarrow> NodeManager \<times> bool" where
  "RemoveNode m name = (case mget (nm_nodes m) name of
      Some n \<Rightarrow> (m\<lparr>nm_byID := AList.delete (n_ID n) (nm_byID m), nm_nodes := mdel name (nm_nodes m)\<rparr>, True)
    | None \<Rightarrow> (m, False))"

definition GetNode :: "NodeManager \<Rightarrow> string \<Rightarrow> Node option" where
  "GetNode m name = mget (nm_nodes m) name"

text \<open>A change to the node object that the manager holds under a name.\<close>

definition updNode :: "string \<Rightarrow> (Node \<Rightarrow> Node) \<Rightarrow> NodeManager \<Rightarrow> NodeManager" where
  "updNode name f m = (case mget (nm_nodes m) name of
      Some n \<Rightarrow> m\<lparr>nm_nodes := mput name (f n) (nm_nodes m)\<rparr>
    | None \<Rightarrow> m)"

definition AllNodes :: "NodeManager \<Rightarrow> Node list" where
  "AllNodes m = map snd (nm_nodes m)"

definition FreeNodes :: "NodeManager \<Rightarrow> Node list" where
  "FreeNodes m = filter IsFree (AllNodes m)"

definition NodeCount :: "NodeManager \<Rightarrow> int" where
  "NodeCount m = int (length (nm_nodes m))"

definition FindNodeForJob :: "NodeManager \<Rightarrow> int \<Rightarrow> (Node \<times> int) option" where
  "FindNodeForJob m neededSlots =
     map_option (\<lambda>n. (n, neededSlots))
       (find (\<lambda>n. IsFree n \<and> AvailableSlots n \<ge> neededSlots) (AllNodes m))"

definition MarkNodeDown :: "string \<Rightarrow> NodeManager \<Rightarrow> NodeManager" where
  "MarkNodeDown name =
     updNode name (\<lambda>n. n\<lparr>n_State := n_State n OR StateDown, n_FailCount := n_FailCount n + 1\<rparr>)"

section \<open>The ledger of a node\<close>

definition slot_ledger :: "Node \<Rightarrow> (string \<times> int) list \<Rightarrow> bool" where
  "slot_ledger n L \<longleftrightarrow>
     n_AssignedJobs n = map fst L \<and> distinct (map fst L) \<and>
     n_SlotsUsed n = sum_list (map snd L) \<and> (\<forall>(_, s) \<in> set L. 0 \<le> s) \<and>
     (L = [] \<longrightarrow> n_State n AND StateJob = 0)"

lemma sum_list_remove1_map:
  "(k, s) \<in> set L \<Longrightarrow> distinct (map fst L) \<Longrightarrow>
   sum_list (map snd (remove1 (k, s) L)) = sum_list (map snd L) - (s :: int)"
  by (induction L) auto

lemma map_fst_remove1:
  "(k, s) \<in> set L \<Longrightarrow> distinct (map fst L) \<Longrightarrow> map fst (remove1 (k, s) L) = remove1 k (map fst L)"
  by (induction L) (auto simp: rev_image_eqI)

lemma sum_list_snd_nonneg: "\<forall>(_, s) \<in> set L. (0::int) \<le> s \<Longrightarrow> 0 \<le> sum_list (map snd L)"
  by (induction L) auto

lemma slot_ledger_AssignJob:
  "slot_ledger n L \<Longrightarrow> j \<notin> fst ` set L \<Longrightarrow> 0 \<le> s \<Longrightarrow> slot_ledger (AssignJob j s n) (L @ [(j, s)])"
  by (auto simp: slot_ledger_def AssignJob_def Let_def)

lemma slot_ledger_ReleaseJob:
  assumes "slot_ledger n L" "(j, s) \<in> set L"
  shows "slot_ledger (ReleaseJob j s n) (remove1 (j, s) L)"
proof -
  let ?L = "remove1 (j, s) L"
  have jobs: "remove1 j (map fst L) = map fst ?L"
    using assms by (simp add: slot_ledger_def map_fst_remove1)
  have sum: "sum_list (map snd L) - s = sum_list (map snd ?L)"
    using assms by (simp add: slot_ledger_def sum_list_remove1_map)
  have pos: "\<forall>(_, s) \<in> set ?L. 0 \<le> s"
    using assms(1) set_remove1_subset [of "(j, s)" L] unfolding slot_ledger_def by blast
  have "distinct (map fst ?L)"
    using assms(1) by (simp add: jobs [symmetric] slot_ledger_def)
  with jobs sum pos sum_list_snd_nonneg [OF pos] assms(1) show ?thesis
    by (auto simp: slot_ledger_def ReleaseJob_def Let_def and.assoc)
qed

text \<open>A status report touches neither the jobs nor the slots in use of a node.\<close>

lemma applyStateString_frame [simp]:
  "n_AssignedJobs (applyStateString s n) = n_AssignedJobs n"
  "n_SlotsUsed (applyStateString s n) = n_SlotsUsed n"
  "n_SlotsTotal (applyStateString s n) = n_SlotsTotal n"
  by (simp_all add: applyStateString_def Let_def)

lemma applyStatusItem_frame [simp]:
  "n_AssignedJobs (applyStatusItem i n) = n_AssignedJobs n"
  "n_SlotsUsed (applyStatusItem i n) = n_SlotsUsed n"
  by (simp_all add: applyStatusItem_def Let_def split: option.splits prod.splits)

lemma UpdateFromStatus_frame:
  "n_AssignedJobs (UpdateFromStatus now items n) = n_AssignedJobs n \<and>
   n_SlotsUsed (UpdateFromStatus now items n) = n_SlotsUsed n"
proof -
  have "n_AssignedJobs (fold applyStatusItem items n) = n_AssignedJobs n \<and>
      n_SlotsUsed (fold applyStatusItem items n) = n_SlotsUsed n"
    by (induction items arbitrary: n) simp_all
  then show ?thesis by (simp add: UpdateFromStatus_def Let_def)
qed

text \<open>Flags a mask selects, through the changes a status report makes.\<close>

lemma and_or_mask: "((a :: flags) OR b) AND m = (a AND m) OR (b AND m)"
  by (simp add: bit.conj_disj_distrib2)

definition admin_mask :: flags where
  "admin_mask = StateOffline OR StateReserve OR StateDrain OR StateExcl"

lemma admin_mask_val: "admin_mask = 0xC6"
  by (simp add: admin_mask_def)

lemma applyStateString_admin:
  "n_State (applyStateString s n) AND admin_mask = n_State n AND admin_mask"
  by (simp add: applyStateString_def Let_def and_or_mask admin_mask_val and.assoc)

lemma applyStatusItem_admin:
  "n_State (applyStatusItem i n) AND admin_mask = n_State n AND admin_mask"
  by (simp add: applyStatusItem_def Let_def applyStateString_admin split: option.splits prod.splits)

lemma fold_applyStatusItem_admin:
  "n_State (fold applyStatusItem items n) AND admin_mask = n_State n AND admin_mask"
  by (induction items arbitrary: n) (simp_all add: applyStatusItem_admin)

lemma UpdateFromStatus_admin:
  "n_State (UpdateFromStatus now items n) AND admin_mask = n_State n AND admin_mask"
proof -
  have "(x AND NOT StateDown) AND admin_mask = x AND admin_mask" for x
    by (simp add: admin_mask_val and.assoc)
  then show ?thesis
    by (simp add: UpdateFromStatus_def Let_def fold_applyStatusItem_admin)
qed

lemma applyStateString_noJob:
  "n_AssignedJobs n = [] \<Longrightarrow> n_State n AND StateJob = 0 \<Longrightarrow> n_State (applyStateString s n) AND StateJob = 0"
  by (simp add: applyStateString_def Let_def and_or_mask and.assoc)

lemma UpdateFromStatus_noJob:
  assumes "n_AssignedJobs n = []" "n_State n AND StateJob = 0"
  shows "n_State (UpdateFromStatus now items n) AND StateJob = 0"
proof -
  have item: "n_State (applyStatusItem i n) AND StateJob = 0"
    if "n_AssignedJobs n = []" "n_State n AND StateJob = 0" for i n
    using that
    by (simp add: applyStatusItem_def Let_def applyStateString_noJob split: option.splits prod.splits)
  have "n_State (fold applyStatusItem items n) AND StateJob = 0"
    using assms by (induction items arbitrary: n) (simp_all add: item)
  moreover have "(x AND NOT StateDown) AND StateJob = x AND StateJob" for x
    by (simp add: and.assoc)
  ultimately show ?thesis by (simp add: UpdateFromStatus_def Let_def)
qed

lemma slot_ledger_UpdateFromStatus:
  "slot_ledger n L \<Longrightarrow> slot_ledger (UpdateFromStatus now items n) L"
  using UpdateFromStatus_frame [of now items n] UpdateFromStatus_noJob [of n now items]
  by (auto simp: slot_ledger_def)

section \<open>Properties of the nodes\<close>

text \<open>The histories of a node: jobs are assigned and released, the MOM reports, contact is lost.\<close>

inductive node_history :: "Node \<Rightarrow> (string \<times> int) list \<Rightarrow> bool" where
  created: "node_history ((NewNode name ident)\<lparr>n_NumProcs := np, n_SlotsTotal := np\<rparr>) []"
| assigned: "node_history n L \<Longrightarrow> j \<notin> fst ` set L \<Longrightarrow> 0 \<le> s \<Longrightarrow>
    node_history (AssignJob j s n) (L @ [(j, s)])"
| released: "node_history n L \<Longrightarrow> (j, s) \<in> set L \<Longrightarrow>
    node_history (ReleaseJob j s n) (remove1 (j, s) L)"
| reported: "node_history n L \<Longrightarrow> node_history (UpdateFromStatus now items n) L"
| lost: "node_history n L \<Longrightarrow>
    node_history (n\<lparr>n_State := n_State n OR StateDown, n_FailCount := n_FailCount n + 1\<rparr>) L"

lemma node_history_ledger: "node_history n L \<Longrightarrow> slot_ledger n L"
proof (induction rule: node_history.induct)
  case created
  show ?case by (simp add: slot_ledger_def NewNode_def)
next
  case (lost n L)
  then show ?case by (simp add: slot_ledger_def and_or_mask)
qed (auto intro: slot_ledger_AssignJob slot_ledger_ReleaseJob slot_ledger_UpdateFromStatus)



text \<open>
C30: No report of a MOM undoes a decision of the administrator: the offline, reserve, drain and
exclusive flags of a node are the same after \<^verbatim>\<open>UpdateFromStatus\<close>, and a node with one of them is not
free for the server.
\<close>

theorem status_keeps_admin_flags:
  "n_State (UpdateFromStatus now items n) AND admin_mask = n_State n AND admin_mask \<and>
   (IsFree (UpdateFromStatus now items n) \<longrightarrow> n_State n AND admin_mask = 0)"
  using UpdateFromStatus_admin [of now items n] by (auto simp: IsFree_def)

theorem status_keeps_admin_flags_witness:
  "n_State (UpdateFromStatus 9 [''state=free''] ((NewNode ''n'' 0)\<lparr>n_State := StateDrain\<rparr>)) AND admin_mask =
   StateDrain"
  using status_keeps_admin_flags [of 9 "[''state=free'']" "(NewNode ''n'' 0)\<lparr>n_State := StateDrain\<rparr>"]
  by (simp add: admin_mask_val)

text \<open>
C39: A node that was full stays closed to the server until its last job has left: \<^verbatim>\<open>ReleaseJob\<close> clears
the job-exclusive flag only when no job remains, so after a release that leaves other jobs the node
is not free although it may have free slots.
\<close>

theorem full_node_stays_closed:
  assumes "n_State n AND StateJob \<noteq> 0" "remove1 j (n_AssignedJobs n) \<noteq> []"
  shows "\<not> IsFree (ReleaseJob j s n) \<and> AvailableSlots (ReleaseJob j s n) =
    max 0 (n_SlotsTotal n - max 0 (n_SlotsUsed n - s))"
  using assms by (auto simp: IsFree_def ReleaseJob_def AvailableSlots_def Let_def max_def)

theorem full_node_stays_closed_witness:
  "let n = AssignJob ''2.s'' 1 (AssignJob ''1.s'' 1 ((NewNode ''n'' 0)\<lparr>n_State := StateFree, n_SlotsTotal := 2\<rparr>))
   in \<not> IsFree (ReleaseJob ''1.s'' 1 n) \<and> AvailableSlots (ReleaseJob ''1.s'' 1 n) = 1"
  using full_node_stays_closed
    [of "AssignJob ''2.s'' 1 (AssignJob ''1.s'' 1 ((NewNode ''n'' 0)\<lparr>n_State := StateFree, n_SlotsTotal := 2\<rparr>))"
      "''1.s''" 1]
  by (simp add: AssignJob_def NewNode_def Let_def)

end
