(* ===== verification/Route.thy ===== *)
theory Route
  imports Job_Manager Queue_Model
begin

text \<open>
  Routing and admission, \<^verbatim>\<open>src/internal/server/route.go\<close>, with the access-list helpers of
  \<^verbatim>\<open>src/internal/server/server.go\<close> that it calls. An admission error names the condition that blocked
  the job; None is admission.
\<close>

section \<open>Access lists and attribute values\<close>

definition extractUser :: "string \<Rightarrow> string" where
  "extractUser s = before CHR ''@'' s"

definition aclContains :: "string \<Rightarrow> string \<Rightarrow> bool" where
  "aclContains aclList user \<longleftrightarrow>
     list_ex (\<lambda>e0. let entry = TrimSpace e0 in
        entry \<noteq> [] \<and> (entry = user \<or> extractUser entry = user)) (Split CHR '','' aclList)"

definition submitHostOf :: "Job \<Rightarrow> string" where
  "submitHostOf j = (case mget (j_VariableList j) ''PBS_O_HOST'' of
      Some (c # cs) \<Rightarrow> c # cs
    | _ \<Rightarrow> (case cut CHR ''@'' (j_Owner j) of Some (_, host) \<Rightarrow> host | None \<Rightarrow> []))"

definition queueAllowsSubmitHost :: "QueueManager \<Rightarrow> string \<Rightarrow> Job \<Rightarrow> bool" where
  "queueAllowsSubmitHost qm queueName j = (case GetQueue qm queueName of
      None \<Rightarrow> True
    | Some q \<Rightarrow>
        if \<not> q_ACLHostEnabled q \<or> q_ACLHosts q = [] then True
        else let host = submitHostOf j in
          if host = [] then False
          else list_ex (\<lambda>h. EqualFold (TrimSpace h) host) (q_ACLHosts q))"

definition hostOf :: "string \<Rightarrow> string" where
  "hostOf s = (if CHR ''@'' \<in> set s then rev (before CHR ''@'' (rev s)) else [])"

definition qAttrTrue :: "string \<Rightarrow> bool" where
  "qAttrTrue v \<longleftrightarrow>
     (let lower = ToLower (TrimSpace v)
      in lower = ''true'' \<or> lower = ''1'' \<or> lower = ''yes'' \<or> lower = ''y'')"

text \<open>The value of \<^verbatim>\<open>strconv.ParseInt\<close> where the error is dropped.\<close>

abbreviation parseIntVal :: "string \<Rightarrow> int" where
  "parseIntVal s \<equiv> fst (ParseInt s)"

definition parseWalltimeSec :: "string \<Rightarrow> int" where
  "parseWalltimeSec s = (case Split CHR '':'' s of
      [h, m, sec] \<Rightarrow> wrap64 (parseIntVal h * 3600 + parseIntVal m * 60 + parseIntVal sec)
    | [m, sec] \<Rightarrow> wrap64 (parseIntVal m * 60 + parseIntVal sec)
    | _ \<Rightarrow> parseIntVal s)"

definition parseMemKB :: "string \<Rightarrow> int" where
  "parseMemKB s0 =
     (let s = TrimSpace (ToLower s0) in
      if HasSuffix s ''kb'' then parseIntVal (take (length s - 2) s)
      else if HasSuffix s ''mb'' then wrap64 (parseIntVal (take (length s - 2) s) * 1024)
      else if HasSuffix s ''gb'' then wrap64 (parseIntVal (take (length s - 2) s) * (1024 * 1024))
      else if HasSuffix s ''tb'' then wrap64 (parseIntVal (take (length s - 2) s) * (1024 * 1024 * 1024))
      else parseIntVal s)"

definition rescValue :: "string \<Rightarrow> string \<Rightarrow> int" where
  "rescValue name v =
     (if name = ''ncpus'' then parseIntVal v
      else if name = ''walltime'' then parseWalltimeSec v
      else if name = ''mem'' then parseMemKB v
      else - 1)"

definition jobTypes :: "Job \<Rightarrow> string list" where
  "jobTypes j =
     [''batch''] @ (if j_Interactive j then [''interactive''] else []) @
     (if EqualFold (TrimSpace (j_Rerunnable j)) ''y'' then [''rerunable''] else []) @
     (if j_JobArrayReq j \<noteq> [] then [''job_array''] else [])"

section \<open>The admission gate\<close>

datatype admit_error =
    QueueDisabled
  | QueueNotStarted
  | OnlyRouted
  | DisallowedType string
  | MaxQueuable
  | MaxRunning
  | MaxUserQueuable
  | MaxUserRunning
  | UserNotListed
  | GroupNotListed
  | HostNotListed
  | BelowMin string
  | AboveMax string

text \<open>The first error of a sequence of checks, as the early returns of the code give it.\<close>

fun firstError :: "'e option list \<Rightarrow> 'e option" where
  "firstError [] = None"
| "firstError (Some e # _) = Some e"
| "firstError (None # es) = firstError es"

definition checkOneResource :: "string smap \<Rightarrow> string smap \<Rightarrow> Job \<Rightarrow> string \<Rightarrow> admit_error option" where
  "checkOneResource resMin resMax rj name =
     (let req = sget (j_ResourceReq rj) name in
      if req = [] then None
      else let reqVal = rescValue name req in
        if sget resMin name \<noteq> [] \<and> rescValue name (sget resMin name) > reqVal then Some (BelowMin name)
        else if sget resMax name \<noteq> [] \<and> rescValue name (sget resMax name) \<ge> 0 \<and>
                rescValue name (sget resMax name) < reqVal then Some (AboveMax name)
        else None)"

definition checkResourceInterval :: "string smap \<Rightarrow> string smap \<Rightarrow> Job \<Rightarrow> admit_error option" where
  "checkResourceInterval resMin resMax rj =
     firstError (map (checkOneResource resMin resMax rj) [''ncpus'', ''walltime'', ''mem''])"

definition checkTypes :: "Queue \<Rightarrow> Job \<Rightarrow> admit_error option" where
  "checkTypes q rj =
     map_option DisallowedType (find (\<lambda>jt. jt \<in> set (q_DisallowedTypes q)) (jobTypes rj))"

definition waitingInQueue :: "JobManager \<Rightarrow> string \<Rightarrow> int" where
  "waitingInQueue jm name =
     CountByStateInQueue jm name [StateQueued, StateProvisioning] +
     CountByStateInQueue jm name [StateHeld] + CountByStateInQueue jm name [StateWaiting]"

definition admitToQueue :: "JobManager \<Rightarrow> Queue \<Rightarrow> Job \<Rightarrow> string \<Rightarrow> bool \<Rightarrow> admit_error option" where
  "admitToQueue jm q rj user fromRoute =
     firstError
      [if \<not> q_Enabled q then Some QueueDisabled else None,
       if \<not> q_Started q then Some QueueNotStarted else None,
       if qAttrTrue (sget (q_Attrs q) ''from_route_only'') \<and> \<not> fromRoute then Some OnlyRouted else None,
       checkTypes q rj,
       if q_MaxJobs q > 0 \<and> waitingInQueue jm (q_Name q) \<ge> q_MaxJobs q then Some MaxQueuable else None,
       if q_MaxRun q > 0 \<and> CountByStateInQueue jm (q_Name q) [StateRunning] \<ge> q_MaxRun q
         then Some MaxRunning else None,
       if q_MaxUserJobs q > 0 \<and> CountQueuedByOwnerInQueue jm (q_Name q) user \<ge> q_MaxUserJobs q
         then Some MaxUserQueuable else None,
       if q_MaxUserRun q > 0 \<and> CountRunningByOwnerInQueue jm (q_Name q) user \<ge> q_MaxUserRun q
         then Some MaxUserRunning else None,
       if q_ACLUserEnabled q \<and> q_ACLUsers q \<noteq> [] \<and>
          \<not> aclContains (Join '','' (q_ACLUsers q)) (extractUser user) then Some UserNotListed else None,
       if q_ACLGroupEnabled q \<and> q_ACLGroups q \<noteq> [] \<and>
          \<not> aclContains (Join '','' (q_ACLGroups q)) (j_EGroup rj) then Some GroupNotListed else None,
       if q_ACLHostEnabled q \<and> q_ACLHosts q \<noteq> [] \<and>
          (submitHostOf rj = [] \<or> \<not> aclContains (Join '','' (q_ACLHosts q)) (submitHostOf rj))
         then Some HostNotListed else None,
       checkResourceInterval (q_ResourceMin q) (q_ResourceMax q) rj]"

section \<open>Routing\<close>

datatype route_error =
    NoDestinations
  | NoneAccepted
  | QueueNotFound
  | NotAdmitted admit_error

text \<open>Whether the loop of \<^verbatim>\<open>routeJob\<close> takes a destination.\<close>

definition acceptsRouted :: "QueueManager \<Rightarrow> JobManager \<Rightarrow> Job \<Rightarrow> string \<Rightarrow> string \<Rightarrow> bool" where
  "acceptsRouted qm jm rj user dest = (case GetQueue qm dest of
      None \<Rightarrow> False
    | Some dq \<Rightarrow> admitToQueue jm dq rj user True = None)"

definition routeJob :: "QueueManager \<Rightarrow> JobManager \<Rightarrow> Job \<Rightarrow> string \<Rightarrow> route_error + string \<times> bool" where
  "routeJob qm jm rj user = (case GetQueue qm (j_Queue rj) of
      None \<Rightarrow> Inr (j_Queue rj, False)
    | Some q \<Rightarrow>
        if q_Type q \<noteq> TypeRoute then Inr (j_Queue rj, False)
        else if q_RouteDestin q = [] then Inl NoDestinations
        else (case find (acceptsRouted qm jm rj user) (q_RouteDestin q) of
                Some dest \<Rightarrow> Inr (dest, True)
              | None \<Rightarrow> Inl NoneAccepted))"

text \<open>
  \<^verbatim>\<open>finalizeRoute\<close> writes the destination into the job object before it runs the gate, so the gate
  counts the job in its new queue.
\<close>

definition finalizeRoute ::
  "QueueManager \<Rightarrow> JobManager \<Rightarrow> Job \<Rightarrow> string \<Rightarrow> JobManager \<times> route_error option" where
  "finalizeRoute qm jm rj owner = (case routeJob qm jm rj owner of
      Inl e \<Rightarrow> (jm, Some e)
    | Inr (dest, routed) \<Rightarrow>
        let rj' = rj\<lparr>j_Queue := dest\<rparr>;
            jm' = updJob (j_ID rj) (\<lambda>j. j\<lparr>j_Queue := dest\<rparr>) jm
        in if routed then (jm', None)
           else (case GetQueue qm dest of
                   None \<Rightarrow> (jm', Some QueueNotFound)
                 | Some q \<Rightarrow> (jm', map_option NotAdmitted (admitToQueue jm' q rj' owner False))))"

section \<open>The gate as a specification\<close>

lemma firstError_None: "firstError es = None \<longleftrightarrow> (\<forall>e \<in> set es. e = None)"
  by (induction es rule: firstError.induct) auto

lemma mcount_card: "is_map m \<Longrightarrow> mcount P m = int (card {k. \<exists>v. mget m k = Some v \<and> P v})"
proof (induction m)
  case Nil
  then show ?case by simp
next
  case (Cons kv m)
  obtain k v where kv: "kv = (k, v)" by (cases kv)
  have m: "is_map m" and new: "mget m k = None"
    using Cons.prems by (auto simp: kv map_of_eq_None_iff)
  let ?A = "{l. \<exists>w. mget m l = Some w \<and> P w}"
  have fin: "finite ?A"
    by (rule finite_subset [of _ "dom (map_of m)"]) (auto simp: finite_dom_map_of)
  have "{l. \<exists>w. mget ((k, v) # m) l = Some w \<and> P w} = (if P v then insert k ?A else ?A)"
    using new by (auto split: if_splits)
  then show ?case using Cons.IH [OF m] new fin by (auto simp: kv)
qed

text \<open>The identifiers of the live jobs of a queue that satisfy a condition.\<close>

definition jobsIn :: "JobManager \<Rightarrow> string \<Rightarrow> (Job \<Rightarrow> bool) \<Rightarrow> string set" where
  "jobsIn jm name P = {k. \<exists>j. lookupJob jm k = Some j \<and> j_Queue j = name \<and> P j}"

definition pending :: "Job \<Rightarrow> bool" where
  "pending j \<longleftrightarrow> j_State j \<in> {StateQueued, StateProvisioning, StateHeld, StateWaiting}"

lemma waitingInQueue_card:
  "jobs_ok jm \<Longrightarrow> waitingInQueue jm name = int (card (jobsIn jm name pending))"
proof -
  assume ok: "jobs_ok jm"
  have "mcount (\<lambda>j. j_Queue j = name \<and> j_State j \<in> set [StateQueued, StateProvisioning]) m +
      mcount (\<lambda>j. j_Queue j = name \<and> j_State j \<in> set [StateHeld]) m +
      mcount (\<lambda>j. j_Queue j = name \<and> j_State j \<in> set [StateWaiting]) m =
      mcount (\<lambda>j. j_Queue j = name \<and> pending j) m" for m
    by (induction m) (auto simp: pending_def)
  then have "waitingInQueue jm name = mcount (\<lambda>j. j_Queue j = name \<and> pending j) (jm_jobs jm)"
    by (simp only: waitingInQueue_def CountByStateInQueue_def)
  then show ?thesis
    using ok by (simp add: mcount_card jobs_ok_def jobsIn_def lookupJob_def)
qed

lemma CountByStateInQueue_card:
  "jobs_ok jm \<Longrightarrow>
   CountByStateInQueue jm name sts = int (card (jobsIn jm name (\<lambda>j. j_State j \<in> set sts)))"
  by (simp add: CountByStateInQueue_def mcount_card jobs_ok_def jobsIn_def lookupJob_def)

lemma CountQueuedByOwnerInQueue_card:
  "jobs_ok jm \<Longrightarrow> CountQueuedByOwnerInQueue jm name owner =
     int (card (jobsIn jm name (\<lambda>j. j_State j \<in> {StateQueued, StateProvisioning} \<and> j_Owner j = owner)))"
  by (simp add: CountQueuedByOwnerInQueue_def mcount_card jobs_ok_def jobsIn_def lookupJob_def)

lemma CountRunningByOwnerInQueue_card:
  "jobs_ok jm \<Longrightarrow> CountRunningByOwnerInQueue jm name owner =
     int (card (jobsIn jm name (\<lambda>j. j_State j = StateRunning \<and> j_Owner j = owner)))"
  by (simp add: CountRunningByOwnerInQueue_def mcount_card jobs_ok_def jobsIn_def lookupJob_def)

lemmas queue_cards = waitingInQueue_card CountByStateInQueue_card CountQueuedByOwnerInQueue_card
  CountRunningByOwnerInQueue_card

text \<open>A limit of a queue: zero and below switch it off.\<close>

definition within :: "int \<Rightarrow> string set \<Rightarrow> bool" where
  "within lim S \<longleftrightarrow> lim \<le> 0 \<or> int (card S) < lim"

text \<open>Membership in an access list, by the whole entry or by the part before the at sign.\<close>

definition listed :: "string list \<Rightarrow> string \<Rightarrow> bool" where
  "listed acl x \<longleftrightarrow> (\<exists>e \<in> TrimSpace ` set acl. e \<noteq> [] \<and> (e = x \<or> extractUser e = x))"

lemma aclContains_Join:
  "acl \<noteq> [] \<Longrightarrow> \<forall>e \<in> set acl. CHR '','' \<notin> set e \<Longrightarrow> aclContains (Join '','' acl) x = listed acl x"
  by (auto simp: aclContains_def listed_def list_ex_iff Let_def Split_Join)

definition fits :: "string smap \<Rightarrow> string smap \<Rightarrow> Job \<Rightarrow> string \<Rightarrow> bool" where
  "fits lo hi j name \<longleftrightarrow> sget (j_ResourceReq j) name = [] \<or>
     (sget lo name = [] \<or> rescValue name (sget lo name) \<le> rescValue name (sget (j_ResourceReq j) name)) \<and>
     (sget hi name = [] \<or> rescValue name (sget hi name) < 0 \<or>
      rescValue name (sget (j_ResourceReq j) name) \<le> rescValue name (sget hi name))"

lemma checkResourceInterval_None:
  "checkResourceInterval lo hi j = None \<longleftrightarrow> (\<forall>name \<in> {''ncpus'', ''walltime'', ''mem''}. fits lo hi j name)"
proof -
  have "checkOneResource lo hi j name = None \<longleftrightarrow> fits lo hi j name" for name
    by (auto simp: checkOneResource_def fits_def Let_def not_le not_less)
  then show ?thesis by (simp add: checkResourceInterval_def firstError_None)
qed

lemma checkTypes_None: "checkTypes q j = None \<longleftrightarrow> set (jobTypes j) \<inter> set (q_DisallowedTypes q) = {}"
  by (auto simp: checkTypes_def find_None_iff)

text \<open>Access lists as the attribute parser stores them: no entry holds a comma.\<close>

definition acls_ok :: "Queue \<Rightarrow> bool" where
  "acls_ok q \<longleftrightarrow>
     (\<forall>e \<in> set (q_ACLUsers q) \<union> set (q_ACLGroups q) \<union> set (q_ACLHosts q). CHR '','' \<notin> set e)"

lemma admitted_open: "admitToQueue jm q rj user r = None \<Longrightarrow> q_Enabled q \<and> q_Started q"
  by (simp add: admitToQueue_def firstError_None split: if_splits)

lemma routeJob_routed:
  "routeJob qm jm rj user = Inr (dest, True) \<longleftrightarrow>
     (\<exists>q i. GetQueue qm (j_Queue rj) = Some q \<and> q_Type q = TypeRoute \<and> i < length (q_RouteDestin q) \<and>
        dest = q_RouteDestin q ! i \<and> acceptsRouted qm jm rj user dest \<and>
        (\<forall>k < i. \<not> acceptsRouted qm jm rj user (q_RouteDestin q ! k)))"
  by (auto simp: routeJob_def find_Some_iff split: option.splits if_splits)
     (metis (no_types, lifting) find_Some_iff option.discI option.inject)+

lemma routeJob_direct:
  "routeJob qm jm rj user = Inr (dest, False) \<longleftrightarrow>
     dest = j_Queue rj \<and> (\<forall>q. GetQueue qm (j_Queue rj) = Some q \<longrightarrow> q_Type q \<noteq> TypeRoute)"
  by (auto simp: routeJob_def split: option.splits if_splits)

lemma routeJob_refused:
  "(\<exists>e. routeJob qm jm rj user = Inl e) \<longleftrightarrow>
     (\<exists>q. GetQueue qm (j_Queue rj) = Some q \<and> q_Type q = TypeRoute \<and>
        (\<forall>dest \<in> set (q_RouteDestin q). \<not> acceptsRouted qm jm rj user dest))"
  by (auto simp: routeJob_def find_None_iff find_Some_iff split: option.splits if_splits)

text \<open>The jobs a manager would count for a queue, once one of its jobs has moved there.\<close>

lemma jobsIn_updJob:
  assumes "lookupJob jm (j_ID rj) = Some rj" "\<And>j. P (j\<lparr>j_Queue := d\<rparr>) = P j" "P rj"
  shows "jobsIn (updJob (j_ID rj) (\<lambda>j. j\<lparr>j_Queue := d\<rparr>) jm) d P = insert (j_ID rj) (jobsIn jm d P)"
  using assms by (auto simp: jobsIn_def lookupJob_updJob split: if_splits)

lemma finalizeRoute_job:
  assumes "finalizeRoute qm jm rj owner = (jm', None)" "lookupJob jm (j_ID rj) = Some rj"
  shows "\<exists>dest q. lookupJob jm' (j_ID rj) = Some (rj\<lparr>j_Queue := dest\<rparr>) \<and> GetQueue qm dest = Some q \<and>
           q_Enabled q \<and> q_Started q"
  using assms
  by (auto simp: finalizeRoute_def Let_def lookupJob_updJob routeJob_routed acceptsRouted_def
      split: sum.splits prod.splits if_splits option.splits) (blast dest: admitted_open)+

lemma finalizeRoute_others:
  "k \<noteq> j_ID rj \<Longrightarrow> lookupJob (fst (finalizeRoute qm jm rj owner)) k = lookupJob jm k"
  by (simp add: finalizeRoute_def Let_def lookupJob_updJob split: sum.splits prod.splits option.splits)

lemma finite_jobsIn: "finite (jobsIn jm n P)"
  by (rule finite_subset [of _ "dom (mget (jm_jobs jm))"])
     (auto simp: jobsIn_def lookupJob_def finite_dom_map_of)

section \<open>Properties\<close>



text \<open>
C31: Routing takes the first destination that accepts. A job is routed to a destination exactly when its
queue is a route queue, the destination is in the list, its gate passes and no earlier destination
accepts the job; it stays where it is exactly when its queue is not a route queue; and it is refused
exactly when its queue is a route queue none of whose destinations accepts it.
\<close>

theorem routing_spec:
  "(routeJob qm jm rj user = Inr (dest, True) \<longleftrightarrow>
     (\<exists>q i. GetQueue qm (j_Queue rj) = Some q \<and> q_Type q = TypeRoute \<and> i < length (q_RouteDestin q) \<and>
        dest = q_RouteDestin q ! i \<and> acceptsRouted qm jm rj user dest \<and>
        \<not> (\<exists>k. k < i \<and> acceptsRouted qm jm rj user (q_RouteDestin q ! k)))) \<and>
   (routeJob qm jm rj user = Inr (dest, False) \<longleftrightarrow>
     dest = j_Queue rj \<and> \<not> (\<exists>q. GetQueue qm (j_Queue rj) = Some q \<and> q_Type q = TypeRoute)) \<and>
   ((\<exists>e. routeJob qm jm rj user = Inl e) \<longleftrightarrow>
     (\<exists>q. GetQueue qm (j_Queue rj) = Some q \<and> q_Type q = TypeRoute \<and>
        \<not> (\<exists>d. d \<in> set (q_RouteDestin q) \<and> acceptsRouted qm jm rj user d)))"
  by (intro conjI) (simp_all add: routeJob_routed routeJob_direct routeJob_refused, auto)

end
