(* ===== verification/Sched_Model.thy ===== *)
theory Sched_Model
  imports Complex_Main Dis_Message Node_Model
begin

text \<open>
  The data of the scheduler and node selection, \<^verbatim>\<open>src/internal/sched/scheduler/scheduler.go\<close> (from
  \<^verbatim>\<open>countSchedulableForJob\<close> on) and the configuration record of \<^verbatim>\<open>src/internal/sched/config/config.go\<close>.

  A \<^verbatim>\<open>time.Duration\<close> is an \<^typ>\<open>int\<close> of nanoseconds, a queue time the Unix time in seconds. A \<^verbatim>\<open>float64\<close> is the
  exact \<^typ>\<open>rat\<close>: load averages are the short decimals a node reports, usage counts are sums of ones.
\<close>

section \<open>Configuration\<close>

record Config =
  c_PBSHome :: string
  c_Server :: string
  c_LogLevel :: int
  c_SchedulerMode :: string
  c_StrictFIFO :: bool
  c_Backfill :: bool
  c_RoundRobin :: bool
  c_ByQueue :: bool
  c_FairShare :: bool
  c_HelpStarvingJobs :: bool
  c_SortQueues :: bool
  c_LoadBalancing :: bool
  c_SortBy :: string
  c_MaxStarve :: int
  c_HalfLife :: int
  c_UnknownShares :: int
  c_SyncTime :: int
  c_DedicatedPrefix :: string
  c_SchedulerInterval :: int
  c_EventDriven :: bool
  c_SchedMinInterval :: int
  c_DefaultQueueDepth :: int
  c_SchedMaxJobStart :: int
  c_MaxSchedTime :: int
  c_SchedDefer :: bool
  c_SchedDeferBatch :: bool
  c_SchedTriggerPort :: int

abbreviation (input) Second :: int where "Second \<equiv> 1000000000"
abbreviation (input) Minute :: int where "Minute \<equiv> 60000000000"
abbreviation (input) Hour :: int where "Hour \<equiv> 3600000000000"

definition DefaultConfig :: "string \<Rightarrow> Config" where
  "DefaultConfig pbsHome =
     \<lparr>c_PBSHome = pbsHome, c_Server = [], c_LogLevel = 0, c_SchedulerMode = ''external'',
      c_StrictFIFO = False, c_Backfill = True, c_RoundRobin = False, c_ByQueue = True,
      c_FairShare = False, c_HelpStarvingJobs = True, c_SortQueues = True, c_LoadBalancing = False,
      c_SortBy = ''fifo'', c_MaxStarve = 24 * Hour, c_HalfLife = 24 * Hour, c_UnknownShares = 10,
      c_SyncTime = 1 * Hour, c_DedicatedPrefix = ''ded'', c_SchedulerInterval = 10,
      c_EventDriven = True, c_SchedMinInterval = 100, c_DefaultQueueDepth = 100,
      c_SchedMaxJobStart = 0, c_MaxSchedTime = 2, c_SchedDefer = False, c_SchedDeferBatch = False,
      c_SchedTriggerPort = 25003\<rparr>"

section \<open>The snapshot of a cycle\<close>

text \<open>The Unix time of the zero \<^verbatim>\<open>time.Time\<close>, midnight of January 1 of the year 1.\<close>

abbreviation (input) zeroTime :: int where "zeroTime \<equiv> - 62135596800"

record JobInfo =
  ji_ID :: string
  ji_Name :: string
  ji_Owner :: string
  ji_State :: string
  ji_Queue :: string
  ji_Priority :: int
  ji_QueueTime :: int
  ji_Walltime :: int
  ji_MemReq :: int
  ji_CPUReq :: int
  ji_Host :: string
  ji_HostGroup :: string
  ji_Features :: "string list"
  ji_Nodes :: int
  ji_PPN :: int
  ji_GRes :: "int smap"
  ji_CanNotRun :: bool
  ji_CanNeverRun :: bool
  ji_StarvingSince :: int

record NodeInfo =
  ni_Name :: string
  ni_State :: string
  ni_NumProcs :: int
  ni_FreeCPUs :: int
  ni_TotalMem :: int
  ni_AvailMem :: int
  ni_LoadAvg :: rat
  ni_Jobs :: "string list"
  ni_UsedCPUs :: int
  ni_Properties :: "string list"
  ni_Groups :: "string list"
  ni_Dynamic :: bool
  ni_GResTotal :: "int smap"
  ni_GResUsed :: "int smap"

record QueueInfo =
  qi_Name :: string
  qi_Type :: string
  qi_Enabled :: bool
  qi_Started :: bool
  qi_Priority :: int
  qi_MaxRunning :: int
  qi_Running :: int
  qi_Queued :: int
  qi_Jobs :: "JobInfo list"
  qi_NaccessPolicy :: string
  qi_HostList :: "string list"
  qi_CloudBacked :: bool
  qi_CloudProvider :: string
  qi_CloudSKU :: string
  qi_CloudMinNodes :: int
  qi_CloudMaxNodes :: int
  qi_CloudIdleTime :: int
  qi_CloudProvisionTimeout :: int
  qi_CloudReclaim :: string
  qi_CloudSubnetID :: string
  qi_CloudImageID :: string
  qi_CloudDiskSize :: int
  qi_CloudDiskType :: string
  qi_CloudSSHKey :: string
  qi_CloudLocation :: string
  qi_CloudRGName :: string
  qi_CloudCooldown :: int
  qi_CloudScaleHeadroom :: int
  qi_CloudDrainTimeout :: int

record ServerInfo =
  si_Name :: string
  si_Queues :: "QueueInfo list"
  si_Nodes :: "NodeInfo list"
  si_TotalJobs :: int
  si_MaxRunning :: int

text \<open>The value a Go map of integers gives for a key that it may lack.\<close>

definition zget :: "int smap \<Rightarrow> string \<Rightarrow> int" where
  "zget m k = (case mget m k of Some v \<Rightarrow> v | None \<Rightarrow> 0)"

section \<open>Parsing status objects\<close>

text \<open>\<^verbatim>\<open>strconv.ParseFloat\<close> on plain decimals, with the value 0 for every other text.\<close>

definition ParseFloat :: "string \<Rightarrow> rat" where
  "ParseFloat s =
     (let neg = (case s of c # _ \<Rightarrow> c = CHR ''-'' | [] \<Rightarrow> False);
          d = (case s of c # cs \<Rightarrow> if c = CHR ''-'' \<or> c = CHR ''+'' then cs else s | [] \<Rightarrow> []);
          (ip, fp) = (case cut CHR ''.'' d of Some p \<Rightarrow> p | None \<Rightarrow> (d, []))
      in if ip @ fp = [] \<or> \<not> list_all is_digit (ip @ fp) then 0
         else (if neg then -1 else 1) * of_nat (dec_val (ip @ fp)) / 10 ^ length fp)"

definition parseWalltime :: "string \<Rightarrow> int" where
  "parseWalltime s = (case Split CHR '':'' s of
      [h, m, sec] \<Rightarrow> wrap64 (fst (Atoi h) * Hour + fst (Atoi m) * Minute + fst (Atoi sec) * Second)
    | _ \<Rightarrow> 0)"

definition parseMemory :: "string \<Rightarrow> int" where
  "parseMemory s0 =
     (let s = ToLower (TrimSpace s0) in
      if HasSuffix s ''kb'' then fst (ParseInt (take (length s - 2) s))
      else if HasSuffix s ''mb'' then wrap64 (fst (ParseInt (take (length s - 2) s)) * 1024)
      else if HasSuffix s ''gb'' then wrap64 (fst (ParseInt (take (length s - 2) s)) * (1024 * 1024))
      else if HasSuffix s ''tb'' then wrap64 (fst (ParseInt (take (length s - 2) s)) * (1024 * 1024 * 1024))
      else fst (ParseInt s))"

text \<open>The positive number a text holds, or what was there before.\<close>

definition positiveOr :: "int \<Rightarrow> string \<Rightarrow> int" where
  "positiveOr old s = (case Atoi s of (n, None) \<Rightarrow> if n > 0 then n else old | _ \<Rightarrow> old)"

definition parseNodeSelectSpec :: "string \<Rightarrow> int \<times> int" where
  "parseNodeSelectSpec spec0 =
     (let spec = TrimSpace spec0 in
      if spec = [] then (1, 1)
      else let parts = Split CHR '':'' (hd (Split CHR ''+'' spec))
        in (positiveOr 1 (TrimSpace (hd parts)),
            foldl (\<lambda>ppn kv0. let kv = TrimSpace kv0 in
                if HasPrefix kv ''ppn='' then positiveOr ppn (TrimSpace (drop 4 kv)) else ppn)
              1 (tl parts)))"

definition trimmedParts :: "string \<Rightarrow> string list" where
  "trimmedParts v = filter (\<lambda>f. f \<noteq> []) (map TrimSpace (Split CHR '','' v))"

definition emptyJobInfo :: "string \<Rightarrow> JobInfo" where
  "emptyJobInfo ident =
     \<lparr>ji_ID = ident, ji_Name = [], ji_Owner = [], ji_State = [], ji_Queue = [], ji_Priority = 0,
      ji_QueueTime = zeroTime, ji_Walltime = 0, ji_MemReq = 0, ji_CPUReq = 1, ji_Host = [],
      ji_HostGroup = [], ji_Features = [], ji_Nodes = 0, ji_PPN = 0, ji_GRes = [],
      ji_CanNotRun = False, ji_CanNeverRun = False, ji_StarvingSince = zeroTime\<rparr>"

definition parseJobAttr :: "SvrAttrl \<Rightarrow> JobInfo \<Rightarrow> JobInfo" where
  "parseJobAttr a j =
     (let key = (if sa_HasResc a \<and> sa_Resc a \<noteq> [] then sa_Name a @ ''.'' @ sa_Resc a else sa_Name a);
          v = sa_Value a
      in if key = ''Job_Name'' then j\<lparr>ji_Name := v\<rparr>
         else if key = ''Job_Owner'' then
           j\<lparr>ji_Owner := (case cut CHR ''@'' v of Some (c # cs, _) \<Rightarrow> c # cs | _ \<Rightarrow> v)\<rparr>
         else if key = ''job_state'' then j\<lparr>ji_State := v\<rparr>
         else if key = ''queue'' then j\<lparr>ji_Queue := v\<rparr>
         else if key = ''Priority'' then j\<lparr>ji_Priority := fst (Atoi v)\<rparr>
         else if key = ''qtime'' then
           (case ParseInt v of (ts, None) \<Rightarrow> j\<lparr>ji_QueueTime := ts\<rparr> | _ \<Rightarrow> j)
         else if key = ''Resource_List.walltime'' then j\<lparr>ji_Walltime := parseWalltime v\<rparr>
         else if key = ''Resource_List.mem'' then j\<lparr>ji_MemReq := parseMemory v\<rparr>
         else if key = ''Resource_List.ncpus'' then j\<lparr>ji_CPUReq := fst (Atoi v)\<rparr>
         else if key = ''Resource_List.nodes'' \<or> key = ''Resource_List.select'' then
           (let (n, pp) = parseNodeSelectSpec v in j\<lparr>ji_Nodes := n, ji_PPN := pp\<rparr>)
         else if key = ''Resource_List.ppn'' then j\<lparr>ji_PPN := positiveOr (ji_PPN j) v\<rparr>
         else if key = ''Resource_List.host'' then
           (if HasPrefix (TrimSpace v) ''@'' then j\<lparr>ji_HostGroup := TrimPrefix (TrimSpace v) ''@''\<rparr>
            else j\<lparr>ji_Host := v\<rparr>)
         else if key = ''Resource_List.feature'' \<or> key = ''Resource_List.features'' \<or>
                 key = ''Resource_List.properties'' then
           j\<lparr>ji_Features := ji_Features j @ trimmedParts v\<rparr>
         else if HasPrefix key ''Resource_List.'' then
           (case Atoi v of
              (n, None) \<Rightarrow> if n > 0 then
                  j\<lparr>ji_GRes := mput (TrimPrefix key ''Resource_List.'') n (ji_GRes j)\<rparr> else j
            | _ \<Rightarrow> j)
         else j)"

definition parseJobInfo :: "StatusObject \<Rightarrow> JobInfo" where
  "parseJobInfo obj = fold parseJobAttr (so_Attrs obj) (emptyJobInfo (so_Name obj))"

definition emptyNodeInfo :: "string \<Rightarrow> NodeInfo" where
  "emptyNodeInfo name =
     \<lparr>ni_Name = name, ni_State = [], ni_NumProcs = 0, ni_FreeCPUs = 0, ni_TotalMem = 0,
      ni_AvailMem = 0, ni_LoadAvg = 0, ni_Jobs = [], ni_UsedCPUs = 0, ni_Properties = [],
      ni_Groups = [], ni_Dynamic = False, ni_GResTotal = [], ni_GResUsed = []\<rparr>"

text \<open>One turn of the loop of \<^verbatim>\<open>parseNodeInfo\<close>, with its flag \<^verbatim>\<open>usedReported\<close>.\<close>

definition parseNodeAttr :: "SvrAttrl \<Rightarrow> NodeInfo \<times> bool \<Rightarrow> NodeInfo \<times> bool" where
  "parseNodeAttr a nu =
     (let (n, usedReported) = nu; v = sa_Value a
      in if sa_Name a = ''state'' then (n\<lparr>ni_State := v\<rparr>, usedReported)
         else if sa_Name a = ''np'' then
           (n\<lparr>ni_NumProcs := fst (Atoi v), ni_FreeCPUs := fst (Atoi v)\<rparr>, usedReported)
         else if sa_Name a = ''ncpus'' then
           (if ni_NumProcs n = 0 then n\<lparr>ni_NumProcs := fst (Atoi v), ni_FreeCPUs := fst (Atoi v)\<rparr> else n,
            usedReported)
         else if sa_Name a = ''used_cpus'' then
           (case Atoi v of (u, None) \<Rightarrow> if u \<ge> 0 then (n\<lparr>ni_UsedCPUs := u\<rparr>, True) else (n, usedReported)
            | _ \<Rightarrow> (n, usedReported))
         else if sa_Name a = ''totmem'' then (n\<lparr>ni_TotalMem := parseMemory v\<rparr>, usedReported)
         else if sa_Name a = ''availmem'' then (n\<lparr>ni_AvailMem := parseMemory v\<rparr>, usedReported)
         else if sa_Name a = ''loadave'' then (n\<lparr>ni_LoadAvg := ParseFloat v\<rparr>, usedReported)
         else if sa_Name a = ''jobs'' then
           (if v = [] then n
            else let n' = n\<lparr>ni_Jobs := Split CHR '','' v\<rparr>
              in if usedReported then n'
                 else n'\<lparr>ni_FreeCPUs := max 0 (wrap64 (ni_NumProcs n - int (length (ni_Jobs n'))))\<rparr>,
            usedReported)
         else if sa_Name a = ''properties'' \<or> sa_Name a = ''features'' then
           (n\<lparr>ni_Properties := ni_Properties n @ trimmedParts v\<rparr>, usedReported)
         else if sa_Name a = ''hostgroups'' \<or> sa_Name a = ''groups'' then
           (n\<lparr>ni_Groups := ni_Groups n @ trimmedParts v\<rparr>, usedReported)
         else if sa_Name a = ''is_dynamic'' then (n\<lparr>ni_Dynamic := (v = ''true'')\<rparr>, usedReported)
         else if HasPrefix (sa_Name a) ''resources_available.'' then
           (case ParseInt v of
              (x, None) \<Rightarrow> if x \<ge> 0 then
                  n\<lparr>ni_GResTotal := mput (TrimPrefix (sa_Name a) ''resources_available.'') x (ni_GResTotal n)\<rparr>
                else n
            | _ \<Rightarrow> n, usedReported)
         else if HasPrefix (sa_Name a) ''gres_used.'' then
           (case ParseInt v of
              (x, None) \<Rightarrow> if x \<ge> 0 then
                  n\<lparr>ni_GResUsed := mput (TrimPrefix (sa_Name a) ''gres_used.'') x (ni_GResUsed n)\<rparr>
                else n
            | _ \<Rightarrow> n, usedReported)
         else (n, usedReported))"

definition parseNodeInfo :: "StatusObject \<Rightarrow> NodeInfo" where
  "parseNodeInfo obj =
     (let (n, usedReported) = fold parseNodeAttr (so_Attrs obj) (emptyNodeInfo (so_Name obj), False)
      in if usedReported then n\<lparr>ni_FreeCPUs := max 0 (wrap64 (ni_NumProcs n - ni_UsedCPUs n))\<rparr> else n)"

definition emptyQueueInfo :: "string \<Rightarrow> QueueInfo" where
  "emptyQueueInfo name =
     \<lparr>qi_Name = name, qi_Type = [], qi_Enabled = True, qi_Started = True, qi_Priority = 0,
      qi_MaxRunning = 0, qi_Running = 0, qi_Queued = 0, qi_Jobs = [], qi_NaccessPolicy = [],
      qi_HostList = [], qi_CloudBacked = False, qi_CloudProvider = [], qi_CloudSKU = [],
      qi_CloudMinNodes = 0, qi_CloudMaxNodes = 0, qi_CloudIdleTime = 0, qi_CloudProvisionTimeout = 0,
      qi_CloudReclaim = [], qi_CloudSubnetID = [], qi_CloudImageID = [], qi_CloudDiskSize = 0,
      qi_CloudDiskType = [], qi_CloudSSHKey = [], qi_CloudLocation = [], qi_CloudRGName = [],
      qi_CloudCooldown = 0, qi_CloudScaleHeadroom = 0, qi_CloudDrainTimeout = 0\<rparr>"

definition parseQueueAttr :: "SvrAttrl \<Rightarrow> QueueInfo \<Rightarrow> QueueInfo" where
  "parseQueueAttr a q =
     (let v = sa_Value a
      in if sa_Name a = ''queue_type'' then q\<lparr>qi_Type := v\<rparr>
         else if sa_Name a = ''enabled'' then q\<lparr>qi_Enabled := (v = ''True'' \<or> v = ''true'')\<rparr>
         else if sa_Name a = ''started'' then q\<lparr>qi_Started := (v = ''True'' \<or> v = ''true'')\<rparr>
         else if sa_Name a = ''Priority'' then q\<lparr>qi_Priority := fst (Atoi v)\<rparr>
         else if sa_Name a = ''max_running'' then q\<lparr>qi_MaxRunning := fst (Atoi v)\<rparr>
         else if sa_Name a = ''state_count_running'' then q\<lparr>qi_Running := fst (Atoi v)\<rparr>
         else if sa_Name a = ''state_count_queued'' then q\<lparr>qi_Queued := fst (Atoi v)\<rparr>
         else if sa_Name a = ''naccesspolicy'' then q\<lparr>qi_NaccessPolicy := ToLower (TrimSpace v)\<rparr>
         else if sa_Name a = ''hostlist'' then q\<lparr>qi_HostList := qi_HostList q @ Split CHR '','' v\<rparr>
         else if sa_Name a = ''cloud_provider'' then
           q\<lparr>qi_CloudProvider := v, qi_CloudBacked := (qi_CloudBacked q \<or> v \<noteq> [])\<rparr>
         else if sa_Name a = ''cloud_vm_sku'' then q\<lparr>qi_CloudSKU := v\<rparr>
         else if sa_Name a = ''cloud_min_nodes'' then q\<lparr>qi_CloudMinNodes := fst (Atoi v)\<rparr>
         else if sa_Name a = ''cloud_max_nodes'' then q\<lparr>qi_CloudMaxNodes := fst (Atoi v)\<rparr>
         else if sa_Name a = ''cloud_idle_time'' then q\<lparr>qi_CloudIdleTime := fst (Atoi v)\<rparr>
         else if sa_Name a = ''cloud_provision_timeout'' then q\<lparr>qi_CloudProvisionTimeout := fst (Atoi v)\<rparr>
         else if sa_Name a = ''cloud_reclaim'' then q\<lparr>qi_CloudReclaim := v\<rparr>
         else if sa_Name a = ''cloud_subnet_id'' then q\<lparr>qi_CloudSubnetID := v\<rparr>
         else if sa_Name a = ''cloud_image_id'' then q\<lparr>qi_CloudImageID := v\<rparr>
         else if sa_Name a = ''cloud_disk_size'' then q\<lparr>qi_CloudDiskSize := fst (Atoi v)\<rparr>
         else if sa_Name a = ''cloud_disk_type'' then q\<lparr>qi_CloudDiskType := v\<rparr>
         else if sa_Name a = ''cloud_ssh_key'' then q\<lparr>qi_CloudSSHKey := v\<rparr>
         else if sa_Name a = ''cloud_location'' then q\<lparr>qi_CloudLocation := v\<rparr>
         else if sa_Name a = ''cloud_rg_name'' then q\<lparr>qi_CloudRGName := v\<rparr>
         else if sa_Name a = ''cloud_cooldown'' then q\<lparr>qi_CloudCooldown := fst (Atoi v)\<rparr>
         else if sa_Name a = ''cloud_scale_headroom'' then q\<lparr>qi_CloudScaleHeadroom := fst (Atoi v)\<rparr>
         else if sa_Name a = ''cloud_drain_timeout'' then q\<lparr>qi_CloudDrainTimeout := fst (Atoi v)\<rparr>
         else q)"

definition parseQueueInfo :: "StatusObject \<Rightarrow> QueueInfo" where
  "parseQueueInfo obj = fold parseQueueAttr (so_Attrs obj) (emptyQueueInfo (so_Name obj))"

section \<open>Node selection\<close>

definition blockedState :: "string \<Rightarrow> bool" where
  "blockedState t \<longleftrightarrow> t \<in> {''drain'', ''excl'', ''exclusive'', ''offline'', ''down'', ''busy''}"

fun anyTokenFree :: "string list \<Rightarrow> bool" where
  "anyTokenFree [] = False"
| "anyTokenFree (tok # toks) =
     (let t = TrimSpace tok in
      if blockedState t then False
      else if t = ''job-exclusive'' then True
      else anyTokenFree toks)"

definition nodeSchedulable :: "NodeInfo \<Rightarrow> bool" where
  "nodeSchedulable n \<longleftrightarrow> ni_State n = ''free'' \<or> anyTokenFree (Split CHR '','' (ni_State n))"

definition isRouteQueue :: "QueueInfo \<Rightarrow> bool" where
  "isRouteQueue q \<longleftrightarrow> (let t = ToLower (TrimSpace (qi_Type q)) in t = ''route'' \<or> t = ''r'')"

definition nodeHasGroup :: "NodeInfo \<Rightarrow> string \<Rightarrow> bool" where
  "nodeHasGroup n g \<longleftrightarrow> list_ex (\<lambda>grp. EqualFold (TrimSpace grp) g) (ni_Groups n)"

definition nodeHasGRes :: "NodeInfo \<Rightarrow> int smap \<Rightarrow> bool" where
  "nodeHasGRes n want \<longleftrightarrow>
     list_all (\<lambda>(name, req). \<not> wrap64 (zget (ni_GResTotal n) name - zget (ni_GResUsed n) name) < req) want"

definition nodeHasAllFeatures :: "NodeInfo \<Rightarrow> string list \<Rightarrow> bool" where
  "nodeHasAllFeatures n want \<longleftrightarrow> list_all (\<lambda>f. list_ex (\<lambda>p. EqualFold p f) (ni_Properties n)) want"

definition hostListed :: "NodeInfo \<Rightarrow> string \<Rightarrow> bool" where
  "hostListed n h0 \<longleftrightarrow>
     (let h = TrimSpace h0 in
      h \<noteq> [] \<and> (if HasPrefix h ''@'' then nodeHasGroup n (TrimPrefix h ''@'') else EqualFold (ni_Name n) h))"

definition queueNodeOK :: "QueueInfo option \<Rightarrow> NodeInfo \<Rightarrow> bool" where
  "queueNodeOK qo n = (case qo of
      None \<Rightarrow> True
    | Some q \<Rightarrow>
        if qi_HostList q \<noteq> [] \<and> \<not> list_ex (hostListed n) (qi_HostList q) then False
        else if qi_NaccessPolicy q \<in> {''exclusive'', ''singleuser'', ''exclhost'', ''exec_host_exclusive''} \<and>
                ni_Jobs n \<noteq> [] then False
        else True)"

definition queueForJob :: "ServerInfo \<Rightarrow> string \<Rightarrow> QueueInfo option" where
  "queueForJob sinfo name = find (\<lambda>q. qi_Name q = name) (si_Queues sinfo)"

text \<open>The guards that \<^verbatim>\<open>countSchedulableForJob\<close> and \<^verbatim>\<open>findNodeForJob\<close> share.\<close>

definition nodeEligible :: "ServerInfo \<Rightarrow> JobInfo \<Rightarrow> NodeInfo \<Rightarrow> bool" where
  "nodeEligible sinfo jinfo n \<longleftrightarrow>
     nodeSchedulable n \<and>
     \<not> (ji_Host jinfo \<noteq> [] \<and> \<not> EqualFold (ni_Name n) (ji_Host jinfo)) \<and>
     \<not> (ji_HostGroup jinfo \<noteq> [] \<and> \<not> nodeHasGroup n (ji_HostGroup jinfo)) \<and>
     \<not> (ji_Features jinfo \<noteq> [] \<and> \<not> nodeHasAllFeatures n (ji_Features jinfo)) \<and>
     queueNodeOK (queueForJob sinfo (ji_Queue jinfo)) n \<and>
     nodeHasGRes n (ji_GRes jinfo)"

definition countSchedulableForJob :: "ServerInfo \<Rightarrow> JobInfo \<Rightarrow> int \<Rightarrow> int" where
  "countSchedulableForJob sinfo jinfo reqCPUs =
     int (length (filter (\<lambda>n. nodeEligible sinfo jinfo n \<and> ni_FreeCPUs n \<ge> reqCPUs) (si_Nodes sinfo)))"

text \<open>The comparison of \<^verbatim>\<open>findNodeForJob\<close>: static nodes first, then by load or by free processors.\<close>

definition preferred :: "Config \<Rightarrow> NodeInfo \<Rightarrow> NodeInfo \<Rightarrow> bool" where
  "preferred cfg a b \<longleftrightarrow>
     (if ni_Dynamic a \<noteq> ni_Dynamic b then \<not> ni_Dynamic a
      else if c_LoadBalancing cfg then ni_LoadAvg a < ni_LoadAvg b
      else ni_FreeCPUs a < ni_FreeCPUs b)"

text \<open>\<^verbatim>\<open>sort.SliceStable\<close>, as insertion behind the elements that are not larger.\<close>

fun insertStable :: "('a \<Rightarrow> 'a \<Rightarrow> bool) \<Rightarrow> 'a \<Rightarrow> 'a list \<Rightarrow> 'a list" where
  "insertStable lt x [] = [x]"
| "insertStable lt x (y # ys) = (if lt y x then y # insertStable lt x ys else x # y # ys)"

definition SliceStable :: "('a \<Rightarrow> 'a \<Rightarrow> bool) \<Rightarrow> 'a list \<Rightarrow> 'a list" where
  "SliceStable lt xs = foldr (insertStable lt) xs []"

definition effectiveCPU :: "JobInfo \<Rightarrow> int" where
  "effectiveCPU jinfo = (if ji_CPUReq jinfo = 0 then 1 else ji_CPUReq jinfo)"

text \<open>
  The node \<^verbatim>\<open>findNodeForJob\<close> returns is a pointer into the snapshot: the model gives its position in
  the list of nodes.
\<close>

definition findNodeForJob :: "Config \<Rightarrow> ServerInfo \<Rightarrow> JobInfo \<Rightarrow> nat option" where
  "findNodeForJob cfg sinfo jinfo =
     (let cpuReq = effectiveCPU jinfo;
          perNode = (if ji_PPN jinfo = 0 then cpuReq else ji_PPN jinfo)
      in if ji_Nodes jinfo > 1 \<and> countSchedulableForJob sinfo jinfo perNode < ji_Nodes jinfo then None
         else let candidates = filter (\<lambda>(_, n). nodeEligible sinfo jinfo n \<and> ni_FreeCPUs n \<ge> cpuReq)
                (enumerate 0 (si_Nodes sinfo))
           in case SliceStable (\<lambda>a b. preferred cfg (snd a) (snd b)) candidates of
                [] \<Rightarrow> None
              | (i, _) # _ \<Rightarrow> Some i)"

section \<open>Stable sorting\<close>

lemma insertStable_not_Nil [simp]: "insertStable lt x ys \<noteq> []"
  by (cases ys) auto

lemma set_insertStable [simp]: "set (insertStable lt x ys) = insert x (set ys)"
  by (induction ys) auto

lemma mset_SliceStable: "mset (SliceStable lt xs) = mset xs"
proof -
  have "mset (insertStable lt x ys) = add_mset x (mset ys)" for x :: 'a and ys by (induction ys) auto
  then show ?thesis by (induction xs) (auto simp: SliceStable_def)
qed

lemma set_SliceStable [simp]: "set (SliceStable lt xs) = set xs"
  by (metis mset_SliceStable set_mset_mset)

text \<open>A comparison that orders elements by classes, as the documentation of \<^verbatim>\<open>sort\<close> asks for.\<close>

definition weak_order :: "('a \<Rightarrow> 'a \<Rightarrow> bool) \<Rightarrow> bool" where
  "weak_order lt \<longleftrightarrow>
     (\<forall>a b. lt a b \<longrightarrow> \<not> lt b a) \<and> (\<forall>a b c. \<not> lt a b \<and> \<not> lt b c \<longrightarrow> \<not> lt a c)"

lemma SliceStable_Cons: "SliceStable lt (x # xs) = insertStable lt x (SliceStable lt xs)"
  by (simp add: SliceStable_def)

lemma weak_order_asym: "weak_order lt \<Longrightarrow> lt a b \<Longrightarrow> \<not> lt b a"
  unfolding weak_order_def by blast

lemma weak_order_trans: "weak_order lt \<Longrightarrow> \<not> lt a b \<Longrightarrow> \<not> lt b c \<Longrightarrow> \<not> lt a c"
  unfolding weak_order_def by blast

lemma sorted_insertStable:
  assumes "weak_order lt"
  shows "sorted_wrt (\<lambda>a b. \<not> lt b a) ys \<Longrightarrow> sorted_wrt (\<lambda>a b. \<not> lt b a) (insertStable lt x ys)"
proof (induction ys)
  case (Cons y ys)
  show ?case
  proof (cases "lt y x")
    case True
    then show ?thesis using Cons weak_order_asym [OF assms True] by simp
  next
    case False
    then have "\<not> lt b x" if "b \<in> set ys" for b
      using Cons.prems that weak_order_trans [OF assms, of b y x] by simp
    then show ?thesis using Cons.prems False by simp
  qed
qed simp

lemma sorted_SliceStable:
  "weak_order lt \<Longrightarrow> sorted_wrt (\<lambda>a b. \<not> lt b a) (SliceStable lt xs)"
  by (induction xs) (simp_all add: SliceStable_def sorted_insertStable)

text \<open>The head of a stable sort is the first of the least elements.\<close>

lemma SliceStable_hd:
  assumes "weak_order lt" "SliceStable lt xs = z # zs"
  shows "\<exists>i < length xs. xs ! i = z \<and> (\<forall>k < length xs. \<not> lt (xs ! k) z) \<and> (\<forall>k < i. lt z (xs ! k))"
  using assms(2)
proof (induction xs arbitrary: z zs)
  case Nil
  then show ?case by (simp add: SliceStable_def)
next
  case (Cons x xs)
  show ?case
  proof (cases "SliceStable lt xs")
    case Nil
    then have "xs = []" by (metis mset_SliceStable mset_zero_iff)
    then show ?thesis using Cons.prems weak_order_asym [OF assms(1), of x x] by (auto simp: SliceStable_def)
  next
    case (Cons w ws)
    obtain i where i: "i < length xs" "xs ! i = w" "\<forall>k < length xs. \<not> lt (xs ! k) w"
      "\<forall>k < i. lt w (xs ! k)" using Cons.IH [OF Cons] by blast
    show ?thesis
    proof (cases "lt w x")
      case True
      then have "z = w" using Cons.prems Cons by (simp add: SliceStable_Cons)
      then show ?thesis using i True weak_order_asym [OF assms(1) True]
        by (intro exI [of _ "Suc i"]) (simp add: All_less_Suc2)
    next
      case False
      then have "z = x" using Cons.prems Cons by (simp add: SliceStable_Cons)
      moreover have "\<not> lt (xs ! k) x" if "k < length xs" for k
        using i(3) that False weak_order_trans [OF assms(1), of "xs ! k" w x] by simp
      ultimately show ?thesis using weak_order_asym [OF assms(1), of x x]
        by (intro exI [of _ 0]) (auto simp: All_less_Suc2)
    qed
  qed
qed

lemma preferred_order: "weak_order (\<lambda>a b. preferred cfg (snd a) (snd b))"
  by (auto simp: weak_order_def preferred_def split: if_splits)

section \<open>Placement\<close>

text \<open>The nodes a job may be placed on.\<close>

definition candidate :: "ServerInfo \<Rightarrow> JobInfo \<Rightarrow> nat \<Rightarrow> bool" where
  "candidate sinfo jinfo i \<longleftrightarrow>
     i < length (si_Nodes sinfo) \<and> nodeEligible sinfo jinfo (si_Nodes sinfo ! i) \<and>
     effectiveCPU jinfo \<le> ni_FreeCPUs (si_Nodes sinfo ! i)"

definition enoughNodes :: "ServerInfo \<Rightarrow> JobInfo \<Rightarrow> bool" where
  "enoughNodes sinfo jinfo \<longleftrightarrow>
     ji_Nodes jinfo \<le> 1 \<or>
     ji_Nodes jinfo \<le> countSchedulableForJob sinfo jinfo
       (if ji_PPN jinfo = 0 then effectiveCPU jinfo else ji_PPN jinfo)"

definition candidates :: "ServerInfo \<Rightarrow> JobInfo \<Rightarrow> (nat \<times> NodeInfo) list" where
  "candidates sinfo jinfo =
     filter (\<lambda>(_, n). nodeEligible sinfo jinfo n \<and> ni_FreeCPUs n \<ge> effectiveCPU jinfo)
       (enumerate 0 (si_Nodes sinfo))"

lemma findNodeForJob_unfold:
  "findNodeForJob cfg sinfo jinfo =
     (if enoughNodes sinfo jinfo
      then map_option fst (case SliceStable (\<lambda>a b. preferred cfg (snd a) (snd b)) (candidates sinfo jinfo)
             of [] \<Rightarrow> None | z # _ \<Rightarrow> Some z)
      else None)"
  by (simp add: findNodeForJob_def enoughNodes_def candidates_def Let_def not_le not_less
      split: list.split)

lemma candidates_mem:
  "(i, n) \<in> set (candidates sinfo jinfo) \<longleftrightarrow> candidate sinfo jinfo i \<and> n = si_Nodes sinfo ! i"
  by (auto simp: candidates_def candidate_def in_set_enumerate_eq)

lemma candidates_sorted: "sorted_wrt (\<lambda>a b. fst a < fst b) (candidates sinfo jinfo)"
proof -
  have "sorted_wrt (\<lambda>a b. fst a < fst b) (enumerate k xs)" for k and xs :: "NodeInfo list"
    by (induction xs arbitrary: k) (auto simp: in_set_enumerate_eq)
  then show ?thesis by (simp add: candidates_def sorted_wrt_filter)
qed

lemma findNodeForJob_None:
  "findNodeForJob cfg sinfo jinfo = None \<longleftrightarrow>
     \<not> enoughNodes sinfo jinfo \<or> \<not> (\<exists>i. candidate sinfo jinfo i)"
proof -
  have "SliceStable lt (candidates sinfo jinfo) = [] \<longleftrightarrow> \<not> (\<exists>i. candidate sinfo jinfo i)" for lt
    using candidates_mem [of _ _ sinfo jinfo] by (metis ex_in_conv set_SliceStable set_empty surj_pair)
  then show ?thesis by (simp add: findNodeForJob_unfold split: list.split) (metis list.distinct(1))
qed

lemma findNodeForJob_Some:
  assumes "findNodeForJob cfg sinfo jinfo = Some i"
  shows "enoughNodes sinfo jinfo \<and> candidate sinfo jinfo i \<and>
    (\<forall>k. candidate sinfo jinfo k \<longrightarrow>
       \<not> preferred cfg (si_Nodes sinfo ! k) (si_Nodes sinfo ! i) \<and>
       (k < i \<longrightarrow> preferred cfg (si_Nodes sinfo ! i) (si_Nodes sinfo ! k)))"
proof -
  let ?cs = "candidates sinfo jinfo" and ?lt = "\<lambda>a b. preferred cfg (snd a) (snd b)"
  obtain n zs where z: "SliceStable ?lt ?cs = (i, n) # zs" and en: "enoughNodes sinfo jinfo"
    using assms by (auto simp: findNodeForJob_unfold split: list.splits if_splits)
  from SliceStable_hd [OF preferred_order z] obtain p where p: "p < length ?cs" "?cs ! p = (i, n)"
    "\<forall>k < length ?cs. \<not> ?lt (?cs ! k) (i, n)" "\<forall>k < p. ?lt (i, n) (?cs ! k)" by blast
  have i: "candidate sinfo jinfo i" "n = si_Nodes sinfo ! i"
    using nth_mem [OF p(1)] p(2) by (simp_all add: candidates_mem)
  have "\<not> preferred cfg (si_Nodes sinfo ! k) (si_Nodes sinfo ! i) \<and>
      (k < i \<longrightarrow> preferred cfg (si_Nodes sinfo ! i) (si_Nodes sinfo ! k))"
    if k: "candidate sinfo jinfo k" for k
  proof -
    obtain r where r: "r < length ?cs" "?cs ! r = (k, si_Nodes sinfo ! k)"
      using k candidates_mem [of k "si_Nodes sinfo ! k" sinfo jinfo] by (auto simp: in_set_conv_nth)
    have "r < p" if "k < i"
      using sorted_wrt_nth_less [OF candidates_sorted, of p r sinfo jinfo] that r p(1,2)
      by (metis fst_conv linorder_neqE_nat not_less_iff_gr_or_eq)
    then show ?thesis using p(3,4) r i(2) by (metis snd_conv)
  qed
  then show ?thesis using en i(1) by blast
qed

section \<open>Which node states are schedulable\<close>

lemma anyTokenFree_if:
  "anyTokenFree ((if b then [t] else []) @ ts) =
     (if b then \<not> blockedState (TrimSpace t) \<and> (TrimSpace t = ''job-exclusive'' \<or> anyTokenFree ts)
      else anyTokenFree ts)"
  by (simp add: Let_def)

lemma map_filter_if: "map snd (filter P (x # xs)) = (if P x then [snd x] else []) @ map snd (filter P xs)"
  by simp

lemma checkFlags_no_comma: "\<forall>t \<in> snd ` set checkFlags. CHR '','' \<notin> set t"
  by (simp add: checkFlags_def)

lemma Split_state:
  "xs \<noteq> [] \<Longrightarrow> set xs \<subseteq> snd ` set checkFlags \<Longrightarrow> Split CHR '','' (Join '','' xs) = xs"
  using checkFlags_no_comma by (intro Split_Join) auto

lemma anyTokenFree_flags:
  "anyTokenFree (map snd (filter (\<lambda>(f, _). w AND f \<noteq> 0) checkFlags)) \<longleftrightarrow>
     w AND StateDown = 0 \<and> w AND StateOffline = 0 \<and> w AND StateBusy = 0 \<and> w AND StateJob \<noteq> 0"
  unfolding checkFlags_def map_filter_if anyTokenFree_if
  by (simp add: blockedState_def TrimSpace_def is_space_def)

lemma Join_Cons_nonempty: "x \<noteq> [] \<Longrightarrow> Join sep (x # xs) \<noteq> []"
  by (cases xs) auto

lemma checkFlags_not_free:
  "xs \<noteq> [] \<Longrightarrow> set xs \<subseteq> snd ` set checkFlags \<Longrightarrow> Join '','' xs \<noteq> [] \<and> Join '','' xs \<noteq> ''free''"
proof -
  assume xs: "xs \<noteq> []" "set xs \<subseteq> snd ` set checkFlags"
  have names: "[] \<notin> snd ` set checkFlags" "''free'' \<notin> snd ` set checkFlags" by (simp_all add: checkFlags_def)
  obtain y ys where y: "xs = y # ys" using xs(1) by (cases xs) auto
  then have y0: "y \<noteq> []" using xs(2) names(1) by (metis insert_subset list.simps(15))
  have "Split CHR '','' (Join '','' xs) \<noteq> [''free'']"
    using Split_state [OF xs] xs names by auto
  then show ?thesis using Join_Cons_nonempty [OF y0] y by (auto simp: Split_no_sep)
qed

lemma nodeSchedulable_state:
  assumes "ni_State ni = NodeStateName n"
  shows "nodeSchedulable ni \<longleftrightarrow>
     (\<forall>f \<in> fst ` set checkFlags. n_State n AND f = 0) \<or>
     n_State n AND StateDown = 0 \<and> n_State n AND StateOffline = 0 \<and> n_State n AND StateBusy = 0 \<and>
     n_State n AND StateJob \<noteq> 0"
proof -
  let ?xs = "map snd (filter (\<lambda>(f, _). n_State n AND f \<noteq> 0) checkFlags)"
  have sub: "set ?xs \<subseteq> snd ` set checkFlags" by auto
  have empty: "?xs = [] \<longleftrightarrow> (\<forall>f \<in> fst ` set checkFlags. n_State n AND f = 0)"
    by (auto simp: filter_empty_conv split: prod.splits)
  show ?thesis
  proof (cases "?xs = []")
    case True
    then have "ni_State ni = ''free''" by (simp add: assms NodeStateName_def)
    then show ?thesis using empty True by (simp add: nodeSchedulable_def)
  next
    case False
    then have "n_State n \<noteq> 0" by (auto simp: filter_empty_conv)
    then have "ni_State ni = Join '','' ?xs"
      using checkFlags_not_free [OF False sub] by (simp add: assms NodeStateName_def Let_def)
    then have "nodeSchedulable ni \<longleftrightarrow> anyTokenFree ?xs"
      using checkFlags_not_free [OF False sub] Split_state [OF False sub] by (simp add: nodeSchedulable_def)
    then show ?thesis using False empty anyTokenFree_flags by blast
  qed
qed

lemma and_flags_zero: "w AND (f OR g) = 0 \<longleftrightarrow> w AND f = 0 \<and> w AND g = (0 :: flags)"
  by (simp add: bit.conj_disj_distrib or_eq_0_iff)

lemma no_flag: "(\<forall>f \<in> fst ` set checkFlags. w AND f = 0) \<longleftrightarrow> w AND 0xFF = 0"
proof -
  have "(0xFF :: flags) = StateDown OR StateOffline OR StateReserve OR StateJob OR StateBusy OR StateUnknown OR
    StateDrain OR StateExcl" by simp
  then show ?thesis by (simp only: and_flags_zero) (auto simp: checkFlags_def)
qed

section \<open>Properties\<close>

text \<open>
C16: Node selection finds a node whenever one will do, and the best one. It returns nothing exactly when
a multi-node job lacks enough eligible nodes or no node passes every constraint of the job and its
queue with enough free processors. The node it returns passes them all, no other such node is
strictly better under the configured order (static nodes first, then lowest load or tightest
fit), and it is strictly better than every such node listed before it.
\<close>

theorem placement_best:
  "(findNodeForJob cfg sinfo jinfo = None \<longleftrightarrow>
      \<not> enoughNodes sinfo jinfo \<or> \<not> (\<exists>i. candidate sinfo jinfo i)) \<and>
   (findNodeForJob cfg sinfo jinfo = Some i \<longrightarrow>
      enoughNodes sinfo jinfo \<and> candidate sinfo jinfo i \<and>
      (\<forall>k. candidate sinfo jinfo k \<longrightarrow>
         \<not> preferred cfg (si_Nodes sinfo ! k) (si_Nodes sinfo ! i) \<and>
         (k < i \<longrightarrow> preferred cfg (si_Nodes sinfo ! i) (si_Nodes sinfo ! k))))"
  by (intro conjI impI findNodeForJob_None findNodeForJob_Some)

text \<open>Two free nodes, the second with fewer free processors.\<close>

definition twoNodes :: ServerInfo where
  "twoNodes =
     \<lparr>si_Name = ''s'', si_Queues = [],
      si_Nodes = [(emptyNodeInfo ''a'')\<lparr>ni_State := ''free'', ni_FreeCPUs := 4\<rparr>,
                  (emptyNodeInfo ''b'')\<lparr>ni_State := ''free'', ni_FreeCPUs := 2\<rparr>],
      si_TotalJobs = 0, si_MaxRunning = 0\<rparr>"

lemma twoNodes_candidate: "candidate twoNodes (emptyJobInfo ''1'') i \<longleftrightarrow> i < 2"
  by (auto simp: candidate_def twoNodes_def nodeEligible_def emptyNodeInfo_def emptyJobInfo_def
      effectiveCPU_def nodeSchedulable_def queueNodeOK_def queueForJob_def nodeHasGRes_def less_Suc_eq
      numeral_2_eq_2)

theorem placement_best_witness:
  "findNodeForJob (DefaultConfig ''/'') twoNodes (emptyJobInfo ''1'') = Some 1 \<and>
   candidate twoNodes (emptyJobInfo ''1'') 0 \<and>
   \<not> preferred (DefaultConfig ''/'') (si_Nodes twoNodes ! 0) (si_Nodes twoNodes ! 1)"
proof -
  let ?f = "findNodeForJob (DefaultConfig ''/'') twoNodes (emptyJobInfo ''1'')"
  have en: "enoughNodes twoNodes (emptyJobInfo ''1'')" by (simp add: enoughNodes_def emptyJobInfo_def)
  have p: "preferred (DefaultConfig ''/'') (si_Nodes twoNodes ! 1) (si_Nodes twoNodes ! 0)"
    by (simp add: preferred_def twoNodes_def DefaultConfig_def emptyNodeInfo_def)
  have "?f \<noteq> None" using placement_best [of "DefaultConfig ''/''" twoNodes "emptyJobInfo ''1''"] en
    by (metis twoNodes_candidate pos2)
  then obtain i where i: "?f = Some i" by blast
  have "i = 1"
    using placement_best [of "DefaultConfig ''/''" twoNodes "emptyJobInfo ''1''" i] i p
    by (auto simp: twoNodes_candidate less_2_cases_iff)
  then show ?thesis
    using placement_best [of "DefaultConfig ''/''" twoNodes "emptyJobInfo ''1''" i] i
    by (auto simp: twoNodes_candidate)
qed

text \<open>
C33: Which of the states a server reports the scheduler takes as schedulable. A node is schedulable exactly
when none of its state flags is set, or when it runs jobs and is neither down nor offline nor busy.
In particular a draining or exclusive node that runs a job stays schedulable, because
the token for running jobs comes first in the state text and ends the search.
\<close>

theorem schedulable_states:
  "nodeSchedulable (ni\<lparr>ni_State := NodeStateName n\<rparr>) \<longleftrightarrow>
     n_State n AND 0xFF = 0 \<or>
     n_State n AND StateJob \<noteq> 0 \<and>
     n_State n AND (StateDown OR StateOffline OR StateBusy) = 0"
proof -
  have "ni_State (ni\<lparr>ni_State := NodeStateName n\<rparr>) = NodeStateName n" by simp
  from nodeSchedulable_state [OF this] show ?thesis unfolding no_flag and_flags_zero by blast
qed

end
