(* ===== verification/Sched_Cycle.thy ===== *)
theory Sched_Cycle
  imports Sched_Model
begin

text \<open>
  One scheduling cycle, \<^verbatim>\<open>src/internal/sched/scheduler/scheduler.go\<close> from \<^verbatim>\<open>runCycle\<close> to the job iterator.

  What a cycle takes from outside is an argument: the replies of the server to the three status
  requests, the clock, the decay factor of the fair-share usage, the answer of the server to a run
  request (a function on a state of any type), and \<^verbatim>\<open>sort.Slice\<close>, which promises a sorted
  permutation and no more. A loop that need not end is a partial function into \<^typ>\<open>'a option\<close>,
  where None is a run that never returns.
\<close>

section \<open>Queue and job order\<close>

type_synonym 'a slice_sorter = "('a \<Rightarrow> 'a \<Rightarrow> bool) \<Rightarrow> 'a list \<Rightarrow> 'a list"

text \<open>What the documentation of \<^verbatim>\<open>sort.Slice\<close> promises.\<close>

definition slice_sorts :: "'a slice_sorter \<Rightarrow> bool" where
  "slice_sorts sorter \<longleftrightarrow>
     (\<forall>lt xs. weak_order lt \<longrightarrow>
        mset (sorter lt xs) = mset xs \<and> sorted_wrt (\<lambda>a b. \<not> lt b a) (sorter lt xs))"

definition fget :: "rat smap \<Rightarrow> string \<Rightarrow> rat" where
  "fget m k = (case mget m k of Some v \<Rightarrow> v | None \<Rightarrow> 0)"

text \<open>The comparison \<^verbatim>\<open>sortJobs\<close> hands to \<^verbatim>\<open>sort.Slice\<close>.\<close>

definition jobLess :: "Config \<Rightarrow> rat smap \<Rightarrow> JobInfo \<Rightarrow> JobInfo \<Rightarrow> bool" where
  "jobLess cfg fairUsage a b =
     (if c_SortBy cfg = ''shortest_job_first'' then ji_Walltime a < ji_Walltime b
      else if c_SortBy cfg = ''longest_job_first'' then ji_Walltime a > ji_Walltime b
      else if c_SortBy cfg = ''high_priority_first'' then ji_Priority a > ji_Priority b
      else if c_SortBy cfg = ''low_priority_first'' then ji_Priority a < ji_Priority b
      else if c_SortBy cfg = ''smallest_memory_first'' then ji_MemReq a < ji_MemReq b
      else if c_SortBy cfg = ''largest_memory_first'' then ji_MemReq a > ji_MemReq b
      else if c_SortBy cfg = ''fair_share'' then fget fairUsage (ji_Owner a) < fget fairUsage (ji_Owner b)
      else ji_QueueTime a < ji_QueueTime b)"

definition starving :: "Config \<Rightarrow> int \<Rightarrow> JobInfo \<Rightarrow> bool" where
  "starving cfg now j \<longleftrightarrow>
     ji_QueueTime j \<noteq> zeroTime \<and> ji_QueueTime j * Second < now - c_MaxStarve cfg"

definition sortJobs ::
  "JobInfo slice_sorter \<Rightarrow> Config \<Rightarrow> rat smap \<Rightarrow> int \<Rightarrow> JobInfo list \<Rightarrow> JobInfo list" where
  "sortJobs sorter cfg fairUsage now jobs0 =
     (let jobs = sorter (jobLess cfg fairUsage) jobs0 in
      if c_HelpStarvingJobs cfg \<and> c_MaxStarve cfg > 0 then
        let starvingJobs = filter (starving cfg now) jobs;
            normalJobs = filter (\<lambda>j. \<not> starving cfg now j) jobs
        in if starvingJobs \<noteq> [] then starvingJobs @ normalJobs else jobs
      else jobs)"

section \<open>The snapshot\<close>

text \<open>The jobs in state Q of a queue, in the order of the reply.\<close>

definition jobsByQueue :: "StatusObject list \<Rightarrow> string \<Rightarrow> JobInfo list" where
  "jobsByQueue jobObjs name =
     filter (\<lambda>j. ji_State j = ''Q'' \<and> ji_Queue j = name) (map parseJobInfo jobObjs)"

datatype sched_error = StatusQueues string | StatusNodes string | StatusJobs string

definition queryServer ::
  "QueueInfo slice_sorter \<Rightarrow> Config \<Rightarrow> string \<Rightarrow> string + StatusObject list \<Rightarrow>
   string + StatusObject list \<Rightarrow> string + StatusObject list \<Rightarrow> sched_error + ServerInfo" where
  "queryServer sorter cfg server queueReply nodeReply jobReply =
     (case queueReply of Inl e \<Rightarrow> Inl (StatusQueues e) | Inr queueObjs \<Rightarrow>
      case nodeReply of Inl e \<Rightarrow> Inl (StatusNodes e) | Inr nodeObjs \<Rightarrow>
      case jobReply of Inl e \<Rightarrow> Inl (StatusJobs e) | Inr jobObjs \<Rightarrow>
        let queues = map (\<lambda>obj. let q = parseQueueInfo obj
              in q\<lparr>qi_Jobs := jobsByQueue jobObjs (qi_Name q)\<rparr>) queueObjs
        in Inr \<lparr>si_Name = server,
                si_Queues = (if c_SortQueues cfg
                  then sorter (\<lambda>a b. qi_Priority a > qi_Priority b) queues else queues),
                si_Nodes = map parseNodeInfo nodeObjs, si_TotalJobs = 0, si_MaxRunning = 0\<rparr>)"

definition decayUsage :: "Config \<Rightarrow> rat \<Rightarrow> rat smap \<Rightarrow> rat smap" where
  "decayUsage cfg decayFactor fairUsage =
     (if c_FairShare cfg \<and> c_HalfLife cfg > 0
      then map (\<lambda>(user, usage). (user, usage * decayFactor)) fairUsage else fairUsage)"

definition initCycle ::
  "JobInfo slice_sorter \<Rightarrow> Config \<Rightarrow> rat \<Rightarrow> int \<Rightarrow> rat smap \<Rightarrow> ServerInfo \<Rightarrow> ServerInfo \<times> rat smap" where
  "initCycle sorter cfg decayFactor now fairUsage sinfo =
     (let usage = decayUsage cfg decayFactor fairUsage
      in (sinfo\<lparr>si_Queues := map (\<lambda>q. if qi_Jobs q = [] then q
              else q\<lparr>qi_Jobs := sortJobs sorter cfg usage now (qi_Jobs q)\<rparr>) (si_Queues sinfo)\<rparr>, usage))"

section \<open>The job iterator\<close>

datatype iter_mode = RoundRobinMode | ByQueueMode | FlatMode

record jobIterator =
  it_mode :: iter_mode
  it_qIdx :: nat
  it_jIdx :: "nat list"

definition newJobIterator :: "Config \<Rightarrow> ServerInfo \<Rightarrow> jobIterator" where
  "newJobIterator cfg sinfo =
     \<lparr>it_mode = (if c_RoundRobin cfg then RoundRobinMode else if c_ByQueue cfg then ByQueueMode else FlatMode),
      it_qIdx = 0, it_jIdx = replicate (length (si_Queues sinfo)) 0\<rparr>"

text \<open>A job of the snapshot, by the position of its queue and its position there.\<close>

type_synonym job_ref = "nat \<times> nat"

abbreviation queueAt :: "ServerInfo \<Rightarrow> nat \<Rightarrow> QueueInfo" where
  "queueAt sinfo qi \<equiv> si_Queues sinfo ! qi"

abbreviation jobAt :: "ServerInfo \<Rightarrow> job_ref \<Rightarrow> JobInfo" where
  "jobAt sinfo r \<equiv> qi_Jobs (queueAt sinfo (fst r)) ! snd r"

definition skipQueue :: "QueueInfo \<Rightarrow> bool" where
  "skipQueue q \<longleftrightarrow> \<not> qi_Enabled q \<or> \<not> qi_Started q \<or> isRouteQueue q"

text \<open>
  \<^verbatim>\<open>nextByQueue\<close>; \<^verbatim>\<open>nextFlat\<close> has the same body. \<^verbatim>\<open>newJobIterator\<close> makes the list of job positions as long
  as the list of queues, so the second guard never fails.
\<close>

function nextByQueue :: "ServerInfo \<Rightarrow> jobIterator \<Rightarrow> job_ref option \<times> jobIterator" where
  "nextByQueue sinfo it =
     (let qi = it_qIdx it in
      if qi < length (si_Queues sinfo) \<and> qi < length (it_jIdx it) then
        let q = queueAt sinfo qi; ji = it_jIdx it ! qi in
        if skipQueue q then nextByQueue sinfo (it\<lparr>it_qIdx := qi + 1\<rparr>)
        else if ji < length (qi_Jobs q) then
          let it' = it\<lparr>it_jIdx := (it_jIdx it)[qi := ji + 1]\<rparr> in
          if \<not> ji_CanNotRun (qi_Jobs q ! ji) then (Some (qi, ji), it') else nextByQueue sinfo it'
        else nextByQueue sinfo (it\<lparr>it_qIdx := qi + 1\<rparr>)
      else (None, it))"
  by pat_completeness auto

termination
  by (relation "measures
      [\<lambda>(s, it). length (si_Queues s) - it_qIdx it,
       \<lambda>(s, it). length (qi_Jobs (queueAt s (it_qIdx it))) - it_jIdx it ! it_qIdx it]") auto

declare nextByQueue.simps [simp del]

definition nextFlat :: "ServerInfo \<Rightarrow> jobIterator \<Rightarrow> job_ref option \<times> jobIterator" where
  "nextFlat sinfo it = nextByQueue sinfo it"

text \<open>The first loop of \<^verbatim>\<open>nextRoundRobin\<close>, with the number of attempts left.\<close>

fun roundRobinPass :: "ServerInfo \<Rightarrow> nat \<Rightarrow> jobIterator \<Rightarrow> job_ref option \<times> jobIterator" where
  "roundRobinPass sinfo 0 it = (None, it)"
| "roundRobinPass sinfo (Suc attempts) it =
     (let qi = it_qIdx it mod length (si_Queues sinfo);
          it1 = it\<lparr>it_qIdx := it_qIdx it + 1\<rparr>;
          q = queueAt sinfo qi; ji = it_jIdx it ! qi in
      if skipQueue q then roundRobinPass sinfo attempts it1
      else if ji < length (qi_Jobs q) then
        let it2 = it1\<lparr>it_jIdx := (it_jIdx it)[qi := ji + 1]\<rparr> in
        if \<not> ji_CanNotRun (qi_Jobs q ! ji) then (Some (qi, ji), it2)
        else roundRobinPass sinfo attempts it2
      else roundRobinPass sinfo attempts it1)"

definition allDone :: "ServerInfo \<Rightarrow> jobIterator \<Rightarrow> bool" where
  "allDone sinfo it \<longleftrightarrow>
     list_all (\<lambda>(i, q). \<not> it_jIdx it ! i < length (qi_Jobs q)) (enumerate 0 (si_Queues sinfo))"

partial_function (option) nextRoundRobin ::
  "ServerInfo \<Rightarrow> jobIterator \<Rightarrow> (job_ref option \<times> jobIterator) option" where
  "nextRoundRobin sinfo it =
     (if si_Queues sinfo = [] then Some (None, it)
      else let p = roundRobinPass sinfo (length (si_Queues sinfo)) it in
        if fst p \<noteq> None then Some p
        else if allDone sinfo (snd p) then Some p
        else nextRoundRobin sinfo (snd p))"

definition nextJob :: "ServerInfo \<Rightarrow> jobIterator \<Rightarrow> (job_ref option \<times> jobIterator) option" where
  "nextJob sinfo it = (case it_mode it of
      RoundRobinMode \<Rightarrow> nextRoundRobin sinfo it
    | ByQueueMode \<Rightarrow> Some (nextByQueue sinfo it)
    | FlatMode \<Rightarrow> Some (nextFlat sinfo it))"

section \<open>The cycle\<close>

record CapacityEvent =
  ce_Queue :: string
  ce_Provider :: string
  ce_SKU :: string
  ce_Jobs :: "string list"
  ce_Cores :: int
  ce_Nodes :: int
  ce_Blocked :: int
  ce_MinNodes :: int
  ce_MaxNodes :: int
  ce_IdleTime :: int
  ce_ProvisionTimeout :: int
  ce_Reclaim :: string
  ce_SubnetID :: string
  ce_ImageID :: string
  ce_DiskSize :: int
  ce_DiskType :: string
  ce_SSHKey :: string
  ce_Location :: string
  ce_RGName :: string
  ce_Cooldown :: int
  ce_ScaleHeadroom :: int
  ce_DrainTimeout :: int

record CycleResult =
  cr_Dispatched :: int
  cr_CapacityEvents :: "CapacityEvent list"
  cr_FreeNodes :: "string list"
  cr_IdleNodes :: "string list"
  cr_QueuedByQueue :: "string list smap"
  cr_AliveJobs :: "string list"

text \<open>
  The outside of a cycle: whether it is a limited one, the time since its start at each attempt, and
  the run request. The state of a cycle is the variables of \<^verbatim>\<open>runCycle\<close>; \<open>cy_log\<close> holds what it logs
  as dispatched, the job and the position of its node.
\<close>

record 'st cycle_env =
  env_cfg :: Config
  env_limited :: bool
  env_elapsed :: "int \<Rightarrow> int"
  env_RunJob :: "'st \<Rightarrow> string \<Rightarrow> string \<Rightarrow> 'st \<times> bool"

record 'st cycle =
  cy_sinfo :: ServerInfo
  cy_iter :: jobIterator
  cy_attempt :: int
  cy_dispatched :: int
  cy_pendingCap :: "CapacityEvent smap"
  cy_fairUsage :: "rat smap"
  cy_conn :: 'st
  cy_log :: "(JobInfo \<times> nat) list"

definition newCapacityEvent :: "QueueInfo \<Rightarrow> CapacityEvent" where
  "newCapacityEvent q =
     \<lparr>ce_Queue = qi_Name q, ce_Provider = qi_CloudProvider q, ce_SKU = qi_CloudSKU q, ce_Jobs = [],
      ce_Cores = 0, ce_Nodes = 0, ce_Blocked = 0, ce_MinNodes = qi_CloudMinNodes q,
      ce_MaxNodes = qi_CloudMaxNodes q, ce_IdleTime = qi_CloudIdleTime q,
      ce_ProvisionTimeout = qi_CloudProvisionTimeout q, ce_Reclaim = qi_CloudReclaim q,
      ce_SubnetID = qi_CloudSubnetID q, ce_ImageID = qi_CloudImageID q,
      ce_DiskSize = qi_CloudDiskSize q, ce_DiskType = qi_CloudDiskType q,
      ce_SSHKey = qi_CloudSSHKey q, ce_Location = qi_CloudLocation q, ce_RGName = qi_CloudRGName q,
      ce_Cooldown = qi_CloudCooldown q, ce_ScaleHeadroom = qi_CloudScaleHeadroom q,
      ce_DrainTimeout = qi_CloudDrainTimeout q\<rparr>"

definition blockOnCloud :: "QueueInfo \<Rightarrow> JobInfo \<Rightarrow> CapacityEvent smap \<Rightarrow> CapacityEvent smap" where
  "blockOnCloud q jinfo pendingCap =
     (let ev = (case mget pendingCap (qi_Name q) of Some ev \<Rightarrow> ev | None \<Rightarrow> newCapacityEvent q)
      in mput (qi_Name q)
           (ev\<lparr>ce_Cores := wrap64 (ce_Cores ev + effectiveCPU jinfo), ce_Blocked := ce_Blocked ev + 1,
               ce_Jobs := ce_Jobs ev @ [ji_ID jinfo]\<rparr>) pendingCap)"

definition setCanNotRun :: "job_ref \<Rightarrow> ServerInfo \<Rightarrow> ServerInfo" where
  "setCanNotRun r sinfo =
     (let q = queueAt sinfo (fst r) in
      sinfo\<lparr>si_Queues := (si_Queues sinfo)[fst r :=
        q\<lparr>qi_Jobs := (qi_Jobs q)[snd r := (qi_Jobs q ! snd r)\<lparr>ji_CanNotRun := True\<rparr>]\<rparr>]\<rparr>)"

definition takeGRes :: "int smap \<Rightarrow> int smap \<Rightarrow> int smap" where
  "takeGRes want used = fold (\<lambda>(name, req) m. mput name (wrap64 (zget m name + req)) m) want used"

definition chargeNode :: "JobInfo \<Rightarrow> NodeInfo \<Rightarrow> NodeInfo" where
  "chargeNode jinfo n =
     (let free = wrap64 (ni_FreeCPUs n - ji_CPUReq jinfo);
          free' = (if ji_CPUReq jinfo = 0 then wrap64 (free - 1) else free)
      in n\<lparr>ni_FreeCPUs := free', ni_GResUsed := takeGRes (ji_GRes jinfo) (ni_GResUsed n),
           ni_Jobs := ni_Jobs n @ [ji_ID jinfo]\<rparr>)"

definition strictStop :: "Config \<Rightarrow> bool" where
  "strictStop cfg \<longleftrightarrow> c_StrictFIFO cfg \<and> \<not> c_Backfill cfg"

text \<open>
  One turn of the loop of \<^verbatim>\<open>runCycle\<close>: the state after it and whether the loop goes on. None is a turn
  in which the iterator never returns.
\<close>

definition cycleBody :: "'st cycle_env \<Rightarrow> job_ref \<Rightarrow> 'st cycle \<Rightarrow> 'st cycle \<times> bool" where
  "cycleBody env r cy =
     (let cfg = env_cfg env; sinfo = cy_sinfo cy; jinfo = jobAt sinfo r in
      case findNodeForJob cfg sinfo jinfo of
        None \<Rightarrow>
          let cy1 = cy\<lparr>cy_sinfo := setCanNotRun r sinfo\<rparr> in
          (case queueForJob sinfo (ji_Queue jinfo) of
             Some q \<Rightarrow> if qi_CloudBacked q
               then (cy1\<lparr>cy_pendingCap := blockOnCloud q jinfo (cy_pendingCap cy)\<rparr>, True)
               else (cy1, \<not> strictStop cfg)
           | None \<Rightarrow> (cy1, \<not> strictStop cfg))
      | Some i \<Rightarrow>
          let n = si_Nodes sinfo ! i;
              (conn, ok) = env_RunJob env (cy_conn cy) (ji_ID jinfo) (ni_Name n @ ''/0'')
          in if \<not> ok then (cy\<lparr>cy_conn := conn\<rparr>, True)
             else let cy1 = cy\<lparr>cy_conn := conn,
                      cy_sinfo := sinfo\<lparr>si_Nodes := (si_Nodes sinfo)[i := chargeNode jinfo n]\<rparr>,
                      cy_dispatched := cy_dispatched cy + 1, cy_log := cy_log cy @ [(jinfo, i)]\<rparr>
               in if env_limited env \<and> c_SchedMaxJobStart cfg > 0 \<and>
                     cy_dispatched cy1 \<ge> c_SchedMaxJobStart cfg then (cy1, False)
                  else (if c_FairShare cfg
                        then cy1\<lparr>cy_fairUsage := mput (ji_Owner jinfo)
                               (fget (cy_fairUsage cy) (ji_Owner jinfo) + 1) (cy_fairUsage cy)\<rparr>
                        else cy1, True))"

definition cycleStep :: "'st cycle_env \<Rightarrow> 'st cycle \<Rightarrow> ('st cycle \<times> bool) option" where
  "cycleStep env cy =
     (let cfg = env_cfg env in
      if env_limited env \<and> c_DefaultQueueDepth cfg > 0 \<and> cy_attempt cy \<ge> c_DefaultQueueDepth cfg
      then Some (cy, False)
      else if env_limited env \<and> c_MaxSchedTime cfg > 0 \<and>
              env_elapsed env (cy_attempt cy) \<ge> wrap64 (c_MaxSchedTime cfg * Second)
      then Some (cy, False)
      else (case nextJob (cy_sinfo cy) (cy_iter cy) of
              None \<Rightarrow> None
            | Some (None, it) \<Rightarrow> Some (cy\<lparr>cy_iter := it\<rparr>, False)
            | Some (Some r, it) \<Rightarrow>
                Some (cycleBody env r (cy\<lparr>cy_iter := it, cy_attempt := cy_attempt cy + 1\<rparr>))))"

partial_function (option) runLoop :: "'st cycle_env \<Rightarrow> 'st cycle \<Rightarrow> 'st cycle option" where
  "runLoop env cy = (case cycleStep env cy of
      None \<Rightarrow> None
    | Some p \<Rightarrow> if snd p then runLoop env (fst p) else Some (fst p))"

definition finishEvent :: "CapacityEvent \<Rightarrow> CapacityEvent" where
  "finishEvent ev =
     (let coresPerNode = (if ce_SKU ev \<noteq> [] then 2 else 1);
          n1 = (if ce_Cores ev > 0
                then goquot (wrap64 (ce_Cores ev + coresPerNode - 1)) coresPerNode else ce_Nodes ev);
          n2 = (if ce_MaxNodes ev > 0 \<and> n1 \<ge> ce_MaxNodes ev then ce_MaxNodes ev else n1)
      in ev\<lparr>ce_Nodes := (if n2 < 1 then 1 else n2)\<rparr>)"

text \<open>The jobs still queued on the cloud queues, by queue name.\<close>

definition queuedByQueue :: "ServerInfo \<Rightarrow> string list smap" where
  "queuedByQueue sinfo =
     fold (\<lambda>q m. if \<not> qi_CloudBacked q then m
         else fold (\<lambda>j m. mput (qi_Name q)
                 ((case mget m (qi_Name q) of Some l \<Rightarrow> l | None \<Rightarrow> []) @ [ji_ID j]) m) (qi_Jobs q) m)
       (si_Queues sinfo) []"

definition aliveJobs :: "ServerInfo \<Rightarrow> string list" where
  "aliveJobs sinfo =
     remdups (concat (map (\<lambda>q. map ji_ID (qi_Jobs q)) (si_Queues sinfo)) @
              concat (map ni_Jobs (si_Nodes sinfo)))"

definition cycleResult :: "'st cycle \<Rightarrow> CycleResult" where
  "cycleResult cy =
     (let sinfo = cy_sinfo cy in
      \<lparr>cr_Dispatched = cy_dispatched cy,
       cr_CapacityEvents = map (\<lambda>(_, ev). finishEvent ev) (cy_pendingCap cy),
       cr_FreeNodes = map ni_Name (filter (\<lambda>n. ni_FreeCPUs n > 0) (si_Nodes sinfo)),
       cr_IdleNodes = map ni_Name (filter (\<lambda>n. ni_Jobs n = [] \<and> ni_FreeCPUs n > 0) (si_Nodes sinfo)),
       cr_QueuedByQueue = queuedByQueue sinfo, cr_AliveJobs = aliveJobs sinfo\<rparr>)"

definition startCycle :: "Config \<Rightarrow> rat smap \<Rightarrow> 'st \<Rightarrow> ServerInfo \<Rightarrow> 'st cycle" where
  "startCycle cfg fairUsage conn sinfo =
     \<lparr>cy_sinfo = sinfo, cy_iter = newJobIterator cfg sinfo, cy_attempt = 0, cy_dispatched = 0,
      cy_pendingCap = [], cy_fairUsage = fairUsage, cy_conn = conn, cy_log = []\<rparr>"

text \<open>
  \<^verbatim>\<open>runCycle\<close> on a snapshot that \<^verbatim>\<open>queryServer\<close> has built: the result, the final fair-share usage and the
  state of the connection.
\<close>

definition runCycle ::
  "JobInfo slice_sorter \<Rightarrow> 'st cycle_env \<Rightarrow> rat \<Rightarrow> int \<Rightarrow> rat smap \<Rightarrow> 'st \<Rightarrow> sched_error + ServerInfo \<Rightarrow>
   (sched_error + CycleResult \<times> 'st cycle) option" where
  "runCycle sorter env decayFactor now fairUsage conn query = (case query of
      Inl e \<Rightarrow> Some (Inl e)
    | Inr sinfo0 \<Rightarrow>
        let (sinfo, usage) = initCycle sorter (env_cfg env) decayFactor now fairUsage sinfo0
        in map_option (\<lambda>cy. Inr (cycleResult cy, cy)) (runLoop env (startCycle (env_cfg env) usage conn sinfo)))"

section \<open>The order of jobs\<close>

lemma weak_order_if: "weak_order X \<Longrightarrow> weak_order Y \<Longrightarrow> weak_order (\<lambda>a b. if c then X a b else Y a b)"
  by (cases c) simp_all

lemma weak_order_key:
  fixes f :: "'a \<Rightarrow> 'b :: linorder"
  shows "weak_order (\<lambda>a b. f a < f b)" "weak_order (\<lambda>a b. f b < f a)"
  by (auto simp: weak_order_def)

lemma jobLess_order: "weak_order (jobLess cfg fairUsage)"
  unfolding jobLess_def by (intro weak_order_if weak_order_key)

lemma sorter_props:
  assumes "slice_sorts sorter" "weak_order lt"
  shows "mset (sorter lt xs) = mset xs" "sorted_wrt (\<lambda>a b. \<not> lt b a) (sorter lt xs)"
  using assms by (auto simp: slice_sorts_def)

lemma slice_sorts_SliceStable: "slice_sorts SliceStable"
  by (simp add: slice_sorts_def mset_SliceStable sorted_SliceStable)

lemma mset_sortJobs:
  "slice_sorts sorter \<Longrightarrow> mset (sortJobs sorter cfg u now jobs) = mset jobs"
  by (simp add: sortJobs_def Let_def sorter_props [OF _ jobLess_order] flip: multiset_partition)

lemma sortJobs_split:
  "c_HelpStarvingJobs cfg \<and> c_MaxStarve cfg > 0 \<Longrightarrow>
   sortJobs sorter cfg u now jobs =
     filter (starving cfg now) (sorter (jobLess cfg u) jobs) @
     filter (\<lambda>j. \<not> starving cfg now j) (sorter (jobLess cfg u) jobs)"
  by (auto simp: sortJobs_def Let_def filter_empty_conv intro!: filter_True [symmetric])

text \<open>
  The order a sorted list follows: starving jobs before the others where starvation is considered,
  and by the configured criterion within each of the two groups.
\<close>

definition servedBefore :: "Config \<Rightarrow> rat smap \<Rightarrow> int \<Rightarrow> JobInfo \<Rightarrow> JobInfo \<Rightarrow> bool" where
  "servedBefore cfg u now a b \<longleftrightarrow>
     (if c_HelpStarvingJobs cfg \<and> c_MaxStarve cfg > 0 \<and> starving cfg now a \<noteq> starving cfg now b
      then starving cfg now a else \<not> jobLess cfg u b a)"

lemma sorted_sortJobs:
  assumes "slice_sorts sorter"
  shows "sorted_wrt (servedBefore cfg u now) (sortJobs sorter cfg u now jobs)"
proof -
  let ?s = "sorter (jobLess cfg u) jobs"
  have s: "sorted_wrt (\<lambda>a b. \<not> jobLess cfg u b a) ?s" using sorter_props(2) [OF assms jobLess_order] .
  show ?thesis
  proof (cases "c_HelpStarvingJobs cfg \<and> c_MaxStarve cfg > 0")
    case True
    have "sorted_wrt (servedBefore cfg u now) (filter (\<lambda>j. starving cfg now j = b) ?s)" for b
      by (rule sorted_wrt_mono_rel [OF _ sorted_wrt_filter [OF s]]) (simp add: servedBefore_def)
    from this [of True] this [of False] show ?thesis using True
      by (simp add: sortJobs_split sorted_wrt_append servedBefore_def)
  next
    case False
    then have "sortJobs sorter cfg u now jobs = ?s" by (auto simp: sortJobs_def Let_def)
    moreover have "sorted_wrt (servedBefore cfg u now) ?s"
      by (rule sorted_wrt_mono_rel [OF _ s]) (simp only: servedBefore_def False conj_assoc [symmetric], simp)
    ultimately show ?thesis by simp
  qed
qed

end
