(* ===== verification/Sched_Theorems.thy ===== *)
theory Sched_Theorems
  imports Sched_Cycle
begin

text \<open>
  Correctness of the scheduling cycle: what every job iterator promises and what the cycle makes of it,
  when the cycle returns, and that it never gives out more of a node than is free.
\<close>

section \<open>Job iterators\<close>

definition iter_ok :: "ServerInfo \<Rightarrow> jobIterator \<Rightarrow> bool" where
  "iter_ok sinfo it \<longleftrightarrow> length (it_jIdx it) = length (si_Queues sinfo)"

text \<open>The jobs an iterator has not passed yet.\<close>

definition remaining :: "ServerInfo \<Rightarrow> jobIterator \<Rightarrow> nat" where
  "remaining sinfo it =
     (\<Sum>i < length (si_Queues sinfo). length (qi_Jobs (queueAt sinfo i)) - it_jIdx it ! i)"

text \<open>
  An iterator moves forward over the queues: it never takes a position back, keeps its mode, and a job it
  returns lies ahead of the old position, behind the new one, in a queue that is open, and is not
  marked as unable to run.
\<close>

definition advances :: "ServerInfo \<Rightarrow> jobIterator \<Rightarrow> jobIterator \<Rightarrow> bool" where
  "advances sinfo it it' \<longleftrightarrow>
     iter_ok sinfo it' \<and> it_mode it' = it_mode it \<and>
     (\<forall>i < length (si_Queues sinfo). it_jIdx it ! i \<le> it_jIdx it' ! i \<and>
        (skipQueue (queueAt sinfo i) \<longrightarrow> it_jIdx it' ! i = it_jIdx it ! i))"

definition fresh :: "ServerInfo \<Rightarrow> jobIterator \<Rightarrow> jobIterator \<Rightarrow> job_ref \<Rightarrow> bool" where
  "fresh sinfo it it' r \<longleftrightarrow>
     fst r < length (si_Queues sinfo) \<and> \<not> skipQueue (queueAt sinfo (fst r)) \<and>
     snd r < length (qi_Jobs (queueAt sinfo (fst r))) \<and> \<not> ji_CanNotRun (jobAt sinfo r) \<and>
     it_jIdx it ! fst r \<le> snd r \<and> snd r < it_jIdx it' ! fst r"

lemma remaining_strict:
  assumes "advances s it it'" "i < length (si_Queues s)" "it_jIdx it ! i < it_jIdx it' ! i"
    "it_jIdx it ! i < length (qi_Jobs (queueAt s i))"
  shows "remaining s it' < remaining s it"
  unfolding remaining_def
proof (rule sum_strict_mono_ex1)
  show "\<forall>i \<in> {..<length (si_Queues s)}. length (qi_Jobs (queueAt s i)) - it_jIdx it' ! i
      \<le> length (qi_Jobs (queueAt s i)) - it_jIdx it ! i"
    using assms(1) by (auto simp: advances_def diff_le_mono2)
  show "\<exists>i \<in> {..<length (si_Queues s)}. length (qi_Jobs (queueAt s i)) - it_jIdx it' ! i
      < length (qi_Jobs (queueAt s i)) - it_jIdx it ! i"
    using assms by (intro bexI [of _ i]) auto
qed simp

locale job_source =
  fixes nxt :: "ServerInfo \<Rightarrow> jobIterator \<Rightarrow> (job_ref option \<times> jobIterator) option"
  assumes nxt_advances: "iter_ok s it \<Longrightarrow> nxt s it = Some (ro, it') \<Longrightarrow> advances s it it'"
    and nxt_fresh: "iter_ok s it \<Longrightarrow> nxt s it = Some (Some r, it') \<Longrightarrow> fresh s it it' r"
begin

lemma remaining_less:
  assumes "iter_ok s it" "nxt s it = Some (Some r, it')"
  shows "remaining s it' < remaining s it"
  using nxt_fresh [OF assms] by (intro remaining_strict [OF nxt_advances [OF assms], of "fst r"])
    (auto simp: fresh_def)

end

lemma advances_refl: "iter_ok s it \<Longrightarrow> advances s it it"
  by (simp add: advances_def)

lemma advances_trans: "advances s a b \<Longrightarrow> advances s b c \<Longrightarrow> advances s a c"
  unfolding advances_def by (metis le_trans)

lemma advances_qIdx [simp]: "advances s (it\<lparr>it_qIdx := k\<rparr>) it' = advances s it it'"
  "iter_ok s (it\<lparr>it_qIdx := k\<rparr>) = iter_ok s it"
  by (simp_all add: advances_def iter_ok_def)

lemma fresh_trans: "advances s a b \<Longrightarrow> fresh s b c r \<Longrightarrow> fresh s a c r"
  by (auto simp: advances_def fresh_def intro: le_trans)

lemma fresh_qIdx [simp]: "fresh s (it\<lparr>it_qIdx := k\<rparr>) it' r = fresh s it it' r"
  by (simp add: fresh_def)

lemma advance_one:
  assumes "iter_ok s it" "q < length (si_Queues s)" "\<not> skipQueue (queueAt s q)"
  shows "advances s it (it\<lparr>it_qIdx := k, it_jIdx := (it_jIdx it)[q := Suc (it_jIdx it ! q)]\<rparr>)"
    "advances s it (it\<lparr>it_jIdx := (it_jIdx it)[q := Suc (it_jIdx it ! q)]\<rparr>)"
  using assms by (auto simp: advances_def iter_ok_def nth_list_update)

lemma advances_ok: "advances s it it' \<Longrightarrow> iter_ok s it'"
  by (simp add: advances_def)

lemma nextByQueue_source:
  "iter_ok s it \<Longrightarrow> nextByQueue s it = (ro, it') \<Longrightarrow>
   advances s it it' \<and> (\<forall>r. ro = Some r \<longrightarrow> fresh s it it' r)"
proof (induction s it arbitrary: ro it' rule: nextByQueue.induct)
  case (1 s it)
  let ?q = "it_qIdx it"
  let ?it1 = "it\<lparr>it_jIdx := (it_jIdx it)[?q := it_jIdx it ! ?q + 1]\<rparr>"
  consider (fin) "\<not> ?q < length (si_Queues s)"
    | (skip) "?q < length (si_Queues s)" "skipQueue (queueAt s ?q)"
    | (over) "?q < length (si_Queues s)" "\<not> skipQueue (queueAt s ?q)"
        "\<not> it_jIdx it ! ?q < length (qi_Jobs (queueAt s ?q))"
    | (cannot) "?q < length (si_Queues s)" "\<not> skipQueue (queueAt s ?q)"
        "it_jIdx it ! ?q < length (qi_Jobs (queueAt s ?q))" "ji_CanNotRun (qi_Jobs (queueAt s ?q) ! (it_jIdx it ! ?q))"
    | (job) "?q < length (si_Queues s)" "\<not> skipQueue (queueAt s ?q)"
        "it_jIdx it ! ?q < length (qi_Jobs (queueAt s ?q))" "\<not> ji_CanNotRun (qi_Jobs (queueAt s ?q) ! (it_jIdx it ! ?q))"
    by blast
  then show ?case
  proof cases
    case fin
    then show ?thesis using 1(4,5) by (simp add: nextByQueue.simps [of s it] Let_def advances_refl)
  next
    case skip
    then show ?thesis
      using 1(1) [OF refl _ refl refl, of ro it'] 1(4,5)
      by (simp add: nextByQueue.simps [of s it] Let_def iter_ok_def)
  next
    case over
    then show ?thesis
      using 1(3) [OF refl _ refl refl, of ro it'] 1(4,5)
      by (simp add: nextByQueue.simps [of s it] Let_def iter_ok_def)
  next
    case cannot
    note adv = advance_one(2) [OF 1(4) cannot(1,2)]
    have "advances s ?it1 it' \<and> (\<forall>r. ro = Some r \<longrightarrow> fresh s ?it1 it' r)"
      using 1(2) [OF refl _ refl refl, of ?it1 ro it'] 1(4,5) cannot
      by (simp add: nextByQueue.simps [of s it] Let_def iter_ok_def)
    then show ?thesis using adv by (auto intro: advances_trans fresh_trans)
  next
    case job
    then show ?thesis using 1(4,5) advance_one(2) [OF 1(4) job(1,2)]
      by (auto simp: nextByQueue.simps [of s it] Let_def iter_ok_def fresh_def)
  qed
qed

lemma roundRobinPass_source:
  assumes "si_Queues s \<noteq> []"
  shows "iter_ok s it \<Longrightarrow> roundRobinPass s n it = (ro, it') \<Longrightarrow>
    advances s it it' \<and> (\<forall>r. ro = Some r \<longrightarrow> fresh s it it' r)"
proof (induction n arbitrary: it)
  case 0
  then show ?case by (simp add: advances_refl)
next
  case (Suc n)
  let ?q = "it_qIdx it mod length (si_Queues s)"
  let ?it1 = "it\<lparr>it_qIdx := it_qIdx it + 1\<rparr>"
  let ?it2 = "?it1\<lparr>it_jIdx := (it_jIdx it)[?q := it_jIdx it ! ?q + 1]\<rparr>"
  have q: "?q < length (si_Queues s)" using assms by simp
  show ?case
  proof (cases "skipQueue (queueAt s ?q) \<or> \<not> it_jIdx it ! ?q < length (qi_Jobs (queueAt s ?q))")
    case True
    then have "roundRobinPass s n ?it1 = (ro, it')"
      using Suc.prems by (cases "skipQueue (queueAt s ?q)") (simp_all add: Let_def)
    then show ?thesis using Suc.IH [of ?it1] Suc.prems by simp
  next
    case False
    then have adv: "advances s it ?it2"
      using advance_one(1) [OF Suc.prems(1) q, of "it_qIdx it + 1"] by simp
    show ?thesis
    proof (cases "ji_CanNotRun (qi_Jobs (queueAt s ?q) ! (it_jIdx it ! ?q))")
      case True
      then have "roundRobinPass s n ?it2 = (ro, it')" using Suc.prems False by (simp add: Let_def)
      then show ?thesis using Suc.IH [OF advances_ok [OF adv]] adv
        by (auto intro: advances_trans fresh_trans)
    next
      case run: False
      then have "ro = Some (?q, it_jIdx it ! ?q)" "it' = ?it2"
        using Suc.prems False by (simp_all add: Let_def)
      then show ?thesis using adv False run q Suc.prems(1) by (auto simp: fresh_def iter_ok_def)
    qed
  qed
qed

lemma nextRoundRobin_source:
  "nextRoundRobin s it = Some y \<Longrightarrow> iter_ok s it \<longrightarrow>
   advances s it (snd y) \<and> (\<forall>r. fst y = Some r \<longrightarrow> fresh s it (snd y) r)"
proof (rule nextRoundRobin.raw_induct [where P = "\<lambda>s it y. iter_ok s it \<longrightarrow>
   advances s it (snd y) \<and> (\<forall>r. fst y = Some r \<longrightarrow> fresh s it (snd y) r)"], goal_cases)
  case (1 f s it y)
  show ?case
  proof (cases "si_Queues s = []")
    case True
    then show ?thesis using 1(3) by (auto simp: advances_refl)
  next
    case False
    obtain ro it1 where p: "roundRobinPass s (length (si_Queues s)) it = (ro, it1)" by fastforce
    show ?thesis
    proof
      assume ok: "iter_ok s it"
      have adv: "advances s it it1 \<and> (\<forall>r. ro = Some r \<longrightarrow> fresh s it it1 r)"
        using roundRobinPass_source [OF False ok p] .
      show "advances s it (snd y) \<and> (\<forall>r. fst y = Some r \<longrightarrow> fresh s it (snd y) r)"
      proof (cases "ro \<noteq> None \<or> allDone s it1")
        case True
        then have "y = (ro, it1)" using 1(3) False p by (auto simp: Let_def split: if_splits)
        then show ?thesis using adv by simp
      next
        case nd: False
        then have "f s it1 = Some y" using 1(3) False p by (simp add: Let_def)
        from 1(2) [OF this] show ?thesis using adv
          by (auto intro: advances_trans fresh_trans advances_ok)
      qed
    qed
  qed
qed simp_all

interpretation by_queue: job_source "\<lambda>s it. Some (nextByQueue s it)"
  by unfold_locales (auto dest: nextByQueue_source)

interpretation flat: job_source "\<lambda>s it. Some (nextFlat s it)"
  unfolding nextFlat_def by unfold_locales (auto dest: nextByQueue_source)

interpretation round_robin: job_source nextRoundRobin
  by unfold_locales (auto dest!: nextRoundRobin_source)

interpretation iterator: job_source nextJob
proof
  fix s it ro it'
  assume "iter_ok s it" "nextJob s it = Some (ro, it')"
  then show "advances s it it'"
    by (auto simp: nextJob_def split: iter_mode.splits
        intro: by_queue.nxt_advances flat.nxt_advances round_robin.nxt_advances)
next
  fix s it r it'
  assume "iter_ok s it" "nextJob s it = Some (Some r, it')"
  then show "fresh s it it' r"
    by (auto simp: nextJob_def split: iter_mode.splits
        intro: by_queue.nxt_fresh flat.nxt_fresh round_robin.nxt_fresh)
qed

section \<open>When round robin returns\<close>

text \<open>A queue that the iterator passes over although it still holds jobs.\<close>

definition stranded :: "ServerInfo \<Rightarrow> jobIterator \<Rightarrow> nat \<Rightarrow> bool" where
  "stranded s it i \<longleftrightarrow>
     i < length (si_Queues s) \<and> skipQueue (queueAt s i) \<and> it_jIdx it ! i < length (qi_Jobs (queueAt s i))"

lemma allDone_iff:
  "allDone s it \<longleftrightarrow> (\<forall>i < length (si_Queues s). length (qi_Jobs (queueAt s i)) \<le> it_jIdx it ! i)"
  by (auto simp: allDone_def list_all_iff in_set_enumerate_eq not_less)

lemma stranded_advances: "advances s it it' \<Longrightarrow> stranded s it i = stranded s it' i"
  by (auto simp: advances_def stranded_def)

lemma stranded_never_done: "nextRoundRobin s it = Some (None, it') \<Longrightarrow> iter_ok s it \<Longrightarrow> \<not> stranded s it i"
proof -
  have "nextRoundRobin s it = Some y \<Longrightarrow> iter_ok s it \<and> stranded s it i \<longrightarrow> fst y \<noteq> None" for y
  proof (rule nextRoundRobin.raw_induct
      [where P = "\<lambda>s it y. iter_ok s it \<and> stranded s it i \<longrightarrow> fst y \<noteq> None"], goal_cases)
    case (1 f s it y)
    show ?case
    proof
      assume st: "iter_ok s it \<and> stranded s it i"
      then have ne: "si_Queues s \<noteq> []" by (auto simp: stranded_def)
      obtain ro it1 where p: "roundRobinPass s (length (si_Queues s)) it = (ro, it1)" by fastforce
      have "advances s it it1" using roundRobinPass_source [OF ne _ p] st by simp
      then have st1: "iter_ok s it1 \<and> stranded s it1 i" using st by (metis advances_ok stranded_advances)
      then have "\<not> allDone s it1" by (auto simp: allDone_iff stranded_def)
      then have "y = (ro, it1) \<and> ro \<noteq> None \<or> f s it1 = Some y"
        using 1(3) ne p by (auto simp: Let_def split: if_splits)
      then show "fst y \<noteq> None" using 1(2) [of s it1 y] st1 by auto
    qed
  qed simp_all
  then show "nextRoundRobin s it = Some (None, it') \<Longrightarrow> iter_ok s it \<Longrightarrow> \<not> stranded s it i" by fastforce
qed

lemma pass_progress:
  assumes "si_Queues s \<noteq> []"
  shows "iter_ok s it \<Longrightarrow> roundRobinPass s n it = (None, it') \<Longrightarrow> a < n \<Longrightarrow>
    i = (it_qIdx it + a) mod length (si_Queues s) \<Longrightarrow> \<not> skipQueue (queueAt s i) \<Longrightarrow>
    it_jIdx it ! i < length (qi_Jobs (queueAt s i)) \<Longrightarrow> it_jIdx it ! i < it_jIdx it' ! i"
proof (induction n arbitrary: it a)
  case (Suc n)
  let ?q = "it_qIdx it mod length (si_Queues s)"
  let ?it1 = "it\<lparr>it_qIdx := it_qIdx it + 1\<rparr>"
  let ?it2 = "?it1\<lparr>it_jIdx := (it_jIdx it)[?q := it_jIdx it ! ?q + 1]\<rparr>"
  have q: "?q < length (si_Queues s)" and i: "i < length (si_Queues s)" using assms Suc.prems(4) by auto
  show ?case
  proof (cases "skipQueue (queueAt s ?q) \<or> \<not> it_jIdx it ! ?q < length (qi_Jobs (queueAt s ?q))")
    case True
    then have p: "roundRobinPass s n ?it1 = (None, it')"
      using Suc.prems by (cases "skipQueue (queueAt s ?q)") (simp_all add: Let_def)
    have "a \<noteq> 0" using True Suc.prems(4-6) by (metis add_0_right)
    then obtain b where "a = Suc b" by (cases a) auto
    then show ?thesis using Suc.IH [OF _ p, of b] Suc.prems by simp
  next
    case False
    then have adv: "advances s it ?it2"
      using advance_one(1) [OF Suc.prems(1) q, of "it_qIdx it + 1"] by simp
    have p: "roundRobinPass s n ?it2 = (None, it')"
      using Suc.prems False by (simp add: Let_def split: if_splits)
    have adv2: "advances s ?it2 it'" using roundRobinPass_source [OF assms advances_ok [OF adv] p] by simp
    show ?thesis
    proof (cases "i = ?q")
      case True
      then have "it_jIdx it ! i < it_jIdx ?it2 ! i" using Suc.prems(1) i by (simp add: iter_ok_def)
      then show ?thesis using adv2 i unfolding advances_def by (meson less_le_trans)
    next
      case ne: False
      then have "a \<noteq> 0" using Suc.prems(4) by (metis add_0_right)
      then obtain b where b: "a = Suc b" by (cases a) auto
      have "it_jIdx ?it2 ! i = it_jIdx it ! i" using ne by simp
      then show ?thesis using Suc.IH [OF advances_ok [OF adv] p, of b] Suc.prems b by simp
    qed
  qed
qed simp

lemma every_residue: "i < n \<Longrightarrow> \<exists>a < n. i = (k + a) mod (n :: nat)"
proof -
  assume i: "i < n"
  have "(k + (i + (n - k mod n)) mod n) mod n = (k mod n + (i + (n - k mod n))) mod n"
    by (metis mod_add_left_eq mod_add_right_eq)
  also have "k mod n + (i + (n - k mod n)) = i + n"
    using mod_less_divisor [of n k] i by linarith
  finally show ?thesis using i by (intro exI [of _ "(i + (n - k mod n)) mod n"]) simp
qed

lemma nextRoundRobin_returns:
  "iter_ok s it \<Longrightarrow> \<not> (\<exists>i. stranded s it i) \<Longrightarrow> \<exists>y. nextRoundRobin s it = Some y"
proof (induction "remaining s it" arbitrary: it rule: less_induct)
  case less
  obtain ro it1 where p: "roundRobinPass s (length (si_Queues s)) it = (ro, it1)" by fastforce
  show ?case
  proof (cases "si_Queues s = [] \<or> ro \<noteq> None \<or> allDone s it1")
    case True
    then show ?thesis using p by (subst nextRoundRobin.simps) (auto simp: Let_def)
  next
    case False
    then have ne: "si_Queues s \<noteq> []" and nd: "\<not> allDone s it1" and "ro = None" by blast+
    then have p1: "roundRobinPass s (length (si_Queues s)) it = (None, it1)" using p by simp
    have adv: "advances s it it1" using roundRobinPass_source [OF ne less.prems(1) p1] by simp
    obtain i where i: "i < length (si_Queues s)" "it_jIdx it1 ! i < length (qi_Jobs (queueAt s i))"
      using nd by (auto simp: allDone_iff not_le)
    have le: "it_jIdx it ! i \<le> it_jIdx it1 ! i" using adv i(1) by (simp add: advances_def)
    have open_q: "\<not> skipQueue (queueAt s i)"
      using less.prems(2) i le by (auto simp: stranded_def)
    obtain a where a: "a < length (si_Queues s)" "i = (it_qIdx it + a) mod length (si_Queues s)"
      using every_residue [OF i(1)] by blast
    have "it_jIdx it ! i < it_jIdx it1 ! i"
      using pass_progress [OF ne less.prems(1) p1 a open_q] i(2) le by simp
    then have "remaining s it1 < remaining s it"
      using remaining_strict [OF adv i(1)] i(2) le by simp
    moreover have "iter_ok s it1" "\<not> (\<exists>i. stranded s it1 i)"
      using adv less.prems(2) stranded_advances [OF adv] by (auto simp: advances_ok)
    ultimately obtain y where "nextRoundRobin s it1 = Some y" using less.hyps by blast
    then show ?thesis using ne p1 nd by (subst nextRoundRobin.simps) (simp add: Let_def)
  qed
qed

lemma nextJob_returns:
  "iter_ok s it \<Longrightarrow> (it_mode it = RoundRobinMode \<longrightarrow> \<not> (\<exists>i. stranded s it i)) \<Longrightarrow> \<exists>y. nextJob s it = Some y"
  using nextRoundRobin_returns by (auto simp: nextJob_def split: iter_mode.split)

section \<open>The snapshot during a cycle\<close>

text \<open>What a cycle keeps of the queues: everything but the mark of the jobs that cannot run.\<close>

definition shape :: "ServerInfo \<Rightarrow> QueueInfo list" where
  "shape s = map (\<lambda>q. q\<lparr>qi_Jobs := map (\<lambda>j. j\<lparr>ji_CanNotRun := False\<rparr>) (qi_Jobs q)\<rparr>) (si_Queues s)"

lemma shape_length: "shape s = shape s' \<Longrightarrow> length (si_Queues s) = length (si_Queues s')"
  by (drule arg_cong [where f = length]) (simp add: shape_def)

lemma shape_nth:
  "i < length (si_Queues s) \<Longrightarrow>
   shape s ! i = (queueAt s i)\<lparr>qi_Jobs := map (\<lambda>j. j\<lparr>ji_CanNotRun := False\<rparr>) (qi_Jobs (queueAt s i))\<rparr>"
  by (simp add: shape_def)

lemma shape_queue:
  assumes "shape s = shape s'" "i < length (si_Queues s)"
  shows "skipQueue (queueAt s i) = skipQueue (queueAt s' i)"
    "length (qi_Jobs (queueAt s i)) = length (qi_Jobs (queueAt s' i))"
proof -
  have "i < length (si_Queues s')" using assms(2) shape_length [OF assms(1)] by simp
  from shape_nth [OF assms(2)] shape_nth [OF this] assms(1)
  have *: "(queueAt s i)\<lparr>qi_Jobs := map (\<lambda>j. j\<lparr>ji_CanNotRun := False\<rparr>) (qi_Jobs (queueAt s i))\<rparr> =
    (queueAt s' i)\<lparr>qi_Jobs := map (\<lambda>j. j\<lparr>ji_CanNotRun := False\<rparr>) (qi_Jobs (queueAt s' i))\<rparr>"
    by simp
  have "skipQueue (q\<lparr>qi_Jobs := js\<rparr>) = skipQueue q" for q js
    by (simp add: skipQueue_def isRouteQueue_def)
  then show "skipQueue (queueAt s i) = skipQueue (queueAt s' i)"
    using arg_cong [OF *, of skipQueue] by simp
  show "length (qi_Jobs (queueAt s i)) = length (qi_Jobs (queueAt s' i))"
    using arg_cong [OF *, of "\<lambda>q. length (qi_Jobs q)"] by simp
qed

lemma shape_iter_ok: "shape s = shape s' \<Longrightarrow> iter_ok s it = iter_ok s' it"
  using shape_length [of s s'] by (simp add: iter_ok_def)

lemma shape_remaining: "shape s = shape s' \<Longrightarrow> remaining s it = remaining s' it"
  unfolding remaining_def
  by (rule sum.cong) (simp_all only: shape_length [of s s'] lessThan_iff shape_queue(2) [of s s'])

lemma shape_stranded: "shape s = shape s' \<Longrightarrow> stranded s it i = stranded s' it i"
  unfolding stranded_def
  using shape_length [of s s'] shape_queue [of s s' i] by auto

lemma map_update_same: "f y = f (xs ! i) \<Longrightarrow> map f (xs[i := y]) = map f xs"
  by (cases "i < length xs") (simp_all add: map_update list_update_same_conv list_update_beyond)

lemma shape_setCanNotRun [simp]: "shape (setCanNotRun r s) = shape s"
proof -
  let ?q = "queueAt s (fst r)"
  let ?js = "(qi_Jobs ?q)[snd r := (qi_Jobs ?q ! snd r)\<lparr>ji_CanNotRun := True\<rparr>]"
  have "map (\<lambda>j. j\<lparr>ji_CanNotRun := False\<rparr>) ?js = map (\<lambda>j. j\<lparr>ji_CanNotRun := False\<rparr>) (qi_Jobs ?q)"
    by (rule map_update_same) simp
  moreover have "si_Queues (setCanNotRun r s) = (si_Queues s)[fst r := ?q\<lparr>qi_Jobs := ?js\<rparr>]"
    by (simp add: setCanNotRun_def Let_def)
  ultimately show ?thesis unfolding shape_def by (simp only:) (rule map_update_same, simp)
qed

lemma shape_nodes [simp]: "shape (s\<lparr>si_Nodes := ns\<rparr>) = shape s"
  by (simp add: shape_def)

section \<open>Turns of the loop\<close>

lemma si_Nodes_setCanNotRun [simp]: "si_Nodes (setCanNotRun r s) = si_Nodes s"
  by (simp add: setCanNotRun_def Let_def)

lemma cycleBody_frame:
  assumes "cycleBody env r cy = (cy', go)"
  shows "shape (cy_sinfo cy') = shape (cy_sinfo cy)" "cy_iter cy' = cy_iter cy"
    "cy_attempt cy' = cy_attempt cy" "length (si_Nodes (cy_sinfo cy')) = length (si_Nodes (cy_sinfo cy))"
  using assms
  by (auto simp: cycleBody_def Let_def split: option.splits if_splits prod.splits)

lemma cycleBody_goes_on:
  "cycleBody env r cy = (cy', go) \<Longrightarrow> \<not> env_limited env \<Longrightarrow> \<not> strictStop (env_cfg env) \<Longrightarrow> go"
  by (auto simp: cycleBody_def Let_def split: option.splits if_splits prod.splits)

text \<open>A turn either leaves nodes and log alone or dispatches the job to the node that was selected.\<close>

lemma cycleBody_nodes:
  assumes "cycleBody env r cy = (cy', go)"
  shows "si_Nodes (cy_sinfo cy') = si_Nodes (cy_sinfo cy) \<and> cy_log cy' = cy_log cy \<and>
      cy_dispatched cy' = cy_dispatched cy \<or>
    (\<exists>i. findNodeForJob (env_cfg env) (cy_sinfo cy) (jobAt (cy_sinfo cy) r) = Some i \<and>
       si_Nodes (cy_sinfo cy') = (si_Nodes (cy_sinfo cy))
         [i := chargeNode (jobAt (cy_sinfo cy) r) (si_Nodes (cy_sinfo cy) ! i)] \<and>
       cy_log cy' = cy_log cy @ [(jobAt (cy_sinfo cy) r, i)] \<and> cy_dispatched cy' = cy_dispatched cy + 1)"
  using assms by (auto simp: cycleBody_def Let_def split: option.splits if_splits prod.splits)

lemma cycleStep_cases:
  assumes "cycleStep env cy = Some (cy', go)"
  obtains (stop) "env_limited env" "cy' = cy" "\<not> go"
  | (finished) it where "nextJob (cy_sinfo cy) (cy_iter cy) = Some (None, it)"
      "cy' = cy\<lparr>cy_iter := it\<rparr>" "\<not> go"
  | (job) r it where "nextJob (cy_sinfo cy) (cy_iter cy) = Some (Some r, it)"
      "cycleBody env r (cy\<lparr>cy_iter := it, cy_attempt := cy_attempt cy + 1\<rparr>) = (cy', go)"
proof -
  let ?cfg = "env_cfg env"
  let ?c1 = "env_limited env \<and> c_DefaultQueueDepth ?cfg > 0 \<and> cy_attempt cy \<ge> c_DefaultQueueDepth ?cfg"
  let ?c2 = "env_limited env \<and> c_MaxSchedTime ?cfg > 0 \<and>
    env_elapsed env (cy_attempt cy) \<ge> wrap64 (c_MaxSchedTime ?cfg * Second)"
  show thesis
  proof (cases "?c1 \<or> ?c2")
    case True
    then have "cycleStep env cy = Some (cy, False)" by (auto simp: cycleStep_def Let_def)
    then show ?thesis using assms True by (intro stop) auto
  next
    case False
    then have step: "cycleStep env cy = (case nextJob (cy_sinfo cy) (cy_iter cy) of
              None \<Rightarrow> None
            | Some (None, it) \<Rightarrow> Some (cy\<lparr>cy_iter := it\<rparr>, False)
            | Some (Some r, it) \<Rightarrow>
                Some (cycleBody env r (cy\<lparr>cy_iter := it, cy_attempt := cy_attempt cy + 1\<rparr>)))"
      unfolding cycleStep_def Let_def by argo
    obtain ro it where n: "nextJob (cy_sinfo cy) (cy_iter cy) = Some (ro, it)"
      using assms step by (cases "nextJob (cy_sinfo cy) (cy_iter cy)") auto
    show ?thesis
    proof (cases ro)
      case None
      then show ?thesis using assms step n by (intro finished) auto
    next
      case (Some r)
      then show ?thesis using assms step n by (intro job) simp_all
    qed
  qed
qed

lemma runLoop_rule:
  assumes "\<And>cy cy'. I cy \<Longrightarrow> cycleStep env cy = Some (cy', True) \<Longrightarrow> I cy'"
    and "\<And>cy cy'. I cy \<Longrightarrow> cycleStep env cy = Some (cy', False) \<Longrightarrow> Q cy'"
  shows "runLoop env cy = Some y \<Longrightarrow> I cy \<Longrightarrow> Q y"
proof -
  have "runLoop env cy = Some y \<Longrightarrow> env = env \<longrightarrow> I cy \<longrightarrow> Q y"
  proof (rule runLoop.raw_induct [where P = "\<lambda>e cy y. e = env \<longrightarrow> I cy \<longrightarrow> Q y"], goal_cases)
    case (1 f e cy y)
    show ?case
    proof (intro impI)
      assume e: "e = env" and I: "I cy"
      obtain cy1 go where p: "cycleStep env cy = Some (cy1, go)"
        using 1(3) e by (cases "cycleStep env cy") auto
      show "Q y"
      proof (cases go)
        case True
        then show ?thesis using 1(2) [of env cy1 y] 1(3) e p assms(1) [OF I] by simp
      next
        case False
        then show ?thesis using 1(3) e p assms(2) [OF I] by simp
      qed
    qed
  qed simp_all
  then show "runLoop env cy = Some y \<Longrightarrow> I cy \<Longrightarrow> Q y" by simp
qed

lemma runLoop_invariant:
  assumes "\<And>cy cy' go. I cy \<Longrightarrow> cycleStep env cy = Some (cy', go) \<Longrightarrow> I cy'"
  shows "runLoop env cy = Some y \<Longrightarrow> I cy \<Longrightarrow> I y"
  by (rule runLoop_rule [of I env I]) (auto intro: assms)

lemma startCycle_iter: "iter_ok s (cy_iter (startCycle cfg u conn s))"
  "cy_sinfo (startCycle cfg u conn s) = s"
  by (simp_all add: startCycle_def newJobIterator_def iter_ok_def)

text \<open>The loop returns unless round robin meets a queue that is closed and still holds jobs.\<close>

lemma runLoop_returns:
  "iter_ok (cy_sinfo cy) (cy_iter cy) \<Longrightarrow>
   (it_mode (cy_iter cy) = RoundRobinMode \<longrightarrow> \<not> (\<exists>i. stranded (cy_sinfo cy) (cy_iter cy) i)) \<Longrightarrow>
   \<exists>y. runLoop env cy = Some y"
proof (induction "remaining (cy_sinfo cy) (cy_iter cy)" arbitrary: cy rule: less_induct)
  case less
  obtain ro it where n: "nextJob (cy_sinfo cy) (cy_iter cy) = Some (ro, it)"
    using nextJob_returns [OF less.prems] by auto
  then obtain cy1 go where p: "cycleStep env cy = Some (cy1, go)"
    by (cases "cycleStep env cy") (auto simp: cycleStep_def Let_def split: if_splits option.splits)
  have "\<exists>y. runLoop env cy1 = Some y" if go: "go"
    using p
  proof (cases rule: cycleStep_cases)
    case (job r it')
    note fr = cycleBody_frame [OF job(2), simplified]
    have adv: "advances (cy_sinfo cy) (cy_iter cy) it'" using iterator.nxt_advances [OF less.prems(1) job(1)] .
    have "remaining (cy_sinfo cy1) (cy_iter cy1) < remaining (cy_sinfo cy) (cy_iter cy)"
      using iterator.remaining_less [OF less.prems(1) job(1)] shape_remaining [OF fr(1), of it'] fr(2) by simp
    moreover have "iter_ok (cy_sinfo cy1) (cy_iter cy1)"
      using advances_ok [OF adv] shape_iter_ok [OF fr(1), of it'] fr(2) by simp
    moreover have "it_mode (cy_iter cy1) = RoundRobinMode \<longrightarrow> \<not> (\<exists>i. stranded (cy_sinfo cy1) (cy_iter cy1) i)"
      using less.prems(2) adv shape_stranded [OF fr(1), of it'] stranded_advances [OF adv] fr(2)
      by (simp add: advances_def)
    ultimately show ?thesis by (rule less.hyps)
  qed (use go in auto)
  then show ?case using p by (subst runLoop.simps) (cases go; simp)
qed

lemma runLoop_hangs:
  assumes "\<not> env_limited env" "\<not> strictStop (env_cfg env)" "it_mode (cy_iter cy) = RoundRobinMode"
    "iter_ok (cy_sinfo cy) (cy_iter cy)" "stranded (cy_sinfo cy) (cy_iter cy) i"
  shows "runLoop env cy = None"
proof (rule ccontr)
  assume "runLoop env cy \<noteq> None"
  then obtain y where "runLoop env cy = Some y" by auto
  then have "e = env \<and> it_mode (cy_iter cy) = RoundRobinMode \<and> iter_ok (cy_sinfo cy) (cy_iter cy) \<and>
      stranded (cy_sinfo cy) (cy_iter cy) i \<longrightarrow> False" if "e = env" for e
    unfolding that
  proof (rule runLoop.raw_induct [where P = "\<lambda>e cy y. e = env \<and> it_mode (cy_iter cy) = RoundRobinMode \<and>
      iter_ok (cy_sinfo cy) (cy_iter cy) \<and> stranded (cy_sinfo cy) (cy_iter cy) i \<longrightarrow> False", rotated], goal_cases)
    case (1 f e cy y)
    show ?case
    proof
      assume h: "e = env \<and> it_mode (cy_iter cy) = RoundRobinMode \<and> iter_ok (cy_sinfo cy) (cy_iter cy) \<and>
        stranded (cy_sinfo cy) (cy_iter cy) i"
      then obtain cy1 go where p: "cycleStep env cy = Some (cy1, go)"
        using 1(2) by (cases "cycleStep env cy") auto
      from p show False
      proof (cases rule: cycleStep_cases)
        case stop
        then show ?thesis using assms(1) by simp
      next
        case (finished it)
        then show ?thesis using stranded_never_done h by (auto simp: nextJob_def)
      next
        case (job r it)
        note fr = cycleBody_frame [OF job(2), simplified]
        have adv: "advances (cy_sinfo cy) (cy_iter cy) it" using iterator.nxt_advances job(1) h by blast
        have "go" using cycleBody_goes_on [OF job(2) assms(1,2)] .
        then have "f env cy1 = Some y" using 1(2) h p by simp
        moreover have "it_mode (cy_iter cy1) = RoundRobinMode" "iter_ok (cy_sinfo cy1) (cy_iter cy1)"
          "stranded (cy_sinfo cy1) (cy_iter cy1) i"
          using h adv shape_iter_ok [OF fr(1), of it] shape_stranded [OF fr(1), of it i]
            stranded_advances [OF adv, of i] fr(2) by (auto simp: advances_def)
        ultimately show False using 1(1) by blast
      qed
    qed
  qed
  then show False using assms by simp
qed

section \<open>What a cycle gives out\<close>

text \<open>The processors the dispatched jobs of a log take on a node.\<close>

definition taken :: "nat \<Rightarrow> (JobInfo \<times> nat) list \<Rightarrow> int" where
  "taken i lg = sum_list (map (\<lambda>(j, k). if k = i then effectiveCPU j else 0) lg)"

lemma taken_snoc: "taken i (lg @ [(j, k)]) = taken i lg + (if k = i then effectiveCPU j else 0)"
  by (simp add: taken_def)

lemma chargeNode_free:
  assumes "0 \<le> ji_CPUReq j" "effectiveCPU j \<le> ni_FreeCPUs n" "ni_FreeCPUs n \<le> max_int64"
  shows "ni_FreeCPUs (chargeNode j n) = ni_FreeCPUs n - effectiveCPU j"
proof -
  have "0 \<le> ni_FreeCPUs n - effectiveCPU j" "0 \<le> effectiveCPU j" "0 \<le> ni_FreeCPUs n - ji_CPUReq j"
    using assms by (auto simp: effectiveCPU_def split: if_splits)
  then have "is_int64 (ni_FreeCPUs n - ji_CPUReq j)" "is_int64 (ni_FreeCPUs n - effectiveCPU j)"
    using assms(1,3) by (auto simp: min_int64_def)
  then show ?thesis by (cases "ji_CPUReq j = 0") (simp_all add: chargeNode_def Let_def effectiveCPU_def)
qed

text \<open>The job at a position, without the mark a cycle may set.\<close>

definition plainJob :: "ServerInfo \<Rightarrow> job_ref \<Rightarrow> JobInfo" where
  "plainJob s r = (jobAt s r)\<lparr>ji_CanNotRun := False\<rparr>"

definition validRef :: "ServerInfo \<Rightarrow> job_ref \<Rightarrow> bool" where
  "validRef s r \<longleftrightarrow> fst r < length (si_Queues s) \<and> snd r < length (qi_Jobs (queueAt s (fst r)))"

lemma shape_job:
  assumes "shape s = shape s'"
  shows "validRef s r = validRef s' r" "validRef s r \<Longrightarrow> plainJob s r = plainJob s' r"
proof -
  show v: "validRef s r = validRef s' r"
    using shape_length [OF assms] shape_queue(2) [OF assms, of "fst r"] by (auto simp: validRef_def)
  assume r: "validRef s r"
  have "qi_Jobs (shape s ! fst r) ! snd r = plainJob s r"
    using r by (simp add: shape_nth validRef_def plainJob_def)
  moreover have "qi_Jobs (shape s' ! fst r) ! snd r = plainJob s' r"
    using r v by (simp add: shape_nth validRef_def plainJob_def)
  ultimately show "plainJob s r = plainJob s' r" using assms by simp
qed

text \<open>
  The invariant of the loop over the snapshot \<open>s0\<close> it started from: the queues are as they were, every
  node has what it had less what the log took, and every logged job is a job of an open queue that
  the iterator has passed, at a node its constraints allow.
\<close>

definition cycle_inv :: "ServerInfo \<Rightarrow> 'st cycle \<Rightarrow> bool" where
  "cycle_inv s0 cy \<longleftrightarrow>
     shape (cy_sinfo cy) = shape s0 \<and> iter_ok s0 (cy_iter cy) \<and>
     length (si_Nodes (cy_sinfo cy)) = length (si_Nodes s0) \<and>
     (\<forall>i < length (si_Nodes s0). 0 \<le> ni_FreeCPUs (si_Nodes (cy_sinfo cy) ! i) \<and>
        ni_FreeCPUs (si_Nodes (cy_sinfo cy) ! i) + taken i (cy_log cy) = ni_FreeCPUs (si_Nodes s0 ! i) \<and>
        0 \<le> taken i (cy_log cy))"

definition served_inv :: "ServerInfo \<Rightarrow> 'st cycle \<Rightarrow> bool" where
  "served_inv s0 cy \<longleftrightarrow>
     cy_dispatched cy = int (length (cy_log cy)) \<and>
     (\<exists>rs. distinct rs \<and> map (\<lambda>(j, _). j\<lparr>ji_CanNotRun := False\<rparr>) (cy_log cy) = map (plainJob s0) rs \<and>
        (\<forall>r \<in> set rs. validRef s0 r \<and> \<not> skipQueue (queueAt s0 (fst r)) \<and>
           snd r < it_jIdx (cy_iter cy) ! fst r))"

definition sane_snapshot :: "ServerInfo \<Rightarrow> bool" where
  "sane_snapshot s \<longleftrightarrow>
     (\<forall>n \<in> set (si_Nodes s). 0 \<le> ni_FreeCPUs n \<and> ni_FreeCPUs n \<le> max_int64) \<and>
     (\<forall>q \<in> set (si_Queues s). \<forall>j \<in> set (qi_Jobs q). 0 \<le> ji_CPUReq j)"

lemma plainJob_cpu: "ji_CPUReq (plainJob s r) = ji_CPUReq (jobAt s r)"
  by (simp add: plainJob_def)

lemma sane_job: "sane_snapshot s \<Longrightarrow> validRef s r \<Longrightarrow> 0 \<le> ji_CPUReq (jobAt s r)"
  unfolding sane_snapshot_def validRef_def by (meson nth_mem)

lemma cycle_invD:
  assumes "cycle_inv s0 cy"
  shows "shape (cy_sinfo cy) = shape s0" "iter_ok (cy_sinfo cy) (cy_iter cy)"
    "length (si_Nodes (cy_sinfo cy)) = length (si_Nodes s0)"
    "i < length (si_Nodes s0) \<Longrightarrow> 0 \<le> ni_FreeCPUs (si_Nodes (cy_sinfo cy) ! i) \<and>
        ni_FreeCPUs (si_Nodes (cy_sinfo cy) ! i) + taken i (cy_log cy) = ni_FreeCPUs (si_Nodes s0 ! i) \<and>
        0 \<le> taken i (cy_log cy)"
  using assms shape_iter_ok [of "cy_sinfo cy" s0 "cy_iter cy"] by (simp_all add: cycle_inv_def)

lemma cycle_inv_step:
  assumes s0: "sane_snapshot s0" and inv: "cycle_inv s0 cy" and p: "cycleStep env cy = Some (cy', go)"
  shows "cycle_inv s0 cy'"
  using p
proof (cases rule: cycleStep_cases)
  case stop
  then show ?thesis using inv by simp
next
  case (finished it)
  from iterator.nxt_advances [OF cycle_invD(2) [OF inv] finished(1)]
  have "iter_ok s0 it" using advances_ok shape_iter_ok [OF cycle_invD(1) [OF inv], of it] by blast
  then show ?thesis using inv finished by (simp add: cycle_inv_def)
next
  case (job r it)
  let ?s = "cy_sinfo cy"
  note fr = cycleBody_frame [OF job(2), simplified]
  note sh = cycle_invD(1) [OF inv] and ok = cycle_invD(2) [OF inv]
    and len = cycle_invD(3) [OF inv] and nodes = cycle_invD(4) [OF inv]
  have adv: "advances ?s (cy_iter cy) it" using iterator.nxt_advances [OF ok job(1)] .
  have v: "validRef ?s r" using iterator.nxt_fresh [OF ok job(1)] by (simp add: fresh_def validRef_def)
  have cpu: "0 \<le> ji_CPUReq (jobAt ?s r)"
    using sane_job [OF s0, of r] shape_job [OF sh, of r] v plainJob_cpu [of ?s r] plainJob_cpu [of s0 r]
    by simp
  have it: "iter_ok s0 (cy_iter cy')" using advances_ok [OF adv] shape_iter_ok [OF sh, of it] fr(2) by simp
  have "\<forall>i < length (si_Nodes s0). 0 \<le> ni_FreeCPUs (si_Nodes (cy_sinfo cy') ! i) \<and>
      ni_FreeCPUs (si_Nodes (cy_sinfo cy') ! i) + taken i (cy_log cy') = ni_FreeCPUs (si_Nodes s0 ! i) \<and>
      0 \<le> taken i (cy_log cy')"
    using cycleBody_nodes [OF job(2)]
  proof (elim disjE exE conjE, goal_cases)
    case 1
    then show ?thesis using nodes by simp
  next
    case (2 k)
    have c: "candidate ?s (jobAt ?s r) k" using findNodeForJob_Some [of _ ?s "jobAt ?s r" k] 2(1) by simp
    then have k: "k < length (si_Nodes s0)" "effectiveCPU (jobAt ?s r) \<le> ni_FreeCPUs (si_Nodes ?s ! k)"
      using len by (auto simp: candidate_def)
    have e: "0 \<le> effectiveCPU (jobAt ?s r)" using cpu by (simp add: effectiveCPU_def)
    have "ni_FreeCPUs (si_Nodes s0 ! k) \<le> max_int64" using s0 k(1) by (simp add: sane_snapshot_def)
    then have "ni_FreeCPUs (si_Nodes ?s ! k) \<le> max_int64" using nodes [OF k(1)] by linarith
    then have f: "ni_FreeCPUs (chargeNode (jobAt ?s r) (si_Nodes ?s ! k)) =
        ni_FreeCPUs (si_Nodes ?s ! k) - effectiveCPU (jobAt ?s r)"
      using chargeNode_free cpu k(2) by blast
    show ?thesis
    proof (intro allI impI)
      fix i assume i: "i < length (si_Nodes s0)"
      show "0 \<le> ni_FreeCPUs (si_Nodes (cy_sinfo cy') ! i) \<and>
        ni_FreeCPUs (si_Nodes (cy_sinfo cy') ! i) + taken i (cy_log cy') = ni_FreeCPUs (si_Nodes s0 ! i) \<and>
        0 \<le> taken i (cy_log cy')"
        using 2(2,3) nodes [OF i] k f e i len
        by (cases "i = k") (auto simp: taken_snoc)
    qed
  qed
  then show ?thesis using fr sh it len by (simp add: cycle_inv_def)
qed

lemma served_inv_step:
  assumes sh: "shape (cy_sinfo cy) = shape s0" and ok: "iter_ok (cy_sinfo cy) (cy_iter cy)"
    and inv: "served_inv s0 cy" and p: "cycleStep env cy = Some (cy', go)"
  shows "served_inv s0 cy'"
proof -
  let ?s = "cy_sinfo cy"
  obtain rs where rs: "distinct rs"
      "map (\<lambda>(j, _). j\<lparr>ji_CanNotRun := False\<rparr>) (cy_log cy) = map (plainJob s0) rs"
    and old: "\<And>r. r \<in> set rs \<Longrightarrow> validRef s0 r \<and> \<not> skipQueue (queueAt s0 (fst r)) \<and>
        snd r < it_jIdx (cy_iter cy) ! fst r"
    and n: "cy_dispatched cy = int (length (cy_log cy))"
    using inv by (auto simp: served_inv_def)
  have later: "validRef s0 r \<and> \<not> skipQueue (queueAt s0 (fst r)) \<and> snd r < it_jIdx it ! fst r"
    if "r \<in> set rs" "advances ?s (cy_iter cy) it" for r it
    using old [OF that(1)] that(2) shape_length [OF sh]
    by (auto simp: advances_def validRef_def intro: less_le_trans)
  from p show ?thesis
  proof (cases rule: cycleStep_cases)
    case stop
    then show ?thesis using inv by simp
  next
    case (finished it)
    have "advances ?s (cy_iter cy) it" using iterator.nxt_advances [OF ok finished(1)] .
    then show ?thesis unfolding served_inv_def using rs later n finished(2)
      by (intro conjI exI [of _ rs]) auto
  next
    case (job r it)
    note fr = cycleBody_frame [OF job(2), simplified]
    have adv: "advances ?s (cy_iter cy) it" using iterator.nxt_advances [OF ok job(1)] .
    have new: "fresh ?s (cy_iter cy) it r" using iterator.nxt_fresh [OF ok job(1)] .
    then have v: "validRef ?s r" by (simp add: fresh_def validRef_def)
    then have v0: "validRef s0 r" and pj: "plainJob ?s r = plainJob s0 r" using shape_job [OF sh] by auto
    have q: "\<not> skipQueue (queueAt s0 (fst r))"
      using shape_queue(1) [OF sh, of "fst r"] new by (simp add: fresh_def)
    have notin: "r \<notin> set rs" using old [of r] new by (auto simp: fresh_def)
    from cycleBody_nodes [OF job(2)] show ?thesis
    proof (elim disjE exE conjE, goal_cases)
      case 1
      then show ?case unfolding served_inv_def using rs later [OF _ adv] n fr(2)
        by (intro conjI exI [of _ rs]) auto
    next
      case (2 i)
      have "snd r < it_jIdx it ! fst r" using new by (simp add: fresh_def)
      then show ?case unfolding served_inv_def using 2 rs later [OF _ adv] n fr(2) v0 q notin pj
        by (intro conjI exI [of _ "rs @ [r]"]) (auto simp: plainJob_def)
    qed
  qed
qed

lemma cycle_invariants:
  assumes "runLoop env (startCycle (env_cfg env) u conn s) = Some cy"
  shows "sane_snapshot s \<Longrightarrow> cycle_inv s cy" "served_inv s cy"
proof -
  let ?start = "startCycle (env_cfg env) u conn s"
  assume s: "sane_snapshot s"
  have "cycle_inv s ?start"
    using s startCycle_iter(1) [of s "env_cfg env" u conn] by (simp add: cycle_inv_def startCycle_def taken_def sane_snapshot_def)
  with assms show "cycle_inv s cy"
    by (rule runLoop_invariant [rotated]) (rule cycle_inv_step [OF s])
next
  let ?start = "startCycle (env_cfg env) u conn s"
  let ?I = "\<lambda>c. shape (cy_sinfo c) = shape s \<and> iter_ok (cy_sinfo c) (cy_iter c) \<and> served_inv s c"
  have start: "?I ?start"
    using startCycle_iter(1) [of s "env_cfg env" u conn] by (simp add: served_inv_def startCycle_def)
  have "?I c'" if c: "?I c" and p: "cycleStep env c = Some (c', go)" for c c' go
  proof -
    have "shape (cy_sinfo c') = shape s \<and> iter_ok (cy_sinfo c') (cy_iter c')"
      using p
    proof (cases rule: cycleStep_cases)
      case (finished it)
      then show ?thesis using c iterator.nxt_advances [of "cy_sinfo c" "cy_iter c" None it] by (simp add: advances_ok)
    next
      case (job r it)
      note fr = cycleBody_frame [OF job(2), simplified]
      have "iter_ok (cy_sinfo c) it" using c job(1) advances_ok iterator.nxt_advances by blast
      then show ?thesis using c fr shape_iter_ok [OF fr(1), of it] by simp
    qed (use c in simp)
    then show ?thesis using c served_inv_step [of c s env c' go] p by simp
  qed
  then show "served_inv s cy" using runLoop_invariant [of ?I env, OF _ assms start] by blast
qed

text \<open>The limits of a cycle that an event has triggered.\<close>

definition within_caps :: "'st cycle_env \<Rightarrow> 'st cycle \<Rightarrow> bool" where
  "within_caps env cy \<longleftrightarrow>
     (c_SchedMaxJobStart (env_cfg env) > 0 \<longrightarrow> cy_dispatched cy \<le> c_SchedMaxJobStart (env_cfg env)) \<and>
     (c_DefaultQueueDepth (env_cfg env) > 0 \<longrightarrow> cy_attempt cy \<le> c_DefaultQueueDepth (env_cfg env))"

lemma cycleBody_caps:
  assumes "cycleBody env r cy = (cy', go)" "env_limited env" "c_SchedMaxJobStart (env_cfg env) > 0"
    "cy_dispatched cy < c_SchedMaxJobStart (env_cfg env)"
  shows "cy_dispatched cy' \<le> c_SchedMaxJobStart (env_cfg env)"
    "go \<Longrightarrow> cy_dispatched cy' < c_SchedMaxJobStart (env_cfg env)"
  using assms by (auto simp: cycleBody_def Let_def split: option.splits if_splits prod.splits)

lemma cycleStep_attempt:
  assumes "cycleStep env cy = Some (cy', go)" "env_limited env" "c_DefaultQueueDepth (env_cfg env) > 0"
    "cy_attempt cy \<le> c_DefaultQueueDepth (env_cfg env)"
  shows "cy_attempt cy' \<le> c_DefaultQueueDepth (env_cfg env)"
proof (cases "cy_attempt cy = c_DefaultQueueDepth (env_cfg env)")
  case True
  then show ?thesis using assms by (auto simp: cycleStep_def)
next
  case False
  from assms(1) show ?thesis
  proof (cases rule: cycleStep_cases)
    case (job r it)
    then show ?thesis using cycleBody_frame(3) [OF job(2)] assms(4) False by simp
  qed (use assms in auto)
qed

lemma limited_caps:
  assumes "env_limited env" "runLoop env (startCycle (env_cfg env) u conn s) = Some cy"
  shows "within_caps env cy"
proof -
  let ?M = "c_SchedMaxJobStart (env_cfg env)" and ?D = "c_DefaultQueueDepth (env_cfg env)"
  let ?I = "\<lambda>c. (?M > 0 \<longrightarrow> cy_dispatched c < ?M) \<and> (?D > 0 \<longrightarrow> cy_attempt c \<le> ?D)"
  have step: "within_caps env c' \<and> (go \<longrightarrow> ?I c')" if I: "?I c" and p: "cycleStep env c = Some (c', go)" for c c' go
  proof -
    have d: "?D > 0 \<longrightarrow> cy_attempt c' \<le> ?D" using cycleStep_attempt [OF p assms(1)] I by blast
    from p have m: "?M > 0 \<longrightarrow> cy_dispatched c' \<le> ?M \<and> (go \<longrightarrow> cy_dispatched c' < ?M)"
    proof (cases rule: cycleStep_cases)
      case (job r it)
      show ?thesis using cycleBody_caps [OF job(2) assms(1)] I by auto
    qed (use I in auto)
    show ?thesis unfolding within_caps_def using d m by blast
  qed
  have start: "?I (startCycle (env_cfg env) u conn s)" by (simp add: startCycle_def)
  show ?thesis
  proof (rule runLoop_rule [of ?I env "within_caps env", OF _ _ assms(2) start])
    fix c c' assume "?I c" "cycleStep env c = Some (c', True)"
    from step [OF this] show "?I c'" by simp
  next
    fix c c' assume "?I c" "cycleStep env c = Some (c', False)"
    from step [OF this] show "within_caps env c'" by simp
  qed
qed

section \<open>Properties\<close>


text \<open>One execution queue with one job, on the nodes of the earlier example.\<close>

definition oneJob :: ServerInfo where
  "oneJob = twoNodes\<lparr>si_Queues := [(emptyQueueInfo ''batch'')\<lparr>qi_Jobs := [emptyJobInfo ''1'']\<rparr>]\<rparr>"

definition acceptAll :: "bool \<Rightarrow> Config \<Rightarrow> unit cycle_env" where
  "acceptAll limited cfg = \<lparr>env_cfg = cfg, env_limited = limited, env_elapsed = (\<lambda>_. 0), env_RunJob = (\<lambda>st _ _. (st, True))\<rparr>"

lemma oneJob_sane: "sane_snapshot oneJob"
  by (simp add: sane_snapshot_def oneJob_def twoNodes_def emptyNodeInfo_def emptyQueueInfo_def
      emptyJobInfo_def max_int64_def)

lemma oneJob_returns:
  "\<not> c_RoundRobin cfg \<Longrightarrow> \<exists>cy. runLoop (acceptAll l cfg) (startCycle cfg [] () oneJob) = Some cy"
  by (rule runLoop_returns) (simp_all add: startCycle_def newJobIterator_def iter_ok_def)


text \<open>
C14: A scheduling cycle considers every job at most once: the jobs it dispatches are those at pairwise
different positions of the snapshot, all in queues that are enabled, started and not route
queues, and the number it reports is the number of those dispatches.
\<close>

theorem cycle_dispatches_once:
  assumes "runLoop env (startCycle (env_cfg env) u conn s) = Some cy"
  shows "\<exists>rs. distinct rs \<and> cr_Dispatched (cycleResult cy) = int (length rs) \<and>
    map (\<lambda>(j, _). j\<lparr>ji_CanNotRun := False\<rparr>) (cy_log cy) = map (plainJob s) rs \<and>
    (\<forall>r \<in> set rs. validRef s r \<and> qi_Enabled (queueAt s (fst r)) \<and> qi_Started (queueAt s (fst r)) \<and>
       \<not> isRouteQueue (queueAt s (fst r)))"
proof -
  obtain rs where rs: "distinct rs" "map (\<lambda>(j, _). j\<lparr>ji_CanNotRun := False\<rparr>) (cy_log cy) = map (plainJob s) rs"
    "\<forall>r \<in> set rs. validRef s r \<and> \<not> skipQueue (queueAt s (fst r))" "cy_dispatched cy = int (length (cy_log cy))"
    using cycle_invariants(2) [OF assms] by (auto simp: served_inv_def)
  have "length (cy_log cy) = length rs" using arg_cong [OF rs(2), of length] by simp
  then show ?thesis using rs by (intro exI [of _ rs]) (simp add: cycleResult_def Let_def skipQueue_def)
qed

theorem cycle_dispatches_once_witness:
  "\<exists>cy rs. runLoop (acceptAll True (DefaultConfig ''/'')) (startCycle (DefaultConfig ''/'') [] () oneJob) = Some cy \<and>
     distinct rs \<and> cr_Dispatched (cycleResult cy) = int (length (rs :: job_ref list))"
proof -
  have "\<not> c_RoundRobin (DefaultConfig ''/'')" by (simp add: DefaultConfig_def)
  then obtain cy where cy: "runLoop (acceptAll True (DefaultConfig ''/''))
      (startCycle (DefaultConfig ''/'') [] () oneJob) = Some cy"
    using oneJob_returns by blast
  have "env_cfg (acceptAll True (DefaultConfig ''/'')) = DefaultConfig ''/''" by (simp add: acceptAll_def)
  then show ?thesis
    using cycle_dispatches_once [of "acceptAll True (DefaultConfig ''/'')" "[]" "()" oneJob cy] cy by auto
qed

text \<open>
C32: A limited cycle keeps its limits: it starts at most the configured number of jobs and takes at most
the configured number of jobs into consideration, where these limits are set.
\<close>

theorem limited_cycle_bounds:
  assumes "env_limited env" "runLoop env (startCycle (env_cfg env) u conn s) = Some cy"
  shows "(c_SchedMaxJobStart (env_cfg env) > 0 \<longrightarrow>
       cr_Dispatched (cycleResult cy) \<le> c_SchedMaxJobStart (env_cfg env)) \<and>
    (c_DefaultQueueDepth (env_cfg env) > 0 \<longrightarrow> cy_attempt cy \<le> c_DefaultQueueDepth (env_cfg env))"
  using limited_caps [OF assms] by (simp add: within_caps_def cycleResult_def Let_def)

theorem limited_cycle_bounds_witness:
  "\<exists>cy. runLoop (acceptAll True (DefaultConfig ''/'')) (startCycle (DefaultConfig ''/'') [] () oneJob) = Some cy \<and>
     cy_attempt cy \<le> 100"
proof -
  have "\<not> c_RoundRobin (DefaultConfig ''/'')" by (simp add: DefaultConfig_def)
  then obtain cy where cy: "runLoop (acceptAll True (DefaultConfig ''/''))
      (startCycle (DefaultConfig ''/'') [] () oneJob) = Some cy"
    using oneJob_returns by blast
  have "env_cfg (acceptAll True (DefaultConfig ''/'')) = DefaultConfig ''/''"
    "env_limited (acceptAll True (DefaultConfig ''/''))" by (simp_all add: acceptAll_def)
  then show ?thesis
    using limited_cycle_bounds [of "acceptAll True (DefaultConfig ''/'')" "[]" "()" oneJob cy] cy
    by (auto simp: DefaultConfig_def)
qed

text \<open>
C15: When a cycle returns. It always does in the by-queue and flat modes, and in round-robin mode where every
queue that holds jobs is enabled, started and not a route queue. In round-robin mode with a queue that is
closed and still holds a queued job, a full cycle without strict order never returns: the iterator
waits for the positions of all queues to reach the end and never moves that one.
\<close>

theorem cycle_returns:
  "(\<not> c_RoundRobin (env_cfg env) \<or> \<not> (\<exists>q. q \<in> set (si_Queues s) \<and> skipQueue q \<and> qi_Jobs q \<noteq> []) \<longrightarrow>
      (\<exists>cy. runLoop env (startCycle (env_cfg env) u conn s) = Some cy)) \<and>
   (c_RoundRobin (env_cfg env) \<and> \<not> env_limited env \<and> \<not> strictStop (env_cfg env) \<and>
      (\<exists>q. q \<in> set (si_Queues s) \<and> skipQueue q \<and> qi_Jobs q \<noteq> []) \<longrightarrow>
      runLoop env (startCycle (env_cfg env) u conn s) = None)"
proof -
  let ?cy = "startCycle (env_cfg env) u conn s"
  have st: "(\<exists>i. stranded s (cy_iter ?cy) i) \<longleftrightarrow> (\<exists>q. q \<in> set (si_Queues s) \<and> skipQueue q \<and> qi_Jobs q \<noteq> [])"
    by (auto simp: stranded_def startCycle_def newJobIterator_def in_set_conv_nth)
  have rr: "it_mode (cy_iter ?cy) = RoundRobinMode \<longleftrightarrow> c_RoundRobin (env_cfg env)"
    by (simp add: startCycle_def newJobIterator_def)
  have ok: "cy_sinfo ?cy = s" "iter_ok s (cy_iter ?cy)" by (rule startCycle_iter)+
  have "\<exists>cy. runLoop env ?cy = Some cy" if "\<not> c_RoundRobin (env_cfg env) \<or> \<not> (\<exists>i. stranded s (cy_iter ?cy) i)"
    using runLoop_returns [of ?cy env] that ok rr by auto
  moreover have "runLoop env ?cy = None"
    if "c_RoundRobin (env_cfg env)" "\<not> env_limited env" "\<not> strictStop (env_cfg env)"
      "\<exists>i. stranded s (cy_iter ?cy) i"
    using runLoop_hangs [of env ?cy] that ok rr by auto
  ultimately show ?thesis unfolding st by blast
qed

theorem cycle_returns_witness:
  "(\<exists>cy. runLoop (acceptAll False (DefaultConfig ''/'')) (startCycle (DefaultConfig ''/'') [] () oneJob) = Some cy) \<and>
   runLoop (acceptAll False ((DefaultConfig ''/'')\<lparr>c_RoundRobin := True\<rparr>))
     (startCycle ((DefaultConfig ''/'')\<lparr>c_RoundRobin := True\<rparr>) [] ()
        (oneJob\<lparr>si_Queues := [(emptyQueueInfo ''batch'')\<lparr>qi_Started := False, qi_Jobs := [emptyJobInfo ''1'']\<rparr>]\<rparr>)) = None"
  using cycle_returns [of "acceptAll False (DefaultConfig ''/'')" oneJob "[]" "()"]
    cycle_returns [of "acceptAll False ((DefaultConfig ''/'')\<lparr>c_RoundRobin := True\<rparr>)"
      "oneJob\<lparr>si_Queues := [(emptyQueueInfo ''batch'')\<lparr>qi_Started := False, qi_Jobs := [emptyJobInfo ''1'']\<rparr>]\<rparr>"
      "[]" "()"]
  by (simp add: acceptAll_def DefaultConfig_def strictStop_def skipQueue_def)



end
