(* ===== verification/Cec_Model.thy ===== *)
theory Cec_Model
  imports Go_Strings
begin

text \<open>
  The elastic controller of cloud queues, \<^verbatim>\<open>src/internal/cec/cec.go\<close>, with the provider interface and the stub
  provider of \<^verbatim>\<open>src/internal/crp/crp.go\<close>.

  The outside world is a state of any type that the provider and the node controller act on, so a
  theorem about every provider covers every cloud. Times and durations are \<^typ>\<open>int\<close>s of
  nanoseconds. The mutex is left out: each exported method is one step.
\<close>

section \<open>The provider interface\<close>

record VM =
  vm_ID :: string
  vm_Name :: string
  vm_SKU :: string
  vm_IP :: string
  vm_Hostname :: string
  vm_State :: string
  vm_Location :: string
  vm_ResourceGroup :: string

record EnsureRequest =
  er_Provider :: string
  er_SKU :: string
  er_Count :: int
  er_SubnetID :: string
  er_ImageID :: string
  er_DiskSize :: int
  er_DiskType :: string
  er_SSHKey :: string
  er_Location :: string
  er_ResourceGroup :: string
  er_MinNodes :: int
  er_MaxNodes :: int
  er_ServerAddr :: string
  er_Hibernate :: bool

record VMRef =
  vr_Provider :: string
  vr_VMID :: string

text \<open>The calls the controller makes; a Boolean result is the absence of an error.\<close>

record 'w provider =
  pr_Ensure :: "EnsureRequest \<Rightarrow> 'w \<Rightarrow> (VM list \<times> bool) \<times> 'w"
  pr_Reclaim :: "VMRef \<Rightarrow> string \<Rightarrow> bool \<Rightarrow> 'w \<Rightarrow> bool \<times> 'w"
  pr_Resume :: "VMRef \<Rightarrow> 'w \<Rightarrow> bool \<times> 'w"

record 'w NodeController =
  nc_DrainNode :: "string \<Rightarrow> 'w \<Rightarrow> bool \<times> 'w"
  nc_DeregisterNode :: "string \<Rightarrow> 'w \<Rightarrow> bool \<times> 'w"

section \<open>Events and pools\<close>

datatype event_kind = EventCapacity | EventNodeFree | EventNodeIdle | EventNodeDown | OtherEvent

record JobDemand =
  jd_ID :: string
  jd_CPUs :: int
  jd_MemKB :: int

record Shortfall =
  sf_Cores :: int
  sf_Nodes :: int
  sf_Blocked :: int

record Event =
  ev_Kind :: event_kind
  ev_Queue :: string
  ev_Provider :: string
  ev_SKU :: string
  ev_Jobs :: "JobDemand list"
  ev_Shortfall :: Shortfall
  ev_PoolSize :: int
  ev_MinNodes :: int
  ev_MaxNodes :: int
  ev_IdleTime :: int
  ev_ProvisionTimeout :: int
  ev_Reclaim :: string
  ev_SubnetID :: string
  ev_ImageID :: string
  ev_DiskSize :: int
  ev_DiskType :: string
  ev_SSHKey :: string
  ev_Location :: string
  ev_RGName :: string
  ev_ServerAddr :: string
  ev_Cooldown :: int
  ev_ScaleHeadroom :: int
  ev_DrainTimeout :: int

record Pool =
  p_Queue :: string
  p_Provider :: string
  p_SKU :: string
  p_MinNodes :: int
  p_MaxNodes :: int
  p_IdleTime :: int
  p_Reclaim :: string
  p_SubnetID :: string
  p_ImageID :: string
  p_DiskSize :: int
  p_DiskType :: string
  p_SSHKey :: string
  p_Location :: string
  p_RGName :: string
  p_ServerAddr :: string
  p_Running :: int
  p_Inflight :: int
  p_Provisioning :: "string smap"
  p_ProvisionTimeout :: int
  p_ProvisionedAt :: "int smap"
  p_Owned :: "bool smap"
  p_IdleSince :: "int smap"
  p_Hibernated :: "int smap"
  p_CooldownUntil :: int
  p_LastScale :: int
  p_Cooldown :: int
  p_Headroom :: int
  p_DrainTimeout :: int
  p_LastReclaim :: "int smap"

text \<open>The zero \<^verbatim>\<open>time.Time\<close> on the scale of nanoseconds.\<close>

abbreviation (input) zeroNanos :: int where "zeroNanos \<equiv> - 62135596800000000000"

record Controller =
  ctl_pools :: "Pool smap"
  ctl_Events :: "Event list"
  ctl_Cooldown :: int

definition NewController :: Controller where
  "NewController = \<lparr>ctl_pools = [], ctl_Events = [], ctl_Cooldown = 30 * 1000000000\<rparr>"

definition newPool :: "Event \<Rightarrow> Pool" where
  "newPool ev =
     \<lparr>p_Queue = ev_Queue ev, p_Provider = ev_Provider ev, p_SKU = ev_SKU ev,
      p_MinNodes = ev_MinNodes ev, p_MaxNodes = ev_MaxNodes ev, p_IdleTime = ev_IdleTime ev,
      p_Reclaim = ev_Reclaim ev, p_SubnetID = ev_SubnetID ev, p_ImageID = ev_ImageID ev,
      p_DiskSize = ev_DiskSize ev, p_DiskType = ev_DiskType ev, p_SSHKey = ev_SSHKey ev,
      p_Location = ev_Location ev, p_RGName = ev_RGName ev, p_ServerAddr = ev_ServerAddr ev,
      p_Running = 0, p_Inflight = 0, p_Provisioning = [], p_ProvisionTimeout = 0,
      p_ProvisionedAt = [], p_Owned = [], p_IdleSince = [], p_Hibernated = [],
      p_CooldownUntil = zeroNanos, p_LastScale = zeroNanos, p_Cooldown = 0, p_Headroom = 0,
      p_DrainTimeout = 0, p_LastReclaim = []\<rparr>"

text \<open>The settings an event carries, each taken over where it is set.\<close>

definition poolSettings :: "Event \<Rightarrow> (bool \<times> (Pool \<Rightarrow> Pool)) list" where
  "poolSettings ev =
     [(ev_Provider ev \<noteq> [], \<lambda>p. p\<lparr>p_Provider := ev_Provider ev, p_SKU := ev_SKU ev\<rparr>),
      (ev_MinNodes ev > 0, \<lambda>p. p\<lparr>p_MinNodes := ev_MinNodes ev\<rparr>),
      (ev_MaxNodes ev > 0, \<lambda>p. p\<lparr>p_MaxNodes := ev_MaxNodes ev\<rparr>),
      (ev_IdleTime ev > 0, \<lambda>p. p\<lparr>p_IdleTime := ev_IdleTime ev\<rparr>),
      (ev_ProvisionTimeout ev > 0, \<lambda>p. p\<lparr>p_ProvisionTimeout := ev_ProvisionTimeout ev\<rparr>),
      (ev_Reclaim ev \<noteq> [], \<lambda>p. p\<lparr>p_Reclaim := ev_Reclaim ev\<rparr>),
      (ev_Cooldown ev > 0, \<lambda>p. p\<lparr>p_Cooldown := ev_Cooldown ev\<rparr>),
      (ev_ScaleHeadroom ev > 0, \<lambda>p. p\<lparr>p_Headroom := ev_ScaleHeadroom ev\<rparr>),
      (ev_DrainTimeout ev > 0, \<lambda>p. p\<lparr>p_DrainTimeout := ev_DrainTimeout ev\<rparr>)]"

definition refreshPool :: "Event \<Rightarrow> Pool \<Rightarrow> Pool" where
  "refreshPool ev p = fold (\<lambda>(given, upd) p. if given then upd p else p) (poolSettings ev) p"

text \<open>\<^verbatim>\<open>ensurePool\<close> returns a pointer into the map: the model gives the pool, which callers write back.\<close>

definition ensurePool :: "Event \<Rightarrow> Controller \<Rightarrow> Pool" where
  "ensurePool ev c =
     refreshPool ev (case mget (ctl_pools c) (ev_Queue ev) of Some p \<Rightarrow> p | None \<Rightarrow> newPool ev)"

definition putPool :: "string \<Rightarrow> Pool \<Rightarrow> Controller \<Rightarrow> Controller" where
  "putPool q p c = c\<lparr>ctl_pools := mput q p (ctl_pools c)\<rparr>"

definition mergeCapacity :: "Event \<Rightarrow> Event \<Rightarrow> Event" where
  "mergeCapacity e2 ev =
     (let s = ev_Shortfall ev; s2 = ev_Shortfall e2
      in ev\<lparr>ev_Shortfall := s\<lparr>sf_Nodes := (if sf_Nodes s2 > sf_Nodes s then sf_Nodes s2 else sf_Nodes s),
             sf_Cores := (if sf_Cores s2 > sf_Cores s then sf_Cores s2 else sf_Cores s),
             sf_Blocked := (if sf_Blocked s2 > sf_Blocked s then sf_Blocked s2 else sf_Blocked s)\<rparr>,
           ev_Jobs := fold (\<lambda>j js. if jd_ID j \<in> jd_ID ` set js then js else js @ [j]) (ev_Jobs e2) (ev_Jobs ev)\<rparr>)"

text \<open>The channel is drained whole: capacity events of the pool are merged, all others are dropped.\<close>

definition coalesceCapacityEvents :: "Pool \<Rightarrow> Event list \<Rightarrow> Event \<Rightarrow> Event" where
  "coalesceCapacityEvents p chan ev =
     fold (\<lambda>e2 ev. if ev_Kind e2 \<noteq> EventCapacity \<or> ev_Queue e2 \<noteq> p_Queue p then ev else mergeCapacity e2 ev)
       chan ev"

definition desiredSize :: "Pool \<Rightarrow> Event \<Rightarrow> int" where
  "desiredSize p ev =
     (let target = p_Running p + sf_Nodes (ev_Shortfall ev) + p_Headroom p;
          target = (if p_MaxNodes p > 0 \<and> target > p_MaxNodes p then p_MaxNodes p else target)
      in if target < p_MinNodes p then p_MinNodes p else target)"

section \<open>Scale-out\<close>

definition jobFor :: "JobDemand list \<Rightarrow> nat \<Rightarrow> string" where
  "jobFor jobs i = (if i < length jobs then jd_ID (jobs ! i) else [])"

text \<open>The hibernated machine that has slept longest, as the inner loop of \<^verbatim>\<open>handleCapacity\<close> finds it.\<close>

definition oldestHibernated :: "int smap \<Rightarrow> string" where
  "oldestHibernated m =
     fst (fold (\<lambda>(vmID, t) (ident, suspendAt). if ident = [] \<or> t < suspendAt then (vmID, t) else (ident, suspendAt))
       m ([], zeroNanos))"

function resumeHibernated ::
  "'w provider \<Rightarrow> int \<Rightarrow> JobDemand list \<Rightarrow> nat \<Rightarrow> nat \<Rightarrow> Pool \<Rightarrow> 'w \<Rightarrow> nat \<times> Pool \<times> 'w" where
  "resumeHibernated pr now jobs need resumed p w =
     (if resumed < need \<and> p_Hibernated p \<noteq> [] then
        let ident = oldestHibernated (p_Hibernated p);
            p1 = p\<lparr>p_Hibernated := mdel ident (p_Hibernated p),
                   p_Provisioning := mput ident (jobFor jobs resumed) (p_Provisioning p),
                   p_ProvisionedAt := mput ident now (p_ProvisionedAt p), p_Inflight := p_Inflight p + 1\<rparr>;
            w1 = snd (pr_Resume pr \<lparr>vr_Provider = p_Provider p, vr_VMID = ident\<rparr> w)
        in resumeHibernated pr now jobs need (resumed + 1) p1 w1
      else (resumed, p, w))"
  by pat_completeness auto

termination
  by (relation "measure (\<lambda>(_, _, _, need, resumed, _, _). need - resumed)") auto

declare resumeHibernated.simps [simp del]

text \<open>The loop that binds new machines to jobs; \<open>clock i\<close> is the time at which it reaches the \<open>i\<close>-th.\<close>

fun bindVMs :: "(nat \<Rightarrow> int) \<Rightarrow> JobDemand list \<Rightarrow> nat \<Rightarrow> VM list \<Rightarrow> Pool \<Rightarrow> Pool" where
  "bindVMs clock jobs i [] p = p"
| "bindVMs clock jobs i (vm # vms) p =
     bindVMs clock jobs (i + 1) vms
       (p\<lparr>p_Provisioning := mput (vm_ID vm) (jobFor jobs i) (p_Provisioning p),
          p_ProvisionedAt := mput (vm_ID vm) (clock i) (p_ProvisionedAt p)\<rparr>)"

definition ensureRequest :: "Event \<Rightarrow> int \<Rightarrow> Pool \<Rightarrow> EnsureRequest" where
  "ensureRequest ev need p =
     \<lparr>er_Provider = ev_Provider ev, er_SKU = ev_SKU ev, er_Count = need, er_SubnetID = p_SubnetID p,
      er_ImageID = p_ImageID p, er_DiskSize = p_DiskSize p, er_DiskType = p_DiskType p,
      er_SSHKey = p_SSHKey p, er_Location = p_Location p, er_ResourceGroup = p_RGName p,
      er_MinNodes = p_MinNodes p, er_MaxNodes = p_MaxNodes p, er_ServerAddr = p_ServerAddr p,
      er_Hibernate = (p_Reclaim p = ''hibernate'')\<rparr>"

definition scaleOut :: "'w provider \<Rightarrow> int \<Rightarrow> (nat \<Rightarrow> int) \<Rightarrow> int \<Rightarrow> Event \<Rightarrow> Pool \<Rightarrow> 'w \<Rightarrow> Pool \<times> 'w" where
  "scaleOut pr now clock ctlCooldown ev p w =
     (if now < p_CooldownUntil p then (p, w)
      else let need = desiredSize p ev - (p_Running p + p_Inflight p) in
        if need \<le> 0 then (p, w)
        else let cd = (if p_Cooldown p \<le> 0 then ctlCooldown else p_Cooldown p);
                 p1 = p\<lparr>p_LastScale := now, p_CooldownUntil := now + cd\<rparr>;
                 (resumed, p2, w2) = resumeHibernated pr now (ev_Jobs ev) (nat need) 0 p1 w;
                 need' = need - int resumed
             in if need' \<le> 0 then (p2, w2)
                else let ((vms, ok), w3) = pr_Ensure pr (ensureRequest ev need' p2) w2
                  in if \<not> ok then (p2, w3)
                     else let p3 = bindVMs clock (ev_Jobs ev) 0 vms p2
                       in (p3\<lparr>p_Inflight := p_Inflight p3 + int (length vms)\<rparr>, w3))"

definition handleCapacity ::
  "'w provider \<Rightarrow> int \<Rightarrow> (nat \<Rightarrow> int) \<Rightarrow> Event \<Rightarrow> Controller \<Rightarrow> 'w \<Rightarrow> Controller \<times> 'w" where
  "handleCapacity pr now clock ev c w =
     (let p = ensurePool ev c;
          ev' = coalesceCapacityEvents p (ctl_Events c) ev;
          (p', w') = scaleOut pr now clock (ctl_Cooldown c) ev' p w
      in ((putPool (ev_Queue ev) p' c)\<lparr>ctl_Events := []\<rparr>, w'))"

definition handleNodeFree :: "Event \<Rightarrow> Controller \<Rightarrow> Controller" where
  "handleNodeFree ev c = putPool (ev_Queue ev) (ensurePool ev c) c"

definition handleNodeIdle :: "Event \<Rightarrow> Controller \<Rightarrow> Controller" where
  "handleNodeIdle ev c = putPool (ev_Queue ev) (ensurePool ev c) c"

definition handleNodeDown :: "Event \<Rightarrow> Controller \<Rightarrow> Controller" where
  "handleNodeDown ev c =
     (let p = ensurePool ev c
      in putPool (ev_Queue ev) (if p_Running p > 0 then p\<lparr>p_Running := p_Running p - 1\<rparr> else p) c)"

definition handleEvent ::
  "'w provider \<Rightarrow> int \<Rightarrow> (nat \<Rightarrow> int) \<Rightarrow> Event \<Rightarrow> Controller \<Rightarrow> 'w \<Rightarrow> Controller \<times> 'w" where
  "handleEvent pr now clock ev c w = (case ev_Kind ev of
      EventCapacity \<Rightarrow> handleCapacity pr now clock ev c w
    | EventNodeFree \<Rightarrow> (handleNodeFree ev c, w)
    | EventNodeIdle \<Rightarrow> (handleNodeIdle ev c, w)
    | EventNodeDown \<Rightarrow> (handleNodeDown ev c, w)
    | OtherEvent \<Rightarrow> (c, w))"

section \<open>Registration\<close>

definition nodeUp :: "string \<Rightarrow> Pool \<Rightarrow> Pool" where
  "nodeUp n p =
     (if mget (p_Provisioning p) n = None then p
      else p\<lparr>p_Provisioning := mdel n (p_Provisioning p),
             p_Inflight := (if p_Inflight p > 0 then p_Inflight p - 1 else p_Inflight p),
             p_Owned := mput n True (p_Owned p), p_Running := p_Running p + 1\<rparr>)"

definition RegisterNodesUp :: "string \<Rightarrow> string list \<Rightarrow> Controller \<Rightarrow> Controller" where
  "RegisterNodesUp queue nodes c = (case mget (ctl_pools c) queue of
      None \<Rightarrow> c
    | Some p \<Rightarrow> putPool queue (fold nodeUp nodes p) c)"

definition RegisterNodeUp :: "string \<Rightarrow> string \<Rightarrow> Controller \<Rightarrow> Controller" where
  "RegisterNodeUp queue vmID c = RegisterNodesUp queue [vmID] c"

definition markIdle :: "int \<Rightarrow> string set \<Rightarrow> string \<Rightarrow> Pool \<Rightarrow> Pool" where
  "markIdle now inIdle name p =
     (if name \<in> inIdle
      then (if mget (p_IdleSince p) name = None then p\<lparr>p_IdleSince := mput name now (p_IdleSince p)\<rparr> else p)
      else p\<lparr>p_IdleSince := mdel name (p_IdleSince p)\<rparr>)"

definition RegisterNodesIdle :: "int \<Rightarrow> string \<Rightarrow> string list \<Rightarrow> Controller \<Rightarrow> Controller" where
  "RegisterNodesIdle now queue idleNodes c = (case mget (ctl_pools c) queue of
      None \<Rightarrow> c
    | Some p \<Rightarrow> putPool queue (fold (markIdle now (set idleNodes)) (map fst (p_Owned p)) p) c)"

section \<open>Scale-in\<close>

definition vmRef :: "Pool \<Rightarrow> string \<Rightarrow> VMRef" where
  "vmRef p ident = \<lparr>vr_Provider = p_Provider p, vr_VMID = ident\<rparr>"

text \<open>Destroying a machine that is still in the books as provisioning.\<close>

definition dropProvisioning :: "'w provider \<Rightarrow> string \<Rightarrow> Pool \<times> 'w \<Rightarrow> Pool \<times> 'w" where
  "dropProvisioning pr vmID pw =
     (let (p, w) = pw; (ok, w') = pr_Reclaim pr (vmRef p vmID) ''deallocate'' True w
      in if \<not> ok then (p, w')
         else (p\<lparr>p_Provisioning := mdel vmID (p_Provisioning p),
                 p_ProvisionedAt := mdel vmID (p_ProvisionedAt p),
                 p_Inflight := (if p_Inflight p > 0 then p_Inflight p - 1 else p_Inflight p)\<rparr>, w'))"

definition staleBound :: "string list \<Rightarrow> Pool \<Rightarrow> string list" where
  "staleBound jobIDs p =
     map fst (filter (\<lambda>(_, jobID). jobID \<noteq> [] \<and> jobID \<notin> set jobIDs) (p_Provisioning p))"

definition SyncQueuedJobs ::
  "'w provider \<Rightarrow> string \<Rightarrow> string list \<Rightarrow> Controller \<Rightarrow> 'w \<Rightarrow> Controller \<times> 'w" where
  "SyncQueuedJobs pr queue jobIDs c w = (case mget (ctl_pools c) queue of
      None \<Rightarrow> (c, w)
    | Some p \<Rightarrow>
        let (p', w') = fold (dropProvisioning pr) (staleBound jobIDs p) (p, w)
        in (putPool queue p' c, w'))"

definition provisionTimeout :: "Pool \<Rightarrow> int" where
  "provisionTimeout p = (if p_ProvisionTimeout p \<le> 0 then 10 * 60 * 1000000000 else p_ProvisionTimeout p)"

definition staleProvisioned :: "int \<Rightarrow> Pool \<Rightarrow> string list" where
  "staleProvisioned now p =
     map fst (filter (\<lambda>(_, since). now - since \<ge> provisionTimeout p) (p_ProvisionedAt p))"

definition sweepProvisioningTimeout :: "'w provider \<Rightarrow> int \<Rightarrow> Pool \<Rightarrow> 'w \<Rightarrow> Pool \<times> 'w" where
  "sweepProvisioningTimeout pr now p w =
     (if p_ProvisionedAt p = [] then (p, w)
      else fold (dropProvisioning pr) (staleProvisioned now p) (p, w))"

definition reclaimPolicy :: "Pool \<Rightarrow> string" where
  "reclaimPolicy p = (if p_Reclaim p = [] then ''deallocate'' else p_Reclaim p)"

text \<open>The last lines of \<^verbatim>\<open>reclaimNodeLocked\<close>: the node leaves the books, or sleeps.\<close>

definition forgetNode :: "string \<Rightarrow> Pool \<Rightarrow> Pool" where
  "forgetNode name p =
     p\<lparr>p_Owned := mdel name (p_Owned p), p_IdleSince := mdel name (p_IdleSince p),
       p_LastReclaim := mdel name (p_LastReclaim p),
       p_Running := (if p_Running p > 0 then p_Running p - 1 else p_Running p)\<rparr>"

definition hibernateNode :: "int \<Rightarrow> string \<Rightarrow> Pool \<Rightarrow> Pool" where
  "hibernateNode now name p = p\<lparr>p_Hibernated := mput name now (p_Hibernated p)\<rparr>"

definition noteReclaim :: "int \<Rightarrow> string \<Rightarrow> Pool \<Rightarrow> Pool" where
  "noteReclaim now name p = p\<lparr>p_LastReclaim := mput name now (p_LastReclaim p)\<rparr>"

definition reclaimNode ::
  "'w provider \<Rightarrow> 'w NodeController option \<Rightarrow> int \<Rightarrow> string \<Rightarrow> Pool \<Rightarrow> 'w \<Rightarrow> Pool \<times> 'w" where
  "reclaimNode pr nodes now name p0 w =
     (let p = noteReclaim now name p0 in
      case nodes of
        None \<Rightarrow> (p\<lparr>p_IdleSince := mdel name (p_IdleSince p)\<rparr>, w)
      | Some nc \<Rightarrow>
          let policy = reclaimPolicy p; (ok1, w1) = nc_DrainNode nc name w in
          if \<not> ok1 then (p, w1)
          else let (ok2, w2) = nc_DeregisterNode nc name w1 in
            if \<not> ok2 then (p, w2)
            else let destroy = (policy = ''destroy'');
                     (_, w3) = pr_Reclaim pr (vmRef p name) policy destroy w2;
                     p1 = forgetNode name p
                 in (if policy = ''hibernate'' \<and> \<not> destroy then hibernateNode now name p1 else p1, w3))"

definition idleCandidates :: "int \<Rightarrow> Pool \<Rightarrow> string list" where
  "idleCandidates now p = map fst (filter (\<lambda>(_, since). \<not> now - since < p_IdleTime p) (p_IdleSince p))"

definition tryReclaim ::
  "'w provider \<Rightarrow> 'w NodeController option \<Rightarrow> int \<Rightarrow> string \<Rightarrow> Pool \<times> 'w \<Rightarrow> Pool \<times> 'w" where
  "tryReclaim pr nodes now name pw =
     (let (p, w) = pw in
      if p_DrainTimeout p > 0 \<and>
         (case mget (p_LastReclaim p) name of Some prev \<Rightarrow> now - prev < p_DrainTimeout p | None \<Rightarrow> False)
      then (p, w)
      else reclaimNode pr nodes now name p w)"

definition reclaimPool ::
  "'w provider \<Rightarrow> 'w NodeController option \<Rightarrow> int \<Rightarrow> Pool \<Rightarrow> 'w \<Rightarrow> Pool \<times> 'w" where
  "reclaimPool pr nodes now p0 w0 =
     (let (p, w) = sweepProvisioningTimeout pr now p0 w0 in
      if p_IdleTime p \<le> 0 then (p, w)
      else if p_Running p \<le> p_MinNodes p then (p, w)
      else fold (tryReclaim pr nodes now) (idleCandidates now p) (p, w))"

fun reclaimPools ::
  "'w provider \<Rightarrow> 'w NodeController option \<Rightarrow> int \<Rightarrow> Pool smap \<Rightarrow> 'w \<Rightarrow> Pool smap \<times> 'w" where
  "reclaimPools pr nodes now [] w = ([], w)"
| "reclaimPools pr nodes now ((q, p) # ps) w =
     (let (p', w1) = reclaimPool pr nodes now p w; (ps', w2) = reclaimPools pr nodes now ps w1
      in ((q, p') # ps', w2))"

definition reclaimIdle ::
  "'w provider \<Rightarrow> 'w NodeController option \<Rightarrow> int \<Rightarrow> Controller \<Rightarrow> 'w \<Rightarrow> Controller \<times> 'w" where
  "reclaimIdle pr nodes now c w =
     (let (ps, w') = reclaimPools pr nodes now (ctl_pools c) w in (c\<lparr>ctl_pools := ps\<rparr>, w'))"

end
