(* ===== verification/Cec_Books.thy ===== *)
theory Cec_Books
  imports Cec_Model
begin

text \<open>
  The books the elastic controller keeps of its machines: the stub provider, the interface the controller
  relies on, and that every change of a pool keeps its books in order.
\<close>

section \<open>The stub provider\<close>

text \<open>\<^verbatim>\<open>itoa\<close>: the digits of the number from the last one on, then the sign.\<close>

fun itoaDigits :: "nat \<Rightarrow> string \<Rightarrow> string" where
  "itoaDigits n buf = (if n = 0 then buf else itoaDigits (n div 10) (digit_char (n mod 10) # buf))"

declare itoaDigits.simps [simp del]

definition itoa :: "int \<Rightarrow> string" where
  "itoa n = (if n = 0 then ''0'' else if n < 0 then CHR ''-'' # itoaDigits (nat (- n)) [] else itoaDigits (nat n) [])"

lemma itoaDigits_dec: "n \<noteq> 0 \<Longrightarrow> itoaDigits n buf = dec_digits n @ buf"
proof (induction n buf rule: itoaDigits.induct)
  case (1 n buf)
  then show ?case
  proof (cases "n < 10")
    case True
    then show ?thesis using 1(2)
      by (simp add: itoaDigits.simps [of n] itoaDigits.simps [of 0] dec_digits_small)
  next
    case False
    then have "itoaDigits (n div 10) (digit_char (n mod 10) # buf) = dec_digits (n div 10) @ digit_char (n mod 10) # buf"
      using 1 by simp
    then show ?thesis using False by (simp add: itoaDigits.simps [of n] dec_digits.simps [of n])
  qed
qed

lemma itoa_FormatInt: "itoa n = FormatInt n"
  by (auto simp: itoa_def FormatInt_def itoaDigits_dec dec_digits_small)

record StubProvider =
  st_NameValue :: string
  st_nextID :: int
  st_inFlight :: "VM smap"

definition stubVM :: "EnsureRequest \<Rightarrow> StubProvider \<Rightarrow> VM" where
  "stubVM req st =
     \<lparr>vm_ID = st_NameValue st @ ''-vm-'' @ itoa (st_nextID st),
      vm_Name = st_NameValue st @ ''-node-'' @ itoa (st_nextID st), vm_SKU = er_SKU req, vm_IP = [],
      vm_Hostname = [], vm_State = ''creating'', vm_Location = er_Location req,
      vm_ResourceGroup = er_ResourceGroup req\<rparr>"

fun stubCreate :: "EnsureRequest \<Rightarrow> nat \<Rightarrow> StubProvider \<Rightarrow> VM list \<times> StubProvider" where
  "stubCreate req 0 st = ([], st)"
| "stubCreate req (Suc k) st =
     (let st1 = st\<lparr>st_nextID := st_nextID st + 1\<rparr>; vm = stubVM req st1;
          (vms, st2) = stubCreate req k (st1\<lparr>st_inFlight := mput (vm_ID vm) vm (st_inFlight st1)\<rparr>)
      in (vm # vms, st2))"

definition stubEnsure :: "EnsureRequest \<Rightarrow> StubProvider \<Rightarrow> (VM list \<times> bool) \<times> StubProvider" where
  "stubEnsure req st = (let (vms, st') = stubCreate req (nat (er_Count req)) st in ((vms, True), st'))"

definition stubReclaim :: "VMRef \<Rightarrow> string \<Rightarrow> bool \<Rightarrow> StubProvider \<Rightarrow> bool \<times> StubProvider" where
  "stubReclaim r policy destroy st = (True, st\<lparr>st_inFlight := mdel (vr_VMID r) (st_inFlight st)\<rparr>)"

definition stubResume :: "VMRef \<Rightarrow> StubProvider \<Rightarrow> bool \<times> StubProvider" where
  "stubResume r st = (True, st)"

definition stubDescribe :: "VMRef \<Rightarrow> StubProvider \<Rightarrow> VM option \<times> StubProvider" where
  "stubDescribe r st = (case mget (st_inFlight st) (vr_VMID r) of
      None \<Rightarrow> (None, st)
    | Some vm \<Rightarrow>
        if vm_State vm = ''creating'' then
          let vm' = vm\<lparr>vm_State := ''running'', vm_IP := ''10.10.0.'' @ itoa (st_nextID st), vm_Hostname := vm_Name vm\<rparr>
          in (Some vm', st\<lparr>st_inFlight := mput (vr_VMID r) vm' (st_inFlight st)\<rparr>)
        else (Some vm, st))"

lemma stubDescribe_stable: "stubDescribe r st = (v, st') \<Longrightarrow> stubDescribe r st' = (v, st')"
  by (auto simp: stubDescribe_def map_laws Let_def split: option.splits if_splits)

definition stub :: "StubProvider provider" where
  "stub = \<lparr>pr_Ensure = stubEnsure, pr_Reclaim = stubReclaim, pr_Resume = stubResume\<rparr>"

definition NewStubProvider :: "string \<Rightarrow> StubProvider" where
  "NewStubProvider name = \<lparr>st_NameValue = name, st_nextID = 1, st_inFlight = []\<rparr>"

section \<open>What the controller relies on\<close>

text \<open>
  A provider hands out at most as many machines as it is asked for, under pairwise different identifiers
  it has not used before. \<open>unused\<close> says which identifiers a provider has not given out.
\<close>

locale cloud_provider =
  fixes pr :: "'w provider" and unused :: "'w \<Rightarrow> string set"
  assumes ensure_count: "pr_Ensure pr req w = ((vms, ok), w') \<Longrightarrow> int (length vms) \<le> max 0 (er_Count req)"
    and ensure_distinct: "pr_Ensure pr req w = ((vms, ok), w') \<Longrightarrow> distinct (map vm_ID vms)"
    and ensure_unused: "pr_Ensure pr req w = ((vms, ok), w') \<Longrightarrow>
      vm_ID ` set vms \<subseteq> unused w - unused w' \<and> unused w' \<subseteq> unused w"
    and reclaim_unused: "pr_Reclaim pr r policy destroy w = (ok, w') \<Longrightarrow> unused w' \<subseteq> unused w"
    and resume_unused: "pr_Resume pr r w = (ok, w') \<Longrightarrow> unused w' \<subseteq> unused w"

text \<open>The identifiers the stub has not given out: those its counter has still to reach.\<close>

definition stubUnused :: "StubProvider \<Rightarrow> string set" where
  "stubUnused st = {st_NameValue st @ ''-vm-'' @ itoa k | k. k > st_nextID st}"

lemma stubCreate_props:
  "stubCreate req k st = (vms, st') \<Longrightarrow>
     length vms = k \<and> st_NameValue st' = st_NameValue st \<and> st_nextID st' = st_nextID st + int k \<and>
     map vm_ID vms = map (\<lambda>i. st_NameValue st @ ''-vm-'' @ itoa (st_nextID st + 1 + int i)) [0..<k]"
proof (induction k arbitrary: st vms)
  case (Suc k)
  let ?st1 = "st\<lparr>st_nextID := st_nextID st + 1\<rparr>"
  let ?st2 = "?st1\<lparr>st_inFlight := mput (vm_ID (stubVM req ?st1)) (stubVM req ?st1) (st_inFlight ?st1)\<rparr>"
  obtain ws where ws: "stubCreate req k ?st2 = (ws, st')" "vms = stubVM req ?st1 # ws"
    using Suc.prems by (auto simp: Let_def split: prod.splits)
  show ?case using Suc.IH [OF ws(1)] ws(2)
    by (simp add: stubVM_def upt_conv_Cons map_Suc_upt [symmetric] del: upt_Suc)
       (simp add: algebra_simps)
qed simp

interpretation stub_provider: cloud_provider stub stubUnused
proof
  fix req w vms ok w'
  assume "pr_Ensure stub req w = ((vms, ok), w')"
  then have c: "stubCreate req (nat (er_Count req)) w = (vms, w')"
    by (simp add: stub_def stubEnsure_def split: prod.splits)
  note p = stubCreate_props [OF c]
  show "int (length vms) \<le> max 0 (er_Count req)" using p by simp
  show "distinct (map vm_ID vms)" using p by (auto simp: distinct_map inj_on_def itoa_FormatInt FormatInt_inject)
  show "vm_ID ` set vms \<subseteq> stubUnused w - stubUnused w' \<and> stubUnused w' \<subseteq> stubUnused w"
  proof -
    have "vm_ID ` set vms = set (map vm_ID vms)" by simp
    also have "\<dots> = (\<lambda>i. st_NameValue w @ ''-vm-'' @ itoa (st_nextID w + 1 + int i)) ` {0..<nat (er_Count req)}"
      using p by simp
    finally show ?thesis using p by (auto simp: stubUnused_def itoa_FormatInt FormatInt_inject)
  qed
qed (auto simp: stub_def stubReclaim_def stubResume_def stubUnused_def)

section \<open>The books of a pool\<close>

abbreviation keys :: "'v smap \<Rightarrow> string set" where
  "keys m \<equiv> fst ` set m"

lemma keys_mput [simp]: "keys (mput k v m) = insert k (keys m)"
  by (simp add: dom_map_of_conv_image_fst [symmetric] update_conv')

lemma keys_mdel [simp]: "keys (mdel k m) = keys m - {k}"
  by (simp add: dom_map_of_conv_image_fst [symmetric] delete_conv')

lemma mget_None_keys: "mget m k = None \<longleftrightarrow> k \<notin> keys m"
  by (simp add: map_of_eq_None_iff)

lemma length_mput: "is_map m \<Longrightarrow> length (mput k v m) = (if k \<in> keys m then length m else length m + 1)"
  by (metis (no_types) Suc_eq_plus1 card_insert_if distinct_card finite_set insert_absorb is_map_mput keys_mput
      length_map set_map)

lemma length_mdel: "is_map m \<Longrightarrow> length (mdel k m) = (if k \<in> keys m then length m - 1 else length m)"
  by (metis (no_types) Diff_empty Diff_insert0 card_Diff_singleton distinct_card is_map_mdel keys_mdel length_map set_map)

text \<open>
  The books of a pool: no identifier is listed twice; machines that boot, that run and that sleep are
  disjoint; every booting machine has a start time; idle timers run for owned nodes only; the
  counters never exceed the lists they count; and every machine on the books has been given out.
\<close>

definition pool_ok :: "string set \<Rightarrow> Pool \<Rightarrow> bool" where
  "pool_ok U p \<longleftrightarrow>
     is_map (p_Provisioning p) \<and> is_map (p_ProvisionedAt p) \<and> is_map (p_Owned p) \<and>
     is_map (p_IdleSince p) \<and> is_map (p_Hibernated p) \<and>
     keys (p_Provisioning p) \<inter> keys (p_Owned p) = {} \<and>
     keys (p_Provisioning p) \<inter> keys (p_Hibernated p) = {} \<and>
     keys (p_Owned p) \<inter> keys (p_Hibernated p) = {} \<and>
     keys (p_Provisioning p) \<subseteq> keys (p_ProvisionedAt p) \<and>
     keys (p_IdleSince p) \<subseteq> keys (p_Owned p) \<and>
     0 \<le> p_Inflight p \<and> p_Inflight p \<le> int (length (p_Provisioning p)) \<and>
     0 \<le> p_Running p \<and> p_Running p \<le> int (length (p_Owned p)) \<and>
     (keys (p_Provisioning p) \<union> keys (p_Owned p) \<union> keys (p_Hibernated p)) \<inter> U = {}"

lemma pool_ok_mono:
  assumes "pool_ok U p" "U' \<subseteq> U"
  shows "pool_ok U' p"
proof -
  have "(keys (p_Provisioning p) \<union> keys (p_Owned p) \<union> keys (p_Hibernated p)) \<inter> U = {}"
    using assms(1) by (simp add: pool_ok_def)
  with assms(2) have "(keys (p_Provisioning p) \<union> keys (p_Owned p) \<union> keys (p_Hibernated p)) \<inter> U' = {}" by blast
  then show ?thesis using assms(1) by (simp add: pool_ok_def)
qed

lemma pool_ok_newPool: "pool_ok U (newPool ev)"
  by (simp add: pool_ok_def newPool_def)

text \<open>The fields of the books; \<^verbatim>\<open>ensurePool\<close> and the cooldown change none of them.\<close>

definition books :: "Pool \<Rightarrow> string smap \<times> int smap \<times> bool smap \<times> int smap \<times> int smap \<times> int \<times> int" where
  "books p = (p_Provisioning p, p_ProvisionedAt p, p_Owned p, p_IdleSince p, p_Hibernated p,
     p_Inflight p, p_Running p)"

lemma pool_ok_books: "books p = books p' \<Longrightarrow> pool_ok U p = pool_ok U p'"
  by (simp add: books_def pool_ok_def)

lemma books_refreshPool: "books (refreshPool ev p) = books p"
proof -
  have "books (fold (\<lambda>(given, upd) p. if given then upd p else p) us p) = books p"
    if "\<forall>(_, upd) \<in> set us. \<forall>p. books (upd p) = books p" for us
    using that by (induction us arbitrary: p) auto
  moreover have "\<forall>(_, upd) \<in> set (poolSettings ev). \<forall>p. books (upd p) = books p"
    by (simp add: poolSettings_def books_def)
  ultimately show ?thesis by (simp add: refreshPool_def)
qed

lemma books_cooldown: "books (p\<lparr>p_LastScale := a, p_CooldownUntil := b\<rparr>) = books p"
  by (simp add: books_def)

lemma pool_ok_nodeUp:
  assumes "pool_ok U p"
  shows "pool_ok U (nodeUp n p)"
proof (cases "n \<in> keys (p_Provisioning p)")
  case True
  then have "n \<notin> keys (p_Owned p)" "n \<notin> keys (p_Hibernated p)" "n \<notin> U"
    using assms by (auto simp: pool_ok_def)
  then show ?thesis using assms True
    by (auto simp: pool_ok_def nodeUp_def mget_None_keys map_laws length_mput length_mdel)
next
  case False
  then show ?thesis using assms by (simp add: nodeUp_def mget_None_keys)
qed

lemma pool_ok_nodesUp: "pool_ok U p \<Longrightarrow> pool_ok U (fold nodeUp ns p)"
  by (induction ns arbitrary: p) (simp_all add: pool_ok_nodeUp)

lemma pool_ok_markIdle:
  "pool_ok U p \<Longrightarrow> n \<in> keys (p_Owned p) \<Longrightarrow>
   pool_ok U (markIdle now S n p) \<and> p_Owned (markIdle now S n p) = p_Owned p"
  by (auto simp: pool_ok_def markIdle_def map_laws)

lemma pool_ok_markIdles:
  "pool_ok U p \<Longrightarrow> set ns \<subseteq> keys (p_Owned p) \<Longrightarrow> pool_ok U (fold (markIdle now S) ns p)"
proof (induction ns arbitrary: p)
  case (Cons n ns)
  then show ?case using pool_ok_markIdle [of U p n now S] by simp
qed simp

lemma pool_ok_nodeDown: "pool_ok U p \<Longrightarrow> p_Running p > 0 \<Longrightarrow> pool_ok U (p\<lparr>p_Running := p_Running p - 1\<rparr>)"
  by (simp add: pool_ok_def)

context cloud_provider
begin

lemma drop_ok:
  assumes "pool_ok (unused w) p" "dropProvisioning pr v (p, w) = (p', w')"
  shows "pool_ok (unused w') p' \<and> unused w' \<subseteq> unused w"
proof -
  obtain ok where r: "pr_Reclaim pr (vmRef p v) ''deallocate'' True w = (ok, w')"
    using assms(2) by (auto simp: dropProvisioning_def Let_def split: prod.splits if_splits)
  note U = reclaim_unused [OF r]
  have p0: "pool_ok (unused w') p" using assms(1) U by (rule pool_ok_mono)
  show ?thesis
  proof (cases ok)
    case True
    then have "p' = p\<lparr>p_Provisioning := mdel v (p_Provisioning p), p_ProvisionedAt := mdel v (p_ProvisionedAt p),
        p_Inflight := (if p_Inflight p > 0 then p_Inflight p - 1 else p_Inflight p)\<rparr>"
      using assms(2) r by (simp add: dropProvisioning_def Let_def)
    then show ?thesis using p0 U by (auto simp: pool_ok_def map_laws length_mdel)
  next
    case False
    then show ?thesis using p0 U assms(2) r by (simp add: dropProvisioning_def Let_def)
  qed
qed

lemma drops_ok:
  "pool_ok (unused w) p \<Longrightarrow> fold (dropProvisioning pr) vs (p, w) = (p', w') \<Longrightarrow>
   pool_ok (unused w') p' \<and> unused w' \<subseteq> unused w"
proof (induction vs arbitrary: p w)
  case (Cons v vs)
  obtain p1 w1 where d: "dropProvisioning pr v (p, w) = (p1, w1)" by fastforce
  from drop_ok [OF Cons.prems(1) d] Cons.IH [of w1 p1] Cons.prems(2) d show ?case by auto
qed simp

lemma sweep_ok:
  "pool_ok (unused w) p \<Longrightarrow> sweepProvisioningTimeout pr now p w = (p', w') \<Longrightarrow>
   pool_ok (unused w') p' \<and> unused w' \<subseteq> unused w"
  using drops_ok by (auto simp: sweepProvisioningTimeout_def split: if_splits)

end

text \<open>A controller of nodes acts on the batch server and gives out no identifiers of machines.\<close>

locale elastic_world = cloud_provider pr unused
  for pr :: "'w provider" and unused :: "'w \<Rightarrow> string set" +
  fixes nodes :: "'w NodeController option"
  assumes drain_unused: "nodes = Some nc \<Longrightarrow> nc_DrainNode nc n w = (ok, w') \<Longrightarrow> unused w' \<subseteq> unused w"
    and deregister_unused: "nodes = Some nc \<Longrightarrow> nc_DeregisterNode nc n w = (ok, w') \<Longrightarrow> unused w' \<subseteq> unused w"
begin

lemma pool_ok_clearIdle: "pool_ok U p \<Longrightarrow> pool_ok U (p\<lparr>p_IdleSince := mdel n (p_IdleSince p)\<rparr>)"
  by (auto simp: pool_ok_def map_laws)

lemma pool_ok_forgetNode:
  assumes "pool_ok U p" "name \<in> keys (p_Owned p)"
  shows "pool_ok U (forgetNode name p)" "pool_ok U (hibernateNode now name (forgetNode name p))"
proof -
  have len: "0 < length (p_Owned p)" using assms(2) by auto
  show ok: "pool_ok U (forgetNode name p)" using assms len
    by (auto simp: pool_ok_def forgetNode_def map_laws length_mdel)
  have "name \<notin> keys (p_Provisioning p)" "name \<notin> U" using assms by (auto simp: pool_ok_def)
  with ok show "pool_ok U (hibernateNode now name (forgetNode name p))"
    by (simp add: pool_ok_def hibernateNode_def forgetNode_def map_laws Int_Un_distrib2)
qed

lemma keys_forgetNode: "keys (p_Owned (forgetNode name p)) = keys (p_Owned p) - {name}"
  "p_Owned (hibernateNode now name p) = p_Owned p"
  by (simp_all add: forgetNode_def hibernateNode_def)

lemma noteReclaim_ok: "pool_ok U (noteReclaim now name p) = pool_ok U p"
  "p_Owned (noteReclaim now name p) = p_Owned p"
  by (rule pool_ok_books) (simp_all add: books_def noteReclaim_def)

lemma reclaimNode_ok:
  assumes "pool_ok (unused w) p" "name \<in> keys (p_Owned p)" "reclaimNode pr nodes now name p w = (p', w')"
  shows "pool_ok (unused w') p' \<and> unused w' \<subseteq> unused w \<and> keys (p_Owned p) - {name} \<subseteq> keys (p_Owned p')"
proof -
  let ?p = "noteReclaim now name p"
  show ?thesis
  proof (cases nodes)
    case None
    then have res: "p' = ?p\<lparr>p_IdleSince := mdel name (p_IdleSince ?p)\<rparr>" "w' = w"
      using assms(3) by (simp_all add: reclaimNode_def Let_def)
    have "pool_ok (unused w) ?p" using assms(1) noteReclaim_ok by simp
    then show ?thesis unfolding res using pool_ok_clearIdle [of "unused w" ?p name] noteReclaim_ok(2) by auto
  next
    case (Some nc)
    obtain ok1 w1 where d: "nc_DrainNode nc name w = (ok1, w1)" by fastforce
    obtain ok2 w2 where g: "nc_DeregisterNode nc name w1 = (ok2, w2)" by fastforce
    obtain ok3 w3 where r: "pr_Reclaim pr (vmRef ?p name) (reclaimPolicy ?p) (reclaimPolicy ?p = ''destroy'') w2 = (ok3, w3)"
      by fastforce
    note u1 = drain_unused [OF Some d] and u2 = deregister_unused [OF Some g] and u3 = reclaim_unused [OF r]
    consider (fail1) "\<not> ok1" | (fail2) "ok1" "\<not> ok2" | (fin) "ok1" "ok2" by blast
    then show ?thesis
    proof cases
      case fail1
      then have "p' = ?p" "w' = w1" using assms(3) Some d by (simp_all add: reclaimNode_def Let_def)
      then show ?thesis using pool_ok_mono [OF assms(1) u1] noteReclaim_ok u1 by auto
    next
      case fail2
      then have "p' = ?p" "w' = w2" using assms(3) Some d g by (simp_all add: reclaimNode_def Let_def)
      then show ?thesis using pool_ok_mono [OF assms(1), of "unused w2"] noteReclaim_ok u1 u2 by auto
    next
      case fin
      have U: "unused w3 \<subseteq> unused w" using u1 u2 u3 by blast
      have res: "w' = w3" "p' \<in> {forgetNode name ?p, hibernateNode now name (forgetNode name ?p)}"
        using assms(3) Some d g r fin by (auto simp: reclaimNode_def Let_def split: if_splits)
      have "pool_ok (unused w3) ?p" "name \<in> keys (p_Owned ?p)"
        using pool_ok_mono [OF assms(1) U] noteReclaim_ok assms(2) by simp_all
      note fn = pool_ok_forgetNode [OF this]
      have "pool_ok (unused w3) p' \<and> keys (p_Owned p') = keys (p_Owned p) - {name}"
        using res(2) fn(1) fn(2) [of now] by (elim insertE) (simp_all add: keys_forgetNode noteReclaim_ok(2))
      then show ?thesis using res(1) U by simp
    qed
  qed
qed

lemma tryReclaims_ok:
  "pool_ok (unused w) p \<Longrightarrow> distinct ns \<Longrightarrow> set ns \<subseteq> keys (p_Owned p) \<Longrightarrow>
   fold (tryReclaim pr nodes now) ns (p, w) = (p', w') \<Longrightarrow> pool_ok (unused w') p' \<and> unused w' \<subseteq> unused w"
proof (induction ns arbitrary: p w)
  case (Cons n ns)
  obtain p1 w1 where d: "tryReclaim pr nodes now n (p, w) = (p1, w1)" by fastforce
  then have "(p1, w1) = (p, w) \<or> reclaimNode pr nodes now n p w = (p1, w1)"
    by (auto simp: tryReclaim_def split: if_splits)
  then have "pool_ok (unused w1) p1 \<and> unused w1 \<subseteq> unused w \<and> keys (p_Owned p) - {n} \<subseteq> keys (p_Owned p1)"
    using reclaimNode_ok [OF Cons.prems(1), of n now p1 w1] Cons.prems by auto
  moreover from this have "set ns \<subseteq> keys (p_Owned p1)" using Cons.prems by auto
  ultimately show ?case using Cons.IH [of w1 p1] Cons.prems d by auto
qed simp

lemma idleCandidates_owned:
  assumes "pool_ok U p"
  shows "distinct (idleCandidates now p)" "set (idleCandidates now p) \<subseteq> keys (p_Owned p)"
proof -
  have "is_map (p_IdleSince p)" "keys (p_IdleSince p) \<subseteq> keys (p_Owned p)" using assms by (simp_all add: pool_ok_def)
  then show "distinct (idleCandidates now p)" "set (idleCandidates now p) \<subseteq> keys (p_Owned p)"
    by (auto simp: idleCandidates_def distinct_map_filter)
qed

lemma reclaimPool_ok:
  assumes "pool_ok (unused w) p" "reclaimPool pr nodes now p w = (p', w')"
  shows "pool_ok (unused w') p' \<and> unused w' \<subseteq> unused w"
proof -
  obtain p1 w1 where s: "sweepProvisioningTimeout pr now p w = (p1, w1)" by fastforce
  note ok = sweep_ok [OF assms(1) s]
  have "(p', w') = (p1, w1) \<or> fold (tryReclaim pr nodes now) (idleCandidates now p1) (p1, w1) = (p', w')"
    using assms(2) s by (auto simp: reclaimPool_def split: if_splits)
  then show ?thesis
  proof
    assume f: "fold (tryReclaim pr nodes now) (idleCandidates now p1) (p1, w1) = (p', w')"
    from ok have ok1: "pool_ok (unused w1) p1" by simp
    from tryReclaims_ok [OF ok1 idleCandidates_owned [OF ok1] f] ok show ?thesis by blast
  qed (use ok in simp)
qed

lemma reclaimPools_ok:
  "(\<And>q p. (q, p) \<in> set ps \<Longrightarrow> pool_ok (unused w) p) \<Longrightarrow> reclaimPools pr nodes now ps w = (ps', w') \<Longrightarrow>
   (\<forall>(q, p) \<in> set ps'. pool_ok (unused w') p) \<and> unused w' \<subseteq> unused w \<and> map fst ps' = map fst ps"
proof (induction ps arbitrary: w ps')
  case (Cons qp ps)
  obtain q p where qp: "qp = (q, p)" by fastforce
  obtain p1 w1 where r: "reclaimPool pr nodes now p w = (p1, w1)" by fastforce
  obtain ps2 where rs: "reclaimPools pr nodes now ps w1 = (ps2, w')" "ps' = (q, p1) # ps2"
    using Cons.prems(2) qp r by (auto split: prod.splits)
  have "pool_ok (unused w) p" using Cons.prems(1) [of q p] qp by simp
  from reclaimPool_ok [OF this r] have 1: "pool_ok (unused w1) p1" "unused w1 \<subseteq> unused w" by simp_all
  have "pool_ok (unused w1) p'" if "(q', p') \<in> set ps" for q' p'
    by (rule pool_ok_mono [OF Cons.prems(1) [of q' p'] 1(2)]) (use that in simp)
  from Cons.IH [OF this rs(1)] have 2: "(\<forall>(q, p) \<in> set ps2. pool_ok (unused w') p) \<and> unused w' \<subseteq> unused w1 \<and>
    map fst ps2 = map fst ps" .
  then have "pool_ok (unused w') p1" "unused w' \<subseteq> unused w" using pool_ok_mono [OF 1(1)] 1(2) by blast+
  then show ?case using 2 qp rs(2) by simp
qed simp

end

section \<open>Scale-out keeps the books\<close>

lemma oldestHibernated_key:
  assumes "m \<noteq> []"
  shows "oldestHibernated m \<in> keys m"
proof -
  let ?f = "\<lambda>(vmID, t) (ident, suspendAt). if ident = [] \<or> t < suspendAt then (vmID, t) else (ident, suspendAt)"
  have step: "fst (fold ?f m a) \<in> insert (fst a) (keys m)" for m :: "int smap" and a
  proof (induction m arbitrary: a)
    case (Cons vt m)
    show ?case using Cons.IH [of "?f vt a"] by (cases vt; cases a) (auto split: if_splits)
  qed simp
  obtain v t m' where m: "m = (v, t) # m'" using assms by (cases m) auto
  have "oldestHibernated m = fst (fold ?f m' (v, t))" by (simp add: oldestHibernated_def m)
  then show ?thesis using step [of m' "(v, t)"] by (simp add: m)
qed

lemma pool_ok_resumeOne:
  assumes "pool_ok U p" "ident \<in> keys (p_Hibernated p)"
  shows "pool_ok U (p\<lparr>p_Hibernated := mdel ident (p_Hibernated p),
      p_Provisioning := mput ident j (p_Provisioning p),
      p_ProvisionedAt := mput ident now (p_ProvisionedAt p), p_Inflight := p_Inflight p + 1\<rparr>)"
proof -
  have "ident \<notin> keys (p_Provisioning p)" "ident \<notin> keys (p_Owned p)" "ident \<notin> U"
    using assms by (auto simp: pool_ok_def)
  then show ?thesis using assms
    by (auto simp: pool_ok_def map_laws length_mput)
qed

lemma pool_ok_bindOne:
  assumes "pool_ok U p" "ident \<in> U"
  shows "pool_ok (U - {ident}) (p\<lparr>p_Provisioning := mput ident j (p_Provisioning p),
      p_ProvisionedAt := mput ident now (p_ProvisionedAt p)\<rparr>)"
    "length (mput ident j (p_Provisioning p)) = length (p_Provisioning p) + 1"
proof -
  have "ident \<notin> keys (p_Provisioning p)" "ident \<notin> keys (p_Owned p)" "ident \<notin> keys (p_Hibernated p)" "is_map (p_Provisioning p)"
    using assms by (auto simp: pool_ok_def)
  then show "pool_ok (U - {ident}) (p\<lparr>p_Provisioning := mput ident j (p_Provisioning p),
      p_ProvisionedAt := mput ident now (p_ProvisionedAt p)\<rparr>)"
    "length (mput ident j (p_Provisioning p)) = length (p_Provisioning p) + 1"
    using assms by (auto simp: pool_ok_def map_laws length_mput)
qed

lemma bindVMs_ok:
  "pool_ok U p \<Longrightarrow> distinct (map vm_ID vms) \<Longrightarrow> vm_ID ` set vms \<subseteq> U \<Longrightarrow>
   pool_ok (U - vm_ID ` set vms) (bindVMs clock jobs i vms p) \<and>
   length (p_Provisioning (bindVMs clock jobs i vms p)) = length (p_Provisioning p) + length vms \<and>
   p_Inflight (bindVMs clock jobs i vms p) = p_Inflight p \<and> p_Running (bindVMs clock jobs i vms p) = p_Running p"
proof (induction vms arbitrary: p i U)
  case (Cons vm vms)
  let ?p = "p\<lparr>p_Provisioning := mput (vm_ID vm) (jobFor jobs i) (p_Provisioning p),
          p_ProvisionedAt := mput (vm_ID vm) (clock i) (p_ProvisionedAt p)\<rparr>"
  have "vm_ID vm \<in> U" using Cons.prems by simp
  note one = pool_ok_bindOne [OF Cons.prems(1) this]
  have "vm_ID ` set vms \<subseteq> U - {vm_ID vm}" using Cons.prems by (simp add: subset_Diff_insert)
  from Cons.IH [OF one(1) [where j = "jobFor jobs i" and now = "clock i"] _ this, of "i + 1"] Cons.prems(2)
  have IH: "pool_ok (U - {vm_ID vm} - vm_ID ` set vms) (bindVMs clock jobs (i + 1) vms ?p) \<and>
    length (p_Provisioning (bindVMs clock jobs (i + 1) vms ?p)) = length (p_Provisioning ?p) + length vms \<and>
    p_Inflight (bindVMs clock jobs (i + 1) vms ?p) = p_Inflight ?p \<and>
    p_Running (bindVMs clock jobs (i + 1) vms ?p) = p_Running ?p" by simp
  have "U - {vm_ID vm} - vm_ID ` set vms = U - vm_ID ` set (vm # vms)" by auto
  then show ?case using IH one(2) by simp
qed simp

context cloud_provider
begin

lemma resume_ok:
  "pool_ok (unused w) p \<Longrightarrow> resumeHibernated pr now jobs need k p w = (r, p', w') \<Longrightarrow>
   pool_ok (unused w') p' \<and> unused w' \<subseteq> unused w \<and> k \<le> r \<and> r \<le> max k need \<and>
   p_Inflight p' = p_Inflight p + int (r - k) \<and> p_Running p' = p_Running p"
proof (induction "need - k" arbitrary: k p w)
  case 0
  then show ?case by (simp add: resumeHibernated.simps [of pr now jobs need k])
next
  case (Suc d)
  show ?case
  proof (cases "p_Hibernated p = []")
    case True
    then show ?thesis using Suc.prems by (simp add: resumeHibernated.simps [of pr now jobs need k])
  next
    case False
    let ?i = "oldestHibernated (p_Hibernated p)"
    let ?p = "p\<lparr>p_Hibernated := mdel ?i (p_Hibernated p), p_Provisioning := mput ?i (jobFor jobs k) (p_Provisioning p),
      p_ProvisionedAt := mput ?i now (p_ProvisionedAt p), p_Inflight := p_Inflight p + 1\<rparr>"
    obtain ok w1 where w1: "pr_Resume pr \<lparr>vr_Provider = p_Provider p, vr_VMID = ?i\<rparr> w = (ok, w1)" by fastforce
    note U = resume_unused [OF w1]
    have lt: "k < need" using Suc.hyps(2) by simp
    have rec: "resumeHibernated pr now jobs need (k + 1) ?p w1 = (r, p', w')"
      using Suc.prems(2) lt False w1 by (simp add: resumeHibernated.simps [of pr now jobs need k p] Let_def)
    have "pool_ok (unused w1) ?p"
      using pool_ok_resumeOne [OF pool_ok_mono [OF Suc.prems(1) U] oldestHibernated_key [OF False]] .
    moreover have "d = need - (k + 1)" using Suc.hyps(2) by simp
    ultimately show ?thesis using Suc.hyps(1) [OF _ _ rec] U lt by auto
  qed
qed

end

end
