(* ===== verification/Cec_Theorems.thy ===== *)
theory Cec_Theorems
  imports Cec_Books
begin

text \<open>
  Correctness of the elastic controller: the bounds of scale-out, the invariant of every reachable
  controller, and what its sweeps destroy.
\<close>

section \<open>Scale-out\<close>

context cloud_provider
begin

lemma scaleOut_ok:
  assumes "pool_ok (unused w) p" "scaleOut pr now clock cd ev p w = (p', w')"
  shows "pool_ok (unused w') p' \<and> unused w' \<subseteq> unused w \<and> p_Running p' = p_Running p \<and>
    p_Inflight p \<le> p_Inflight p' \<and>
    p_Inflight p' \<le> max (p_Inflight p) (desiredSize p ev - p_Running p)"
proof -
  let ?need = "desiredSize p ev - (p_Running p + p_Inflight p)"
  let ?p1 = "p\<lparr>p_LastScale := now, p_CooldownUntil := now + (if p_Cooldown p \<le> 0 then cd else p_Cooldown p)\<rparr>"
  show ?thesis
  proof (cases "now < p_CooldownUntil p \<or> ?need \<le> 0")
    case True
    then have "scaleOut pr now clock cd ev p w = (p, w)"
      by (cases "now < p_CooldownUntil p") (simp_all add: scaleOut_def Let_def)
    then have "p' = p" "w' = w" using assms(2) by simp_all
    then show ?thesis using assms(1) by simp
  next
    case False
    obtain r p2 w2 where res: "resumeHibernated pr now (ev_Jobs ev) (nat ?need) 0 ?p1 w = (r, p2, w2)"
      by (cases "resumeHibernated pr now (ev_Jobs ev) (nat ?need) 0 ?p1 w") auto
    have "pool_ok (unused w) ?p1" using assms(1) by (subst pool_ok_books [OF books_cooldown])
    from resume_ok [OF this res] have ok2: "pool_ok (unused w2) p2" "unused w2 \<subseteq> unused w" "int r \<le> ?need"
      "p_Inflight p2 = p_Inflight p + int r" "p_Running p2 = p_Running p" using False by auto
    obtain vms ok w3 where ens: "pr_Ensure pr (ensureRequest ev (?need - int r) p2) w2 = ((vms, ok), w3)"
      by (cases "pr_Ensure pr (ensureRequest ev (?need - int r) p2) w2") auto
    note u = ensure_unused [OF ens] and d = ensure_distinct [OF ens] and c = ensure_count [OF ens]
    consider (met) "?need - int r \<le> 0" | (failed) "\<not> ?need - int r \<le> 0" "\<not> ok"
      | (bound) "\<not> ?need - int r \<le> 0" "ok" by blast
    then show ?thesis
    proof cases
      case met
      then have "p' = p2" "w' = w2" using assms(2) False res by (simp_all add: scaleOut_def Let_def)
      then show ?thesis using ok2 by simp
    next
      case failed
      then have "p' = p2" "w' = w3" using assms(2) False res ens by (simp_all add: scaleOut_def Let_def)
      moreover have "unused w3 \<subseteq> unused w2" using u by blast
      ultimately show ?thesis using ok2 pool_ok_mono [OF ok2(1), of "unused w3"] by (simp add: order_trans)
    next
      case bound
      let ?p3 = "bindVMs clock (ev_Jobs ev) 0 vms p2"
      have res: "p' = ?p3\<lparr>p_Inflight := p_Inflight ?p3 + int (length vms)\<rparr>" "w' = w3"
        using assms(2) False res ens bound by (simp_all add: scaleOut_def Let_def)
      have b: "pool_ok (unused w2 - vm_ID ` set vms) ?p3 \<and>
          length (p_Provisioning ?p3) = length (p_Provisioning p2) + length vms \<and>
          p_Inflight ?p3 = p_Inflight p2 \<and> p_Running ?p3 = p_Running p2"
        using bindVMs_ok [OF ok2(1) d] u by blast
      have "unused w3 \<subseteq> unused w2 - vm_ID ` set vms" using u by blast
      then have "pool_ok (unused w3) ?p3" using b pool_ok_mono by blast
      moreover have "p_Inflight p2 \<le> int (length (p_Provisioning p2))" using ok2(1) by (simp add: pool_ok_def)
      ultimately have "pool_ok (unused w3) p'" unfolding res using b by (simp add: pool_ok_def)
      moreover have "int (length vms) \<le> ?need - int r" using c bound by (simp add: ensureRequest_def)
      moreover have "unused w3 \<subseteq> unused w" using u ok2(2) by blast
      ultimately show ?thesis using b ok2(4,5) unfolding res(2) by (simp add: res(1))
    qed
  qed
qed

end

section \<open>The controller as a state machine\<close>

definition controller_ok :: "string set \<Rightarrow> Controller \<Rightarrow> bool" where
  "controller_ok U c \<longleftrightarrow> (\<forall>q p. mget (ctl_pools c) q = Some p \<longrightarrow> pool_ok U p) \<and> is_map (ctl_pools c)"

lemma controller_ok_get: "controller_ok U c \<Longrightarrow> mget (ctl_pools c) q = Some p \<Longrightarrow> pool_ok U p"
  by (simp add: controller_ok_def)

lemma controller_ok_put:
  assumes "controller_ok U c" "pool_ok U' p" "U' \<subseteq> U"
  shows "controller_ok U' (putPool q p c)" "controller_ok U' ((putPool q p c)\<lparr>ctl_Events := es\<rparr>)"
  using assms pool_ok_mono [OF _ assms(3)] by (auto simp: controller_ok_def putPool_def map_laws)

lemma ensurePool_ok: "controller_ok U c \<Longrightarrow> pool_ok U (ensurePool ev c)"
  unfolding ensurePool_def pool_ok_books [OF books_refreshPool]
  by (auto simp: controller_ok_def pool_ok_newPool split: option.split)

text \<open>Every way in which the controller is driven: its inbox, its timer and the calls of the scheduler.\<close>

inductive cec_step ::
  "'w provider \<Rightarrow> 'w NodeController option \<Rightarrow> Controller \<times> 'w \<Rightarrow> Controller \<times> 'w \<Rightarrow> bool"
  for pr :: "'w provider" and nodes :: "'w NodeController option" where
  enqueue: "cec_step pr nodes (c, w) (c\<lparr>ctl_Events := ctl_Events c @ [ev]\<rparr>, w)"
| event: "ctl_Events c = ev # es \<Longrightarrow>
    cec_step pr nodes (c, w) (handleEvent pr now clock ev (c\<lparr>ctl_Events := es\<rparr>) w)"
| tick: "cec_step pr nodes (c, w) (reclaimIdle pr nodes now c w)"
| up: "cec_step pr nodes (c, w) (RegisterNodesUp q ns c, w)"
| idle: "cec_step pr nodes (c, w) (RegisterNodesIdle now q ns c, w)"
| sync: "cec_step pr nodes (c, w) (SyncQueuedJobs pr q ids c w)"

inductive cec_reachable ::
  "'w provider \<Rightarrow> 'w NodeController option \<Rightarrow> 'w \<Rightarrow> Controller \<times> 'w \<Rightarrow> bool"
  for pr :: "'w provider" and nodes :: "'w NodeController option" and w0 :: 'w where
  start: "cec_reachable pr nodes w0 (NewController, w0)"
| step: "cec_reachable pr nodes w0 s \<Longrightarrow> cec_step pr nodes s s' \<Longrightarrow> cec_reachable pr nodes w0 s'"

context elastic_world
begin

lemma handleEvent_ok:
  assumes "controller_ok (unused w) c" "handleEvent pr now clock ev c w = (c', w')"
  shows "controller_ok (unused w') c' \<and> unused w' \<subseteq> unused w"
proof (cases "ev_Kind ev")
  case EventCapacity
  let ?p = "ensurePool ev c"
  let ?ev = "coalesceCapacityEvents ?p (ctl_Events c) ev"
  obtain p1 w1 where s: "scaleOut pr now clock (ctl_Cooldown c) ?ev ?p w = (p1, w1)" by fastforce
  from scaleOut_ok [OF ensurePool_ok [OF assms(1)] s] have ok: "pool_ok (unused w1) p1" "unused w1 \<subseteq> unused w"
    by simp_all
  have "c' = (putPool (ev_Queue ev) p1 c)\<lparr>ctl_Events := []\<rparr>" "w' = w1"
    using assms(2) EventCapacity s by (simp_all add: handleEvent_def handleCapacity_def Let_def)
  then show ?thesis using controller_ok_put(2) [OF assms(1) ok] ok(2) by simp
next
  case EventNodeDown
  let ?p = "ensurePool ev c"
  let ?p' = "if p_Running ?p > 0 then ?p\<lparr>p_Running := p_Running ?p - 1\<rparr> else ?p"
  have "pool_ok (unused w) ?p'"
    using ensurePool_ok [OF assms(1), of ev] pool_ok_nodeDown [of "unused w" ?p] by simp
  from controller_ok_put(1) [OF assms(1) this subset_refl, of "ev_Queue ev"] show ?thesis
    using assms(2) EventNodeDown by (simp add: handleEvent_def handleNodeDown_def Let_def)
qed (use assms controller_ok_put(1) [OF assms(1) ensurePool_ok [OF assms(1)] subset_refl] in
    \<open>auto simp: handleEvent_def handleNodeFree_def handleNodeIdle_def\<close>)

lemma step_ok:
  assumes "cec_step pr nodes s s'" "controller_ok (unused (snd s)) (fst s)"
  shows "controller_ok (unused (snd s')) (fst s')"
  using assms
proof (cases rule: cec_step.cases)
  case (enqueue c w ev)
  then show ?thesis using assms(2) by (simp add: controller_ok_def)
next
  case (event c ev es w now clock)
  then have "controller_ok (unused w) (c\<lparr>ctl_Events := es\<rparr>)" using assms(2) by (simp add: controller_ok_def)
  then show ?thesis using handleEvent_ok [OF _ surjective_pairing] event(2) by simp
next
  case (tick c w now)
  obtain ps w1 where r: "reclaimPools pr nodes now (ctl_pools c) w = (ps, w1)" by fastforce
  have "pool_ok (unused w) p" if "(q, p) \<in> set (ctl_pools c)" for q p
    using assms(2) tick(1) map_of_is_SomeI [OF _ that] by (simp add: controller_ok_def)
  from reclaimPools_ok [OF this r] have "\<forall>(q, p) \<in> set ps. pool_ok (unused w1) p" "map fst ps = map fst (ctl_pools c)"
    by simp_all
  then show ?thesis using assms(2) tick r
    by (auto simp: reclaimIdle_def controller_ok_def dest!: map_of_SomeD)
next
  case (up c w q ns)
  show ?thesis
  proof (cases "mget (ctl_pools c) q")
    case None
    then show ?thesis using up assms(2) by (simp add: RegisterNodesUp_def)
  next
    case (Some p)
    then have "pool_ok (unused w) (fold nodeUp ns p)"
      using assms(2) up(1) by (simp add: pool_ok_nodesUp controller_ok_get)
    from controller_ok_put(1) [OF _ this subset_refl, of c q] show ?thesis
      using up assms(2) Some by (simp add: RegisterNodesUp_def)
  qed
next
  case (idle c w now q ns)
  show ?thesis
  proof (cases "mget (ctl_pools c) q")
    case None
    then show ?thesis using idle assms(2) by (simp add: RegisterNodesIdle_def)
  next
    case (Some p)
    then have "pool_ok (unused w) (fold (markIdle now (set ns)) (map fst (p_Owned p)) p)"
      using assms(2) idle(1) by (intro pool_ok_markIdles) (simp_all add: controller_ok_get)
    from controller_ok_put(1) [OF _ this subset_refl, of c q] show ?thesis
      using idle assms(2) Some by (simp add: RegisterNodesIdle_def)
  qed
next
  case (sync c w q ids)
  show ?thesis
  proof (cases "mget (ctl_pools c) q")
    case None
    then show ?thesis using sync assms(2) by (simp add: SyncQueuedJobs_def)
  next
    case (Some p)
    obtain p1 w1 where d: "fold (dropProvisioning pr) (staleBound ids p) (p, w) = (p1, w1)" by fastforce
    have c: "controller_ok (unused w) c" using assms(2) sync(1) by simp
    from drops_ok [OF controller_ok_get [OF c Some] d] have "pool_ok (unused w1) p1" "unused w1 \<subseteq> unused w" by simp_all
    from controller_ok_put(1) [OF c this, of q] show ?thesis using sync Some d by (simp add: SyncQueuedJobs_def)
  qed
qed

lemma reachable_ok: "cec_reachable pr nodes w0 s \<Longrightarrow> controller_ok (unused (snd s)) (fst s)"
proof (induction rule: cec_reachable.induct)
  case start
  show ?case by (simp add: controller_ok_def NewController_def)
next
  case (step s s')
  then show ?case by (blast intro: step_ok)
qed

end

text \<open>A batch server that answers each drain and each deregistration as the given functions say.\<close>

definition answering :: "(string \<Rightarrow> bool) \<Rightarrow> (string \<Rightarrow> bool) \<Rightarrow> 'w NodeController" where
  "answering drain dereg = \<lparr>nc_DrainNode = (\<lambda>n w. (drain n, w)), nc_DeregisterNode = (\<lambda>n w. (dereg n, w))\<rparr>"

interpretation stub_world: elastic_world stub stubUnused "Some (answering drain dereg)" for drain dereg
  by unfold_locales (auto simp: answering_def)

interpretation stub_alone: elastic_world stub stubUnused None
  by unfold_locales auto

section \<open>What the sweeps destroy\<close>

text \<open>A provider that records the machines it is told to destroy and grants every request.\<close>

definition recorder :: "string list provider" where
  "recorder = \<lparr>pr_Ensure = (\<lambda>_ w. (([], True), w)),
     pr_Reclaim = (\<lambda>r _ _ w. (True, w @ [vr_VMID r])), pr_Resume = (\<lambda>_ w. (True, w))\<rparr>"

lemma drops_recorder:
  "fold (dropProvisioning recorder) vs (p, w) = (p', w') \<Longrightarrow>
     w' = w @ vs \<and> keys (p_Provisioning p') = keys (p_Provisioning p) - set vs \<and> p_Owned p' = p_Owned p \<and>
     p_Running p' = p_Running p"
proof (induction vs arbitrary: p w)
  case (Cons v vs)
  let ?p = "p\<lparr>p_Provisioning := mdel v (p_Provisioning p), p_ProvisionedAt := mdel v (p_ProvisionedAt p),
    p_Inflight := (if p_Inflight p > 0 then p_Inflight p - 1 else p_Inflight p)\<rparr>"
  have "dropProvisioning recorder v (p, w) = (?p, w @ [v])"
    by (simp add: dropProvisioning_def recorder_def vmRef_def)
  then have "fold (dropProvisioning recorder) vs (?p, w @ [v]) = (p', w')" using Cons.prems by simp
  from Cons.IH [OF this] show ?case by auto
qed simp

lemma nodeUp_idem: "nodeUp n (nodeUp n p) = nodeUp n p"
  by (simp add: nodeUp_def map_laws)

lemma nodeUp_provisioning: "mget (p_Provisioning (nodeUp n p)) k = (if k = n then None else mget (p_Provisioning p) k)"
  by (auto simp: nodeUp_def map_laws)

lemma nodeUps_provisioning:
  "mget (p_Provisioning (fold nodeUp ns p)) k = (if k \<in> set ns then None else mget (p_Provisioning p) k)"
  by (induction ns arbitrary: p) (auto simp: nodeUp_provisioning)

lemma nodeUps_absent: "(\<And>n. n \<in> set ns \<Longrightarrow> mget (p_Provisioning p) n = None) \<Longrightarrow> fold nodeUp ns p = p"
  by (induction ns) (simp_all add: nodeUp_def)

lemma card_keys: "is_map m \<Longrightarrow> card (keys m) = length m"
  by (metis distinct_card length_map set_map)

lemma mput_again: "mput k v (mput k v m) = mput k v m"
  by (induction m) auto

lemma tryReclaim_granted:
  assumes "p_DrainTimeout p \<le> 0" "tryReclaim recorder (Some (answering (\<lambda>_. True) (\<lambda>_. True))) now n (p, w) = (p', w')"
  shows "p_Running p' = (if p_Running p > 0 then p_Running p - 1 else p_Running p) \<and> p_DrainTimeout p' \<le> 0"
  using assms
  by (auto simp: tryReclaim_def reclaimNode_def answering_def recorder_def forgetNode_def hibernateNode_def noteReclaim_def
      Let_def split: if_splits)

lemma tryReclaims_granted:
  "p_DrainTimeout p \<le> 0 \<Longrightarrow> 0 \<le> p_Running p \<Longrightarrow>
   fold (tryReclaim recorder (Some (answering (\<lambda>_. True) (\<lambda>_. True))) now) ns (p, w) = (p', w') \<Longrightarrow>
   p_Running p' = max 0 (p_Running p - int (length ns))"
proof (induction ns arbitrary: p w)
  case (Cons n ns)
  obtain p1 w1 where t: "tryReclaim recorder (Some (answering (\<lambda>_. True) (\<lambda>_. True))) now n (p, w) = (p1, w1)" by fastforce
  note one = tryReclaim_granted [OF Cons.prems(1) t]
  then have "p_Running p' = max 0 (p_Running p1 - int (length ns))"
    using Cons.IH [of p1 w1] Cons.prems t by simp
  then show ?case using one Cons.prems(2) by (simp add: algebra_simps)
qed simp

section \<open>Properties\<close>


text \<open>A burst of demand for two machines in a queue that may have three.\<close>

definition burst :: Event where
  "burst =
     \<lparr>ev_Kind = EventCapacity, ev_Queue = ''q'', ev_Provider = ''azure'', ev_SKU = ''D2'', ev_Jobs = [],
      ev_Shortfall = \<lparr>sf_Cores = 4, sf_Nodes = 2, sf_Blocked = 2\<rparr>, ev_PoolSize = 0, ev_MinNodes = 0,
      ev_MaxNodes = 3, ev_IdleTime = 60, ev_ProvisionTimeout = 0, ev_Reclaim = [], ev_SubnetID = [],
      ev_ImageID = [], ev_DiskSize = 0, ev_DiskType = [], ev_SSHKey = [], ev_Location = [], ev_RGName = [],
      ev_ServerAddr = [], ev_Cooldown = 0, ev_ScaleHeadroom = 0, ev_DrainTimeout = 0\<rparr>"

definition afterBurst :: "Controller \<times> StubProvider" where
  "afterBurst = handleEvent stub 0 (\<lambda>_. 0) burst NewController (NewStubProvider ''s'')"

lemma afterBurst_reachable: "cec_reachable stub None (NewStubProvider ''s'') afterBurst"
proof -
  let ?c = "NewController\<lparr>ctl_Events := ctl_Events NewController @ [burst]\<rparr>"
  have "cec_reachable stub None (NewStubProvider ''s'') (?c, NewStubProvider ''s'')"
    by (rule cec_reachable.step [OF cec_reachable.start cec_step.enqueue])
  moreover have "ctl_Events ?c = burst # []" by (simp add: NewController_def)
  from cec_step.event [OF this, of stub None "NewStubProvider ''s''" 0 "\<lambda>_. 0"]
  have "cec_step stub None (?c, NewStubProvider ''s'') afterBurst"
    by (simp add: afterBurst_def NewController_def)
  ultimately show ?thesis by (rule cec_reachable.step)
qed

lemma afterBurst_pool: "map_option (\<lambda>p. (p_Inflight p, map fst (p_Provisioning p))) (mget (ctl_pools (fst afterBurst)) ''q'') =
    Some (2, [''s-vm-2'', ''s-vm-3''])"
  by code_simp




text \<open>
C36: Telling the controller again that nodes are up changes nothing, and a
node that was reported is no longer booking a boot slot; the books of every other queue are untouched.
\<close>

theorem register_idempotent:
  "RegisterNodesUp q ns (RegisterNodesUp q ns c) = RegisterNodesUp q ns c \<and>
   (\<forall>p n. mget (ctl_pools (RegisterNodesUp q ns c)) q = Some p \<longrightarrow> n \<in> set ns \<longrightarrow> mget (p_Provisioning p) n = None) \<and>
   (\<forall>q'. q' \<noteq> q \<longrightarrow> mget (ctl_pools (RegisterNodesUp q ns c)) q' = mget (ctl_pools c) q')"
proof (cases "mget (ctl_pools c) q")
  case (Some p)
  have again: "fold nodeUp ns (fold nodeUp ns p) = fold nodeUp ns p"
    by (rule nodeUps_absent) (simp add: nodeUps_provisioning)
  then show ?thesis
    using Some by (simp add: RegisterNodesUp_def putPool_def map_laws nodeUps_provisioning mput_again)
qed (simp add: RegisterNodesUp_def)

theorem register_idempotent_witness:
  "RegisterNodesUp ''q'' [''s-vm-2''] (RegisterNodesUp ''q'' [''s-vm-2''] (fst afterBurst)) =
     RegisterNodesUp ''q'' [''s-vm-2''] (fst afterBurst)"
  using register_idempotent [of "''q''" "[''s-vm-2'']" "fst afterBurst"] by (elim conjE)

text \<open>
C35: Reconciling a queue with its live jobs destroys exactly the booting machines that were bound to a
job that is gone, each once, and leaves the machines bound to a live job and the machines bound to no
job; no running machine is touched.
\<close>

theorem sync_destroys_orphans_only:
  assumes "mget (ctl_pools c) q = Some p" "is_map (p_Provisioning p)"
    "SyncQueuedJobs recorder q jobIDs c w = (c', w')" "mget (ctl_pools c') q = Some p'"
  shows "\<exists>destroyed. w' = w @ destroyed \<and> distinct destroyed \<and>
    set destroyed = {v. \<exists>j. mget (p_Provisioning p) v = Some j \<and> j \<noteq> [] \<and> j \<notin> set jobIDs} \<and>
    keys (p_Provisioning p') = keys (p_Provisioning p) - set destroyed \<and>
    p_Owned p' = p_Owned p \<and> p_Running p' = p_Running p"
proof -
  obtain p2 w2 where drops: "fold (dropProvisioning recorder) (staleBound jobIDs p) (p, w) = (p2, w2)" by fastforce
  then have "p' = p2" "w' = w2"
    using assms by (auto simp: SyncQueuedJobs_def putPool_def map_laws)
  with drops_recorder [OF drops] have "w' = w @ staleBound jobIDs p"
    "keys (p_Provisioning p') = keys (p_Provisioning p) - set (staleBound jobIDs p)"
    "p_Owned p' = p_Owned p" "p_Running p' = p_Running p" by simp_all
  moreover have "distinct (staleBound jobIDs p)"
    using assms(2) by (simp add: staleBound_def distinct_map_filter)
  moreover have "set (staleBound jobIDs p) =
      {v. \<exists>j. mget (p_Provisioning p) v = Some j \<and> j \<noteq> [] \<and> j \<notin> set jobIDs}"
    using assms(2) by (auto simp: staleBound_def map_of_eq_Some_iff image_iff)
  ultimately show ?thesis by blast
qed

theorem sync_destroys_orphans_only_witness:
  "\<exists>destroyed. snd (SyncQueuedJobs recorder ''q'' [''2.s'']
       (NewController\<lparr>ctl_pools := [(''q'', newPool burst\<lparr>p_Provisioning := [(''a'', ''1.s''), (''b'', ''2.s''), (''c'', [])]\<rparr>)]\<rparr>) []) =
     destroyed \<and> set destroyed = {''a''}"
proof -
  let ?p = "newPool burst\<lparr>p_Provisioning := [(''a'', ''1.s''), (''b'', ''2.s''), (''c'', [])]\<rparr>"
  let ?c = "NewController\<lparr>ctl_pools := [(''q'', ?p)]\<rparr>"
  obtain c' w' where r: "SyncQueuedJobs recorder ''q'' [''2.s''] ?c [] = (c', w')" by fastforce
  then obtain p' where "mget (ctl_pools c') ''q'' = Some p'"
    by (auto simp: SyncQueuedJobs_def putPool_def map_laws split: prod.splits)
  from sync_destroys_orphans_only [OF _ _ r this, of ?p]
  obtain d where "w' = d" "set d = {v. \<exists>j. mget (p_Provisioning ?p) v = Some j \<and> j \<noteq> [] \<and> j \<notin> set [''2.s'']}"
    by auto
  then show ?thesis using r by (auto split: if_splits)
qed

text \<open>
C37: The sweep of machines that do not boot in time also destroys machines that did. A machine that registered
as up keeps the time its boot began, so once the timeout has passed since then the sweep destroys it, while
the pool still counts it as running; the comment of the sweep says it only touches
machines still provisioning.
\<close>

theorem sweep_destroys_running_node:
  assumes "mget (p_Provisioning p) v \<noteq> None" "mget (p_ProvisionedAt p) v = Some since"
    "provisionTimeout p \<le> now - since" "sweepProvisioningTimeout recorder now (nodeUp v p) w = (p', w')"
  shows "(\<exists>destroyed. w' = w @ destroyed \<and> v \<in> set destroyed) \<and> v \<in> keys (p_Owned p') \<and> p_Running p' = p_Running p + 1"
proof -
  let ?u = "nodeUp v p"
  have u: "p_ProvisionedAt ?u = p_ProvisionedAt p" "p_ProvisionTimeout ?u = p_ProvisionTimeout p"
    "v \<in> keys (p_Owned ?u)" "p_Running ?u = p_Running p + 1"
    using assms(1) by (auto simp: nodeUp_def)
  have "(v, since) \<in> set (p_ProvisionedAt p)" using assms(2) by (rule map_of_SomeD)
  then have "v \<in> set (staleProvisioned now ?u)" "p_ProvisionedAt ?u \<noteq> []"
    using assms(3) u(1,2) by (force simp: staleProvisioned_def provisionTimeout_def)+
  moreover have "fold (dropProvisioning recorder) (staleProvisioned now ?u) (?u, w) = (p', w')"
    using assms(4) calculation(2) by (simp add: sweepProvisioningTimeout_def)
  from drops_recorder [OF this] have "w' = w @ staleProvisioned now ?u" "p_Owned p' = p_Owned ?u" "p_Running p' = p_Running ?u"
    by simp_all
  ultimately show ?thesis using u(3,4) by auto
qed

theorem sweep_destroys_running_node_witness:
  "\<exists>p' w'. sweepProvisioningTimeout recorder 1000000000000
       (nodeUp ''a'' (newPool burst\<lparr>p_Provisioning := [(''a'', [])], p_ProvisionedAt := [(''a'', 5)]\<rparr>)) [] = (p', w') \<and>
     ''a'' \<in> set w' \<and> ''a'' \<in> keys (p_Owned p')"
proof -
  let ?p = "newPool burst\<lparr>p_Provisioning := [(''a'', [])], p_ProvisionedAt := [(''a'', 5)]\<rparr>"
  obtain p' w' where r: "sweepProvisioningTimeout recorder 1000000000000 (nodeUp ''a'' ?p) [] = (p', w')" by fastforce
  from sweep_destroys_running_node [OF _ _ _ r, of 5] show ?thesis
    using r by (simp add: provisionTimeout_def newPool_def burst_def)
qed



end
