(* ===== verification/Server_Config.thy ===== *)
theory Server_Config
  imports Job_Manager Dis_Message
begin

text \<open>
  The configuration of the server: the fields of \<^verbatim>\<open>src/internal/config/config.go\<close>, the attributes that
  \<^verbatim>\<open>mgrSetServer\<close> and \<^verbatim>\<open>mgrUnsetServer\<close> of \<^verbatim>\<open>src/internal/server/server.go\<close> change, and the names under
  which the server database holds them. The fields of a type are the constructors of a datatype
  and the record holds one function per type, so a field is read and updated by its name. A
  switch over attribute names is a table from names to what the branch does.
\<close>

section \<open>Fields and tables\<close>

text \<open>The fields of \<^verbatim>\<open>Config\<close>, by their types.\<close>

datatype cfg_int =
    F_Port | F_SchedulerIteration | F_NodeCheckRate | F_TCPTimeout | F_KeepCompleted | F_JobStatRate |
    F_PingRate | F_JobStartTimeout | F_JobForceCancelTime | F_JobSyncTimeout | F_SchedMinInterval |
    F_DefaultQueueDepth | F_SchedMaxJobStart | F_MaxSchedTime | F_SchedTriggerPort | F_LogLevel |
    F_LogFileMaxSize | F_LogFileRollDepth | F_LogKeepDays | F_JobLogFileMaxSize | F_JobLogFileRollDepth |
    F_JobLogKeepDays | F_MaxRunning | F_MaxUserRun | F_MaxGroupRun | F_MaxUserQueuable |
    F_EmailBatchSeconds | F_NPDefault | F_AutoRequeueExitCode | F_MaxJobArraySize | F_MaxSlotLimit |
    F_CloneBatchSize | F_CloneBatchDelay | F_KillDelay | F_UserKillDelay | F_ExitCodeCanceledJob |
    F_TimeoutForJobDelete | F_TimeoutForJobRequeue | F_IdleSlotLimit | F_LockFileUpdateTime |
    F_LockFileCheckTime | F_TCPIncomingTimeout | F_JobFullReportTime

datatype cfg_bool =
    F_Debug | F_Scheduling | F_PollJobs | F_EventDriven | F_SchedDefer | F_SchedDeferBatch |
    F_RecordJobInfo | F_RecordJobScript | F_ACLHostEnable | F_ACLUserEnable | F_ACLLogicOr |
    F_ACLGroupSloppy | F_NoMailForce | F_NodePack | F_QueryOtherJobs | F_MOMJobSync | F_DownOnError |
    F_DisableServerIdCheck | F_AllowNodeSubmit | F_AllowProxyUser | F_AutoNodeNP | F_AllowDynamicNodes |
    F_JobNanny | F_OwnerPurge | F_CopyOnRerun | F_JobExclusiveOnUse | F_DisableAutoRequeue |
    F_DontWriteNodesFile | F_MoabArrayCompatible | F_DisplayJobServerSuffix | F_UseJobsSubdirs |
    F_CgroupPerTask | F_PassCpuClock | F_InteractiveJobsCanRoam | F_LegacyVmem | F_GhostArrayRecovery

datatype cfg_str =
    F_PBSHome | F_StartType | F_ServerPriv | F_JobsDir | F_QueuesDir | F_NodesFile | F_ServerDB |
    F_LogDir | F_AcctDir | F_ServerName | F_DefaultQueue | F_SchedulerMode | F_Managers | F_Operators |
    F_ACLHosts | F_ACLUsers | F_ACLRoots | F_ACLUserHosts | F_ACLGroupHosts | F_MailDomain | F_MailFrom |
    F_MailSubjectFmt | F_MailBodyFmt | F_DefaultNode | F_NodeAllowedIPRanges | F_JobSuffixAlias |
    F_DefaultGpuMode | F_SubmitHosts | F_NodeSubmitExceptions | F_NodeSuffix | F_Comment

datatype cfg_resc =
    F_ResourcesAvail | F_ResourcesDefault | F_ResourcesMax | F_ResourcesCost

record SrvConfig =
  ci :: "cfg_int \<Rightarrow> int"
  cb :: "cfg_bool \<Rightarrow> bool"
  cs :: "cfg_str \<Rightarrow> string"
  cm :: "cfg_resc \<Rightarrow> string smap"

definition NewConfig :: "string \<Rightarrow> SrvConfig" where
  "NewConfig pbsHome =
     \<lparr>ci = (\<lambda>_. 0)(
        F_Port := 15001, F_SchedulerIteration := 10, F_SchedTriggerPort := 25003,
        F_SchedMinInterval := 100, F_DefaultQueueDepth := 100, F_SchedMaxJobStart := 0,
        F_MaxSchedTime := 2, F_NodeCheckRate := 600, F_TCPTimeout := 300, F_KeepCompleted := 300,
        F_PingRate := 300, F_JobStartTimeout := 300, F_JobSyncTimeout := 120, F_LogLevel := 511,
        F_LogFileRollDepth := 1, F_MaxJobArraySize := 10000, F_CloneBatchSize := 256,
        F_CloneBatchDelay := 2, F_KillDelay := 2, F_ExitCodeCanceledJob := 271,
        F_TimeoutForJobDelete := 120, F_TimeoutForJobRequeue := 120, F_AutoRequeueExitCode := - 1),
      cb = (\<lambda>_. False)(
        F_Scheduling := True, F_EventDriven := True, F_QueryOtherJobs := True, F_MOMJobSync := True,
        F_DisplayJobServerSuffix := True),
      cs = (\<lambda>_. [])(
        F_PBSHome := pbsHome, F_ServerPriv := pbsHome @ ''/server_priv'',
        F_JobsDir := pbsHome @ ''/server_priv/jobs'', F_QueuesDir := pbsHome @ ''/server_priv/queues'',
        F_NodesFile := pbsHome @ ''/server_priv/nodes'', F_ServerDB := pbsHome @ ''/server_priv/serverdb'',
        F_LogDir := pbsHome @ ''/server_logs'', F_AcctDir := pbsHome @ ''/server_priv/accounting'',
        F_SchedulerMode := ''external''),
      cm = (\<lambda>_. [])\<rparr>"

text \<open>What a branch of a switch over attribute names does with the value.\<close>

datatype set_action =
    SetInt cfg_int | SetBool cfg_bool | SetStr cfg_str | MergeStr cfg_str | SetResc cfg_resc | SetNextJob

text \<open>The attributes of \<^verbatim>\<open>mgrSetServer\<close>, in the groups of the source.\<close>

definition setCore :: "(string \<times> set_action) list" where
  "setCore =
     [(''scheduling'', SetBool F_Scheduling), (''default_queue'', SetStr F_DefaultQueue)]"

definition setTiming :: "(string \<times> set_action) list" where
  "setTiming =
     [(''scheduler_iteration'', SetInt F_SchedulerIteration),
      (''node_check_rate'', SetInt F_NodeCheckRate), (''tcp_timeout'', SetInt F_TCPTimeout),
      (''keep_completed'', SetInt F_KeepCompleted), (''job_stat_rate'', SetInt F_JobStatRate),
      (''poll_jobs'', SetBool F_PollJobs), (''ping_rate'', SetInt F_PingRate),
      (''job_start_timeout'', SetInt F_JobStartTimeout),
      (''job_force_cancel_time'', SetInt F_JobForceCancelTime),
      (''job_sync_timeout'', SetInt F_JobSyncTimeout)]"

definition setEvents :: "(string \<times> set_action) list" where
  "setEvents =
     [(''sched_interval'', SetInt F_SchedulerIteration), (''event_driven'', SetBool F_EventDriven),
      (''sched_min_interval'', SetInt F_SchedMinInterval),
      (''default_queue_depth'', SetInt F_DefaultQueueDepth),
      (''sched_max_job_start'', SetInt F_SchedMaxJobStart), (''max_sched_time'', SetInt F_MaxSchedTime),
      (''defer'', SetBool F_SchedDefer), (''defer_batch'', SetBool F_SchedDeferBatch)]"

definition setLogging :: "(string \<times> set_action) list" where
  "setLogging =
     [(''log_events'', SetInt F_LogLevel), (''log_file_max_size'', SetInt F_LogFileMaxSize),
      (''log_file_roll_depth'', SetInt F_LogFileRollDepth), (''log_keep_days'', SetInt F_LogKeepDays),
      (''record_job_info'', SetBool F_RecordJobInfo), (''record_job_script'', SetBool F_RecordJobScript),
      (''job_log_file_max_size'', SetInt F_JobLogFileMaxSize),
      (''job_log_file_roll_depth'', SetInt F_JobLogFileRollDepth),
      (''job_log_keep_days'', SetInt F_JobLogKeepDays)]"

definition setACL :: "(string \<times> set_action) list" where
  "setACL =
     [(''managers'', MergeStr F_Managers), (''operators'', MergeStr F_Operators),
      (''acl_host_enable'', SetBool F_ACLHostEnable), (''acl_hosts'', MergeStr F_ACLHosts),
      (''acl_user_enable'', SetBool F_ACLUserEnable), (''acl_users'', MergeStr F_ACLUsers),
      (''acl_roots'', MergeStr F_ACLRoots), (''acl_logic_or'', SetBool F_ACLLogicOr),
      (''acl_group_sloppy'', SetBool F_ACLGroupSloppy), (''acl_user_hosts'', MergeStr F_ACLUserHosts),
      (''acl_group_hosts'', MergeStr F_ACLGroupHosts)]"

definition setLimits :: "(string \<times> set_action) list" where
  "setLimits =
     [(''max_running'', SetInt F_MaxRunning), (''max_user_run'', SetInt F_MaxUserRun),
      (''max_group_run'', SetInt F_MaxGroupRun), (''max_user_queuable'', SetInt F_MaxUserQueuable),
      (''resources_available'', SetResc F_ResourcesAvail),
      (''resources_default'', SetResc F_ResourcesDefault), (''resources_max'', SetResc F_ResourcesMax),
      (''resources_cost'', SetResc F_ResourcesCost)]"

definition setMail :: "(string \<times> set_action) list" where
  "setMail =
     [(''mail_domain'', SetStr F_MailDomain), (''mail_from'', SetStr F_MailFrom),
      (''no_mail_force'', SetBool F_NoMailForce), (''mail_subject_fmt'', SetStr F_MailSubjectFmt),
      (''mail_body_fmt'', SetStr F_MailBodyFmt), (''email_batch_seconds'', SetInt F_EmailBatchSeconds)]"

definition setPolicy :: "(string \<times> set_action) list" where
  "setPolicy =
     [(''default_node'', SetStr F_DefaultNode), (''node_pack'', SetBool F_NodePack),
      (''query_other_jobs'', SetBool F_QueryOtherJobs), (''mom_job_sync'', SetBool F_MOMJobSync),
      (''down_on_error'', SetBool F_DownOnError),
      (''disable_server_id_check'', SetBool F_DisableServerIdCheck),
      (''allow_node_submit'', SetBool F_AllowNodeSubmit), (''allow_proxy_user'', SetBool F_AllowProxyUser),
      (''auto_node_np'', SetBool F_AutoNodeNP), (''np_default'', SetInt F_NPDefault),
      (''allow_dynamic_nodes'', SetBool F_AllowDynamicNodes),
      (''node_allowed_ip_ranges'', SetStr F_NodeAllowedIPRanges), (''job_nanny'', SetBool F_JobNanny),
      (''owner_purge'', SetBool F_OwnerPurge), (''copy_on_rerun'', SetBool F_CopyOnRerun),
      (''job_exclusive_on_use'', SetBool F_JobExclusiveOnUse),
      (''disable_automatic_requeue'', SetBool F_DisableAutoRequeue),
      (''automatic_requeue_exit_code'', SetInt F_AutoRequeueExitCode),
      (''dont_write_nodes_file'', SetBool F_DontWriteNodesFile)]"

definition setArrays :: "(string \<times> set_action) list" where
  "setArrays =
     [(''max_job_array_size'', SetInt F_MaxJobArraySize), (''max_slot_limit'', SetInt F_MaxSlotLimit),
      (''clone_batch_size'', SetInt F_CloneBatchSize), (''clone_batch_delay'', SetInt F_CloneBatchDelay),
      (''moab_array_compatible'', SetBool F_MoabArrayCompatible),
      (''display_job_server_suffix'', SetBool F_DisplayJobServerSuffix),
      (''job_suffix_alias'', SetStr F_JobSuffixAlias), (''use_jobs_subdirs'', SetBool F_UseJobsSubdirs)]"

definition setKill :: "(string \<times> set_action) list" where
  "setKill =
     [(''kill_delay'', SetInt F_KillDelay), (''user_kill_delay'', SetInt F_UserKillDelay),
      (''exit_code_canceled_job'', SetInt F_ExitCodeCanceledJob),
      (''timeout_for_job_delete'', SetInt F_TimeoutForJobDelete),
      (''timeout_for_job_requeue'', SetInt F_TimeoutForJobRequeue)]"

definition setHardware :: "(string \<times> set_action) list" where
  "setHardware =
     [(''default_gpu_mode'', SetStr F_DefaultGpuMode), (''idle_slot_limit'', SetInt F_IdleSlotLimit),
      (''cgroup_per_task'', SetBool F_CgroupPerTask), (''pass_cpu_clock'', SetBool F_PassCpuClock)]"

definition setOther :: "(string \<times> set_action) list" where
  "setOther =
     [(''submit_hosts'', MergeStr F_SubmitHosts),
      (''node_submit_exceptions'', SetStr F_NodeSubmitExceptions), (''node_suffix'', SetStr F_NodeSuffix),
      (''comment'', SetStr F_Comment), (''lock_file_update_time'', SetInt F_LockFileUpdateTime),
      (''lock_file_check_time'', SetInt F_LockFileCheckTime),
      (''interactive_jobs_can_roam'', SetBool F_InteractiveJobsCanRoam),
      (''legacy_vmem'', SetBool F_LegacyVmem), (''ghost_array_recovery'', SetBool F_GhostArrayRecovery),
      (''tcp_incoming_timeout'', SetInt F_TCPIncomingTimeout),
      (''job_full_report_time'', SetInt F_JobFullReportTime)]"

definition serverSettings :: "(string \<times> set_action) list" where
  "serverSettings =
     setCore @ setTiming @ setEvents @ setLogging @ setACL @ setLimits @ setMail @ setPolicy @ setArrays @
     setKill @ setHardware @ setOther"

text \<open>The attributes of \<^verbatim>\<open>mgrUnsetServer\<close>; \<open>d\<close> is the default configuration.\<close>

datatype reset_action =
    ResetInt cfg_int int | ResetBool cfg_bool bool | ResetStr cfg_str string | DelResc cfg_resc

definition serverResets :: "SrvConfig \<Rightarrow> (string \<times> reset_action) list" where
  "serverResets d =
     [(''scheduling'', ResetBool F_Scheduling (cb d F_Scheduling)),
      (''default_queue'', ResetStr F_DefaultQueue (cs d F_DefaultQueue)),
      (''scheduler_iteration'', ResetInt F_SchedulerIteration (ci d F_SchedulerIteration)),
      (''node_check_rate'', ResetInt F_NodeCheckRate (ci d F_NodeCheckRate)),
      (''tcp_timeout'', ResetInt F_TCPTimeout (ci d F_TCPTimeout)),
      (''keep_completed'', ResetInt F_KeepCompleted (ci d F_KeepCompleted)),
      (''log_events'', ResetInt F_LogLevel (ci d F_LogLevel)),
      (''job_stat_rate'', ResetInt F_JobStatRate 0), (''poll_jobs'', ResetBool F_PollJobs False),
      (''ping_rate'', ResetInt F_PingRate (ci d F_PingRate)),
      (''job_start_timeout'', ResetInt F_JobStartTimeout (ci d F_JobStartTimeout)),
      (''job_force_cancel_time'', ResetInt F_JobForceCancelTime 0),
      (''job_sync_timeout'', ResetInt F_JobSyncTimeout (ci d F_JobSyncTimeout)),
      (''log_file_max_size'', ResetInt F_LogFileMaxSize 0),
      (''log_file_roll_depth'', ResetInt F_LogFileRollDepth (ci d F_LogFileRollDepth)),
      (''log_keep_days'', ResetInt F_LogKeepDays 0),
      (''record_job_info'', ResetBool F_RecordJobInfo False),
      (''record_job_script'', ResetBool F_RecordJobScript False), (''managers'', ResetStr F_Managers []),
      (''operators'', ResetStr F_Operators []), (''acl_host_enable'', ResetBool F_ACLHostEnable False),
      (''acl_hosts'', ResetStr F_ACLHosts []), (''acl_user_enable'', ResetBool F_ACLUserEnable False),
      (''acl_users'', ResetStr F_ACLUsers []), (''max_running'', ResetInt F_MaxRunning 0),
      (''max_user_run'', ResetInt F_MaxUserRun 0), (''max_group_run'', ResetInt F_MaxGroupRun 0),
      (''max_user_queuable'', ResetInt F_MaxUserQueuable 0),
      (''resources_available'', DelResc F_ResourcesAvail),
      (''resources_default'', DelResc F_ResourcesDefault), (''resources_max'', DelResc F_ResourcesMax),
      (''mail_domain'', ResetStr F_MailDomain []), (''mail_from'', ResetStr F_MailFrom []),
      (''default_node'', ResetStr F_DefaultNode []), (''node_pack'', ResetBool F_NodePack False),
      (''query_other_jobs'', ResetBool F_QueryOtherJobs (cb d F_QueryOtherJobs)),
      (''mom_job_sync'', ResetBool F_MOMJobSync (cb d F_MOMJobSync)),
      (''kill_delay'', ResetInt F_KillDelay (ci d F_KillDelay)),
      (''max_job_array_size'', ResetInt F_MaxJobArraySize (ci d F_MaxJobArraySize)),
      (''comment'', ResetStr F_Comment []),
      (''display_job_server_suffix'', ResetBool F_DisplayJobServerSuffix (cb d F_DisplayJobServerSuffix))]"

text \<open>The attributes of \<^verbatim>\<open>applyServerDBAttr\<close>.\<close>

definition dbCore :: "(string \<times> set_action) list" where
  "dbCore =
     [(''nextjobid'', SetNextJob), (''next_job_id'', SetNextJob),
      (''default_queue'', SetStr F_DefaultQueue), (''scheduling'', SetBool F_Scheduling),
      (''scheduler_iteration'', SetInt F_SchedulerIteration)]"

definition dbEvents :: "(string \<times> set_action) list" where
  "dbEvents =
     [(''event_driven'', SetBool F_EventDriven), (''sched_min_interval'', SetInt F_SchedMinInterval),
      (''default_queue_depth'', SetInt F_DefaultQueueDepth),
      (''sched_max_job_start'', SetInt F_SchedMaxJobStart), (''max_sched_time'', SetInt F_MaxSchedTime),
      (''defer'', SetBool F_SchedDefer), (''defer_batch'', SetBool F_SchedDeferBatch),
      (''sched_trigger_port'', SetInt F_SchedTriggerPort)]"

definition dbTiming :: "(string \<times> set_action) list" where
  "dbTiming =
     [(''node_check_rate'', SetInt F_NodeCheckRate), (''tcp_timeout'', SetInt F_TCPTimeout),
      (''keep_completed'', SetInt F_KeepCompleted), (''job_stat_rate'', SetInt F_JobStatRate),
      (''poll_jobs'', SetBool F_PollJobs), (''ping_rate'', SetInt F_PingRate),
      (''job_start_timeout'', SetInt F_JobStartTimeout),
      (''job_force_cancel_time'', SetInt F_JobForceCancelTime),
      (''job_sync_timeout'', SetInt F_JobSyncTimeout)]"

definition dbLogging :: "(string \<times> set_action) list" where
  "dbLogging =
     [(''log_events'', SetInt F_LogLevel), (''log_file_max_size'', SetInt F_LogFileMaxSize),
      (''log_file_roll_depth'', SetInt F_LogFileRollDepth), (''log_keep_days'', SetInt F_LogKeepDays),
      (''record_job_info'', SetBool F_RecordJobInfo), (''record_job_script'', SetBool F_RecordJobScript),
      (''job_log_file_max_size'', SetInt F_JobLogFileMaxSize),
      (''job_log_file_roll_depth'', SetInt F_JobLogFileRollDepth),
      (''job_log_keep_days'', SetInt F_JobLogKeepDays)]"

definition dbACL :: "(string \<times> set_action) list" where
  "dbACL =
     [(''managers'', SetStr F_Managers), (''operators'', SetStr F_Operators),
      (''acl_host_enable'', SetBool F_ACLHostEnable), (''acl_hosts'', SetStr F_ACLHosts),
      (''acl_user_enable'', SetBool F_ACLUserEnable), (''acl_users'', SetStr F_ACLUsers),
      (''acl_roots'', SetStr F_ACLRoots), (''acl_logic_or'', SetBool F_ACLLogicOr),
      (''acl_group_sloppy'', SetBool F_ACLGroupSloppy), (''acl_user_hosts'', SetStr F_ACLUserHosts),
      (''acl_group_hosts'', SetStr F_ACLGroupHosts)]"

definition dbLimits :: "(string \<times> set_action) list" where
  "dbLimits =
     [(''max_running'', SetInt F_MaxRunning), (''max_user_run'', SetInt F_MaxUserRun),
      (''max_group_run'', SetInt F_MaxGroupRun), (''max_user_queuable'', SetInt F_MaxUserQueuable)]"

definition dbMail :: "(string \<times> set_action) list" where
  "dbMail =
     [(''mail_domain'', SetStr F_MailDomain), (''mail_from'', SetStr F_MailFrom),
      (''no_mail_force'', SetBool F_NoMailForce), (''mail_subject_fmt'', SetStr F_MailSubjectFmt),
      (''mail_body_fmt'', SetStr F_MailBodyFmt), (''email_batch_seconds'', SetInt F_EmailBatchSeconds)]"

definition dbPolicy :: "(string \<times> set_action) list" where
  "dbPolicy =
     [(''default_node'', SetStr F_DefaultNode), (''node_pack'', SetBool F_NodePack),
      (''query_other_jobs'', SetBool F_QueryOtherJobs), (''mom_job_sync'', SetBool F_MOMJobSync),
      (''down_on_error'', SetBool F_DownOnError),
      (''disable_server_id_check'', SetBool F_DisableServerIdCheck),
      (''allow_node_submit'', SetBool F_AllowNodeSubmit), (''allow_proxy_user'', SetBool F_AllowProxyUser),
      (''auto_node_np'', SetBool F_AutoNodeNP), (''np_default'', SetInt F_NPDefault),
      (''allow_dynamic_nodes'', SetBool F_AllowDynamicNodes),
      (''node_allowed_ip_ranges'', SetStr F_NodeAllowedIPRanges), (''job_nanny'', SetBool F_JobNanny),
      (''owner_purge'', SetBool F_OwnerPurge), (''copy_on_rerun'', SetBool F_CopyOnRerun),
      (''job_exclusive_on_use'', SetBool F_JobExclusiveOnUse),
      (''disable_automatic_requeue'', SetBool F_DisableAutoRequeue),
      (''automatic_requeue_exit_code'', SetInt F_AutoRequeueExitCode),
      (''dont_write_nodes_file'', SetBool F_DontWriteNodesFile)]"

definition dbArrays :: "(string \<times> set_action) list" where
  "dbArrays =
     [(''max_job_array_size'', SetInt F_MaxJobArraySize), (''max_slot_limit'', SetInt F_MaxSlotLimit),
      (''clone_batch_size'', SetInt F_CloneBatchSize), (''clone_batch_delay'', SetInt F_CloneBatchDelay),
      (''moab_array_compatible'', SetBool F_MoabArrayCompatible),
      (''display_job_server_suffix'', SetBool F_DisplayJobServerSuffix),
      (''job_suffix_alias'', SetStr F_JobSuffixAlias), (''use_jobs_subdirs'', SetBool F_UseJobsSubdirs)]"

definition dbKill :: "(string \<times> set_action) list" where
  "dbKill =
     [(''kill_delay'', SetInt F_KillDelay), (''user_kill_delay'', SetInt F_UserKillDelay),
      (''exit_code_canceled_job'', SetInt F_ExitCodeCanceledJob),
      (''timeout_for_job_delete'', SetInt F_TimeoutForJobDelete),
      (''timeout_for_job_requeue'', SetInt F_TimeoutForJobRequeue)]"

definition dbHardware :: "(string \<times> set_action) list" where
  "dbHardware =
     [(''default_gpu_mode'', SetStr F_DefaultGpuMode), (''idle_slot_limit'', SetInt F_IdleSlotLimit),
      (''cgroup_per_task'', SetBool F_CgroupPerTask), (''pass_cpu_clock'', SetBool F_PassCpuClock)]"

definition dbOther :: "(string \<times> set_action) list" where
  "dbOther =
     [(''submit_hosts'', SetStr F_SubmitHosts),
      (''node_submit_exceptions'', SetStr F_NodeSubmitExceptions), (''node_suffix'', SetStr F_NodeSuffix),
      (''comment'', SetStr F_Comment), (''lock_file_update_time'', SetInt F_LockFileUpdateTime),
      (''lock_file_check_time'', SetInt F_LockFileCheckTime),
      (''interactive_jobs_can_roam'', SetBool F_InteractiveJobsCanRoam),
      (''legacy_vmem'', SetBool F_LegacyVmem), (''ghost_array_recovery'', SetBool F_GhostArrayRecovery),
      (''tcp_incoming_timeout'', SetInt F_TCPIncomingTimeout),
      (''job_full_report_time'', SetInt F_JobFullReportTime)]"

definition dbSettings :: "(string \<times> set_action) list" where
  "dbSettings =
     dbCore @ dbEvents @ dbTiming @ dbLogging @ dbACL @ dbLimits @ dbMail @ dbPolicy @ dbArrays @ dbKill @
     dbHardware @ dbOther"

text \<open>The tags that \<^verbatim>\<open>recoverServerDBXML\<close> looks for.\<close>

definition xmlCore :: "string list" where
  "xmlCore =
     [''nextjobid'', ''default_queue'', ''scheduling'', ''scheduler_iteration'']"

definition xmlTiming :: "string list" where
  "xmlTiming =
     [''node_check_rate'', ''tcp_timeout'', ''keep_completed'', ''job_stat_rate'', ''poll_jobs'',
      ''ping_rate'', ''job_start_timeout'', ''job_force_cancel_time'', ''job_sync_timeout'']"

definition xmlLogging :: "string list" where
  "xmlLogging =
     [''log_events'', ''log_file_max_size'', ''log_file_roll_depth'', ''log_keep_days'',
      ''record_job_info'', ''record_job_script'', ''job_log_file_max_size'', ''job_log_file_roll_depth'',
      ''job_log_keep_days'']"

definition xmlACL :: "string list" where
  "xmlACL =
     [''managers'', ''operators'', ''acl_host_enable'', ''acl_hosts'', ''acl_user_enable'', ''acl_users'',
      ''acl_roots'', ''acl_logic_or'', ''acl_group_sloppy'', ''acl_user_hosts'', ''acl_group_hosts'']"

definition xmlLimits :: "string list" where
  "xmlLimits =
     [''max_running'', ''max_user_run'', ''max_group_run'', ''max_user_queuable'']"

definition xmlMail :: "string list" where
  "xmlMail =
     [''mail_domain'', ''mail_from'', ''no_mail_force'', ''mail_subject_fmt'', ''mail_body_fmt'',
      ''email_batch_seconds'']"

definition xmlPolicy :: "string list" where
  "xmlPolicy =
     [''default_node'', ''node_pack'', ''query_other_jobs'', ''mom_job_sync'', ''down_on_error'',
      ''disable_server_id_check'', ''allow_node_submit'', ''allow_proxy_user'', ''auto_node_np'',
      ''np_default'', ''allow_dynamic_nodes'', ''node_allowed_ip_ranges'', ''job_nanny'', ''owner_purge'',
      ''copy_on_rerun'', ''job_exclusive_on_use'', ''disable_automatic_requeue'',
      ''automatic_requeue_exit_code'', ''dont_write_nodes_file'']"

definition xmlArrays :: "string list" where
  "xmlArrays =
     [''max_job_array_size'', ''max_slot_limit'', ''clone_batch_size'', ''clone_batch_delay'',
      ''moab_array_compatible'', ''display_job_server_suffix'', ''job_suffix_alias'', ''use_jobs_subdirs'']"

definition xmlKill :: "string list" where
  "xmlKill =
     [''kill_delay'', ''user_kill_delay'', ''exit_code_canceled_job'', ''timeout_for_job_delete'',
      ''timeout_for_job_requeue'']"

definition xmlHardware :: "string list" where
  "xmlHardware =
     [''default_gpu_mode'', ''idle_slot_limit'', ''cgroup_per_task'', ''pass_cpu_clock'']"

definition xmlOther :: "string list" where
  "xmlOther =
     [''submit_hosts'', ''node_submit_exceptions'', ''node_suffix'', ''comment'',
      ''lock_file_update_time'', ''lock_file_check_time'', ''interactive_jobs_can_roam'', ''legacy_vmem'',
      ''ghost_array_recovery'', ''tcp_incoming_timeout'', ''job_full_report_time'']"

definition xmlTags :: "string list" where
  "xmlTags =
     xmlCore @ xmlTiming @ xmlLogging @ xmlACL @ xmlLimits @ xmlMail @ xmlPolicy @ xmlArrays @ xmlKill @
     xmlHardware @ xmlOther"

text \<open>What \<^verbatim>\<open>saveServerDB\<close> writes, in the order of the source.\<close>

datatype db_writer = WInt cfg_int | WBool cfg_bool | WStr cfg_str | WMap cfg_resc | WNextJob

definition wCore :: "(string \<times> db_writer) list" where
  "wCore =
     [(''nextjobid'', WNextJob), (''default_queue'', WStr F_DefaultQueue),
      (''scheduling'', WBool F_Scheduling), (''scheduler_iteration'', WInt F_SchedulerIteration)]"

definition wEvents :: "(string \<times> db_writer) list" where
  "wEvents =
     [(''event_driven'', WBool F_EventDriven), (''sched_min_interval'', WInt F_SchedMinInterval),
      (''default_queue_depth'', WInt F_DefaultQueueDepth),
      (''sched_max_job_start'', WInt F_SchedMaxJobStart), (''max_sched_time'', WInt F_MaxSchedTime),
      (''defer'', WBool F_SchedDefer), (''defer_batch'', WBool F_SchedDeferBatch),
      (''sched_trigger_port'', WInt F_SchedTriggerPort)]"

definition wTiming :: "(string \<times> db_writer) list" where
  "wTiming =
     [(''node_check_rate'', WInt F_NodeCheckRate), (''tcp_timeout'', WInt F_TCPTimeout),
      (''keep_completed'', WInt F_KeepCompleted), (''job_stat_rate'', WInt F_JobStatRate),
      (''poll_jobs'', WBool F_PollJobs), (''ping_rate'', WInt F_PingRate),
      (''job_start_timeout'', WInt F_JobStartTimeout),
      (''job_force_cancel_time'', WInt F_JobForceCancelTime), (''job_sync_timeout'', WInt F_JobSyncTimeout)]"

definition wLogging :: "(string \<times> db_writer) list" where
  "wLogging =
     [(''log_events'', WInt F_LogLevel), (''log_file_max_size'', WInt F_LogFileMaxSize),
      (''log_file_roll_depth'', WInt F_LogFileRollDepth), (''log_keep_days'', WInt F_LogKeepDays),
      (''record_job_info'', WBool F_RecordJobInfo), (''record_job_script'', WBool F_RecordJobScript),
      (''job_log_file_max_size'', WInt F_JobLogFileMaxSize),
      (''job_log_file_roll_depth'', WInt F_JobLogFileRollDepth),
      (''job_log_keep_days'', WInt F_JobLogKeepDays)]"

definition wACL :: "(string \<times> db_writer) list" where
  "wACL =
     [(''managers'', WStr F_Managers), (''operators'', WStr F_Operators),
      (''acl_host_enable'', WBool F_ACLHostEnable), (''acl_hosts'', WStr F_ACLHosts),
      (''acl_user_enable'', WBool F_ACLUserEnable), (''acl_users'', WStr F_ACLUsers),
      (''acl_roots'', WStr F_ACLRoots), (''acl_logic_or'', WBool F_ACLLogicOr),
      (''acl_group_sloppy'', WBool F_ACLGroupSloppy), (''acl_user_hosts'', WStr F_ACLUserHosts),
      (''acl_group_hosts'', WStr F_ACLGroupHosts)]"

definition wLimits :: "(string \<times> db_writer) list" where
  "wLimits =
     [(''max_running'', WInt F_MaxRunning), (''max_user_run'', WInt F_MaxUserRun),
      (''max_group_run'', WInt F_MaxGroupRun), (''max_user_queuable'', WInt F_MaxUserQueuable)]"

definition wMaps :: "(string \<times> db_writer) list" where
  "wMaps =
     [(''resources_available'', WMap F_ResourcesAvail), (''resources_default'', WMap F_ResourcesDefault),
      (''resources_max'', WMap F_ResourcesMax), (''resources_cost'', WMap F_ResourcesCost)]"

definition wMail :: "(string \<times> db_writer) list" where
  "wMail =
     [(''mail_domain'', WStr F_MailDomain), (''mail_from'', WStr F_MailFrom),
      (''no_mail_force'', WBool F_NoMailForce), (''mail_subject_fmt'', WStr F_MailSubjectFmt),
      (''mail_body_fmt'', WStr F_MailBodyFmt), (''email_batch_seconds'', WInt F_EmailBatchSeconds)]"

definition wPolicy :: "(string \<times> db_writer) list" where
  "wPolicy =
     [(''default_node'', WStr F_DefaultNode), (''node_pack'', WBool F_NodePack),
      (''query_other_jobs'', WBool F_QueryOtherJobs), (''mom_job_sync'', WBool F_MOMJobSync),
      (''down_on_error'', WBool F_DownOnError),
      (''disable_server_id_check'', WBool F_DisableServerIdCheck),
      (''allow_node_submit'', WBool F_AllowNodeSubmit), (''allow_proxy_user'', WBool F_AllowProxyUser),
      (''auto_node_np'', WBool F_AutoNodeNP), (''np_default'', WInt F_NPDefault),
      (''allow_dynamic_nodes'', WBool F_AllowDynamicNodes),
      (''node_allowed_ip_ranges'', WStr F_NodeAllowedIPRanges), (''job_nanny'', WBool F_JobNanny),
      (''owner_purge'', WBool F_OwnerPurge), (''copy_on_rerun'', WBool F_CopyOnRerun),
      (''job_exclusive_on_use'', WBool F_JobExclusiveOnUse),
      (''disable_automatic_requeue'', WBool F_DisableAutoRequeue),
      (''automatic_requeue_exit_code'', WInt F_AutoRequeueExitCode),
      (''dont_write_nodes_file'', WBool F_DontWriteNodesFile)]"

definition wArrays :: "(string \<times> db_writer) list" where
  "wArrays =
     [(''max_job_array_size'', WInt F_MaxJobArraySize), (''max_slot_limit'', WInt F_MaxSlotLimit),
      (''clone_batch_size'', WInt F_CloneBatchSize), (''clone_batch_delay'', WInt F_CloneBatchDelay),
      (''moab_array_compatible'', WBool F_MoabArrayCompatible),
      (''display_job_server_suffix'', WBool F_DisplayJobServerSuffix),
      (''job_suffix_alias'', WStr F_JobSuffixAlias), (''use_jobs_subdirs'', WBool F_UseJobsSubdirs)]"

definition wKill :: "(string \<times> db_writer) list" where
  "wKill =
     [(''kill_delay'', WInt F_KillDelay), (''user_kill_delay'', WInt F_UserKillDelay),
      (''exit_code_canceled_job'', WInt F_ExitCodeCanceledJob),
      (''timeout_for_job_delete'', WInt F_TimeoutForJobDelete),
      (''timeout_for_job_requeue'', WInt F_TimeoutForJobRequeue)]"

definition wHardware :: "(string \<times> db_writer) list" where
  "wHardware =
     [(''default_gpu_mode'', WStr F_DefaultGpuMode), (''idle_slot_limit'', WInt F_IdleSlotLimit),
      (''cgroup_per_task'', WBool F_CgroupPerTask), (''pass_cpu_clock'', WBool F_PassCpuClock)]"

definition wOther :: "(string \<times> db_writer) list" where
  "wOther =
     [(''submit_hosts'', WStr F_SubmitHosts), (''node_submit_exceptions'', WStr F_NodeSubmitExceptions),
      (''node_suffix'', WStr F_NodeSuffix), (''comment'', WStr F_Comment),
      (''lock_file_update_time'', WInt F_LockFileUpdateTime),
      (''lock_file_check_time'', WInt F_LockFileCheckTime),
      (''interactive_jobs_can_roam'', WBool F_InteractiveJobsCanRoam),
      (''legacy_vmem'', WBool F_LegacyVmem), (''ghost_array_recovery'', WBool F_GhostArrayRecovery),
      (''tcp_incoming_timeout'', WInt F_TCPIncomingTimeout),
      (''job_full_report_time'', WInt F_JobFullReportTime)]"

definition dbFields :: "(string \<times> db_writer) list" where
  "dbFields =
     wCore @ wEvents @ wTiming @ wLogging @ wACL @ wLimits @ wMaps @ wMail @ wPolicy @ wArrays @ wKill @
     wHardware @ wOther"

section \<open>Setting attributes\<close>

definition parseBool :: "string \<Rightarrow> bool" where
  "parseBool val \<longleftrightarrow> val = ''True'' \<or> val = ''true'' \<or> val = ''1''"

definition mergeACLValue :: "string \<Rightarrow> string \<Rightarrow> int \<Rightarrow> string" where
  "mergeACLValue existing newVal oper =
     (if oper = 7 \<and> existing \<noteq> [] then existing @ '','' @ newVal else newVal)"

text \<open>\<^verbatim>\<open>fmt.Sscanf(v, "%d", &x)\<close> where \<^verbatim>\<open>x\<close> holds a value already.\<close>

definition scanOr :: "int \<Rightarrow> string \<Rightarrow> int" where
  "scanOr old v = (case ScanInt v of Some n \<Rightarrow> n | None \<Rightarrow> old)"

definition applySetting :: "SvrAttrl \<Rightarrow> set_action \<Rightarrow> SrvConfig \<Rightarrow> SrvConfig" where
  "applySetting a act c = (case act of
      SetInt f \<Rightarrow> c\<lparr>ci := (ci c)(f := scanOr (ci c f) (sa_Value a))\<rparr>
    | SetBool f \<Rightarrow> c\<lparr>cb := (cb c)(f := parseBool (sa_Value a))\<rparr>
    | SetStr f \<Rightarrow> c\<lparr>cs := (cs c)(f := sa_Value a)\<rparr>
    | MergeStr f \<Rightarrow> c\<lparr>cs := (cs c)(f := mergeACLValue (cs c f) (sa_Value a) (sa_Op a))\<rparr>
    | SetResc r \<Rightarrow>
        if sa_HasResc a then c\<lparr>cm := (cm c)(r := mput (sa_Resc a) (sa_Value a) (cm c r))\<rparr> else c
    | SetNextJob \<Rightarrow> c)"

definition mgrSetServer :: "SvrAttrl list \<Rightarrow> SrvConfig \<Rightarrow> SrvConfig" where
  "mgrSetServer attrs c =
     fold (\<lambda>a c. case map_of serverSettings (sa_Name a) of Some act \<Rightarrow> applySetting a act c | None \<Rightarrow> c) attrs c"

definition applyReset :: "SvrAttrl \<Rightarrow> reset_action \<Rightarrow> SrvConfig \<Rightarrow> SrvConfig" where
  "applyReset a act c = (case act of
      ResetInt f v \<Rightarrow> c\<lparr>ci := (ci c)(f := v)\<rparr>
    | ResetBool f v \<Rightarrow> c\<lparr>cb := (cb c)(f := v)\<rparr>
    | ResetStr f v \<Rightarrow> c\<lparr>cs := (cs c)(f := v)\<rparr>
    | DelResc r \<Rightarrow> if sa_HasResc a then c\<lparr>cm := (cm c)(r := mdel (sa_Resc a) (cm c r))\<rparr> else c)"

definition mgrUnsetServer :: "SvrAttrl list \<Rightarrow> SrvConfig \<Rightarrow> SrvConfig" where
  "mgrUnsetServer attrs c =
     (let d = NewConfig (cs c F_PBSHome) in
      fold (\<lambda>a c. case map_of (serverResets d) (sa_Name a) of Some act \<Rightarrow> applyReset a act c | None \<Rightarrow> c) attrs c)"

end
