(* ===== verification/Server_DB.thy ===== *)
theory Server_DB
  imports Server_Config
begin

text \<open>
  The server database of \<^verbatim>\<open>src/internal/server/server.go\<close>: \<^verbatim>\<open>saveServerDB\<close> writes the configuration and the next
  job number as elements of a small XML dialect, \<^verbatim>\<open>recoverServerDB\<close> reads them back after a restart.
\<close>

section \<open>The server database\<close>

text \<open>The text behind and before the first occurrence of a pattern.\<close>

fun afterFirst :: "string \<Rightarrow> string \<Rightarrow> string option" where
  "afterFirst p [] = (if p = [] then Some [] else None)"
| "afterFirst p (c # s) =
     (if HasPrefix (c # s) p then Some (drop (length p) (c # s)) else afterFirst p s)"

fun beforeFirst :: "string \<Rightarrow> string \<Rightarrow> string option" where
  "beforeFirst p [] = (if p = [] then Some [] else None)"
| "beforeFirst p (c # s) = (if HasPrefix (c # s) p then Some [] else map_option ((#) c) (beforeFirst p s))"

definition openTag :: "string \<Rightarrow> string" where
  "openTag tag = CHR ''<'' # tag @ ''>''"

definition closeTag :: "string \<Rightarrow> string" where
  "closeTag tag = CHR ''<'' # CHR ''/'' # tag @ ''>''"

definition extractXMLTag :: "string \<Rightarrow> string \<Rightarrow> string" where
  "extractXMLTag content tag = (case afterFirst (openTag tag) content of
      None \<Rightarrow> []
    | Some rest \<Rightarrow> (case beforeFirst (closeTag tag) rest of None \<Rightarrow> [] | Some v \<Rightarrow> TrimSpace v))"

lemma afterFirst_length: "afterFirst p s = Some r \<Longrightarrow> length r + length p \<le> length s"
proof (induction p s arbitrary: r rule: afterFirst.induct)
  case (2 p c s)
  show ?case
  proof (cases "HasPrefix (c # s) p")
    case True
    then have "take (length p) (c # s) = p" by (simp only: HasPrefix_def)
    from arg_cong [OF this, of length] have "length p \<le> length (c # s)" by simp
    moreover have "r = drop (length p) (c # s)" using 2(2) True by simp
    ultimately show ?thesis by simp
  next
    case False
    then show ?thesis using 2 by fastforce
  qed
qed (auto split: if_splits)

text \<open>The loop of \<^verbatim>\<open>parseResourceMapXML\<close> on the rest of the text.\<close>

function parseResourceMapXML :: "string \<Rightarrow> string \<Rightarrow> string smap \<Rightarrow> string smap" where
  "parseResourceMapXML content pre m = (case afterFirst (CHR ''<'' # pre @ ''.'') content of
      None \<Rightarrow> m
    | Some r \<Rightarrow> (case cut CHR ''>'' (pre @ ''.'' @ r) of
        None \<Rightarrow> m
      | Some (fullTag, rest) \<Rightarrow> (case (beforeFirst (closeTag fullTag) rest, afterFirst (closeTag fullTag) rest) of
          (Some v, Some rest') \<Rightarrow>
            parseResourceMapXML rest' pre (mput (TrimPrefix fullTag (pre @ ''.'')) (TrimSpace v) m)
        | _ \<Rightarrow> m)))"
  by pat_completeness auto

lemma cut_length: "cut c s = Some (a, b) \<Longrightarrow> length a + length b < length s"
proof -
  assume "cut c s = Some (a, b)"
  then have *: "c \<in> set s" "a = takeWhile (\<lambda>x. x \<noteq> c) s" "b = tl (dropWhile (\<lambda>x. x \<noteq> c) s)"
    by (auto simp: cut_def split: if_splits)
  then have "dropWhile (\<lambda>x. x \<noteq> c) s \<noteq> []" by (auto simp: dropWhile_eq_Nil_conv)
  moreover have "length s = length a + length (dropWhile (\<lambda>x. x \<noteq> c) s)"
    unfolding *(2) by (metis length_append takeWhile_dropWhile_id)
  ultimately show ?thesis unfolding *(3) by (cases "dropWhile (\<lambda>x. x \<noteq> c) s") auto
qed

termination parseResourceMapXML
proof (relation "measure (\<lambda>(s, _, _). length s)", goal_cases)
  case (2 s pre m r ft fullTag rest bf af v rest')
  then show ?case
    using afterFirst_length [of "CHR ''<'' # pre @ ''.''" s r] cut_length [of "CHR ''>''" "pre @ ''.'' @ r" fullTag rest]
      afterFirst_length [of "closeTag fullTag" rest rest'] by (simp add: closeTag_def)
qed simp

declare parseResourceMapXML.simps [simp del]

definition applyServerDBAttr :: "string \<Rightarrow> string \<Rightarrow> SrvConfig \<times> JobManager \<Rightarrow> SrvConfig \<times> JobManager" where
  "applyServerDBAttr key val st = (case st of (c, jm) \<Rightarrow> (case map_of dbSettings key of
      None \<Rightarrow> (c, jm)
    | Some SetNextJob \<Rightarrow> (case Atoi val of (n, None) \<Rightarrow> (c, SetNextJobIDNum jm n) | _ \<Rightarrow> (c, jm))
    | Some act \<Rightarrow>
        (applySetting \<lparr>sa_Name = key, sa_HasResc = False, sa_Resc = [], sa_Value = val, sa_Op = 0\<rparr> act c, jm)))"

definition rescMaps :: "(string \<times> cfg_resc) list" where
  "rescMaps = [(''resources_available'', F_ResourcesAvail), (''resources_default'', F_ResourcesDefault),
     (''resources_max'', F_ResourcesMax), (''resources_cost'', F_ResourcesCost)]"

definition recoverTag :: "string \<Rightarrow> string \<Rightarrow> SrvConfig \<times> JobManager \<Rightarrow> SrvConfig \<times> JobManager" where
  "recoverTag content tag st =
     (let val = extractXMLTag content tag in if val \<noteq> [] then applyServerDBAttr tag val st else st)"

definition recoverRescMap :: "string \<Rightarrow> string \<times> cfg_resc \<Rightarrow> SrvConfig \<Rightarrow> SrvConfig" where
  "recoverRescMap content pr c =
     (case pr of (pre, r) \<Rightarrow> c\<lparr>cm := (cm c)(r := parseResourceMapXML content pre (cm c r))\<rparr>)"

definition recoverServerDBXML :: "string \<Rightarrow> SrvConfig \<times> JobManager \<Rightarrow> SrvConfig \<times> JobManager" where
  "recoverServerDBXML content st =
     (let (c, jm) = fold (recoverTag content) xmlTags st in (fold (recoverRescMap content) rescMaps c, jm))"

definition recoverServerDB :: "string option \<Rightarrow> SrvConfig \<times> JobManager \<Rightarrow> SrvConfig \<times> JobManager" where
  "recoverServerDB stored st = (case stored of
      None \<Rightarrow> st
    | Some content \<Rightarrow>
        if afterFirst ''<server_db>'' content \<noteq> None \<or> afterFirst ''<nextjobid>'' content \<noteq> None
        then recoverServerDBXML content st
        else fold (\<lambda>line0 st. case cut CHR ''='' (TrimSpace line0) of
                 Some (ch # key, val) \<Rightarrow> applyServerDBAttr (ch # key) val st
               | _ \<Rightarrow> st) (Split CHR 0x0A content) st)"

text \<open>The elements that \<^verbatim>\<open>saveServerDB\<close> writes, and its text.\<close>

definition dbItems :: "SrvConfig \<Rightarrow> JobManager \<Rightarrow> string \<times> db_writer \<Rightarrow> (string \<times> string) list" where
  "dbItems c jm tw = (case tw of (tag, w) \<Rightarrow> (case w of
      WInt f \<Rightarrow> [(tag, FormatInt (ci c f))]
    | WBool f \<Rightarrow> [(tag, if cb c f then ''True'' else ''False'')]
    | WStr f \<Rightarrow> (if cs c f \<noteq> [] then [(tag, cs c f)] else [])
    | WMap r \<Rightarrow> map (\<lambda>(k, v). (tag @ ''.'' @ k, v)) (cm c r)
    | WNextJob \<Rightarrow> [(tag, FormatInt (GetNextJobIDNum jm))]))"

definition dbElement :: "string \<times> string \<Rightarrow> string" where
  "dbElement tv = (case tv of (tag, v) \<Rightarrow> ''  '' @ openTag tag @ v @ closeTag tag @ [CHR 0x0A])"

definition dbHead :: string where
  "dbHead = ''<?xml version=\"1.0\" encoding=\"UTF-8\"?>'' @ [CHR 0x0A] @ ''<server_db>'' @ [CHR 0x0A]"

definition saveServerDB :: "SrvConfig \<Rightarrow> JobManager \<Rightarrow> string" where
  "saveServerDB c jm =
     dbHead @ concat (map dbElement (concat (map (dbItems c jm) dbFields))) @ ''</server_db>'' @ [CHR 0x0A]"

section \<open>Reading elements back\<close>

abbreviation LT :: char where "LT \<equiv> CHR ''<''"

lemma afterFirst_skip: "LT \<notin> set u \<Longrightarrow> afterFirst (LT # q) (u @ s) = afterFirst (LT # q) s"
  by (induction u) (auto simp: HasPrefix_def)

lemma beforeFirst_hit: "LT \<notin> set v \<Longrightarrow> beforeFirst (LT # q) (v @ LT # q @ s) = Some v"
  by (induction v) (auto simp: HasPrefix_def)

lemma afterFirst_hit: "LT \<notin> set v \<Longrightarrow> afterFirst (LT # q) (v @ LT # q @ s) = Some s"
  by (simp add: afterFirst_skip) (simp add: HasPrefix_def)

lemma at_close:
  assumes "LT \<notin> set v"
  shows "beforeFirst (closeTag t) (v @ closeTag t @ s) = Some v" "afterFirst (closeTag t) (v @ closeTag t @ s) = Some s"
  using beforeFirst_hit [OF assms, of "CHR ''/'' # t @ ''>''" s] afterFirst_hit [OF assms, of "CHR ''/'' # t @ ''>''" s]
  by (simp_all add: closeTag_def)

text \<open>Names of elements: no angle bracket and no leading slash.\<close>

definition tag_ok :: "string \<Rightarrow> bool" where
  "tag_ok n \<longleftrightarrow> LT \<notin> set n \<and> CHR ''>'' \<notin> set n \<and> (n = [] \<or> hd n \<noteq> CHR ''/'')"

lemma HasPrefix_sep:
  "c \<notin> set p \<Longrightarrow> c \<notin> set n \<Longrightarrow> HasPrefix (n @ c # s) (p @ [c]) \<longleftrightarrow> n = p"
  by (induction n arbitrary: p) (case_tac p; auto simp: HasPrefix_def)+

lemma HasPrefix_tag:
  assumes "CHR ''>'' \<notin> set p"
  shows "HasPrefix (n @ CHR ''>'' # s) p \<longleftrightarrow> HasPrefix n p"
    and "CHR ''>'' \<notin> set n \<Longrightarrow> HasPrefix (n @ CHR ''>'' # s) (p @ ''>'') \<longleftrightarrow> n = p"
proof -
  show "HasPrefix (n @ CHR ''>'' # s) p \<longleftrightarrow> HasPrefix n p"
    using assms by (induction n arbitrary: p) (auto simp: HasPrefix_def take_Cons split: nat.splits)
qed (simp add: assms HasPrefix_sep)

lemma afterFirst_tag:
  assumes "LT \<notin> set n"
  shows "afterFirst (LT # q) (LT # n @ CHR ''>'' # s) =
    (if HasPrefix (n @ CHR ''>'' # s) q then Some (drop (length q) (n @ CHR ''>'' # s))
     else afterFirst (LT # q) s)"
proof -
  have "afterFirst (LT # q) (n @ CHR ''>'' # s) = afterFirst (LT # q) s"
    using afterFirst_skip [of "n @ ''>''" q s] assms by simp
  then show ?thesis by (auto simp: HasPrefix_def)
qed

lemma afterFirst_element:
  assumes "tag_ok n" "LT \<notin> set v" "tag_ok tag"
  shows "afterFirst (openTag tag) (dbElement (n, v) @ s) =
    (if n = tag then Some (v @ closeTag tag @ CHR 0x0A # s) else afterFirst (openTag tag) s)"
proof -
  have close: "afterFirst (openTag tag) (LT # (CHR ''/'' # n) @ CHR ''>'' # s) = afterFirst (openTag tag) s" for s
    using assms HasPrefix_tag(2) [of tag "CHR ''/'' # n" s]
    unfolding openTag_def by (subst afterFirst_tag) (auto simp: tag_ok_def)
  have nl: "afterFirst (openTag tag) (CHR 0x0A # s) = afterFirst (openTag tag) s"
    using afterFirst_skip [of "[CHR 0x0A]"] by (simp add: openTag_def)
  have "afterFirst (openTag tag) (dbElement (n, v) @ s) =
      afterFirst (openTag tag) (LT # n @ CHR ''>'' # v @ closeTag n @ CHR 0x0A # s)"
    using afterFirst_skip [of "''  ''"] by (simp add: dbElement_def openTag_def)
  also have "\<dots> = (if n = tag then Some (v @ closeTag n @ CHR 0x0A # s)
      else afterFirst (openTag tag) (v @ closeTag n @ CHR 0x0A # s))"
    using assms HasPrefix_tag(2) [of tag n] unfolding openTag_def
    by (subst afterFirst_tag) (auto simp: tag_ok_def)
  also have "afterFirst (openTag tag) (v @ closeTag n @ CHR 0x0A # s) = afterFirst (openTag tag) s"
    using afterFirst_skip [OF assms(2)] close [of "CHR 0x0A # s"] nl by (simp add: openTag_def closeTag_def)
  finally show ?thesis by auto
qed

definition items_ok :: "(string \<times> string) list \<Rightarrow> bool" where
  "items_ok items \<longleftrightarrow> (\<forall>(n, v) \<in> set items. tag_ok n \<and> LT \<notin> set v)"

lemma afterFirst_items:
  "items_ok items \<Longrightarrow> tag_ok tag \<Longrightarrow>
   (case map_of items tag of
      None \<Rightarrow> afterFirst (openTag tag) (concat (map dbElement items) @ s) = afterFirst (openTag tag) s
    | Some v \<Rightarrow> \<exists>s'. afterFirst (openTag tag) (concat (map dbElement items) @ s) = Some (v @ closeTag tag @ s'))"
proof (induction items)
  case (Cons nv items)
  obtain n v where nv: "nv = (n, v)" by fastforce
  have ok: "tag_ok n" "LT \<notin> set v" "items_ok items" using Cons.prems(1) by (auto simp: nv items_ok_def)
  show ?case
    using Cons.IH [OF ok(3) Cons.prems(2)] afterFirst_element [OF ok(1,2) Cons.prems(2)]
    by (auto simp: nv split: option.splits)
qed simp

lemma afterFirst_frame:
  assumes "tag_ok tag" "tag \<noteq> ''server_db''" "\<not> HasPrefix tag ''?''"
  shows "afterFirst (openTag tag) (dbHead @ s) = afterFirst (openTag tag) s"
    and "afterFirst (openTag tag) (''</server_db>'' @ [CHR 0x0A]) = None"
proof -
  let ?x = "''?xml version=\"1.0\" encoding=\"UTF-8\"?''"
  have 1: "?x \<noteq> tag" using assms(3) by (auto simp: HasPrefix_def)
  have "afterFirst (openTag tag) (LT # ?x @ CHR ''>'' # CHR 0x0A # LT # ''server_db'' @ CHR ''>'' # CHR 0x0A # s) =
      afterFirst (openTag tag) (CHR 0x0A # LT # ''server_db'' @ CHR ''>'' # CHR 0x0A # s)"
    unfolding openTag_def using assms(1) 1 HasPrefix_tag(2) [of tag ?x]
    by (subst afterFirst_tag) (auto simp: tag_ok_def)
  also have "\<dots> = afterFirst (openTag tag) (LT # ''server_db'' @ CHR ''>'' # CHR 0x0A # s)"
    unfolding openTag_def using afterFirst_skip [of "[CHR 0x0A]"] by simp
  also have "\<dots> = afterFirst (openTag tag) (CHR 0x0A # s)"
    unfolding openTag_def using assms HasPrefix_tag(2) [of tag "''server_db''"]
    by (subst afterFirst_tag) (auto simp: tag_ok_def)
  also have "\<dots> = afterFirst (openTag tag) s"
    unfolding openTag_def using afterFirst_skip [of "[CHR 0x0A]"] by simp
  finally show "afterFirst (openTag tag) (dbHead @ s) = afterFirst (openTag tag) s" by (simp add: dbHead_def)
  have "afterFirst (openTag tag) (LT # ''/server_db'' @ CHR ''>'' # [CHR 0x0A]) = None"
    unfolding openTag_def using assms HasPrefix_tag(2) [of tag "''/server_db''"]
    by (subst afterFirst_tag) (auto simp: tag_ok_def HasPrefix_def)
  then show "afterFirst (openTag tag) (''</server_db>'' @ [CHR 0x0A]) = None" by simp
qed

text \<open>The text of a database with the given elements.\<close>

definition dbText :: "(string \<times> string) list \<Rightarrow> string" where
  "dbText items = dbHead @ concat (map dbElement items) @ ''</server_db>'' @ [CHR 0x0A]"

lemma extract_items:
  assumes "items_ok items" "tag_ok tag" "tag \<noteq> ''server_db''" "\<not> HasPrefix tag ''?''"
  shows "extractXMLTag (dbText items) tag = (case map_of items tag of None \<Rightarrow> [] | Some v \<Rightarrow> TrimSpace v)"
proof (cases "map_of items tag")
  case None
  then show ?thesis
    using afterFirst_items [OF assms(1,2)] afterFirst_frame [OF assms(2-4)]
    by (simp add: extractXMLTag_def dbText_def)
next
  case (Some v)
  then obtain s' where "afterFirst (openTag tag) (dbText items) = Some (v @ closeTag tag @ s')"
    using afterFirst_items [OF assms(1,2), of "''</server_db>'' @ [CHR 0x0A]"] afterFirst_frame(1) [OF assms(2-4)]
    by (auto simp: dbText_def)
  moreover have "LT \<notin> set v" using assms(1) Some by (auto simp: items_ok_def dest: map_of_SomeD)
  ultimately show ?thesis
    using Some by (simp add: extractXMLTag_def at_close)
qed

subsection \<open>Resource maps\<close>

lemma parse_skip: "LT \<notin> set u \<Longrightarrow> parseResourceMapXML (u @ s) pre m = parseResourceMapXML s pre m"
  by (simp add: parseResourceMapXML.simps [of "u @ s"] parseResourceMapXML.simps [of s] afterFirst_skip)

definition pre_ok :: "string \<Rightarrow> bool" where
  "pre_ok pre \<longleftrightarrow> CHR ''>'' \<notin> set pre \<and> pre \<noteq> [] \<and> hd pre \<notin> {CHR ''/'', CHR ''?''}"

lemma parse_miss:
  assumes "LT \<notin> set n" "\<not> HasPrefix n (pre @ ''.'')" "pre_ok pre"
  shows "parseResourceMapXML (LT # n @ CHR ''>'' # s) pre m = parseResourceMapXML s pre m"
proof -
  have "afterFirst (LT # pre @ ''.'') (LT # n @ CHR ''>'' # s) = afterFirst (LT # pre @ ''.'') s"
    using assms HasPrefix_tag(1) [of "pre @ ''.''" n s] by (subst afterFirst_tag) (simp_all add: pre_ok_def)
  then show ?thesis by (simp add: parseResourceMapXML.simps)
qed

lemma parse_element:
  assumes "tag_ok n" "LT \<notin> set v" "pre_ok pre"
  shows "parseResourceMapXML (dbElement (n, v) @ s) pre m = parseResourceMapXML s pre
    (if HasPrefix n (pre @ ''.'') then mput (TrimPrefix n (pre @ ''.'')) (TrimSpace v) m else m)"
proof -
  let ?rest = "v @ closeTag n @ CHR 0x0A # s"
  have start: "parseResourceMapXML (dbElement (n, v) @ s) pre m = parseResourceMapXML (LT # n @ CHR ''>'' # ?rest) pre m"
    using parse_skip [of "''  ''"] by (simp add: dbElement_def openTag_def)
  show ?thesis
  proof (cases "HasPrefix n (pre @ ''.'')")
    case True
    then obtain k where n: "n = pre @ ''.'' @ k" by (auto simp: HasPrefix_def) (metis append_take_drop_id append_Cons append_Nil append_assoc)
    have hit: "afterFirst (LT # pre @ ''.'') (LT # n @ CHR ''>'' # ?rest) = Some (k @ CHR ''>'' # ?rest)"
      by (simp add: n HasPrefix_def)
    have cut: "cut CHR ''>'' (pre @ ''.'' @ k @ CHR ''>'' # ?rest) = Some (n, ?rest)"
      using cut_append [of "CHR ''>''" n ?rest] assms(1) by (simp add: n tag_ok_def)
    have "beforeFirst (closeTag n) ?rest = Some v" "afterFirst (closeTag n) ?rest = Some (CHR 0x0A # s)"
      using at_close [OF assms(2)] by simp_all
    then show ?thesis
      using True hit cut parse_skip [of "[CHR 0x0A]"] unfolding start
      by (subst parseResourceMapXML.simps) simp
  next
    case False
    have "parseResourceMapXML (LT # n @ CHR ''>'' # ?rest) pre m = parseResourceMapXML ?rest pre m"
      using assms False by (simp add: parse_miss tag_ok_def)
    also have "\<dots> = parseResourceMapXML (LT # (CHR ''/'' # n) @ CHR ''>'' # CHR 0x0A # s) pre m"
      using parse_skip [OF assms(2)] by (simp add: closeTag_def)
    also have "\<dots> = parseResourceMapXML (CHR 0x0A # s) pre m"
      using assms by (intro parse_miss) (auto simp: tag_ok_def pre_ok_def HasPrefix_def neq_Nil_conv)
    also have "\<dots> = parseResourceMapXML s pre m" using parse_skip [of "[CHR 0x0A]"] by simp
    finally show ?thesis using False start by simp
  qed
qed

lemma parse_items:
  "items_ok items \<Longrightarrow> pre_ok pre \<Longrightarrow>
   parseResourceMapXML (concat (map dbElement items) @ s) pre m = parseResourceMapXML s pre
     (fold (\<lambda>(n, v). mput (TrimPrefix n (pre @ ''.'')) (TrimSpace v)) (filter (\<lambda>(n, _). HasPrefix n (pre @ ''.'')) items) m)"
proof (induction items arbitrary: m)
  case (Cons nv items)
  obtain n v where nv: "nv = (n, v)" by fastforce
  have ok: "tag_ok n" "LT \<notin> set v" "items_ok items" using Cons.prems(1) by (auto simp: nv items_ok_def)
  show ?case
    using Cons.IH [OF ok(3) Cons.prems(2)] parse_element [OF ok(1,2) Cons.prems(2)] by (simp add: nv)
qed simp

lemma parse_frame:
  assumes "pre_ok pre"
  shows "parseResourceMapXML (dbHead @ s) pre m = parseResourceMapXML s pre m"
    and "parseResourceMapXML (''</server_db>'' @ [CHR 0x0A]) pre m = m"
proof -
  let ?x = "''?xml version=\"1.0\" encoding=\"UTF-8\"?''"
  have miss: "\<not> HasPrefix n (pre @ ''.'')" if "CHR ''.'' \<notin> set n \<or> (\<exists>c cs. n = c # cs \<and> c \<in> {CHR ''/'', CHR ''?''})" for n
  proof
    assume "HasPrefix n (pre @ ''.'')"
    then have "take (length (pre @ ''.'')) n = pre @ ''.''" by (simp only: HasPrefix_def)
    then obtain k where "n = pre @ ''.'' @ k" by (metis append_take_drop_id append_assoc)
    then show False using that assms by (cases pre) (auto simp: pre_ok_def)
  qed
  have nl: "parseResourceMapXML (CHR 0x0A # s) pre m = parseResourceMapXML s pre m" for s
    using parse_skip [of "[CHR 0x0A]"] by simp
  have "parseResourceMapXML (LT # ?x @ CHR ''>'' # CHR 0x0A # LT # ''server_db'' @ CHR ''>'' # CHR 0x0A # s) pre m =
      parseResourceMapXML (CHR 0x0A # LT # ''server_db'' @ CHR ''>'' # CHR 0x0A # s) pre m"
    by (rule parse_miss) (use assms miss [of ?x] in auto)
  also have "\<dots> = parseResourceMapXML (LT # ''server_db'' @ CHR ''>'' # CHR 0x0A # s) pre m" by (rule nl)
  also have "\<dots> = parseResourceMapXML (CHR 0x0A # s) pre m"
    by (rule parse_miss) (use assms miss [of "''server_db''"] in auto)
  finally show "parseResourceMapXML (dbHead @ s) pre m = parseResourceMapXML s pre m" by (simp add: dbHead_def nl)
  have "parseResourceMapXML (LT # ''/server_db'' @ CHR ''>'' # [CHR 0x0A]) pre m = parseResourceMapXML [CHR 0x0A] pre m"
    by (rule parse_miss) (use assms miss [of "''/server_db''"] in auto)
  moreover have "parseResourceMapXML [CHR 0x0A] pre m = m"
    using nl [of "[]"] by (simp add: parseResourceMapXML.simps [of "[]"])
  ultimately show "parseResourceMapXML (''</server_db>'' @ [CHR 0x0A]) pre m = m" by simp
qed

lemma parse_dbText:
  assumes "items_ok items" "pre_ok pre"
  shows "parseResourceMapXML (dbText items) pre m =
    fold (\<lambda>(n, v). mput (TrimPrefix n (pre @ ''.'')) (TrimSpace v)) (filter (\<lambda>(n, _). HasPrefix n (pre @ ''.'')) items) m"
  using parse_items [OF assms] parse_frame [OF assms(2)] by (simp add: dbText_def)

lemma mput_new: "k \<notin> set (map fst m) \<Longrightarrow> mput k v m = m @ [(k, v)]"
  by (induction m) auto

lemma fold_mput_fresh:
  "is_map (m @ xs) \<Longrightarrow> fold (\<lambda>(k, v). mput k v) xs m = m @ xs"
proof (induction xs arbitrary: m)
  case (Cons kv xs)
  obtain k v where kv: "kv = (k, v)" by fastforce
  have "mput k v m = m @ [(k, v)]"
    using Cons.prems by (intro mput_new) (auto simp: kv)
  then show ?case using Cons.IH [of "m @ [(k, v)]"] Cons.prems by (simp add: kv)
qed simp

section \<open>What is saved and what is read back\<close>

text \<open>The part of \<^verbatim>\<open>New\<close> that makes the configuration a server starts from.\<close>

definition startConfig :: "string \<Rightarrow> int \<Rightarrow> string \<Rightarrow> bool \<Rightarrow> string \<Rightarrow> SrvConfig" where
  "startConfig pbsHome port startType debug hostname =
     (let c = NewConfig pbsHome
      in c\<lparr>ci := (ci c)(F_Port := port), cb := (cb c)(F_Debug := debug),
           cs := (cs c)(F_StartType := startType, F_ServerName := hostname)\<rparr>)"

text \<open>
  A configuration whose text the database can hold: numbers of 64 bits, strings and resource values without an
  angle bracket and without white space at their ends, resource names without angle brackets.
\<close>

definition text_ok :: "string \<Rightarrow> bool" where
  "text_ok v \<longleftrightarrow> LT \<notin> set v \<and> TrimSpace v = v"

definition saved_ok :: "SrvConfig \<Rightarrow> JobManager \<Rightarrow> bool" where
  "saved_ok c jm \<longleftrightarrow> (\<forall>f. is_int64 (ci c f)) \<and> is_int64 (GetNextJobIDNum jm) \<and> (\<forall>f. text_ok (cs c f)) \<and>
     (\<forall>r. is_map (cm c r) \<and> (\<forall>(k, v) \<in> set (cm c r). text_ok v \<and> LT \<notin> set k \<and> CHR ''>'' \<notin> set k))"

lemma is_digit_chars: "is_digit c \<Longrightarrow> c \<noteq> LT \<and> c \<noteq> CHR ''-'' \<and> c \<noteq> CHR ''+''"
  by (auto simp: is_digit_def)

lemma FormatInt_chars: "c \<in> set (FormatInt i) \<Longrightarrow> c = CHR ''-'' \<or> is_digit c"
  by (auto simp: FormatInt_def dest!: set_dec_digits split: if_splits)

lemma text_ok_FormatInt: "text_ok (FormatInt i)"
  unfolding text_ok_def
proof
  show "LT \<notin> set (FormatInt i)" using FormatInt_chars [of LT i] is_digit_chars [of LT] by auto
  show "TrimSpace (FormatInt i) = FormatInt i"
    by (rule TrimSpace_no_space) (auto dest!: FormatInt_chars is_digit_not_space simp: is_space_def)
qed

lemma ScanInt_FormatInt: "is_int64 i \<Longrightarrow> ScanInt (FormatInt i) = Some i"
proof -
  assume i: "is_int64 i"
  let ?d = "dec_digits (nat \<bar>i\<bar>)"
  have dig: "c \<in> set ?d \<Longrightarrow> is_digit c" for c by (rule set_dec_digits)
  then have tw: "takeWhile is_digit ?d = ?d" by (simp add: takeWhile_eq_all_conv)
  obtain c cs where d: "?d = c # cs" using dec_digits_not_Nil by (meson neq_Nil_conv)
  have c: "\<not> is_space c" "c \<noteq> CHR ''-''" "c \<noteq> CHR ''+''"
    using dig [of c] is_digit_not_space is_digit_chars by (auto simp: d)
  have p: "ParseInt (FormatInt i) = (i, None)" using i by (rule Atoi_FormatInt)
  show ?thesis
  proof (cases "i < 0")
    case True
    then have "FormatInt i = ''-'' @ ?d" by (simp add: FormatInt_def)
    then show ?thesis using p by (simp add: ScanInt_def is_space_def tw)
  next
    case False
    then have "FormatInt i = ?d" by (simp add: FormatInt_def)
    moreover have "dropWhile (\<lambda>c. is_space c \<and> c \<noteq> CHR 0x0A) ?d = ?d" using c by (simp add: d)
    moreover have "(case ?d of c # cs \<Rightarrow> if c = CHR ''-'' \<or> c = CHR ''+'' then cs else ?d | [] \<Rightarrow> []) = ?d"
      "(case ?d of c # _ \<Rightarrow> if c = CHR ''-'' then ''-'' else [] | [] \<Rightarrow> []) = []" using c by (simp_all add: d)
    ultimately show ?thesis using p by (simp add: ScanInt_def Let_def tw)
  qed
qed

subsection \<open>The tables agree\<close>

text \<open>The branch of \<^verbatim>\<open>applyServerDBAttr\<close> that reads what a writer of \<^verbatim>\<open>saveServerDB\<close> wrote.\<close>

fun reads :: "db_writer \<Rightarrow> set_action option" where
  "reads (WInt f) = Some (SetInt f)"
| "reads (WBool f) = Some (SetBool f)"
| "reads (WStr f) = Some (SetStr f)"
| "reads (WMap r) = None"
| "reads WNextJob = Some SetNextJob"

definition plain_tag :: "string \<Rightarrow> bool" where
  "plain_tag t \<longleftrightarrow> list_all (\<lambda>c. 95 \<le> (of_char c :: int)) t \<and> t \<noteq> [] \<and> t \<noteq> ''server_db''"

text \<open>A short key of a name, to compare many names quickly.\<close>

definition name_key :: "string \<Rightarrow> int" where
  "name_key s = foldl (\<lambda>h c. (31 * h + of_char c) mod 1000003) 7 s"

lemma distinct_by_key: "sorted_wrt (<) (sort (map name_key names)) \<Longrightarrow> distinct names"
proof -
  assume "sorted_wrt (<) (sort (map name_key names))"
  then have "distinct (sort (map name_key names))" by (simp add: strict_sorted_iff)
  then show ?thesis by (simp add: distinct_map)
qed

lemma keys:
  "map name_key (map fst wCore) = [639554, 37371, 123365, 827159]"
  "map name_key (map fst wEvents) = [90448, 885380, 795474, 939192, 195439, 865430, 708152, 417616]"
  "map name_key (map fst wTiming) = [211509, 841767, 438912, 961707, 572732, 465420, 323270, 426194, 131582]"
  "map name_key (map fst wLogging) = [785742, 454015, 544306, 320071, 657392, 239081, 965361, 946339, 715165]"
  "map name_key (map fst wACL) = [839331, 38231, 518377, 299391, 463659, 410776, 530730, 167531, 13628, 736390, 193144]"
  "map name_key (map fst wLimits) = [997055, 240262, 242276, 287952]"
  "map name_key (map fst wMaps) = [729755, 564263, 837073, 664693]"
  "map name_key (map fst wMail) = [398307, 75437, 816341, 293499, 909484, 623509]"
  "map name_key (map fst wPolicy) = [454405, 368891, 614330, 741124, 664758, 903189, 561335, 438860, 486987, 312131, 832828, 790770, 96118, 354876, 535306, 444617, 480724, 369461, 389915]"
  "map name_key (map fst wArrays) = [960621, 277157, 909907, 221639, 264077, 11563, 567391, 259412]"
  "map name_key (map fst wKill) = [841930, 832736, 739690, 275413, 632466]"
  "map name_key (map fst wHardware) = [591136, 283892, 763195, 714143]"
  "map name_key (map fst wOther) = [291578, 814046, 948693, 159356, 200190, 868783, 195268, 575977, 261970, 775499, 269167]"
  by code_simp+

lemma names_distinct: "distinct (''next_job_id'' # ''server_db'' # map fst dbFields)"
proof (rule distinct_by_key)
  have "name_key ''next_job_id'' = 748774" "name_key ''server_db'' = 754193" by code_simp+
  then show "sorted_wrt (<) (sort (map name_key (''next_job_id'' # ''server_db'' # map fst dbFields)))"
    unfolding dbFields_def map_append list.map keys by code_simp
qed

text \<open>The writers of single elements, and those of them whose tags \<^verbatim>\<open>recoverServerDBXML\<close> looks for.\<close>

definition scalars :: "(string \<times> db_writer) list" where
  "scalars = wCore @ wEvents @ wTiming @ wLogging @ wACL @ wLimits @ wMail @ wPolicy @ wArrays @ wKill @ wHardware @ wOther"

definition recovered :: "(string \<times> db_writer) list" where
  "recovered = wCore @ wTiming @ wLogging @ wACL @ wLimits @ wMail @ wPolicy @ wArrays @ wKill @ wHardware @ wOther"

lemma sections_read:
  "list_all (\<lambda>(_, w). reads w \<noteq> None) wCore"
  "list_all (\<lambda>(_, w). reads w \<noteq> None) wEvents"
  "list_all (\<lambda>(_, w). reads w \<noteq> None) wTiming"
  "list_all (\<lambda>(_, w). reads w \<noteq> None) wLogging"
  "list_all (\<lambda>(_, w). reads w \<noteq> None) wACL"
  "list_all (\<lambda>(_, w). reads w \<noteq> None) wLimits"
  "list_all (\<lambda>(_, w). reads w \<noteq> None) wMail"
  "list_all (\<lambda>(_, w). reads w \<noteq> None) wPolicy"
  "list_all (\<lambda>(_, w). reads w \<noteq> None) wArrays"
  "list_all (\<lambda>(_, w). reads w \<noteq> None) wKill"
  "list_all (\<lambda>(_, w). reads w \<noteq> None) wHardware"
  "list_all (\<lambda>(_, w). reads w \<noteq> None) wOther"
  by (simp_all add: wCore_def wEvents_def wTiming_def wLogging_def wACL_def wLimits_def wMail_def wPolicy_def wArrays_def wKill_def wHardware_def wOther_def)

lemma sections_tags:
  "xmlCore = map fst wCore"
  "xmlTiming = map fst wTiming"
  "xmlLogging = map fst wLogging"
  "xmlACL = map fst wACL"
  "xmlLimits = map fst wLimits"
  "xmlMail = map fst wMail"
  "xmlPolicy = map fst wPolicy"
  "xmlArrays = map fst wArrays"
  "xmlKill = map fst wKill"
  "xmlHardware = map fst wHardware"
  "xmlOther = map fst wOther"
  by (simp_all add: wCore_def xmlCore_def wTiming_def xmlTiming_def wLogging_def xmlLogging_def wACL_def xmlACL_def wLimits_def xmlLimits_def wMail_def xmlMail_def wPolicy_def xmlPolicy_def wArrays_def xmlArrays_def wKill_def xmlKill_def wHardware_def xmlHardware_def wOther_def xmlOther_def)

lemma sections_set:
  "dbCore = (''nextjobid'', SetNextJob) # (''next_job_id'', SetNextJob) # map (\<lambda>(t, w). (t, the (reads w))) (tl wCore)"
  "wCore = (''nextjobid'', WNextJob) # tl wCore"
  "dbEvents = map (\<lambda>(t, w). (t, the (reads w))) wEvents"
  "dbTiming = map (\<lambda>(t, w). (t, the (reads w))) wTiming"
  "dbLogging = map (\<lambda>(t, w). (t, the (reads w))) wLogging"
  "dbACL = map (\<lambda>(t, w). (t, the (reads w))) wACL"
  "dbLimits = map (\<lambda>(t, w). (t, the (reads w))) wLimits"
  "dbMail = map (\<lambda>(t, w). (t, the (reads w))) wMail"
  "dbPolicy = map (\<lambda>(t, w). (t, the (reads w))) wPolicy"
  "dbArrays = map (\<lambda>(t, w). (t, the (reads w))) wArrays"
  "dbKill = map (\<lambda>(t, w). (t, the (reads w))) wKill"
  "dbHardware = map (\<lambda>(t, w). (t, the (reads w))) wHardware"
  "dbOther = map (\<lambda>(t, w). (t, the (reads w))) wOther"
  by (simp_all add: wCore_def dbCore_def wEvents_def dbEvents_def wTiming_def dbTiming_def wLogging_def dbLogging_def wACL_def dbACL_def wLimits_def dbLimits_def wMail_def dbMail_def wPolicy_def dbPolicy_def wArrays_def dbArrays_def wKill_def dbKill_def wHardware_def dbHardware_def wOther_def dbOther_def)

lemma tags_shape: "xmlTags = map fst recovered"
  by (simp add: xmlTags_def recovered_def sections_tags)

lemma scalars_fields: "set scalars \<subseteq> set dbFields"
  by (auto simp: scalars_def dbFields_def)

lemma scalars_read: "(t, w) \<in> set scalars \<Longrightarrow> reads w \<noteq> None"
  using sections_read by (auto simp: scalars_def list_all_iff)

lemma fields_letters: "list_all (list_all (\<lambda>c. 95 \<le> (of_char c :: int))) (map fst dbFields)" "list_all (\<lambda>t. t \<noteq> []) (map fst dbFields)"
  by code_simp+

lemma recovered_scalar: "tw \<in> set recovered \<Longrightarrow> tw \<in> set scalars"
  by (auto simp: recovered_def scalars_def)

lemma scalars_Cons:
  obtains rest where "wCore = (''nextjobid'', WNextJob) # rest"
    "scalars = (''nextjobid'', WNextJob) # rest @ wEvents @ wTiming @ wLogging @ wACL @ wLimits @ wMail @ wPolicy @ wArrays @ wKill @ wHardware @ wOther"
proof -
  define rest where "rest = tl wCore"
  have wc: "wCore = (''nextjobid'', WNextJob) # rest" unfolding rest_def by (rule sections_set(2))
  have "scalars = (''nextjobid'', WNextJob) # rest @ wEvents @ wTiming @ wLogging @ wACL @ wLimits @ wMail @ wPolicy @ wArrays @ wKill @ wHardware @ wOther"
    unfolding scalars_def wc by (rule append_Cons)
  from that [OF wc this] show ?thesis .
qed

lemma settings_shape:
  "dbSettings = (''nextjobid'', SetNextJob) # (''next_job_id'', SetNextJob) # map (\<lambda>(t, w). (t, the (reads w))) (tl scalars)"
proof (rule scalars_Cons)
  fix rest
  assume wc: "wCore = (''nextjobid'', WNextJob) # rest"
    and sc: "scalars = (''nextjobid'', WNextJob) # rest @ wEvents @ wTiming @ wLogging @ wACL @ wLimits @ wMail @ wPolicy @ wArrays @ wKill @ wHardware @ wOther"
  have "tl wCore = rest" unfolding wc by (rule list.sel(3))
  then show ?thesis
    unfolding dbSettings_def sections_set(1,3-) sc by (simp only: list.sel map_append append_Cons)
qed

lemma distinct_drop_mid: "distinct (x # y # map f (a @ m @ b)) \<Longrightarrow> distinct (x # map f (a @ b))"
  by auto

lemma settings_distinct: "distinct (map fst dbSettings)"
proof (rule scalars_Cons)
  fix rest
  assume sc: "scalars = (''nextjobid'', WNextJob) # rest @ wEvents @ wTiming @ wLogging @ wACL @ wLimits @ wMail @ wPolicy @ wArrays @ wKill @ wHardware @ wOther"
  have "distinct (''next_job_id'' # map fst scalars)"
    using distinct_drop_mid [of "''next_job_id''" "''server_db''" fst "wCore @ wEvents @ wTiming @ wLogging @ wACL @ wLimits" wMaps]
      names_distinct unfolding scalars_def dbFields_def append_assoc by blast
  moreover have "map fst dbSettings = ''nextjobid'' # ''next_job_id'' # map fst (tl scalars)"
    by (simp only: settings_shape list.map fst_conv map_map comp_def case_prod_beta)
  moreover have "map fst scalars = ''nextjobid'' # map fst (tl scalars)" unfolding sc list.map list.sel fst_conv ..
  ultimately show ?thesis by (simp only: distinct.simps list.set) blast
qed

lemma reads_dbSettings: "(t, w) \<in> set scalars \<Longrightarrow> map_of dbSettings t = reads w"
proof -
  assume tw: "(t, w) \<in> set scalars"
  have "(t, the (reads w)) \<in> set dbSettings"
  proof (rule scalars_Cons)
    fix rest
    assume sc: "scalars = (''nextjobid'', WNextJob) # rest @ wEvents @ wTiming @ wLogging @ wACL @ wLimits @ wMail @ wPolicy @ wArrays @ wKill @ wHardware @ wOther"
    have "(t, w) = (''nextjobid'', WNextJob) \<or> (t, w) \<in> set (tl scalars)" using tw unfolding sc list.sel set_simps insert_iff .
    then show ?thesis
    proof
      assume "(t, w) \<in> set (tl scalars)"
      then have "(t, the (reads w)) \<in> set (map (\<lambda>(t, w). (t, the (reads w))) (tl scalars))" by force
      then show ?thesis by (simp add: settings_shape)
    qed (simp add: settings_shape)
  qed
  then show ?thesis using scalars_read [OF tw] settings_distinct by (auto intro!: map_of_is_SomeI)
qed

lemma fields_distinct: "distinct (map fst dbFields)" using names_distinct by simp

lemma scalar_field: "(t, w) \<in> set scalars \<Longrightarrow> map_of dbFields t = Some w"
  using fields_distinct scalars_fields by (auto intro!: map_of_is_SomeI)

subsection \<open>The elements of a saved configuration\<close>

lemma saveServerDB_dbText: "saveServerDB c jm = dbText (concat (map (dbItems c jm) dbFields))"
  by (simp add: saveServerDB_def dbText_def)

text \<open>The value of the element that a writer leaves, empty when there is none.\<close>

definition dbValue :: "SrvConfig \<Rightarrow> JobManager \<Rightarrow> db_writer \<Rightarrow> string" where
  "dbValue c jm w = (case w of
      WInt f \<Rightarrow> FormatInt (ci c f)
    | WBool f \<Rightarrow> (if cb c f then ''True'' else ''False'')
    | WStr f \<Rightarrow> cs c f
    | WMap r \<Rightarrow> []
    | WNextJob \<Rightarrow> FormatInt (GetNextJobIDNum jm))"

lemma map_of_dotted:
  "CHR ''.'' \<notin> set t \<Longrightarrow> map_of (map (\<lambda>(k, v). (n @ ''.'' @ k, v)) m) t = None"
  by (induction m) auto

lemma map_of_dbItem:
  "CHR ''.'' \<notin> set t \<Longrightarrow> map_of (dbItems c jm (n, w)) t = (if n = t \<and> dbValue c jm w \<noteq> [] then Some (dbValue c jm w) else None)"
  using map_of_dotted [of t n] by (cases w) (simp_all add: dbItems_def dbValue_def)

lemma map_of_dbItems:
  assumes "CHR ''.'' \<notin> set t"
  shows "distinct (map fst fs) \<Longrightarrow> map_of (concat (map (dbItems c jm) fs)) t = (case map_of fs t of
      None \<Rightarrow> None
    | Some w \<Rightarrow> if dbValue c jm w = [] then None else Some (dbValue c jm w))"
proof (induction fs)
  case (Cons tw fs)
  obtain n w where tw: "tw = (n, w)" by fastforce
  have "map_of (concat (map (dbItems c jm) fs)) t = None" if "n = t"
    using Cons that by (simp add: tw map_of_eq_None_iff [symmetric])
  then show ?case using Cons by (cases "n = t") (simp_all add: tw map_of_dbItem [OF assms] map_add_def)
qed simp

lemma text_ok_dbValue: "saved_ok c jm \<Longrightarrow> text_ok (dbValue c jm w)"
proof -
  assume "saved_ok c jm"
  moreover have "text_ok ''True''" "text_ok ''False''" by code_simp+
  moreover have "text_ok []" by code_simp
  ultimately show ?thesis by (cases w) (simp_all add: dbValue_def saved_ok_def text_ok_FormatInt)
qed

lemma plain_tag_ok: "plain_tag t \<Longrightarrow> tag_ok t \<and> t \<noteq> ''server_db'' \<and> \<not> HasPrefix t ''?'' \<and> CHR ''.'' \<notin> set t \<and> pre_ok t"
proof -
  assume t: "plain_tag t"
  then have "c \<in> set t \<Longrightarrow> c \<notin> {LT, CHR ''>'', CHR ''.'', CHR ''/'', CHR ''?''}" for c
    by (force simp: plain_tag_def list_all_iff)
  then show ?thesis using t by (cases t) (auto simp: plain_tag_def tag_ok_def HasPrefix_def pre_ok_def)
qed

lemma map_of_key: "(t, w) \<in> set m \<Longrightarrow> t \<in> set (map fst m)"
  by force

lemma field_plain: "(t, w) \<in> set dbFields \<Longrightarrow> plain_tag t"
proof -
  assume "(t, w) \<in> set dbFields"
  then have t: "t \<in> set (map fst dbFields)" by (rule map_of_key)
  have "list_all (\<lambda>c. 95 \<le> (of_char c :: int)) t" "t \<noteq> []"
    using fields_letters t unfolding list_all_iff by blast+
  moreover have "t \<noteq> ''server_db''" using names_distinct t unfolding distinct.simps by blast
  ultimately show ?thesis unfolding plain_tag_def by blast
qed

lemma items_ok_saved: "saved_ok c jm \<Longrightarrow> items_ok (concat (map (dbItems c jm) dbFields))"
proof -
  assume ok: "saved_ok c jm"
  have "tag_ok n \<and> LT \<notin> set v" if "(n, v) \<in> set (dbItems c jm (t, w))" "(t, w) \<in> set dbFields" for n v t w
  proof (cases w)
    case (WMap r)
    have "(n, v) \<in> (\<lambda>(k, v). (t @ ''.'' @ k, v)) ` set (cm c r)" using that(1) by (simp add: dbItems_def WMap)
    then obtain k where "n = t @ ''.'' @ k" "(k, v) \<in> set (cm c r)" by (elim imageE) (simp split: prod.splits)
    moreover have "text_ok v \<and> LT \<notin> set k \<and> CHR ''>'' \<notin> set k"
      using ok calculation(2) by (auto simp: saved_ok_def)
    ultimately show ?thesis
      using plain_tag_ok [OF field_plain [OF that(2)]] by (cases t) (auto simp: tag_ok_def text_ok_def pre_ok_def)
  qed (use that plain_tag_ok [OF field_plain [OF that(2)]] text_ok_dbValue [OF ok, of w]
       in \<open>auto simp: dbItems_def dbValue_def text_ok_def split: if_splits\<close>)
  then show ?thesis by (auto simp: items_ok_def)
qed

subsection \<open>Reading a saved configuration\<close>

text \<open>What reading the element of a writer does to the configuration and the job numbers of a server.\<close>

definition restore :: "SrvConfig \<Rightarrow> JobManager \<Rightarrow> db_writer \<Rightarrow> SrvConfig \<times> JobManager \<Rightarrow> SrvConfig \<times> JobManager" where
  "restore c jm w st = (case st of (c', jm') \<Rightarrow> (case w of
      WInt f \<Rightarrow> (c'\<lparr>ci := (ci c')(f := ci c f)\<rparr>, jm')
    | WBool f \<Rightarrow> (c'\<lparr>cb := (cb c')(f := cb c f)\<rparr>, jm')
    | WStr f \<Rightarrow> (if cs c f = [] then (c', jm') else (c'\<lparr>cs := (cs c')(f := cs c f)\<rparr>, jm'))
    | WMap r \<Rightarrow> (c', jm')
    | WNextJob \<Rightarrow> (c', SetNextJobIDNum jm' (GetNextJobIDNum jm))))"

lemma extract_scalar:
  assumes "saved_ok c jm" "(t, w) \<in> set scalars"
  shows "extractXMLTag (saveServerDB c jm) t = dbValue c jm w"
proof -
  have t: "tag_ok t" "t \<noteq> ''server_db''" "\<not> HasPrefix t ''?''" "CHR ''.'' \<notin> set t"
    using plain_tag_ok [OF field_plain [of t w]] assms(2) scalars_fields by auto
  have "TrimSpace (dbValue c jm w) = dbValue c jm w"
    using text_ok_dbValue [OF assms(1), of w] by (simp add: text_ok_def)
  then show ?thesis
    unfolding saveServerDB_dbText extract_items [OF items_ok_saved [OF assms(1)] t(1-3)]
      map_of_dbItems [OF t(4) fields_distinct] scalar_field [OF assms(2)] by simp
qed

lemma recoverTag_scalar:
  assumes ok: "saved_ok c jm" and tw: "(t, w) \<in> set scalars"
  shows "recoverTag (saveServerDB c jm) t st = restore c jm w st"
proof -
  have ints: "is_int64 (ci c f)" "is_int64 (GetNextJobIDNum jm)" for f using ok by (auto simp: saved_ok_def)
  have r: "reads w \<noteq> None" using scalars_read [OF tw] .
  obtain c' jm' where st: "st = (c', jm')" by fastforce
  show ?thesis
    using r ints
    by (cases w) (simp_all add: st recoverTag_def extract_scalar [OF ok tw] applyServerDBAttr_def reads_dbSettings [OF tw]
        restore_def dbValue_def applySetting_def scanOr_def ScanInt_FormatInt Atoi_FormatInt parseBool_def Let_def)
qed

lemma recover_scalars:
  "saved_ok c jm \<Longrightarrow> fold (recoverTag (saveServerDB c jm)) xmlTags st = fold (restore c jm) (map snd recovered) st"
proof -
  assume ok: "saved_ok c jm"
  have "fold (recoverTag (saveServerDB c jm)) (map fst tws) st = fold (restore c jm) (map snd tws) st"
    if "set tws \<subseteq> set scalars" for tws
    using that by (induction tws arbitrary: st) (auto simp: recoverTag_scalar [OF ok])
  from this [of recovered] show ?thesis unfolding tags_shape using recovered_scalar by blast
qed

lemma fold_restore:
  assumes "fold (restore c jm) ws (c0, jm0) = (c', jm')"
  shows "ci c' = (\<lambda>f. if WInt f \<in> set ws then ci c f else ci c0 f)"
    "cb c' = (\<lambda>f. if WBool f \<in> set ws then cb c f else cb c0 f)"
    "cs c' = (\<lambda>f. if WStr f \<in> set ws \<and> cs c f \<noteq> [] then cs c f else cs c0 f)"
    "cm c' = cm c0" "WNextJob \<in> set ws \<Longrightarrow> GetNextJobIDNum jm' = GetNextJobIDNum jm"
proof -
  have *: "ci c' = (\<lambda>f. if WInt f \<in> set ws then ci c f else ci c0 f) \<and>
    cb c' = (\<lambda>f. if WBool f \<in> set ws then cb c f else cb c0 f) \<and>
    cs c' = (\<lambda>f. if WStr f \<in> set ws \<and> cs c f \<noteq> [] then cs c f else cs c0 f) \<and> cm c' = cm c0 \<and>
    (WNextJob \<in> set ws \<or> GetNextJobIDNum jm0 = GetNextJobIDNum jm \<longrightarrow> GetNextJobIDNum jm' = GetNextJobIDNum jm)"
    using assms
  proof (induction ws arbitrary: c0 jm0)
    case (Cons w ws)
    obtain c1 jm1 where one: "restore c jm w (c0, jm0) = (c1, jm1)" by fastforce
    then have "fold (restore c jm) ws (c1, jm1) = (c', jm')" using Cons.prems by simp
    note IH = Cons.IH [OF this]
    show ?case
      using one IH by (cases w) (auto simp: restore_def fun_eq_iff SetNextJobIDNum_def GetNextJobIDNum_def split: if_splits)
  qed auto
  then show "ci c' = (\<lambda>f. if WInt f \<in> set ws then ci c f else ci c0 f)"
    "cb c' = (\<lambda>f. if WBool f \<in> set ws then cb c f else cb c0 f)"
    "cs c' = (\<lambda>f. if WStr f \<in> set ws \<and> cs c f \<noteq> [] then cs c f else cs c0 f)"
    "cm c' = cm c0" "WNextJob \<in> set ws \<Longrightarrow> GetNextJobIDNum jm' = GetNextJobIDNum jm" by simp_all
qed

lemma HasPrefix_dot: "HasPrefix n (p @ ''.'') \<Longrightarrow> CHR ''.'' \<in> set n"
  by (metis HasPrefix_def Un_iff list.set_intros(1) set_append set_take_subset subsetD)

lemma filter_dbItems:
  assumes "CHR ''.'' \<notin> set t" "CHR ''.'' \<notin> set pre"
  shows "filter (\<lambda>(n, _). HasPrefix n (pre @ ''.'')) (dbItems c jm (t, w)) =
    (case w of WMap r \<Rightarrow> if t = pre then dbItems c jm (t, w) else [] | _ \<Rightarrow> [])"
proof -
  have 1: "\<not> HasPrefix t (pre @ ''.'')" using HasPrefix_dot assms(1) by blast
  have 2: "HasPrefix (t @ CHR ''.'' # k) (pre @ ''.'') \<longleftrightarrow> t = pre" for k
    using HasPrefix_sep [of "CHR ''.''" pre t k] assms by simp
  show ?thesis
    by (cases w) (auto simp: dbItems_def 1 2 filter_map comp_def case_prod_beta filter_empty_conv)
qed

lemma concat_one:
  "distinct (map fst xs) \<Longrightarrow> (k, v) \<in> set xs \<Longrightarrow> (\<And>k' v'. (k', v') \<in> set xs \<Longrightarrow> k' \<noteq> k \<Longrightarrow> f (k', v') = []) \<Longrightarrow>
   concat (map f xs) = f (k, v)"
proof (induction xs)
  case (Cons x xs)
  obtain k' v' where x: "x = (k', v')" by fastforce
  show ?case
  proof (cases "x = (k, v)")
    case True
    then have "f y = []" if "y \<in> set xs" for y
      using Cons.prems that by (cases y) (force simp: x)
    then show ?thesis using True by (simp add: concat_eq_Nil_conv)
  next
    case False
    then have "k' \<noteq> k" using Cons.prems by (force simp: x)
    then have "f x = []" using Cons.prems(3) by (auto simp: x)
    then show ?thesis using Cons False by (auto simp: x)
  qed
qed simp

lemma parse_saved:
  assumes ok: "saved_ok c jm" and pre: "(pre, WMap r) \<in> set dbFields"
  shows "parseResourceMapXML (saveServerDB c jm) pre [] = cm c r"
proof -
  let ?P = "\<lambda>(n, _ :: string). HasPrefix n (pre @ ''.'')"
  have dot: "CHR ''.'' \<notin> set t" if "(t, w) \<in> set dbFields" for t w
    using plain_tag_ok [OF field_plain [OF that]] by blast
  have p: "pre_ok pre" using plain_tag_ok [OF field_plain [OF pre]] by blast
  have "filter ?P (concat (map (dbItems c jm) dbFields)) = concat (map (\<lambda>tw. filter ?P (dbItems c jm tw)) dbFields)"
    by (simp add: filter_concat comp_def)
  also have "\<dots> = filter ?P (dbItems c jm (pre, WMap r))"
    by (rule concat_one [OF fields_distinct pre]) (simp add: filter_dbItems [OF dot dot [OF pre]] split: db_writer.split)
  also have "\<dots> = map (\<lambda>(k, v). (pre @ ''.'' @ k, v)) (cm c r)"
    by (simp add: filter_dbItems [OF dot [OF pre] dot [OF pre]]) (simp add: dbItems_def)
  finally have "parseResourceMapXML (saveServerDB c jm) pre [] =
      fold (\<lambda>(n, v). mput (TrimPrefix n (pre @ ''.'')) (TrimSpace v)) (map (\<lambda>(k, v). (pre @ ''.'' @ k, v)) (cm c r)) []"
    unfolding saveServerDB_dbText parse_dbText [OF items_ok_saved [OF ok] p] by simp
  also have "\<dots> = fold (\<lambda>(k, v). mput k (TrimSpace v)) (cm c r) []"
    by (simp add: fold_map comp_def split_def TrimPrefix_def HasPrefix_def)
  also have "\<dots> = fold (\<lambda>(k, v). mput k v) (cm c r) []"
    using ok by (intro fold_cong) (fastforce simp: saved_ok_def text_ok_def)+
  also have "\<dots> = cm c r"
    using ok fold_mput_fresh [of "[]" "cm c r"] by (simp add: saved_ok_def)
  finally show ?thesis .
qed

lemma rescMaps_fields: "(pre, r) \<in> set rescMaps \<Longrightarrow> (pre, WMap r) \<in> set dbFields"
  by (auto simp: rescMaps_def dbFields_def wMaps_def)

lemma recoverRescMap_frame: "\<exists>m. fold (recoverRescMap s) prs c1 = c1\<lparr>cm := m\<rparr>"
proof (induction prs arbitrary: c1)
  case Nil
  have "c1 = c1\<lparr>cm := cm c1\<rparr>" by simp
  then show ?case by (metis fold_simps(1))
next
  case (Cons pr prs)
  obtain m1 where 1: "recoverRescMap s pr c1 = c1\<lparr>cm := m1\<rparr>"
    by (cases pr) (simp add: recoverRescMap_def)
  from Cons.IH [of "c1\<lparr>cm := m1\<rparr>"] show ?case by (simp add: 1)
qed

lemma recover_maps:
  assumes ok: "saved_ok c jm" and empty: "cm c0 = (\<lambda>_. [])"
  shows "fold (recoverRescMap (saveServerDB c jm)) rescMaps c0 = c0\<lparr>cm := cm c\<rparr>"
proof -
  let ?s = "saveServerDB c jm"
  have p: "parseResourceMapXML ?s pre [] = cm c r" if "(pre, r) \<in> set rescMaps" for pre r
    using parse_saved [OF ok rescMaps_fields [OF that]] .
  have "cm (fold (recoverRescMap ?s) rescMaps c0) r = cm c r" for r
    using p [of "''resources_available''"] p [of "''resources_default''"] p [of "''resources_max''"] p [of "''resources_cost''"]
    by (cases r) (simp_all add: rescMaps_def recoverRescMap_def empty)
  then have "cm (fold (recoverRescMap ?s) rescMaps c0) = cm c" by (rule ext)
  moreover obtain m where m: "fold (recoverRescMap ?s) rescMaps c0 = c0\<lparr>cm := m\<rparr>" using recoverRescMap_frame by blast
  ultimately show ?thesis by simp
qed

text \<open>The fields that are written and not read back, and the fields that the database does not hold.\<close>

definition lostInts :: "cfg_int set" where
  "lostInts = {F_SchedMinInterval, F_DefaultQueueDepth, F_SchedMaxJobStart, F_MaxSchedTime, F_SchedTriggerPort}"

definition lostBools :: "cfg_bool set" where
  "lostBools = {F_EventDriven, F_SchedDefer, F_SchedDeferBatch}"

definition startStrs :: "cfg_str set" where
  "startStrs = {F_PBSHome, F_StartType, F_ServerPriv, F_JobsDir, F_QueuesDir, F_NodesFile, F_ServerDB, F_LogDir,
     F_AcctDir, F_ServerName, F_SchedulerMode}"

lemma section_writers:
  "map snd wCore = [WNextJob, WStr F_DefaultQueue, WBool F_Scheduling, WInt F_SchedulerIteration]"
  "map snd wTiming = [WInt F_NodeCheckRate, WInt F_TCPTimeout, WInt F_KeepCompleted, WInt F_JobStatRate,
     WBool F_PollJobs, WInt F_PingRate, WInt F_JobStartTimeout, WInt F_JobForceCancelTime,
     WInt F_JobSyncTimeout]"
  "map snd wLogging = [WInt F_LogLevel, WInt F_LogFileMaxSize, WInt F_LogFileRollDepth, WInt F_LogKeepDays,
     WBool F_RecordJobInfo, WBool F_RecordJobScript, WInt F_JobLogFileMaxSize, WInt F_JobLogFileRollDepth,
     WInt F_JobLogKeepDays]"
  "map snd wACL = [WStr F_Managers, WStr F_Operators, WBool F_ACLHostEnable, WStr F_ACLHosts,
     WBool F_ACLUserEnable, WStr F_ACLUsers, WStr F_ACLRoots, WBool F_ACLLogicOr, WBool F_ACLGroupSloppy,
     WStr F_ACLUserHosts, WStr F_ACLGroupHosts]"
  "map snd wLimits = [WInt F_MaxRunning, WInt F_MaxUserRun, WInt F_MaxGroupRun, WInt F_MaxUserQueuable]"
  "map snd wMail = [WStr F_MailDomain, WStr F_MailFrom, WBool F_NoMailForce, WStr F_MailSubjectFmt,
     WStr F_MailBodyFmt, WInt F_EmailBatchSeconds]"
  "map snd wPolicy = [WStr F_DefaultNode, WBool F_NodePack, WBool F_QueryOtherJobs, WBool F_MOMJobSync,
     WBool F_DownOnError, WBool F_DisableServerIdCheck, WBool F_AllowNodeSubmit, WBool F_AllowProxyUser,
     WBool F_AutoNodeNP, WInt F_NPDefault, WBool F_AllowDynamicNodes, WStr F_NodeAllowedIPRanges,
     WBool F_JobNanny, WBool F_OwnerPurge, WBool F_CopyOnRerun, WBool F_JobExclusiveOnUse,
     WBool F_DisableAutoRequeue, WInt F_AutoRequeueExitCode, WBool F_DontWriteNodesFile]"
  "map snd wArrays = [WInt F_MaxJobArraySize, WInt F_MaxSlotLimit, WInt F_CloneBatchSize,
     WInt F_CloneBatchDelay, WBool F_MoabArrayCompatible, WBool F_DisplayJobServerSuffix,
     WStr F_JobSuffixAlias, WBool F_UseJobsSubdirs]"
  "map snd wKill = [WInt F_KillDelay, WInt F_UserKillDelay, WInt F_ExitCodeCanceledJob,
     WInt F_TimeoutForJobDelete, WInt F_TimeoutForJobRequeue]"
  "map snd wHardware = [WStr F_DefaultGpuMode, WInt F_IdleSlotLimit, WBool F_CgroupPerTask,
     WBool F_PassCpuClock]"
  "map snd wOther = [WStr F_SubmitHosts, WStr F_NodeSubmitExceptions, WStr F_NodeSuffix, WStr F_Comment,
     WInt F_LockFileUpdateTime, WInt F_LockFileCheckTime, WBool F_InteractiveJobsCanRoam,
     WBool F_LegacyVmem, WBool F_GhostArrayRecovery, WInt F_TCPIncomingTimeout, WInt F_JobFullReportTime]"
  by (simp_all add: wCore_def wTiming_def wLogging_def wACL_def wLimits_def wMail_def wPolicy_def wArrays_def wKill_def wHardware_def wOther_def)

lemma recovered_writers:
  "map snd recovered = map snd wCore @ map snd wTiming @ map snd wLogging @ map snd wACL @ map snd wLimits @ map snd wMail @
     map snd wPolicy @ map snd wArrays @ map snd wKill @ map snd wHardware @ map snd wOther"
  by (simp add: recovered_def)

lemma kept_ints: "WInt f \<in> set (map snd recovered) \<longleftrightarrow> f \<notin> lostInts \<and> f \<noteq> F_Port"
  unfolding recovered_writers section_writers lostInts_def by (cases f) simp_all

lemma kept_bools: "WBool f \<in> set (map snd recovered) \<longleftrightarrow> f \<notin> lostBools \<and> f \<noteq> F_Debug"
  unfolding recovered_writers section_writers lostBools_def by (cases f) simp_all

lemma kept_strs: "WStr f \<in> set (map snd recovered) \<longleftrightarrow> f \<notin> startStrs"
  unfolding recovered_writers section_writers startStrs_def by (cases f) simp_all

lemma kept_next: "WNextJob \<in> set (map snd recovered)"
  unfolding recovered_writers section_writers by simp

section \<open>Properties\<close>

text \<open>
C10: A server that starts on the database another one saved has its configuration, with two exceptions: the eight
settings of event-driven scheduling are written but never read back, so they return to their defaults, and the
port, the debug flag and the paths are those of the new process. The resource maps and the next job number are restored.
\<close>

theorem serverdb_round_trip:
  assumes ok: "saved_ok c jm"
    and r: "recoverServerDB (Some (saveServerDB c jm)) (startConfig home port start debug host, jm0) = (c', jm')"
  shows "ci c' = (\<lambda>f. if f \<in> lostInts \<or> f = F_Port then ci (startConfig home port start debug host) f else ci c f) \<and>
    cb c' = (\<lambda>f. if f \<in> lostBools \<or> f = F_Debug then cb (startConfig home port start debug host) f else cb c f) \<and>
    cs c' = (\<lambda>f. if f \<in> startStrs then cs (startConfig home port start debug host) f else cs c f) \<and>
    cm c' = cm c \<and> GetNextJobIDNum jm' = GetNextJobIDNum jm"
proof -
  let ?c0 = "startConfig home port start debug host"
  obtain c1 jm1 where f: "fold (restore c jm) (map snd recovered) (?c0, jm0) = (c1, jm1)" by fastforce
  note f' = fold_restore [OF f, unfolded kept_ints kept_bools kept_strs]
  have empty: "cm c1 = (\<lambda>_. [])" using f'(4) by (simp add: startConfig_def NewConfig_def Let_def)
  have "afterFirst ''<server_db>'' (saveServerDB c jm) \<noteq> None" by (simp add: saveServerDB_def dbHead_def HasPrefix_def)
  then have "recoverServerDBXML (saveServerDB c jm) (?c0, jm0) = (c', jm')" using r by (simp add: recoverServerDB_def)
  then have c': "c' = c1\<lparr>cm := cm c\<rparr>" "jm' = jm1"
    by (simp_all add: recoverServerDBXML_def recover_scalars [OF ok] f recover_maps [OF ok empty])
  have strs: "cs ?c0 h = []" if "h \<notin> startStrs" for h
    using that by (cases h) (simp_all add: startStrs_def startConfig_def NewConfig_def Let_def)
  have "cs c1 = (\<lambda>h. if h \<in> startStrs then cs ?c0 h else cs c h)" unfolding f'(3) using strs by (auto simp: fun_eq_iff)
  then show ?thesis unfolding c' using f'(1,2) f'(5) [OF kept_next] by (auto simp: fun_eq_iff)
qed

definition tunedConfig :: SrvConfig where
  "tunedConfig =
     (let c = startConfig ''/pbs'' 15001 [] False ''s''
      in c\<lparr>ci := (ci c)(F_MaxRunning := 5), cb := (cb c)(F_EventDriven := False),
           cm := (cm c)(F_ResourcesMax := [(''mem'', ''4gb'')])\<rparr>)"

lemma tunedConfig_ok: "saved_ok tunedConfig (NewJobManager ''s'' 7)"
proof -
  have "is_int64 (ci tunedConfig f)" for f
    by (cases f) (simp_all add: tunedConfig_def startConfig_def NewConfig_def Let_def min_int64_def max_int64_def)
  moreover have "text_ok (cs tunedConfig f)" for f
    by (cases f) (simp_all add: tunedConfig_def startConfig_def NewConfig_def Let_def text_ok_def TrimSpace_def is_space_def)
  moreover have "is_map (cm tunedConfig r) \<and> (\<forall>(k, v) \<in> set (cm tunedConfig r). text_ok v \<and> LT \<notin> set k \<and> CHR ''>'' \<notin> set k)" for r
    by (cases r) (simp_all add: tunedConfig_def startConfig_def NewConfig_def Let_def text_ok_def TrimSpace_def is_space_def)
  ultimately show ?thesis
    by (simp add: saved_ok_def NewJobManager_def GetNextJobIDNum_def min_int64_def max_int64_def)
qed

theorem serverdb_round_trip_witness:
  "\<exists>c' jm'. recoverServerDB (Some (saveServerDB tunedConfig (NewJobManager ''s'' 7)))
       (startConfig ''/pbs'' 15001 [] False ''s'', NewJobManager ''s'' 0) = (c', jm') \<and>
     ci c' F_MaxRunning = 5 \<and> cm c' F_ResourcesMax = [(''mem'', ''4gb'')] \<and> GetNextJobIDNum jm' = 7 \<and> cb c' F_EventDriven"
proof -
  obtain c' jm' where r: "recoverServerDB (Some (saveServerDB tunedConfig (NewJobManager ''s'' 7)))
      (startConfig ''/pbs'' 15001 [] False ''s'', NewJobManager ''s'' 0) = (c', jm')" by fastforce
  have "ci tunedConfig F_MaxRunning = 5" "cm tunedConfig F_ResourcesMax = [(''mem'', ''4gb'')]"
    "GetNextJobIDNum (NewJobManager ''s'' 7) = 7" "cb (startConfig ''/pbs'' 15001 [] False ''s'') F_EventDriven"
    by (simp_all add: tunedConfig_def startConfig_def NewConfig_def Let_def NewJobManager_def GetNextJobIDNum_def)
  then show ?thesis
    using serverdb_round_trip [OF tunedConfig_ok r] r by (auto simp: lostInts_def lostBools_def)
qed

end
