(* ===== verification/Server_Attrs.thy ===== *)
theory Server_Attrs
  imports Route Node_Model Server_Config
begin

text \<open>
  How requests change jobs, queues and nodes by name of an attribute, and how the server reads array specifications
  and node requests: the helpers of \<^verbatim>\<open>src/internal/server/server.go\<close> that its handlers call. As in
  \<open>Server_Config\<close> a switch over attribute names is a table.
\<close>

section \<open>Jobs\<close>

text \<open>\<^verbatim>\<open>time.Unix(ts, 0)\<close>, which is the zero time for the first second of the year one.\<close>

definition UnixTime :: "int \<Rightarrow> gotime" where
  "UnixTime ts = (if ts = - 62135596800 then None else Some ts)"

text \<open>\<^verbatim>\<open>t.After(now)\<close>; the zero time lies before every clock reading.\<close>

definition timeAfter :: "gotime \<Rightarrow> int \<Rightarrow> bool" where
  "timeAfter t now = (case t of Some s \<Rightarrow> s > now | None \<Rightarrow> False)"

definition setHoldTypes :: "int \<Rightarrow> string \<Rightarrow> Job \<Rightarrow> Job" where
  "setHoldTypes now v j =
     (let j1 = j\<lparr>j_HoldTypes := v\<rparr>
      in if v \<noteq> [] \<and> v \<noteq> ''n'' then SetState now StateHeld SubstateHeld j1 else j1)"

definition setExecutionTime :: "int \<Rightarrow> string \<Rightarrow> Job \<Rightarrow> Job" where
  "setExecutionTime now v j = (case ParseInt v of
      (ts, None) \<Rightarrow>
        let j1 = j\<lparr>j_ExecutionTime := UnixTime ts\<rparr>
        in if timeAfter (UnixTime ts) now then SetState now StateWaiting SubstateWaiting j1 else j1
    | (_, Some _) \<Rightarrow> j)"

definition setVariables :: "string \<Rightarrow> Job \<Rightarrow> Job" where
  "setVariables v j =
     j\<lparr>j_VariableList := fold (\<lambda>pair m. case cut CHR ''='' pair of Some (c # k, x) \<Rightarrow> mput (c # k) x m | _ \<Rightarrow> m)
        (Split CHR '','' v) (j_VariableList j)\<rparr>"

definition jobAttrTable :: "int \<Rightarrow> SvrAttrl \<Rightarrow> (string \<times> (Job \<Rightarrow> Job)) list" where
  "jobAttrTable now a =
     (let v = sa_Value a in
      [(''Job_Name'', \<lambda>j. j\<lparr>j_Name := v\<rparr>), (''Job_Owner'', \<lambda>j. j\<lparr>j_Owner := v\<rparr>),
       (''queue'', \<lambda>j. j\<lparr>j_Queue := v\<rparr>), (''Output_Path'', \<lambda>j. j\<lparr>j_StdoutPath := v\<rparr>),
       (''Error_Path'', \<lambda>j. j\<lparr>j_StderrPath := v\<rparr>), (''Join_Path'', \<lambda>j. j\<lparr>j_JoinPath := v\<rparr>),
       (''Keep_Files'', \<lambda>j. j\<lparr>j_KeepFiles := v\<rparr>), (''Checkpoint'', \<lambda>j. j\<lparr>j_Checkpoint := v\<rparr>),
       (''Shell_Path_List'', \<lambda>j. j\<lparr>j_Shell := v\<rparr>), (''Account_Name'', \<lambda>j. j\<lparr>j_Account := v\<rparr>),
       (''Mail_Points'', \<lambda>j. j\<lparr>j_MailPoints := v\<rparr>), (''Mail_Users'', \<lambda>j. j\<lparr>j_MailUsers := v\<rparr>),
       (''Priority'', \<lambda>j. j\<lparr>j_Priority := scanOr (j_Priority j) v\<rparr>), (''Rerunable'', \<lambda>j. j\<lparr>j_Rerunnable := v\<rparr>),
       (''Hold_Types'', setHoldTypes now v), (''Execution_Time'', setExecutionTime now v),
       (''User_List'', \<lambda>j. j\<lparr>j_UserList := v\<rparr>), (''depend'', \<lambda>j. j\<lparr>j_DependList := v\<rparr>),
       (''stagein'', \<lambda>j. j\<lparr>j_StageinList := v\<rparr>), (''stageout'', \<lambda>j. j\<lparr>j_StageoutList := v\<rparr>),
       (''group_list'', \<lambda>j. j\<lparr>j_GroupList := v\<rparr>), (''job_array_request'', \<lambda>j. j\<lparr>j_JobArrayReq := v\<rparr>),
       (''init_work_dir'', \<lambda>j. j\<lparr>j_InitWorkDir := v\<rparr>), (''init_root_dir'', \<lambda>j. j\<lparr>j_RootDir := v\<rparr>),
       (''comment'', \<lambda>j. j\<lparr>j_Comment := v\<rparr>), (''euser'', \<lambda>j. j\<lparr>j_EUser := v\<rparr>),
       (''egroup'', \<lambda>j. j\<lparr>j_EGroup := v\<rparr>), (''exec_host'', \<lambda>j. j\<lparr>j_ExecHost := v\<rparr>),
       (''exec_port'', \<lambda>j. j\<lparr>j_ExecPort := scanOr (j_ExecPort j) v\<rparr>), (''hashname'', \<lambda>j. j\<lparr>j_HashName := v\<rparr>),
       (''fault_tolerant'', \<lambda>j. j\<lparr>j_FaultTolerant := v\<rparr>), (''job_radix'', \<lambda>j. j\<lparr>j_JobRadix := v\<rparr>),
       (''request_version'', \<lambda>j. j\<lparr>j_ReqVersion := v\<rparr>),
       (''start_time'', \<lambda>j. case ParseInt v of (ts, None) \<Rightarrow> j\<lparr>j_StartTime := UnixTime ts\<rparr> | (_, Some _) \<Rightarrow> j),
       (''Resource_List'', \<lambda>j. if sa_HasResc a then j\<lparr>j_ResourceReq := mput (sa_Resc a) v (j_ResourceReq j)\<rparr> else j),
       (''resources_used'', \<lambda>j. if sa_HasResc a then j\<lparr>j_ResourceUsed := mput (sa_Resc a) v (j_ResourceUsed j)\<rparr> else j),
       (''Variable_List'', setVariables v), (''server'', \<lambda>j. j\<lparr>j_Server := v\<rparr>)])"

definition applyJobAttr :: "int \<Rightarrow> SvrAttrl \<Rightarrow> Job \<Rightarrow> Job" where
  "applyJobAttr now a j = (case map_of (jobAttrTable now a) (sa_Name a) of
      Some upd \<Rightarrow> upd j
    | None \<Rightarrow> j\<lparr>j_Attrs := mput (sa_Name a) (sa_Value a) (j_Attrs j)\<rparr>)"

text \<open>The defaults at the end of \<^verbatim>\<open>applyJobAttrs\<close>.\<close>

definition deriveDefaults :: "Job \<Rightarrow> Job" where
  "deriveDefaults j =
     (let j1 = (if j_EUser j = [] then (case cut CHR ''@'' (j_Owner j) of
                    Some (c # u, _) \<Rightarrow> j\<lparr>j_EUser := c # u\<rparr> | _ \<Rightarrow> j)
                else j)
      in if j_HashName j1 = [] then j1\<lparr>j_HashName := j_ID j1\<rparr> else j1)"

definition applyJobAttrs :: "int \<Rightarrow> SvrAttrl list \<Rightarrow> Job \<Rightarrow> Job" where
  "applyJobAttrs now attrs j = deriveDefaults (fold (applyJobAttr now) attrs j)"

text \<open>
  \<^verbatim>\<open>filepath.Join(dir, file)\<close> for two texts that are not empty: the joined path is cleaned, component by
  component; the stack holds the components so far, the last one first.
\<close>

definition cleanStep :: "bool \<Rightarrow> string \<Rightarrow> string list \<Rightarrow> string list" where
  "cleanStep rooted c st =
     (if c = [] \<or> c = ''.'' then st
      else if c = ''..'' then (case st of
          [] \<Rightarrow> if rooted then [] else [''..'']
        | d # rest \<Rightarrow> if d = ''..'' then ''..'' # st else rest)
      else c # st)"

definition Clean :: "string \<Rightarrow> string" where
  "Clean path =
     (let rooted = (case path of c # _ \<Rightarrow> c = CHR ''/'' | [] \<Rightarrow> False);
          out = (if rooted then ''/'' else []) @ Join ''/'' (rev (fold (cleanStep rooted) (Split CHR ''/'' path) []))
      in if out = [] then ''.'' else out)"

definition filepathJoin :: "string \<Rightarrow> string \<Rightarrow> string" where
  "filepathJoin dir file = Clean (dir @ ''/'' @ file)"

definition outputDir :: "Job \<Rightarrow> string" where
  "outputDir j =
     (let dir = sget (j_VariableList j) ''PBS_O_HOME'';
          dir = (if dir = [] then sget (j_VariableList j) ''PBS_O_WORKDIR'' else dir)
      in if dir = [] then ''/tmp'' else dir)"

text \<open>The identifier up to its first dot, unless the dot is its first character.\<close>

definition seqOf :: "string \<Rightarrow> string" where
  "seqOf ident = (case cut CHR ''.'' ident of Some (c # s, _) \<Rightarrow> c # s | _ \<Rightarrow> ident)"

definition setDefaultOutputPaths :: "string \<Rightarrow> Job \<Rightarrow> Job" where
  "setDefaultOutputPaths hostname j =
     (if j_StdoutPath j \<noteq> [] \<and> j_StderrPath j \<noteq> [] then j
      else let dir = outputDir j;
               j1 = (if j_StdoutPath j = [] then
                       j\<lparr>j_StdoutPath := hostname @ '':'' @ filepathJoin dir (j_Name j @ ''.o'' @ seqOf (j_ID j))\<rparr> else j)
           in if j_StderrPath j1 = [] then
                j1\<lparr>j_StderrPath := hostname @ '':'' @ filepathJoin dir (j_Name j @ ''.e'' @ seqOf (j_ID j))\<rparr> else j1)"

section \<open>Queues\<close>

definition queueTypeOf :: "string \<Rightarrow> int" where
  "queueTypeOf v = (if EqualFold v ''Execution'' \<or> EqualFold v ''execution'' \<or> v = ''e'' then TypeExecution else TypeRoute)"

definition queueAttrTable :: "SvrAttrl \<Rightarrow> (string \<times> (Queue \<Rightarrow> Queue)) list" where
  "queueAttrTable a =
     (let v = sa_Value a in
      [(''queue_type'', \<lambda>q. q\<lparr>q_Type := queueTypeOf v\<rparr>), (''enabled'', \<lambda>q. q\<lparr>q_Enabled := parseBool v\<rparr>),
       (''started'', \<lambda>q. q\<lparr>q_Started := parseBool v\<rparr>), (''Priority'', \<lambda>q. q\<lparr>q_Priority := scanOr (q_Priority q) v\<rparr>),
       (''disallowed_types'', \<lambda>q. q), (''max_queuable'', \<lambda>q. q\<lparr>q_MaxJobs := scanOr (q_MaxJobs q) v\<rparr>),
       (''max_running'', \<lambda>q. q\<lparr>q_MaxRun := scanOr (q_MaxRun q) v\<rparr>),
       (''resources_max'', \<lambda>q. if sa_HasResc a then q\<lparr>q_ResourceMax := mput (sa_Resc a) v (q_ResourceMax q)\<rparr> else q),
       (''resources_min'', \<lambda>q. if sa_HasResc a then q\<lparr>q_ResourceMin := mput (sa_Resc a) v (q_ResourceMin q)\<rparr> else q),
       (''resources_default'', \<lambda>q. if sa_HasResc a then q\<lparr>q_ResourceDflt := mput (sa_Resc a) v (q_ResourceDflt q)\<rparr> else q),
       (''cloud_provider'', \<lambda>q. q\<lparr>q_CloudProvider := ToLower v\<rparr>), (''cloud_vm_sku'', \<lambda>q. q\<lparr>q_CloudVMSKU := v\<rparr>),
       (''cloud_min_nodes'', \<lambda>q. q\<lparr>q_CloudMinNodes := scanOr (q_CloudMinNodes q) v\<rparr>),
       (''cloud_max_nodes'', \<lambda>q. q\<lparr>q_CloudMaxNodes := scanOr (q_CloudMaxNodes q) v\<rparr>),
       (''cloud_idle_time'', \<lambda>q. q\<lparr>q_CloudIdleTime := scanOr (q_CloudIdleTime q) v\<rparr>),
       (''cloud_provision_timeout'', \<lambda>q. q\<lparr>q_CloudProvisionTimeout := scanOr (q_CloudProvisionTimeout q) v\<rparr>),
       (''cloud_reclaim'', \<lambda>q. q\<lparr>q_CloudReclaim := ToLower v\<rparr>), (''cloud_subnet_id'', \<lambda>q. q\<lparr>q_CloudSubnetID := v\<rparr>),
       (''cloud_image_id'', \<lambda>q. q\<lparr>q_CloudImageID := v\<rparr>),
       (''cloud_disk_size'', \<lambda>q. q\<lparr>q_CloudDiskSize := scanOr (q_CloudDiskSize q) v\<rparr>),
       (''cloud_disk_type'', \<lambda>q. q\<lparr>q_CloudDiskType := v\<rparr>), (''cloud_ssh_key'', \<lambda>q. q\<lparr>q_CloudSSHKey := v\<rparr>),
       (''cloud_location'', \<lambda>q. q\<lparr>q_CloudLocation := v\<rparr>), (''cloud_rg_name'', \<lambda>q. q\<lparr>q_CloudRgName := v\<rparr>),
       (''cloud_cooldown'', \<lambda>q. q\<lparr>q_CloudCooldown := scanOr (q_CloudCooldown q) v\<rparr>),
       (''cloud_scale_headroom'', \<lambda>q. q\<lparr>q_CloudScaleHeadroom := scanOr (q_CloudScaleHeadroom q) v\<rparr>),
       (''cloud_drain_timeout'', \<lambda>q. q\<lparr>q_CloudDrainTimeout := scanOr (q_CloudDrainTimeout q) v\<rparr>),
       (''max_user_queuable'', \<lambda>q. q\<lparr>q_MaxUserJobs := scanOr (q_MaxUserJobs q) v\<rparr>),
       (''max_user_run'', \<lambda>q. q\<lparr>q_MaxUserRun := scanOr (q_MaxUserRun q) v\<rparr>),
       (''acl_user_enable'', \<lambda>q. q\<lparr>q_ACLUserEnabled := parseBool v\<rparr>),
       (''acl_user_enabled'', \<lambda>q. q\<lparr>q_ACLUserEnabled := parseBool v\<rparr>), (''acl_users'', \<lambda>q. q),
       (''acl_group_enable'', \<lambda>q. q\<lparr>q_ACLGroupEnabled := parseBool v\<rparr>),
       (''acl_group_enabled'', \<lambda>q. q\<lparr>q_ACLGroupEnabled := parseBool v\<rparr>), (''acl_groups'', \<lambda>q. q),
       (''acl_host_enable'', \<lambda>q. q\<lparr>q_ACLHostEnabled := parseBool v\<rparr>),
       (''acl_host_enabled'', \<lambda>q. q\<lparr>q_ACLHostEnabled := parseBool v\<rparr>), (''acl_hosts'', \<lambda>q. q),
       (''naccesspolicy'', \<lambda>q. q\<lparr>q_NaccessPolicy := ToLower (TrimSpace v)\<rparr>), (''hostlist'', \<lambda>q. q),
       (''route_destinations'', \<lambda>q. q), (''route_destin'', \<lambda>q. q)])"

definition applyQueueAttr :: "SvrAttrl \<Rightarrow> Queue \<Rightarrow> Queue" where
  "applyQueueAttr a q = (case map_of (queueAttrTable a) (sa_Name a) of
      Some upd \<Rightarrow> upd q
    | None \<Rightarrow> q\<lparr>q_Attrs := mput (sa_Name a) (sa_Value a) (q_Attrs q)\<rparr>)"

text \<open>
  The entries of one list attribute are collected over the request: None when the request has none, so that the
  queue keeps its list.
\<close>

definition listAttr :: "string list \<Rightarrow> SvrAttrl list \<Rightarrow> string list option" where
  "listAttr names attrs =
     (let as = filter (\<lambda>a. sa_Name a \<in> set names) attrs
      in if as = [] then None else Some (concat (map (\<lambda>a. ParseList (sa_Value a)) as)))"

abbreviation orKeep :: "'a option \<Rightarrow> 'a \<Rightarrow> 'a" where
  "orKeep x old \<equiv> (case x of Some y \<Rightarrow> y | None \<Rightarrow> old)"

definition applyQueueAttrs :: "SvrAttrl list \<Rightarrow> Queue \<Rightarrow> Queue" where
  "applyQueueAttrs attrs q0 =
     (let q = fold applyQueueAttr attrs q0
      in q\<lparr>q_ACLUsers := orKeep (listAttr [''acl_users''] attrs) (q_ACLUsers q),
           q_ACLGroups := orKeep (listAttr [''acl_groups''] attrs) (q_ACLGroups q),
           q_ACLHosts := orKeep (listAttr [''acl_hosts''] attrs) (q_ACLHosts q),
           q_HostList := orKeep (listAttr [''hostlist''] attrs) (q_HostList q),
           q_RouteDestin := orKeep (listAttr [''route_destinations'', ''route_destin''] attrs) (q_RouteDestin q),
           q_DisallowedTypes := orKeep (listAttr [''disallowed_types''] attrs) (q_DisallowedTypes q)\<rparr>)"

section \<open>Nodes\<close>

unbundle bit_operations_syntax

definition applyNodeState :: "string \<Rightarrow> Node \<Rightarrow> Node" where
  "applyNodeState v n =
     (let l = ToLower v in
      if l = ''offline'' then n\<lparr>n_State := n_State n OR StateOffline\<rparr>
      else if l = ''drain'' then n\<lparr>n_State := n_State n OR StateDrain\<rparr>
      else if l \<in> {''excl'', ''e'', ''exclusive''} then n\<lparr>n_State := n_State n OR StateExcl\<rparr>
      else if l \<in> {''free'', ''resume'', ''clear''} then
        n\<lparr>n_State := n_State n AND NOT (StateOffline OR StateDrain OR StateExcl)\<rparr>
      else n)"

definition nodeAttrTable :: "SvrAttrl \<Rightarrow> (string \<times> (Node \<Rightarrow> Node)) list" where
  "nodeAttrTable a =
     (let v = sa_Value a in
      [(''state'', applyNodeState v),
       (''np'', \<lambda>n. let np = scanOr (n_NumProcs n) v in n\<lparr>n_NumProcs := np, n_SlotsTotal := np\<rparr>),
       (''properties'', \<lambda>n. n\<lparr>n_Properties := Split CHR '','' v\<rparr>), (''hostgroups'', \<lambda>n. n\<lparr>n_Groups := ParseList v\<rparr>),
       (''groups'', \<lambda>n. n\<lparr>n_Groups := ParseList v\<rparr>), (''note'', \<lambda>n. n\<lparr>n_Note := v\<rparr>), (''queue'', \<lambda>n. n\<lparr>n_Queue := v\<rparr>),
       (''resources_available'', \<lambda>n. if sa_Resc a \<noteq> [] then (case ParseInt v of
            (x, None) \<Rightarrow> if x \<ge> 0 then n\<lparr>n_GRes := mput (sa_Resc a) x (n_GRes n)\<rparr> else n
          | (_, Some _) \<Rightarrow> n) else n)])"

definition applyNodeAttr :: "SvrAttrl \<Rightarrow> Node \<Rightarrow> Node" where
  "applyNodeAttr a n = (case map_of (nodeAttrTable a) (sa_Name a) of
      Some upd \<Rightarrow> upd n
    | None \<Rightarrow> n\<lparr>n_Attrs := mput (sa_Name a) (sa_Value a) (n_Attrs n)\<rparr>)"

definition applyNodeAttrs :: "SvrAttrl list \<Rightarrow> Node \<Rightarrow> Node" where
  "applyNodeAttrs attrs n = fold applyNodeAttr attrs n"

section \<open>Array specifications\<close>

text \<open>The verb \<^verbatim>\<open>%d\<close> of \<^verbatim>\<open>fmt.Sscanf\<close>: the number and the text behind it.\<close>

definition scanD :: "string \<Rightarrow> (int \<times> string) option" where
  "scanD s =
     (let t = dropWhile (\<lambda>c. is_space c \<and> c \<noteq> CHR 0x0A) s;
          d = (case t of c # u \<Rightarrow> if c = CHR ''-'' \<or> c = CHR ''+'' then u else t | [] \<Rightarrow> []);
          sgn = (case t of c # _ \<Rightarrow> if c = CHR ''-'' then ''-'' else [] | [] \<Rightarrow> [])
      in case ParseInt (sgn @ takeWhile is_digit d) of
           (v, None) \<Rightarrow> Some (v, dropWhile is_digit d) | (_, Some _) \<Rightarrow> None)"

text \<open>A character of the format that stands for itself, and then the verb \<^verbatim>\<open>%d\<close>.\<close>

definition scanSep :: "char \<Rightarrow> string \<Rightarrow> (int \<times> string) option" where
  "scanSep sep s = (case s of c # u \<Rightarrow> if c = sep then scanD u else None | [] \<Rightarrow> None)"

text \<open>One part of a specification, by the three formats in their order: bounds and step.\<close>

definition scanPart :: "string \<Rightarrow> (int \<times> int \<times> int) option" where
  "scanPart part = (case scanD part of
      None \<Rightarrow> None
    | Some (lo, r1) \<Rightarrow> (case scanSep CHR ''-'' r1 of
        None \<Rightarrow> Some (lo, lo, 1)
      | Some (hi, r2) \<Rightarrow> (case scanSep CHR '':'' r2 of
          None \<Rightarrow> Some (lo, hi, 1)
        | Some (stp, _) \<Rightarrow> Some (lo, hi, stp))))"

text \<open>The loop of \<^verbatim>\<open>addRange\<close>, whose counter wraps; None where it never ends. \<^verbatim>\<open>seen\<close> is the set of \<^verbatim>\<open>out\<close>.\<close>

partial_function (option) addLoop :: "int \<Rightarrow> int \<Rightarrow> int \<Rightarrow> int list \<Rightarrow> int list option" where
  "addLoop v hi stp out =
     (if v \<le> hi then addLoop (wrap64 (v + stp)) hi stp (if v \<in> set out then out else out @ [v]) else Some out)"

definition addRange :: "int \<Rightarrow> int \<Rightarrow> int \<Rightarrow> int list \<Rightarrow> int list option" where
  "addRange lo hi stp0 out =
     (let stp = (if stp0 \<le> 0 then 1 else stp0)
      in if lo > hi then addLoop hi lo stp out else addLoop lo hi stp out)"

fun arrayParts :: "string list \<Rightarrow> int list \<Rightarrow> (string + int list) option" where
  "arrayParts [] out = Some (Inr (sort out))"
| "arrayParts (p # ps) out =
     (let part = TrimSpace p in
      if part = [] then arrayParts ps out
      else (case scanPart part of
          None \<Rightarrow> Some (Inl part)
        | Some (lo, hi, stp) \<Rightarrow> (case addRange lo hi stp out of
            None \<Rightarrow> None
          | Some out' \<Rightarrow> arrayParts ps out')))"

definition parseArraySpec :: "string \<Rightarrow> (string + int list) option" where
  "parseArraySpec spec = arrayParts (Split CHR '','' spec) []"

section \<open>Node requests\<close>

definition atoiPos :: "int \<Rightarrow> string \<Rightarrow> int" where
  "atoiPos old s = (case Atoi s of (n, None) \<Rightarrow> if n > 0 then n else old | (_, Some _) \<Rightarrow> old)"

definition svrNodeSelectSpec :: "string \<Rightarrow> int \<times> int" where
  "svrNodeSelectSpec spec0 =
     (let spec = TrimSpace spec0 in
      if spec = [] then (1, 1)
      else let parts = Split CHR '':'' (hd (Split CHR ''+'' spec))
        in (atoiPos 1 (TrimSpace (hd parts)),
            foldl (\<lambda>ppn kv0. let kv = TrimSpace kv0 in
                if HasPrefix kv ''ppn='' then atoiPos ppn (TrimSpace (drop 4 kv)) else ppn) 1 (tl parts)))"

definition jobRequestedCPUs :: "Job \<Rightarrow> int" where
  "jobRequestedCPUs j =
     (let spec = sget (j_ResourceReq j) ''nodes''; (_, ppn) = svrNodeSelectSpec spec in
      if spec \<noteq> [] \<and> ppn > 0 then ppn
      else (case mget (j_ResourceReq j) ''ncpus'' of Some v \<Rightarrow> atoiPos 1 v | None \<Rightarrow> 1))"

definition jobNodeRequest :: "Job \<Rightarrow> int \<times> int" where
  "jobNodeRequest j =
     (let spec = sget (j_ResourceReq j) ''nodes'';
          spec = (if spec = [] then sget (j_ResourceReq j) ''select'' else spec)
      in if spec = [] then (1, jobRequestedCPUs j) else svrNodeSelectSpec spec)"

section \<open>What attributes leave alone\<close>

lemma jobAttrTable_frame:
  assumes "(n, upd) \<in> set (jobAttrTable now a)"
  shows "j_ID (upd j) = j_ID j" "j_State (upd j) \<in> {j_State j, StateHeld, StateWaiting}"
  using assms
  by (auto simp: jobAttrTable_def Let_def setHoldTypes_def setExecutionTime_def setVariables_def split: prod.splits option.splits if_splits)

lemma applyJobAttr_frame:
  "j_ID (applyJobAttr now a j) = j_ID j" "j_State (applyJobAttr now a j) \<in> {j_State j, StateHeld, StateWaiting}"
  using jobAttrTable_frame [of "sa_Name a" _ now a j] by (auto simp: applyJobAttr_def dest: map_of_SomeD split: option.splits)

lemma deriveDefaults_frame [simp]: "j_ID (deriveDefaults j) = j_ID j" "j_State (deriveDefaults j) = j_State j"
  by (simp_all add: deriveDefaults_def Let_def split: option.split prod.split list.split)

lemma applyJobAttrs_frame:
  "j_ID (applyJobAttrs now attrs j) = j_ID j" "j_State (applyJobAttrs now attrs j) \<in> {j_State j, StateHeld, StateWaiting}"
proof -
  have "j_ID (fold (applyJobAttr now) attrs j) = j_ID j \<and> j_State (fold (applyJobAttr now) attrs j) \<in> {j_State j, StateHeld, StateWaiting}"
    using applyJobAttr_frame by (induction attrs arbitrary: j) (force simp del: One_nat_def)+
  then show "j_ID (applyJobAttrs now attrs j) = j_ID j" "j_State (applyJobAttrs now attrs j) \<in> {j_State j, StateHeld, StateWaiting}"
    by (simp_all add: applyJobAttrs_def)
qed

lemma setDefaultOutputPaths_frame [simp]:
  "j_ID (setDefaultOutputPaths h j) = j_ID j" "j_State (setDefaultOutputPaths h j) = j_State j"
  "j_Queue (setDefaultOutputPaths h j) = j_Queue j" "j_HoldTypes (setDefaultOutputPaths h j) = j_HoldTypes j"
  "j_Owner (setDefaultOutputPaths h j) = j_Owner j" "j_ExecutionTime (setDefaultOutputPaths h j) = j_ExecutionTime j"
  by (simp_all add: setDefaultOutputPaths_def Let_def)

lemma queueAttrTable_frame:
  "(n, upd) \<in> set (queueAttrTable a) \<Longrightarrow> q_Name (upd q) = q_Name q"
  by (auto simp: queueAttrTable_def Let_def)

lemma applyQueueAttrs_Name [simp]: "q_Name (applyQueueAttrs attrs q) = q_Name q"
proof -
  have "q_Name (applyQueueAttr a q) = q_Name q" for a q
    using queueAttrTable_frame [of "sa_Name a" _ a q] by (auto simp: applyQueueAttr_def dest: map_of_SomeD split: option.splits)
  then have "q_Name (fold applyQueueAttr attrs q) = q_Name q" by (induction attrs arbitrary: q) simp_all
  then show ?thesis by (simp add: applyQueueAttrs_def Let_def)
qed

lemma nodeAttrTable_frame:
  "(n, upd) \<in> set (nodeAttrTable a) \<Longrightarrow> n_Name (upd nd) = n_Name nd \<and> n_ID (upd nd) = n_ID nd \<and>
     n_AssignedJobs (upd nd) = n_AssignedJobs nd \<and> n_SlotsUsed (upd nd) = n_SlotsUsed nd"
  by (auto simp: nodeAttrTable_def Let_def applyNodeState_def split: prod.splits option.splits)

lemma applyNodeAttrs_frame:
  "n_Name (applyNodeAttrs attrs nd) = n_Name nd \<and> n_ID (applyNodeAttrs attrs nd) = n_ID nd \<and>
   n_AssignedJobs (applyNodeAttrs attrs nd) = n_AssignedJobs nd \<and> n_SlotsUsed (applyNodeAttrs attrs nd) = n_SlotsUsed nd"
proof -
  have "n_Name (applyNodeAttr a nd) = n_Name nd \<and> n_ID (applyNodeAttr a nd) = n_ID nd \<and>
    n_AssignedJobs (applyNodeAttr a nd) = n_AssignedJobs nd \<and> n_SlotsUsed (applyNodeAttr a nd) = n_SlotsUsed nd" for a nd
    using nodeAttrTable_frame [of "sa_Name a" _ a nd] by (auto simp: applyNodeAttr_def dest: map_of_SomeD split: option.splits)
  then show ?thesis unfolding applyNodeAttrs_def by (induction attrs arbitrary: nd) simp_all
qed

lemma atoiPos_pos: "0 < old \<Longrightarrow> 0 < atoiPos old s"
  by (simp add: atoiPos_def split: prod.split option.split)

lemma svrNodeSelectSpec_pos: "svrNodeSelectSpec spec = (n, ppn) \<Longrightarrow> 0 < n \<and> 0 < ppn"
proof -
  have "0 < x \<Longrightarrow> 0 < foldl (\<lambda>ppn kv0. let kv = TrimSpace kv0 in
      if HasPrefix kv ''ppn='' then atoiPos ppn (TrimSpace (drop 4 kv)) else ppn) x parts" for x parts
    by (induction parts arbitrary: x) (auto simp: Let_def atoiPos_pos)
  then show "svrNodeSelectSpec spec = (n, ppn) \<Longrightarrow> 0 < n \<and> 0 < ppn"
    by (auto simp: svrNodeSelectSpec_def Let_def atoiPos_pos split: if_splits)
qed

lemma jobRequestedCPUs_pos: "0 < jobRequestedCPUs j"
  by (auto simp: jobRequestedCPUs_def Let_def atoiPos_pos split: prod.split option.split)

section \<open>Array specifications that end\<close>

definition progression :: "int \<Rightarrow> int \<Rightarrow> int \<Rightarrow> int set" where
  "progression lo hi stp = {v. \<exists>k. v = lo + int k * stp \<and> v \<le> hi}"

lemma progression_step:
  assumes "v \<le> hi" "0 < stp"
  shows "progression v hi stp = insert v (progression (v + stp) hi stp)"
proof (rule set_eqI)
  fix w
  show "w \<in> progression v hi stp \<longleftrightarrow> w \<in> insert v (progression (v + stp) hi stp)"
  proof
    assume "w \<in> progression v hi stp"
    then obtain k where k: "w = v + int k * stp" "w \<le> hi" by (auto simp: progression_def)
    show "w \<in> insert v (progression (v + stp) hi stp)"
    proof (cases k)
      case (Suc m)
      then have "w = v + stp + int m * stp" using k(1) by (simp add: algebra_simps)
      then show ?thesis using k(2) by (auto simp: progression_def)
    qed (use k in simp)
  next
    assume "w \<in> insert v (progression (v + stp) hi stp)"
    then consider "w = v" | k where "w = v + stp + int k * stp" "w \<le> hi" by (auto simp: progression_def)
    then show "w \<in> progression v hi stp"
    proof cases
      case 1
      then have "w = v + int 0 * stp \<and> w \<le> hi" using assms by simp
      then show ?thesis unfolding progression_def by blast
    next
      case 2
      then have "w = v + int (Suc k) * stp \<and> w \<le> hi" by (simp add: algebra_simps)
      then show ?thesis unfolding progression_def by blast
    qed
  qed
qed

lemma progression_empty: "hi < v \<Longrightarrow> 0 < stp \<Longrightarrow> progression v hi stp = {}"
  by (auto simp: progression_def) (smt (verit) mult_nonneg_nonneg of_nat_0_le_iff)

lemma addLoop_returns:
  assumes "0 < stp" "hi + stp \<le> max_int64" "min_int64 \<le> v" "v \<le> max_int64" "distinct out"
  shows "\<exists>out'. addLoop v hi stp out = Some out' \<and> distinct out' \<and> set out' = set out \<union> progression v hi stp"
  using assms
proof (induction "nat (hi + 1 - v)" arbitrary: v out rule: less_induct)
  case less
  show ?case
  proof (cases "v \<le> hi")
    case True
    let ?out = "if v \<in> set out then out else out @ [v]"
    have w: "wrap64 (v + stp) = v + stp" using True less.prems by simp
    have "\<exists>out'. addLoop (v + stp) hi stp ?out = Some out' \<and> distinct out' \<and> set out' = set ?out \<union> progression (v + stp) hi stp"
      by (rule less.hyps) (use True less.prems in auto)
    then show ?thesis
      using True progression_step [OF True less.prems(1)] by (subst addLoop.simps) (auto simp: w)
  next
    case False
    then show ?thesis using less.prems progression_empty [of hi v stp] by (subst addLoop.simps) simp
  qed
qed

text \<open>A loop whose upper bound is the greatest integer never leaves its range.\<close>

lemma addLoop_diverges: "is_int64 v \<Longrightarrow> addLoop v max_int64 stp out = None"
proof -
  have "addLoop v hi stp out = Some r \<Longrightarrow> \<not> (hi = max_int64 \<and> is_int64 v)" for hi r
  proof (rule addLoop.raw_induct [where P = "\<lambda>v hi stp out r. \<not> (hi = max_int64 \<and> is_int64 v)"], goal_cases)
    case (1 f v hi stp out r)
    show ?case
    proof
      assume h: "hi = max_int64 \<and> is_int64 v"
      then have "f (wrap64 (v + stp)) hi stp (if v \<in> set out then out else out @ [v]) = Some r" using 1(3) by simp
      from 1(2) [OF this] h wrap64_range show False by blast
    qed
  qed
  then show "is_int64 v \<Longrightarrow> addLoop v max_int64 stp out = None" by (metis not_Some_eq)
qed

lemma scanD_FormatInt:
  assumes i: "0 \<le> i" "i \<le> max_int64" and r: "r = [] \<or> \<not> is_digit (hd r)"
  shows "scanD (FormatInt i @ r) = Some (i, r)"
proof -
  let ?d = "dec_digits (nat i)"
  have f: "FormatInt i = ?d" using i by (simp add: FormatInt_def)
  have tw: "takeWhile is_digit (?d @ r) = ?d" "dropWhile is_digit (?d @ r) = r"
    using r by (cases r; auto simp: takeWhile_append dropWhile_append dest: set_dec_digits)+
  obtain c u where d: "?d = c # u" using dec_digits_not_Nil by (meson neq_Nil_conv)
  have "is_digit c" using set_dec_digits [of c "nat i"] by (simp add: d)
  then have c: "\<not> is_space c" "c \<noteq> CHR ''-''" "c \<noteq> CHR ''+''" using is_digit_not_space by (auto simp: is_digit_def)
  have 1: "dropWhile (\<lambda>c. is_space c \<and> c \<noteq> CHR 0x0A) (?d @ r) = ?d @ r" using c by (simp add: d)
  have 2: "(case ?d @ r of c # u \<Rightarrow> if c = CHR ''-'' \<or> c = CHR ''+'' then u else ?d @ r | [] \<Rightarrow> []) = ?d @ r"
    "(case ?d @ r of c # _ \<Rightarrow> if c = CHR ''-'' then ''-'' else [] | [] \<Rightarrow> []) = []" using c by (simp_all add: d)
  have "ParseInt ?d = (i, None)" using Atoi_FormatInt [of i] i f by (simp add: min_int64_def)
  then show ?thesis unfolding f scanD_def Let_def 1 2 tw by simp
qed

text \<open>A range as a user writes it.\<close>

definition printRange :: "int \<times> int \<times> int \<Rightarrow> string" where
  "printRange r = (case r of (lo, hi, stp) \<Rightarrow> FormatInt lo @ ''-'' @ FormatInt hi @ '':'' @ FormatInt stp)"

definition range_ok :: "int \<times> int \<times> int \<Rightarrow> bool" where
  "range_ok r = (case r of (lo, hi, stp) \<Rightarrow> 0 \<le> lo \<and> lo \<le> hi \<and> 0 < stp \<and> hi + stp \<le> max_int64)"

lemma FormatInt_pos_digits: "0 \<le> i \<Longrightarrow> c \<in> set (FormatInt i) \<Longrightarrow> is_digit c"
  by (auto simp: FormatInt_def dest: set_dec_digits)

lemma printRange_chars: "range_ok r \<Longrightarrow> c \<in> set (printRange r) \<Longrightarrow> c = CHR ''-'' \<or> c = CHR '':'' \<or> is_digit c"
  by (auto simp: printRange_def range_ok_def dest!: FormatInt_pos_digits [rotated])

lemma scanPart_printRange: "range_ok r \<Longrightarrow> scanPart (printRange r) = Some r"
proof -
  assume ok: "range_ok r"
  obtain lo hi stp where r: "r = (lo, hi, stp)" by (cases r)
  have b: "0 \<le> lo" "lo \<le> max_int64" "0 \<le> hi" "hi \<le> max_int64" "0 \<le> stp" "stp \<le> max_int64"
    using ok by (auto simp: r range_ok_def)
  have nd: "\<not> is_digit CHR ''-''" "\<not> is_digit CHR '':''" by code_simp+
  have "scanD (FormatInt lo @ CHR ''-'' # x) = Some (lo, CHR ''-'' # x)"
    "scanD (FormatInt hi @ CHR '':'' # x) = Some (hi, CHR '':'' # x)" for x
    using scanD_FormatInt b nd by simp_all
  moreover have "scanD (FormatInt stp) = Some (stp, [])" using scanD_FormatInt [of stp "[]"] b by simp
  ultimately show ?thesis by (simp add: scanPart_def printRange_def r scanSep_def)
qed

lemma arrayParts_ranges:
  assumes "list_all range_ok rs" "distinct out"
  shows "\<exists>xs. arrayParts (map printRange rs) out = Some (Inr (sort xs)) \<and> distinct xs \<and>
    set xs = set out \<union> (\<Union>(lo, hi, stp) \<in> set rs. progression lo hi stp)"
  using assms
proof (induction rs arbitrary: out)
  case (Cons r rs)
  obtain lo hi stp where r: "r = (lo, hi, stp)" by (cases r)
  have ok: "range_ok r" "lo \<le> hi" "0 < stp" "hi + stp \<le> max_int64" "min_int64 \<le> lo" "lo \<le> max_int64"
    using Cons.prems by (auto simp: r range_ok_def min_int64_def)
  have "printRange r \<noteq> []" by (simp add: r printRange_def)
  have "TrimSpace (printRange r) = printRange r"
  proof (rule TrimSpace_no_space, rule ballI)
    fix c assume "c \<in> set (printRange r)"
    then have "c = CHR ''-'' \<or> c = CHR '':'' \<or> is_digit c" by (rule printRange_chars [OF ok(1)])
    then show "\<not> is_space c" using is_digit_not_space by (auto simp: is_space_def)
  qed
  moreover obtain out' where "addLoop lo hi stp out = Some out'" "distinct out'" "set out' = set out \<union> progression lo hi stp"
    using addLoop_returns [OF ok(3-6) Cons.prems(2)] by blast
  moreover from Cons.IH [of out'] obtain xs where "arrayParts (map printRange rs) out' = Some (Inr (sort xs))" "distinct xs"
    "set xs = set out' \<union> (\<Union>(lo, hi, stp) \<in> set rs. progression lo hi stp)"
    using Cons.prems(1) calculation by auto
  ultimately show ?case
    using ok scanPart_printRange [OF ok(1)] \<open>printRange r \<noteq> []\<close> by (auto simp: r addRange_def)
qed auto

section \<open>Properties\<close>



end
