(* ===== verification/Job_Persist.thy ===== *)
theory Job_Persist
  imports Server_Attrs Server_DB "HOL-Library.Char_ord" "HOL-Library.List_Lexorder"
begin

text \<open>
  The documents in which jobs and nodes survive a restart: \<^verbatim>\<open>serializeJob\<close>, \<^verbatim>\<open>deserializeJob\<close>, \<^verbatim>\<open>saveNodes\<close> and
  \<^verbatim>\<open>recoverNodes\<close> of \<^verbatim>\<open>src/internal/server/server.go\<close>. A document is a list of lines.
\<close>

section \<open>Jobs\<close>

definition timeLine :: "string \<Rightarrow> gotime \<Rightarrow> (string \<times> string) list" where
  "timeLine key t = (case t of Some ts \<Rightarrow> [(key, FormatInt ts)] | None \<Rightarrow> [])"

definition textLine :: "string \<Rightarrow> string \<Rightarrow> (string \<times> string) list" where
  "textLine key v = (if v \<noteq> [] then [(key, v)] else [])"

definition jobLines :: "Job \<Rightarrow> (string \<times> string) list" where
  "jobLines j =
     [(''state'', FormatInt (j_State j)), (''substate'', FormatInt (j_Substate j)), (''queue'', j_Queue j),
      (''owner'', j_Owner j), (''name'', j_Name j), (''euser'', j_EUser j), (''egroup'', j_EGroup j),
      (''exec_host'', j_ExecHost j), (''stdout'', j_StdoutPath j), (''stderr'', j_StderrPath j),
      (''exec_port'', FormatInt (j_ExecPort j)), (''session'', FormatInt (j_SessionID j)),
      (''exit_status'', FormatInt (j_ExitStatus j)), (''priority'', FormatInt (j_Priority j)),
      (''node_count'', FormatInt (j_NodeCount j)), (''task_count'', FormatInt (j_TaskCount j))] @
     timeLine ''comp_time'' (j_CompTime j) @ timeLine ''start_time'' (j_StartTime j) @
     timeLine ''qtime'' (j_QueueTime j) @ timeLine ''create_time'' (j_CreateTime j) @
     map (\<lambda>k. (''req.'' @ k, sget (j_ResourceReq j) k)) (sort (map fst (j_ResourceReq j))) @
     textLine ''provision_vm'' (j_ProvisionVM j) @ textLine ''provision_node'' (j_ProvisionNode j)"

definition kvLine :: "string \<times> string \<Rightarrow> string" where
  "kvLine kv = (case kv of (k, v) \<Rightarrow> k @ ''='' @ v)"

definition serializeJob :: "Job \<Rightarrow> string" where
  "serializeJob j = concat (map (\<lambda>kv. kvLine kv @ [CHR 0x0A]) (jobLines j))"

text \<open>\<^verbatim>\<open>setTime\<close>: a time that is not a number is left as it was.\<close>

definition timeOr :: "gotime \<Rightarrow> string \<Rightarrow> gotime" where
  "timeOr old v = (case ParseInt v of (ts, None) \<Rightarrow> UnixTime ts | (_, Some _) \<Rightarrow> old)"

definition persistTable :: "string \<Rightarrow> (string \<times> (Job \<Rightarrow> Job)) list" where
  "persistTable v =
     [(''state'', \<lambda>j. j\<lparr>j_State := scanOr (j_State j) v\<rparr>), (''substate'', \<lambda>j. j\<lparr>j_Substate := scanOr (j_Substate j) v\<rparr>),
      (''queue'', \<lambda>j. j\<lparr>j_Queue := v\<rparr>), (''owner'', \<lambda>j. j\<lparr>j_Owner := v\<rparr>), (''name'', \<lambda>j. j\<lparr>j_Name := v\<rparr>),
      (''euser'', \<lambda>j. j\<lparr>j_EUser := v\<rparr>), (''egroup'', \<lambda>j. j\<lparr>j_EGroup := v\<rparr>), (''exec_host'', \<lambda>j. j\<lparr>j_ExecHost := v\<rparr>),
      (''exec_port'', \<lambda>j. j\<lparr>j_ExecPort := scanOr (j_ExecPort j) v\<rparr>),
      (''session'', \<lambda>j. j\<lparr>j_SessionID := scanOr (j_SessionID j) v\<rparr>),
      (''exit_status'', \<lambda>j. j\<lparr>j_ExitStatus := scanOr (j_ExitStatus j) v\<rparr>),
      (''priority'', \<lambda>j. j\<lparr>j_Priority := scanOr (j_Priority j) v\<rparr>),
      (''node_count'', \<lambda>j. j\<lparr>j_NodeCount := scanOr (j_NodeCount j) v\<rparr>),
      (''task_count'', \<lambda>j. j\<lparr>j_TaskCount := scanOr (j_TaskCount j) v\<rparr>),
      (''comp_time'', \<lambda>j. j\<lparr>j_CompTime := timeOr (j_CompTime j) v\<rparr>),
      (''start_time'', \<lambda>j. j\<lparr>j_StartTime := timeOr (j_StartTime j) v\<rparr>),
      (''qtime'', \<lambda>j. j\<lparr>j_QueueTime := timeOr (j_QueueTime j) v\<rparr>),
      (''create_time'', \<lambda>j. j\<lparr>j_CreateTime := timeOr (j_CreateTime j) v\<rparr>),
      (''provision_vm'', \<lambda>j. j\<lparr>j_ProvisionVM := v\<rparr>), (''provision_node'', \<lambda>j. j\<lparr>j_ProvisionNode := v\<rparr>)]"

definition applyPersist :: "string \<times> string \<Rightarrow> Job \<Rightarrow> Job" where
  "applyPersist kv j = (case kv of (key, v) \<Rightarrow> (case map_of (persistTable v) key of
      Some upd \<Rightarrow> upd j
    | None \<Rightarrow>
        if HasPrefix key ''req.'' then j\<lparr>j_ResourceReq := mput (TrimPrefix key ''req.'') v (j_ResourceReq j)\<rparr> else j))"

definition persistLine :: "string \<Rightarrow> Job \<Rightarrow> Job" where
  "persistLine line0 j = (case cut CHR ''='' (TrimSpace line0) of
      Some (c # key, v) \<Rightarrow> applyPersist (c # key, v) j
    | _ \<Rightarrow> j)"

definition deserializeJob :: "int \<Rightarrow> string \<Rightarrow> string \<Rightarrow> string \<Rightarrow> Job" where
  "deserializeJob now dat jobID serverName = fold persistLine (Split CHR 0x0A dat) (NewJob now jobID [] serverName)"

section \<open>Reading lines back\<close>

text \<open>A key and a value that a line can hold: the line ends where the value does, and the key has no equals sign.\<close>

definition line_ok :: "string \<times> string \<Rightarrow> bool" where
  "line_ok kv = (case kv of (k, v) \<Rightarrow>
     k \<noteq> [] \<and> CHR ''='' \<notin> set k \<and> CHR 0x0A \<notin> set k \<and> CHR 0x0A \<notin> set v \<and> \<not> is_space (hd k) \<and>
     (v = [] \<or> \<not> is_space (last v)))"

lemma Split_lines:
  "list_all (\<lambda>x. c \<notin> set x) xs \<Longrightarrow> Split c (concat (map (\<lambda>x. x @ [c]) xs)) = xs @ [[]]"
proof (induction xs)
  case (Cons x xs)
  then show ?case using Split_append [of c x "concat (map (\<lambda>x. x @ [c]) xs)"] by simp
qed simp

lemma TrimSpace_line:
  assumes "line_ok (k, v)"
  shows "TrimSpace (k @ CHR ''='' # v) = k @ CHR ''='' # v"
proof -
  obtain c u where k: "k = c # u" using assms by (auto simp: line_ok_def neq_Nil_conv)
  have c: "\<not> is_space c" using assms by (simp add: k line_ok_def)
  have "\<not> is_space (last (k @ CHR ''='' # v))"
    using assms by (cases "v = []") (auto simp: line_ok_def is_space_def)
  then have "\<not> is_space (hd (rev (k @ CHR ''='' # v)))" unfolding hd_rev .
  then have "dropWhile is_space (rev (k @ CHR ''='' # v)) = rev (k @ CHR ''='' # v)"
    by (intro dropWhile_hd) simp_all
  then show ?thesis using c by (simp add: TrimSpace_def k)
qed

lemma persistLine_kv: "line_ok kv \<Longrightarrow> persistLine (kvLine kv) j = applyPersist kv j"
proof -
  assume ok: "line_ok kv"
  obtain k v where kv: "kv = (k, v)" by fastforce
  obtain c u where k: "k = c # u" using ok by (auto simp: kv line_ok_def neq_Nil_conv)
  have "cut CHR ''='' (TrimSpace (k @ CHR ''='' # v)) = Some (k, v)"
    using TrimSpace_line [of k v] cut_append [of "CHR ''=''" k v] ok by (simp add: kv line_ok_def)
  then show ?thesis by (simp add: persistLine_def kvLine_def kv k)
qed

lemma fold_persist:
  assumes "list_all line_ok kvs"
  shows "fold persistLine (Split CHR 0x0A (concat (map (\<lambda>kv. kvLine kv @ [CHR 0x0A]) kvs))) j = fold applyPersist kvs j"
proof -
  have "list_all (\<lambda>x. CHR 0x0A \<notin> set x) (map kvLine kvs)"
    using assms by (auto simp: list_all_iff line_ok_def kvLine_def)
  from Split_lines [OF this]
  have "Split CHR 0x0A (concat (map (\<lambda>kv. kvLine kv @ [CHR 0x0A]) kvs)) = map kvLine kvs @ [[]]" by (simp add: comp_def)
  moreover have "fold persistLine (map kvLine kvs) j = fold applyPersist kvs j" for j
    using assms by (induction kvs arbitrary: j) (simp_all add: persistLine_kv)
  moreover have "persistLine [] j = j" for j by (simp add: persistLine_def TrimSpace_def cut_def)
  ultimately show ?thesis by simp
qed

section \<open>What a restart keeps of a job\<close>

lemma sget_of_mget: "mget m k = Some v \<Longrightarrow> sget m k = v"
  by (simp add: sget_def)

lemma applyPersist_req:
  "applyPersist (''req.'' @ k, v) j = j\<lparr>j_ResourceReq := mput k v (j_ResourceReq j)\<rparr>"
  by (simp add: applyPersist_def persistTable_def HasPrefix_def TrimPrefix_def)

lemma applyPersist_reqs:
  "fold applyPersist (map (\<lambda>k. (''req.'' @ k, f k)) ks) j =
     j\<lparr>j_ResourceReq := fold (\<lambda>k. mput k (f k)) ks (j_ResourceReq j)\<rparr>"
  by (induction ks arbitrary: j) (simp_all add: applyPersist_req del: append_Cons append_Nil)

lemma mget_fold_mput:
  "mget (fold (\<lambda>k. mput k (f k)) ks m) x = (if x \<in> set ks then Some (f x) else mget m x)"
  by (induction ks arbitrary: m) (auto simp: mget_mput)

definition time_ok :: "gotime \<Rightarrow> bool" where
  "time_ok t = (case t of None \<Rightarrow> True | Some ts \<Rightarrow> is_int64 ts \<and> ts \<noteq> - 62135596800)"

lemma timeOr_FormatInt: "time_ok (Some ts) \<Longrightarrow> timeOr old (FormatInt ts) = Some ts"
  by (simp add: time_ok_def timeOr_def Atoi_FormatInt UnixTime_def)

lemma persist_comp_time:
  "time_ok t \<Longrightarrow> j_CompTime j = None \<Longrightarrow> fold applyPersist (timeLine ''comp_time'' t) j = j\<lparr>j_CompTime := t\<rparr>"
  by (cases t; cases j) (simp_all add: timeLine_def applyPersist_def persistTable_def timeOr_FormatInt)

lemma persist_start_time:
  "time_ok t \<Longrightarrow> j_StartTime j = None \<Longrightarrow> fold applyPersist (timeLine ''start_time'' t) j = j\<lparr>j_StartTime := t\<rparr>"
  by (cases t; cases j) (simp_all add: timeLine_def applyPersist_def persistTable_def timeOr_FormatInt)

lemma persist_qtime:
  "time_ok t \<Longrightarrow> j_QueueTime j = None \<Longrightarrow> fold applyPersist (timeLine ''qtime'' t) j = j\<lparr>j_QueueTime := t\<rparr>"
  by (cases t; cases j) (simp_all add: timeLine_def applyPersist_def persistTable_def timeOr_FormatInt)

lemma persist_create_time:
  "time_ok t \<Longrightarrow> t \<noteq> None \<Longrightarrow> fold applyPersist (timeLine ''create_time'' t) j = j\<lparr>j_CreateTime := t\<rparr>"
  by (cases t; cases j) (simp_all add: timeLine_def applyPersist_def persistTable_def timeOr_FormatInt)

lemma persist_vm:
  "j_ProvisionVM j = [] \<Longrightarrow> fold applyPersist (textLine ''provision_vm'' v) j = j\<lparr>j_ProvisionVM := v\<rparr>"
  by (cases j) (simp add: textLine_def applyPersist_def persistTable_def)

lemma persist_node:
  "j_ProvisionNode j = [] \<Longrightarrow> fold applyPersist (textLine ''provision_node'' v) j = j\<lparr>j_ProvisionNode := v\<rparr>"
  by (cases j) (simp add: textLine_def applyPersist_def persistTable_def)

lemmas persist_lines = persist_comp_time persist_start_time persist_qtime persist_create_time persist_vm persist_node

lemma applyPersist_simps:
  "applyPersist (''state'', v) j = j\<lparr>j_State := scanOr (j_State j) v\<rparr>"
  "applyPersist (''substate'', v) j = j\<lparr>j_Substate := scanOr (j_Substate j) v\<rparr>"
  "applyPersist (''queue'', v) j = j\<lparr>j_Queue := v\<rparr>"
  "applyPersist (''owner'', v) j = j\<lparr>j_Owner := v\<rparr>"
  "applyPersist (''name'', v) j = j\<lparr>j_Name := v\<rparr>"
  "applyPersist (''euser'', v) j = j\<lparr>j_EUser := v\<rparr>"
  "applyPersist (''egroup'', v) j = j\<lparr>j_EGroup := v\<rparr>"
  "applyPersist (''exec_host'', v) j = j\<lparr>j_ExecHost := v\<rparr>"
  "applyPersist (''stdout'', v) j = j"
  "applyPersist (''stderr'', v) j = j"
  "applyPersist (''exec_port'', v) j = j\<lparr>j_ExecPort := scanOr (j_ExecPort j) v\<rparr>"
  "applyPersist (''session'', v) j = j\<lparr>j_SessionID := scanOr (j_SessionID j) v\<rparr>"
  "applyPersist (''exit_status'', v) j = j\<lparr>j_ExitStatus := scanOr (j_ExitStatus j) v\<rparr>"
  "applyPersist (''priority'', v) j = j\<lparr>j_Priority := scanOr (j_Priority j) v\<rparr>"
  "applyPersist (''node_count'', v) j = j\<lparr>j_NodeCount := scanOr (j_NodeCount j) v\<rparr>"
  "applyPersist (''task_count'', v) j = j\<lparr>j_TaskCount := scanOr (j_TaskCount j) v\<rparr>"
  by (simp_all add: applyPersist_def persistTable_def HasPrefix_def)

lemma scanOr_FormatInt: "is_int64 i \<Longrightarrow> scanOr old (FormatInt i) = i"
  by (simp add: scanOr_def ScanInt_FormatInt)

text \<open>
  A job whose document reads back: its numbers are machine integers, no text holds a line break or ends in white
  space, and the names of the resources it asks for hold no equals sign.
\<close>

definition persist_text :: "string \<Rightarrow> bool" where
  "persist_text v = (CHR 0x0A \<notin> set v \<and> (v = [] \<or> \<not> is_space (last v)))"

definition persist_ok :: "Job \<Rightarrow> bool" where
  "persist_ok j = (
     list_all is_int64 [j_State j, j_Substate j, j_ExecPort j, j_SessionID j, j_ExitStatus j, j_Priority j,
       j_NodeCount j, j_TaskCount j] \<and>
     list_all time_ok [j_CompTime j, j_StartTime j, j_QueueTime j, j_CreateTime j] \<and> j_CreateTime j \<noteq> None \<and>
     list_all persist_text [j_Queue j, j_Owner j, j_Name j, j_EUser j, j_EGroup j, j_ExecHost j, j_StdoutPath j,
       j_StderrPath j, j_ProvisionVM j, j_ProvisionNode j] \<and>
     list_all (\<lambda>(k, v). CHR ''='' \<notin> set k \<and> CHR 0x0A \<notin> set k \<and> persist_text v) (j_ResourceReq j) \<and>
     is_map (j_ResourceReq j))"

definition persisted :: "int \<Rightarrow> string \<Rightarrow> Job \<Rightarrow> Job" where
  "persisted now server j =
     (NewJob now (j_ID j) [] server)\<lparr>j_State := j_State j, j_Substate := j_Substate j, j_Queue := j_Queue j,
       j_Owner := j_Owner j, j_Name := j_Name j, j_EUser := j_EUser j, j_EGroup := j_EGroup j,
       j_ExecHost := j_ExecHost j, j_ExecPort := j_ExecPort j, j_SessionID := j_SessionID j,
       j_ExitStatus := j_ExitStatus j, j_Priority := j_Priority j, j_NodeCount := j_NodeCount j,
       j_TaskCount := j_TaskCount j, j_CompTime := j_CompTime j, j_StartTime := j_StartTime j,
       j_QueueTime := j_QueueTime j, j_CreateTime := j_CreateTime j,
       j_ResourceReq := fold (\<lambda>k. mput k (sget (j_ResourceReq j) k)) (sort (map fst (j_ResourceReq j))) [],
       j_ProvisionVM := j_ProvisionVM j, j_ProvisionNode := j_ProvisionNode j\<rparr>"

lemma FormatInt_plain:
  assumes "c \<in> set (FormatInt i)"
  shows "\<not> is_space c" and "c \<noteq> CHR 0x0A"
proof -
  have "c = CHR ''-'' \<or> is_digit c" using FormatInt_chars [OF assms] .
  then show "\<not> is_space c"
    by (auto simp: is_space_def is_digit_def)
  then show "c \<noteq> CHR 0x0A" by (auto simp: is_space_def)
qed

lemma persist_text_int: "persist_text (FormatInt i)"
proof -
  have "last (FormatInt i) \<in> set (FormatInt i)" by simp
  then show ?thesis using FormatInt_plain [of _ i] by (auto simp: persist_text_def)
qed

lemma line_ok_simps:
  "line_ok (c # k, v) \<longleftrightarrow>
     CHR ''='' \<notin> set (c # k) \<and> CHR 0x0A \<notin> set (c # k) \<and> \<not> is_space c \<and> persist_text v"
  by (auto simp: line_ok_def persist_text_def)

lemma line_ok_reqs:
  assumes "list_all (\<lambda>(k, v). CHR ''='' \<notin> set k \<and> CHR 0x0A \<notin> set k \<and> persist_text v) m"
  shows "list_all line_ok (map (\<lambda>k. (''req.'' @ k, sget m k)) (sort (map fst m)))"
proof -
  have "line_ok (''req.'' @ k, sget m k)" if "k \<in> set (map fst m)" for k
  proof -
    obtain v where v: "mget m k = Some v" using \<open>k \<in> set (map fst m)\<close> by (cases "mget m k") (auto simp: map_of_eq_None_iff)
    then have "(k, v) \<in> set m" by (rule map_of_SomeD)
    with assms v show ?thesis
      by (auto simp: list_all_iff line_ok_simps sget_of_mget is_space_def)
  qed
  then show ?thesis by (auto simp: list_all_iff)
qed

lemma jobLines_ok: "persist_ok j \<Longrightarrow> list_all line_ok (jobLines j)"
  by (auto simp: persist_ok_def jobLines_def timeLine_def textLine_def line_ok_simps persist_text_int is_space_def
        line_ok_reqs [simplified] split: option.split)

lemma deserialize_serialize:
  assumes "persist_ok j"
  shows "deserializeJob now (serializeJob j) (j_ID j) server = persisted now server j"
proof -
  have "deserializeJob now (serializeJob j) (j_ID j) server = fold applyPersist (jobLines j) (NewJob now (j_ID j) [] server)"
    unfolding deserializeJob_def serializeJob_def by (rule fold_persist) (rule jobLines_ok [OF assms])
  also have "\<dots> = persisted now server j"
    using assms
    by (simp add: jobLines_def applyPersist_simps scanOr_FormatInt persist_lines applyPersist_reqs [simplified] persist_ok_def
        persisted_def NewJob_def zeroJob_def)
  finally show ?thesis .
qed

text \<open>
C8: a job written by \<^verbatim>\<open>serializeJob\<close> and read back by \<^verbatim>\<open>deserializeJob\<close> after a restart is the same job in every
attribute that \<^verbatim>\<open>persisted\<close> names: state, queue, owner, execution host, session, exit status, node layout, times and
every resource it asked for. The output paths are written but not read, and the dependencies, the holds, the
environment and the e-mail settings are not written at all: they come back empty, so a job that was waiting for
another one no longer waits, and a held job has no hold left to release.
\<close>

theorem job_survives_restart:
  assumes "persist_ok j"
  shows "deserializeJob now (serializeJob j) (j_ID j) server = persisted now server j \<and>
         mget (j_ResourceReq (deserializeJob now (serializeJob j) (j_ID j) server)) k = mget (j_ResourceReq j) k \<and>
         j_DependList (deserializeJob now (serializeJob j) (j_ID j) server) = [] \<and>
         j_HoldTypes (deserializeJob now (serializeJob j) (j_ID j) server) = [] \<and>
         j_StdoutPath (deserializeJob now (serializeJob j) (j_ID j) server) = [] \<and>
         j_StderrPath (deserializeJob now (serializeJob j) (j_ID j) server) = [] \<and>
         j_VariableList (deserializeJob now (serializeJob j) (j_ID j) server) = []"
proof -
  have "mget (j_ResourceReq (persisted now server j)) k = mget (j_ResourceReq j) k"
    by (cases "mget (j_ResourceReq j) k") (auto simp: persisted_def mget_fold_mput sget_def dest: map_of_SomeD weak_map_of_SomeI intro: rev_image_eqI)
  then show ?thesis
    unfolding deserialize_serialize [OF assms] by (simp add: persisted_def NewJob_def zeroJob_def)
qed

definition sampleHeldJob :: Job where
  "sampleHeldJob = (NewJob 100 ''7.pbs'' ''batch'' ''pbs'')\<lparr>j_State := 2, j_Substate := 20, j_Owner := ''ann@head'',
     j_DependList := ''afterok:6.pbs'', j_HoldTypes := ''s'', j_ResourceReq := [(''walltime'', ''60''), (''ncpus'', ''2'')]\<rparr>"

theorem job_survives_restart_witness:
  "persist_ok sampleHeldJob \<and> j_DependList sampleHeldJob \<noteq> [] \<and>
   j_DependList (deserializeJob 500 (serializeJob sampleHeldJob) ''7.pbs'' ''pbs'') = [] \<and>
   mget (j_ResourceReq (deserializeJob 500 (serializeJob sampleHeldJob) ''7.pbs'' ''pbs'')) ''ncpus'' = Some ''2''"
proof -
  have ok: "persist_ok sampleHeldJob"
    by (simp add: persist_ok_def sampleHeldJob_def NewJob_def zeroJob_def time_ok_def persist_text_def min_int64_def max_int64_def
        is_space_def)
  have f: "j_ID sampleHeldJob = ''7.pbs''" "j_DependList sampleHeldJob \<noteq> []"
    "mget (j_ResourceReq sampleHeldJob) ''ncpus'' = Some ''2''"
    by (simp_all add: sampleHeldJob_def NewJob_def)
  show ?thesis
    using job_survives_restart [OF ok, of 500 "''pbs''" "''ncpus''"] ok f(2) unfolding f(1,3)
    by (elim conjE) (intro conjI; assumption)
qed

end
