(* ===== verification/Accounting.thy ===== *)
theory Accounting
  imports Job_Persist Complex_Main
begin

text \<open>
  The accounting log and the cost report made from it: \<^verbatim>\<open>src/internal/acct/acct.go\<close>, \<^verbatim>\<open>buildJobInfo\<close> of
  \<^verbatim>\<open>src/internal/server/server.go\<close> and the package \<^verbatim>\<open>src/internal/cost\<close>. The time stamp that opens a record is an
  argument, amounts and core-seconds are exact rationals, and the order in which Go walks a map is the order of the
  association list that models it.
\<close>

section \<open>Records\<close>

record AcctInfo =
  ai_User :: string
  ai_Group :: string
  ai_Account :: string
  ai_JobName :: string
  ai_Queue :: string
  ai_CreateTime :: int
  ai_QueueTime :: int
  ai_EligTime :: int
  ai_StartTime :: int
  ai_EndTime :: int
  ai_ExitStatus :: int
  ai_ExecHost :: string
  ai_SessionID :: int
  ai_ResourceReq :: "string smap"
  ai_ResourceUsed :: "string smap"

text \<open>\<^verbatim>\<open>t.Unix()\<close>; the zero time is the first of January of the year 1.\<close>

definition timeUnix :: "gotime \<Rightarrow> int" where
  "timeUnix t = (case t of Some ts \<Rightarrow> ts | None \<Rightarrow> - 62135596800)"

definition buildJobInfo :: "Job \<Rightarrow> AcctInfo" where
  "buildJobInfo j =
     \<lparr>ai_User = j_Owner j, ai_Group = j_EGroup j,
      ai_Account = (if j_Account j \<noteq> [] then j_Account j else sget (j_Attrs j) ''Account_Name''),
      ai_JobName = j_Name j, ai_Queue = j_Queue j, ai_CreateTime = timeUnix (j_CreateTime j),
      ai_QueueTime = timeUnix (j_QueueTime j),
      ai_EligTime = (case j_StartTime j of Some ts \<Rightarrow> ts | None \<Rightarrow> timeUnix (j_QueueTime j)),
      ai_StartTime = (case j_StartTime j of Some ts \<Rightarrow> ts | None \<Rightarrow> 0),
      ai_EndTime = (case j_CompTime j of Some ts \<Rightarrow> ts | None \<Rightarrow> 0),
      ai_ExitStatus = j_ExitStatus j, ai_ExecHost = j_ExecHost j, ai_SessionID = j_SessionID j,
      ai_ResourceReq = j_ResourceReq j, ai_ResourceUsed = j_ResourceUsed j\<rparr>"

text \<open>\<^verbatim>\<open>extractUser\<close> of the package, which strips the host even from an owner that begins with the at sign.\<close>

definition acctUser :: "string \<Rightarrow> string" where
  "acctUser owner = before CHR ''@'' owner"

definition formatResourceReq :: "string smap \<Rightarrow> (string \<times> string) list" where
  "formatResourceReq req = map (\<lambda>(k, v). (''Resource_List.'' @ k, v)) req"

definition formatResourceUsed :: "string smap \<Rightarrow> (string \<times> string) list" where
  "formatResourceUsed used = map (\<lambda>(k, v). (''resources_used.'' @ k, v)) used"

definition acctHead :: "AcctInfo \<Rightarrow> (string \<times> string) list" where
  "acctHead i =
     [(''user'', acctUser (ai_User i)), (''group'', ai_Group i), (''jobname'', ai_JobName i), (''queue'', ai_Queue i),
      (''ctime'', FormatInt (ai_CreateTime i)), (''qtime'', FormatInt (ai_QueueTime i))]"

definition queuedFields :: "AcctInfo \<Rightarrow> (string \<times> string) list" where
  "queuedFields i = acctHead i @ formatResourceReq (ai_ResourceReq i)"

definition startedFields :: "AcctInfo \<Rightarrow> (string \<times> string) list" where
  "startedFields i =
     acctHead i @ [(''etime'', FormatInt (ai_EligTime i)), (''start'', FormatInt (ai_StartTime i)),
       (''exec_host'', ai_ExecHost i)] @ textLine ''account'' (ai_Account i) @ formatResourceReq (ai_ResourceReq i)"

definition endedFields :: "AcctInfo \<Rightarrow> (string \<times> string) list" where
  "endedFields i =
     acctHead i @ [(''etime'', FormatInt (ai_EligTime i)), (''start'', FormatInt (ai_StartTime i)),
       (''end'', FormatInt (ai_EndTime i)), (''Exit_status'', FormatInt (ai_ExitStatus i))] @
     textLine ''exec_host'' (ai_ExecHost i) @
     (if ai_SessionID i \<noteq> 0 then [(''session'', FormatInt (ai_SessionID i))] else []) @
     textLine ''account'' (ai_Account i) @
     formatResourceReq (ai_ResourceReq i) @ formatResourceUsed (ai_ResourceUsed i)"

definition deletedFields :: "AcctInfo \<Rightarrow> (string \<times> string) list" where
  "deletedFields i = acctHead i @ textLine ''exec_host'' (ai_ExecHost i)"

definition abortedFields :: "AcctInfo \<Rightarrow> (string \<times> string) list" where
  "abortedFields i =
     acctHead i @ [(''Exit_status'', FormatInt (ai_ExitStatus i))] @ textLine ''exec_host'' (ai_ExecHost i)"

datatype acct_event = AcctQueued | AcctStarted | AcctEnded | AcctDeleted | AcctAborted | AcctRerun

definition acctType :: "acct_event \<Rightarrow> string" where
  "acctType e = (case e of AcctQueued \<Rightarrow> ''Q'' | AcctStarted \<Rightarrow> ''S'' | AcctEnded \<Rightarrow> ''E''
     | AcctDeleted \<Rightarrow> ''D'' | AcctAborted \<Rightarrow> ''A'' | AcctRerun \<Rightarrow> ''R'')"

definition acctFields :: "acct_event \<Rightarrow> AcctInfo \<Rightarrow> (string \<times> string) list" where
  "acctFields e i = (case e of AcctQueued \<Rightarrow> queuedFields i | AcctStarted \<Rightarrow> startedFields i
     | AcctEnded \<Rightarrow> endedFields i | AcctDeleted \<Rightarrow> deletedFields i | AcctAborted \<Rightarrow> abortedFields i
     | AcctRerun \<Rightarrow> acctHead i)"

text \<open>A record: time stamp, type, job and the fields, on a line of its own.\<close>

definition Record :: "string \<Rightarrow> acct_event \<Rightarrow> string \<Rightarrow> AcctInfo \<Rightarrow> string" where
  "Record ts e jobID i =
     ts @ '';'' @ acctType e @ '';'' @ jobID @ '';'' @ Join '' '' (map kvLine (acctFields e i)) @ [CHR 0x0A]"

section \<open>Reading the records\<close>

record Usage =
  u_Account :: string
  u_Node :: string
  u_CoreSeconds :: rat

text \<open>\<^verbatim>\<open>strconv.ParseFloat\<close> on plain decimals; exponents, hexadecimal and the infinities are not modelled.\<close>

definition floatOf :: "string \<Rightarrow> rat option" where
  "floatOf s =
     (let neg = (case s of c # _ \<Rightarrow> c = CHR ''-'' | [] \<Rightarrow> False);
          d = (case s of c # t \<Rightarrow> if c = CHR ''-'' \<or> c = CHR ''+'' then t else s | [] \<Rightarrow> []);
          (ip, fp) = (case cut CHR ''.'' d of Some p \<Rightarrow> p | None \<Rightarrow> (d, []))
      in if ip @ fp = [] \<or> \<not> list_all is_digit (ip @ fp) then None
         else Some ((if neg then -1 else 1) * of_nat (dec_val (ip @ fp)) / 10 ^ length fp))"

text \<open>\<^verbatim>\<open>bufio.Scanner\<close>: lines without their end; a line of 64 KiB or more stops the scan with an error.\<close>

definition scanLines :: "string \<Rightarrow> string list" where
  "scanLines s =
     (let ls = Split CHR 0x0A s; full = (if last ls = [] then butlast ls else ls)
      in map (\<lambda>l. TrimSuffix l [CHR 0x0D]) full)"

definition maxScanToken :: nat where
  "maxScanToken = 65536"

definition parseKeyValues :: "string \<Rightarrow> string smap" where
  "parseKeyValues msg =
     fold (\<lambda>tok m. case cut CHR ''='' tok of Some (c # k, v) \<Rightarrow> mput (c # k) v m | _ \<Rightarrow> m) (Fields msg) []"

definition nodesFromExecHost :: "string \<Rightarrow> string list" where
  "nodesFromExecHost execHost =
     (let nodes = filter (\<lambda>t. t \<noteq> []) (map (\<lambda>tok. before CHR ''/'' (TrimSpace tok)) (Split CHR ''+'' execHost))
      in if execHost = [] \<or> nodes = [] then [[]] else nodes)"

definition cpusOf :: "string smap \<Rightarrow> rat" where
  "cpusOf kv =
     (let pos = (\<lambda>v. case floatOf v of Some f \<Rightarrow> if f > 0 then f else 1 | None \<Rightarrow> 1)
      in case mget kv ''resources_used.ncpus'' of
           Some v \<Rightarrow> pos v
         | None \<Rightarrow> (case mget kv ''Resource_List.ncpus'' of Some v \<Rightarrow> pos v | None \<Rightarrow> 1))"

definition parseAcctLine :: "string \<Rightarrow> Usage list" where
  "parseAcctLine line0 = (case Split CHR '';'' line0 of
      _ # typ # _ # msg # _ \<Rightarrow>
        if typ \<noteq> ''E'' then []
        else (let kv = parseKeyValues msg in
          case (mget kv ''start'', mget kv ''end'') of
            (Some startS, Some endS) \<Rightarrow>
              (case (floatOf startS, floatOf endS) of
                 (Some st, Some en) \<Rightarrow>
                   if en \<le> st then []
                   else (let nodes = nodesFromExecHost (sget kv ''exec_host'');
                             per = cpusOf kv * (en - st) / of_nat (length nodes)
                         in map (\<lambda>n. \<lparr>u_Account = sget kv ''account'', u_Node = n, u_CoreSeconds = per\<rparr>) nodes)
               | _ \<Rightarrow> [])
          | _ \<Rightarrow> [])
    | _ \<Rightarrow> [])"

definition ParseAccounting :: "string \<Rightarrow> Usage list option" where
  "ParseAccounting s =
     (if list_ex (\<lambda>l. length l \<ge> maxScanToken) (Split CHR 0x0A s) then None
      else Some (concat (map parseAcctLine (scanLines s))))"

section \<open>Apportioning the bills\<close>

record Bill =
  b_Node :: string
  b_USD :: rat

record Allocation =
  al_Accounts :: "rat smap"
  al_Overhead :: rat
  al_ByNode :: "rat smap smap"
  al_CoreSeconds :: "rat smap"

definition acctKey :: "string \<Rightarrow> string" where
  "acctKey a = (if a = [] then ''(unknown)'' else a)"

definition amount :: "rat smap \<Rightarrow> string \<Rightarrow> rat" where
  "amount m k = (case mget m k of Some v \<Rightarrow> v | None \<Rightarrow> 0)"

definition addAmount :: "string \<Rightarrow> rat \<Rightarrow> rat smap \<Rightarrow> rat smap" where
  "addAmount k v m = mput k (amount m k + v) m"

definition innerMap :: "rat smap smap \<Rightarrow> string \<Rightarrow> rat smap" where
  "innerMap m k = (case mget m k of Some v \<Rightarrow> v | None \<Rightarrow> [])"

text \<open>The first loop: core-seconds by node and account, by node, and by account.\<close>

definition addUsage :: "Usage \<Rightarrow> rat smap smap \<times> rat smap \<times> rat smap \<Rightarrow> rat smap smap \<times> rat smap \<times> rat smap" where
  "addUsage u acc = (case acc of (used, nodeTotal, acctCore) \<Rightarrow>
     (mput (u_Node u) (addAmount (u_Account u) (u_CoreSeconds u) (innerMap used (u_Node u))) used,
      addAmount (u_Node u) (u_CoreSeconds u) nodeTotal,
      addAmount (acctKey (u_Account u)) (u_CoreSeconds u) acctCore))"

definition sumUsages :: "Usage list \<Rightarrow> rat smap smap \<times> rat smap \<times> rat smap" where
  "sumUsages usages = fold addUsage usages ([], [], [])"

text \<open>The share of one account in the bill of a node.\<close>

definition chargeAccount :: "Bill \<Rightarrow> rat \<Rightarrow> string \<times> rat \<Rightarrow> Allocation \<Rightarrow> Allocation" where
  "chargeAccount b tot ac r = (case ac of (acct, c) \<Rightarrow>
     let amt = b_USD b * (c / tot) in
     r\<lparr>al_Accounts := addAmount (acctKey acct) amt (al_Accounts r),
       al_ByNode := mput (b_Node b) (addAmount acct amt (innerMap (al_ByNode r) (b_Node b))) (al_ByNode r)\<rparr>)"

definition allocateBill :: "rat smap smap \<Rightarrow> rat smap \<Rightarrow> Bill \<Rightarrow> Allocation \<Rightarrow> Allocation" where
  "allocateBill used nodeTotal b r =
     (let tot = amount nodeTotal (b_Node b) in
      if tot \<le> 0 then r\<lparr>al_Overhead := al_Overhead r + b_USD b\<rparr>
      else fold (chargeAccount b tot) (innerMap used (b_Node b))
             (r\<lparr>al_ByNode := mput (b_Node b) (innerMap (al_ByNode r) (b_Node b)) (al_ByNode r)\<rparr>))"

definition Allocate :: "Usage list \<Rightarrow> Bill list \<Rightarrow> Allocation" where
  "Allocate usages bills =
     (case sumUsages usages of (used, nodeTotal, acctCore) \<Rightarrow>
        fold (allocateBill used nodeTotal) bills
          \<lparr>al_Accounts = [], al_Overhead = 0, al_ByNode = [], al_CoreSeconds = acctCore\<rparr>)"

section \<open>The bills of the report\<close>

text \<open>The command \<^verbatim>\<open>pbs_cost\<close>: bills given on the command line, or uptime times the price of the machine type.\<close>

definition parseStringMap :: "string \<Rightarrow> string smap" where
  "parseStringMap s =
     fold (\<lambda>tok0 m. case cut CHR ''='' (TrimSpace tok0) of
             Some (k, v) \<Rightarrow> mput (TrimSpace k) (TrimSpace v) m
           | None \<Rightarrow> m) (Split CHR '','' s) []"

definition parseFloatMap :: "string \<Rightarrow> rat smap" where
  "parseFloatMap s =
     fold (\<lambda>tok0 m. case cut CHR ''='' (TrimSpace tok0) of
             Some (k, v) \<Rightarrow> (case floatOf (TrimSpace v) of Some f \<Rightarrow> mput (TrimSpace k) f m | None \<Rightarrow> m)
           | None \<Rightarrow> m) (Split CHR '','' s) []"

definition nodeSet :: "Usage list \<Rightarrow> string list" where
  "nodeSet usages = remdups (map u_Node usages)"

definition nodeBill :: "rat smap \<Rightarrow> rat smap \<Rightarrow> string smap \<Rightarrow> rat smap \<Rightarrow> rat \<Rightarrow> string \<Rightarrow> Bill" where
  "nodeBill exact prices skus uptime defPrice node = (case mget exact node of
      Some v \<Rightarrow> \<lparr>b_Node = node, b_USD = v\<rparr>
    | None \<Rightarrow>
        let p = amount prices (sget skus node)
        in \<lparr>b_Node = node, b_USD = amount uptime node * (if p = 0 then defPrice else p)\<rparr>)"

definition buildBills :: "string list \<Rightarrow> string \<Rightarrow> string \<Rightarrow> string \<Rightarrow> string \<Rightarrow> rat \<Rightarrow> Bill list" where
  "buildBills nodes billUSD price nodeSKU uptimeHours defPrice =
     (let exact = parseFloatMap billUSD; skus = parseStringMap nodeSKU; uptime = parseFloatMap uptimeHours;
          names = remdups (nodes @ map fst exact @ map fst uptime @ map fst skus)
      in map (nodeBill exact (parseFloatMap price) skus uptime defPrice) (filter (\<lambda>n. n \<noteq> []) names))"

section \<open>Every dollar is charged once\<close>

definition charged :: "rat smap \<Rightarrow> rat" where
  "charged m = sum_list (map snd m)"

lemma charged_Nil [simp]: "charged [] = 0"
  by (simp add: charged_def)

lemma charged_Cons [simp]: "charged (kv # m) = snd kv + charged m"
  by (simp add: charged_def)

lemma charged_addAmount: "charged (addAmount k v m) = charged m + v"
  unfolding addAmount_def amount_def
proof (induction m)
  case (Cons kv m)
  then show ?case by (cases kv) (auto simp: charged_def split: option.splits)
qed (simp add: charged_def)

lemma amount_addAmount: "amount (addAmount k v m) l = (if l = k then amount m k + v else amount m l)"
  by (simp add: amount_def addAmount_def mget_mput)

lemma innerMap_Nil [simp]: "innerMap [] n = []"
  by (simp add: innerMap_def)

lemma innerMap_mput: "innerMap (mput k v m) l = (if l = k then v else innerMap m l)"
  by (simp add: innerMap_def mget_mput)

text \<open>The core-seconds of a node are those of its accounts, added up.\<close>

lemma sumUsages_total:
  "sumUsages usages = (used, nodeTotal, acctCore) \<Longrightarrow> charged (innerMap used n) = amount nodeTotal n"
proof -
  have "charged (innerMap used n) = amount nodeTotal n"
    if "fold addUsage us (used0, total0, core0) = (used, nodeTotal, acctCore)"
       "\<And>n. charged (innerMap used0 n) = amount total0 n" for us used0 total0 core0
    using that
  proof (induction us arbitrary: used0 total0 core0)
    case (Cons u us)
    have step: "addUsage u (used0, total0, core0) =
       (mput (u_Node u) (addAmount (u_Account u) (u_CoreSeconds u) (innerMap used0 (u_Node u))) used0,
        addAmount (u_Node u) (u_CoreSeconds u) total0, addAmount (acctKey (u_Account u)) (u_CoreSeconds u) core0)"
      by (simp add: addUsage_def)
    show ?case
      by (rule Cons.IH [OF Cons.prems(1) [unfolded fold_simps step]])
        (simp add: innerMap_mput charged_addAmount amount_addAmount Cons.prems(2))
  qed simp
  moreover assume "sumUsages usages = (used, nodeTotal, acctCore)"
  ultimately show ?thesis by (force simp: sumUsages_def innerMap_def amount_def)
qed

lemma chargeAccount_effect:
  "charged (al_Accounts (chargeAccount b tot (acct, c) r)) = charged (al_Accounts r) + b_USD b * (c / tot)"
  "al_Overhead (chargeAccount b tot (acct, c) r) = al_Overhead r"
  "charged (innerMap (al_ByNode (chargeAccount b tot (acct, c) r)) n) =
     charged (innerMap (al_ByNode r) n) + (if n = b_Node b then b_USD b * (c / tot) else 0)"
  by (simp_all add: chargeAccount_def Let_def charged_addAmount innerMap_mput)

lemma chargeAccounts_effect:
  "charged (al_Accounts (fold (chargeAccount b tot) accts r)) = charged (al_Accounts r) + b_USD b * (charged accts / tot) \<and>
   al_Overhead (fold (chargeAccount b tot) accts r) = al_Overhead r \<and>
   charged (innerMap (al_ByNode (fold (chargeAccount b tot) accts r)) n) =
     charged (innerMap (al_ByNode r) n) + (if n = b_Node b then b_USD b * (charged accts / tot) else 0)"
proof (induction accts arbitrary: r)
  case (Cons ac accts)
  obtain a c where ac: "ac = (a, c)" by fastforce
  show ?case
    using Cons.IH [of "chargeAccount b tot ac r"]
    by (simp add: ac chargeAccount_effect algebra_simps add_divide_distrib)
qed simp

lemma allocateBill_effect:
  assumes "\<And>n. charged (innerMap used n) = amount nodeTotal n"
  shows "charged (al_Accounts (allocateBill used nodeTotal b r)) + al_Overhead (allocateBill used nodeTotal b r) =
           charged (al_Accounts r) + al_Overhead r + b_USD b"
    and "charged (innerMap (al_ByNode (allocateBill used nodeTotal b r)) n) =
           charged (innerMap (al_ByNode r) n) + (if n = b_Node b \<and> amount nodeTotal n > 0 then b_USD b else 0)"
  using assms chargeAccounts_effect [of b "amount nodeTotal (b_Node b)" "innerMap used (b_Node b)"
      "r\<lparr>al_ByNode := mput (b_Node b) (innerMap (al_ByNode r) (b_Node b)) (al_ByNode r)\<rparr>" n]
  by (auto simp: allocateBill_def Let_def innerMap_mput)

lemma allocateBills_effect:
  assumes "\<And>n. charged (innerMap used n) = amount nodeTotal n"
  shows "charged (al_Accounts (fold (allocateBill used nodeTotal) bills r)) + al_Overhead (fold (allocateBill used nodeTotal) bills r) =
           charged (al_Accounts r) + al_Overhead r + sum_list (map b_USD bills)"
    and "charged (innerMap (al_ByNode (fold (allocateBill used nodeTotal) bills r)) n) =
           charged (innerMap (al_ByNode r) n) +
           (if amount nodeTotal n > 0 then sum_list (map b_USD (filter (\<lambda>b. b_Node b = n) bills)) else 0)"
  by (induction bills arbitrary: r) (auto simp: allocateBill_effect [OF assms])

section \<open>Reading back what was written\<close>

lemma split_spaces_token: "\<forall>c \<in> set a. \<not> is_space c \<Longrightarrow> split_spaces a = [a]"
  by (induction a) auto

lemma split_spaces_append:
  "\<forall>c \<in> set a. \<not> is_space c \<Longrightarrow> is_space d \<Longrightarrow> split_spaces (a @ d # b) = a # split_spaces b"
  by (induction a) auto

lemma Fields_Join:
  "list_all (\<lambda>t. t \<noteq> [] \<and> (\<forall>c \<in> set t. \<not> is_space c)) ts \<Longrightarrow> Fields (Join '' '' ts) = ts"
proof (induction ts rule: induct_list012)
  case (3 t u us)
  have "is_space CHR '' ''" by (simp add: is_space_def)
  with 3 show ?case
    using split_spaces_append [of t "CHR '' ''" "Join '' '' (u # us)"] by (simp add: Fields_def)
qed (auto simp: Fields_def split_spaces_token)

text \<open>A field that stays one field: no blank and no semicolon, and no equals sign in its name.\<close>

definition plain :: "string \<Rightarrow> bool" where
  "plain v = (\<forall>c \<in> set v. \<not> is_space c \<and> c \<noteq> CHR '';'')"

definition field_ok :: "string \<times> string \<Rightarrow> bool" where
  "field_ok kv = (case kv of (k, v) \<Rightarrow> k \<noteq> [] \<and> CHR ''='' \<notin> set k \<and> plain k \<and> plain v)"

lemma plain_append: "plain (a @ b) \<longleftrightarrow> plain a \<and> plain b"
  by (auto simp: plain_def)

lemma plain_kvLine: "field_ok kv \<Longrightarrow> plain (kvLine kv) \<and> kvLine kv \<noteq> []"
  by (cases kv) (auto simp: field_ok_def kvLine_def plain_def is_space_def)

lemma parseKeyValues_fields:
  assumes "list_all field_ok kvs"
  shows "parseKeyValues (Join '' '' (map kvLine kvs)) = fold (\<lambda>(k, v). mput k v) kvs []"
proof -
  have "Fields (Join '' '' (map kvLine kvs)) = map kvLine kvs"
    using assms by (intro Fields_Join) (auto simp: list_all_iff plain_def dest!: plain_kvLine)
  moreover have "fold (\<lambda>tok m. case cut CHR ''='' tok of Some (c # k, v) \<Rightarrow> mput (c # k) v m | _ \<Rightarrow> m) (map kvLine kvs) m =
      fold (\<lambda>(k, v). mput k v) kvs m" for m
    using assms
  proof (induction kvs arbitrary: m)
    case (Cons kv kvs)
    obtain c k v where kv: "kv = (c # k, v)"
      using Cons.prems by (cases kv) (auto simp: field_ok_def neq_Nil_conv)
    have "cut CHR ''='' (kvLine kv) = Some (c # k, v)"
      using cut_append [of "CHR ''=''" "c # k" v] Cons.prems by (simp add: kv kvLine_def field_ok_def)
    then show ?case using Cons by (simp add: kv)
  qed simp
  ultimately show ?thesis by (simp add: parseKeyValues_def)
qed

lemma fold_mput_mget:
  "distinct (map fst kvs) \<Longrightarrow> mget (fold (\<lambda>(k, v). mput k v) kvs m) x = (case mget kvs x of Some v \<Rightarrow> Some v | None \<Rightarrow> mget m x)"
proof (induction kvs arbitrary: m)
  case (Cons kv kvs)
  obtain k v where kv: "kv = (k, v)" by fastforce
  have new: "mget kvs k = None" using Cons.prems by (simp add: kv map_of_eq_None_iff)
  show ?case
    using Cons.IH [of "mput k v m"] Cons.prems new by (cases "x = k") (simp_all add: kv mget_mput split: option.split)
qed simp

lemma plain_FormatInt: "plain (FormatInt i)"
proof -
  have "c \<noteq> CHR '';''" if "c \<in> set (FormatInt i)" for c
    using FormatInt_chars [OF that] by (auto simp: is_digit_def)
  then show ?thesis using FormatInt_plain(1) by (auto simp: plain_def)
qed

text \<open>The job of a record that reads back.\<close>

definition acct_ok :: "AcctInfo \<Rightarrow> bool" where
  "acct_ok i = (
     list_all plain [acctUser (ai_User i), ai_Group i, ai_JobName i, ai_Queue i, ai_ExecHost i, ai_Account i] \<and>
     list_all (\<lambda>(k, v). CHR ''='' \<notin> set k \<and> plain k \<and> plain v) (ai_ResourceReq i @ ai_ResourceUsed i) \<and>
     is_map (ai_ResourceReq i) \<and> is_map (ai_ResourceUsed i) \<and> 0 \<le> ai_StartTime i \<and> 0 \<le> ai_EndTime i)"

lemma field_ok_prefix:
  assumes "list_all (\<lambda>(k, v). CHR ''='' \<notin> set k \<and> plain k \<and> plain v) m"
    and "plain p" and "p \<noteq> []" and "CHR ''='' \<notin> set p"
  shows "list_all field_ok (map (\<lambda>(k, v). (p @ k, v)) m)"
  using assms by (induction m) (auto simp: field_ok_def plain_append)

lemma plain_names:
  "plain ''user''" "plain ''group''" "plain ''jobname''" "plain ''queue''" "plain ''ctime''" "plain ''qtime''"
  "plain ''etime''" "plain ''start''" "plain ''end''" "plain ''Exit_status''" "plain ''exec_host''" "plain ''session''"
  "plain ''account''" "plain ''Resource_List.''" "plain ''resources_used.''"
  by (simp_all add: plain_def is_space_def)

lemma endedFields_ok: "acct_ok i \<Longrightarrow> list_all field_ok (endedFields i)"
proof -
  assume ok: "acct_ok i"
  have "list_all field_ok (formatResourceReq (ai_ResourceReq i))" "list_all field_ok (formatResourceUsed (ai_ResourceUsed i))"
    unfolding formatResourceReq_def formatResourceUsed_def
    by (rule field_ok_prefix; use ok in \<open>simp add: acct_ok_def plain_names\<close>)+
  then show ?thesis
    using ok by (simp add: endedFields_def acctHead_def textLine_def acct_ok_def field_ok_def plain_FormatInt plain_names)
qed

text \<open>What one finished job used: its core-seconds, spread evenly over its nodes.\<close>

definition jobUsage :: "AcctInfo \<Rightarrow> Usage list" where
  "jobUsage i =
     (let nodes = nodesFromExecHost (ai_ExecHost i);
          kv = formatResourceReq (ai_ResourceReq i) @ formatResourceUsed (ai_ResourceUsed i);
          per = cpusOf kv * of_int (ai_EndTime i - ai_StartTime i) / of_nat (length nodes)
      in if ai_EndTime i \<le> ai_StartTime i then []
         else map (\<lambda>n. \<lparr>u_Account = ai_Account i, u_Node = n, u_CoreSeconds = per\<rparr>) nodes)"

lemma distinct_prefixed: "is_map m \<Longrightarrow> distinct (map fst (map (\<lambda>(k, v). (p @ k, v)) m))"
proof -
  have "map fst (map (\<lambda>(k, v). (p @ k, v)) m) = map ((@) p) (map fst m)" by (induction m) auto
  then show "is_map m \<Longrightarrow> ?thesis" by (simp only: distinct_map) (simp add: inj_on_def)
qed

lemma endedFields_distinct: "acct_ok i \<Longrightarrow> distinct (map fst (endedFields i))"
proof -
  assume ok: "acct_ok i"
  have "distinct (map fst (formatResourceReq (ai_ResourceReq i)))" "distinct (map fst (formatResourceUsed (ai_ResourceUsed i)))"
    unfolding formatResourceReq_def formatResourceUsed_def
    by (rule distinct_prefixed; use ok in \<open>simp add: acct_ok_def\<close>)+
  then show ?thesis
    by (auto simp: endedFields_def acctHead_def textLine_def formatResourceReq_def formatResourceUsed_def)
qed

lemma floatOf_FormatInt: "0 \<le> n \<Longrightarrow> floatOf (FormatInt n) = Some (of_int n)"
proof -
  assume n: "0 \<le> n"
  let ?d = "dec_digits (nat n)"
  have d: "FormatInt n = ?d" using n by (simp add: FormatInt_def)
  obtain c t where ct: "?d = c # t" using FormatInt_not_Nil [of n] unfolding d by (cases ?d) auto
  have dig: "list_all is_digit ?d" using FormatInt_pos_digits [OF n] by (auto simp: d list_all_iff)
  then have c: "c \<noteq> CHR ''-''" "c \<noteq> CHR ''+''" by (auto simp: ct is_digit_def)
  have "CHR ''.'' \<notin> set ?d" using FormatInt_no_dot [of n] by (simp add: d)
  then have "cut CHR ''.'' ?d = None" by (simp add: cut_def)
  then show ?thesis
    using n dig c by (simp add: floatOf_def d ct Let_def) (simp flip: ct add: dec_simps)
qed

lemma mget_prefixed_None: "take (length p) x \<noteq> p \<Longrightarrow> mget (map (\<lambda>(k, v). (p @ k, v)) m) x = None"
  by (induction m) auto

lemma resource_names:
  "mget (formatResourceReq m) ''exec_host'' = None" "mget (formatResourceUsed m) ''exec_host'' = None"
  "mget (formatResourceReq m) ''account'' = None" "mget (formatResourceUsed m) ''account'' = None"
  "mget (formatResourceReq m) ''resources_used.ncpus'' = None" "mget (formatResourceUsed m) ''Resource_List.ncpus'' = None"
  unfolding formatResourceReq_def formatResourceUsed_def by (rule mget_prefixed_None; simp)+

lemma endedFields_get:
  "mget (endedFields i) ''start'' = Some (FormatInt (ai_StartTime i))"
  "mget (endedFields i) ''end'' = Some (FormatInt (ai_EndTime i))"
  "sget (endedFields i) ''exec_host'' = ai_ExecHost i"
  "sget (endedFields i) ''account'' = ai_Account i"
  "mget (endedFields i) ''resources_used.ncpus'' = mget (formatResourceUsed (ai_ResourceUsed i)) ''resources_used.ncpus''"
  "mget (endedFields i) ''Resource_List.ncpus'' = mget (formatResourceReq (ai_ResourceReq i)) ''Resource_List.ncpus''"
  by (simp_all add: endedFields_def acctHead_def textLine_def sget_def resource_names map_add_def split: option.split)

lemma cpusOf_cong:
  "mget a ''resources_used.ncpus'' = mget b ''resources_used.ncpus'' \<Longrightarrow>
   mget a ''Resource_List.ncpus'' = mget b ''Resource_List.ncpus'' \<Longrightarrow> cpusOf a = cpusOf b"
  by (simp add: cpusOf_def Let_def split: option.split)

lemma parseAcctLine_ended:
  assumes "acct_ok i" and "CHR '';'' \<notin> set ts" and "CHR '';'' \<notin> set jobID"
  shows "parseAcctLine (ts @ '';'' @ acctType AcctEnded @ '';'' @ jobID @ '';'' @
           Join '' '' (map kvLine (acctFields AcctEnded i))) = jobUsage i"
proof -
  let ?kvs = "endedFields i" and ?msg = "Join '' '' (map kvLine (endedFields i))"
  let ?kv = "parseKeyValues ?msg"
  have noc: "CHR '';'' \<notin> set (Join '' '' ls)" if "list_all plain ls" for ls
    using that by (induction ls rule: induct_list012) (auto simp: plain_def)
  have "list_all plain (map kvLine ?kvs)"
    using endedFields_ok [OF assms(1)] plain_kvLine by (auto simp: list_all_iff)
  then have "CHR '';'' \<notin> set ?msg" by (rule noc)
  then have sp: "Split CHR '';'' (ts @ '';E;'' @ jobID @ '';'' @ ?msg) = [ts, ''E'', jobID, ?msg]"
    using assms(2,3) Split_append [of "CHR '';''" ts] Split_append [of "CHR '';''" "''E''"]
      Split_append [of "CHR '';''" jobID] by (simp add: Split_no_sep)
  have get: "mget ?kv x = mget ?kvs x" for x
    unfolding parseKeyValues_fields [OF endedFields_ok [OF assms(1)]]
      fold_mput_mget [OF endedFields_distinct [OF assms(1)]] by (simp split: option.split)
  have sget: "sget ?kv x = sget ?kvs x" for x by (simp add: sget_def get)
  have cpus: "cpusOf ?kv = cpusOf (formatResourceReq (ai_ResourceReq i) @ formatResourceUsed (ai_ResourceUsed i))"
    by (rule cpusOf_cong)
      (simp_all add: get endedFields_get map_add_def resource_names split: option.split)
  have times: "floatOf (FormatInt (ai_StartTime i)) = Some (of_int (ai_StartTime i))"
    "floatOf (FormatInt (ai_EndTime i)) = Some (of_int (ai_EndTime i))"
    using assms(1) by (simp_all add: acct_ok_def floatOf_FormatInt)
  show ?thesis
    unfolding parseAcctLine_def acctFields_def acctType_def
    using sp by (simp add: Let_def get sget endedFields_get times cpus jobUsage_def)
qed

lemma HasSuffix_last: "HasSuffix s [c] \<Longrightarrow> last s = c"
  using last_drop [of "length s - 1" s] by (auto simp: HasSuffix_def)

text \<open>A record that the scanner takes as one line.\<close>

definition record_ok :: "string \<times> string \<times> AcctInfo \<Rightarrow> bool" where
  "record_ok r = (case r of (ts, jobID, i) \<Rightarrow>
     acct_ok i \<and> CHR '';'' \<notin> set ts \<and> CHR '';'' \<notin> set jobID \<and> CHR 0x0A \<notin> set ts \<and> CHR 0x0A \<notin> set jobID \<and>
     length (Record ts AcctEnded jobID i) \<le> maxScanToken)"

definition recordBody :: "string \<times> string \<times> AcctInfo \<Rightarrow> string" where
  "recordBody r = (case r of (ts, jobID, i) \<Rightarrow>
     ts @ '';'' @ acctType AcctEnded @ '';'' @ jobID @ '';'' @ Join '' '' (map kvLine (acctFields AcctEnded i)))"

lemma Record_body: "Record ts AcctEnded jobID i = recordBody (ts, jobID, i) @ [CHR 0x0A]"
  by (simp add: Record_def recordBody_def)

lemma plain_Join: "list_all plain ls \<Longrightarrow> c \<in> set (Join '' '' ls) \<Longrightarrow> \<not> is_space c \<or> c = CHR '' ''"
  by (induction ls rule: induct_list012) (auto simp: plain_def)

lemma ended_message:
  assumes "acct_ok i" and "c \<in> set (Join '' '' (map kvLine (acctFields AcctEnded i)))"
  shows "\<not> is_space c \<or> c = CHR '' ''"
proof (rule plain_Join)
  show "list_all plain (map kvLine (acctFields AcctEnded i))"
    using endedFields_ok [OF assms(1)] plain_kvLine by (auto simp: list_all_iff acctFields_def)
qed (rule assms(2))

lemma ended_message_last:
  assumes "acct_ok i"
  shows "Join '' '' (map kvLine (acctFields AcctEnded i)) \<noteq> []"
    and "last (Join '' '' (map kvLine (acctFields AcctEnded i))) \<noteq> CHR 0x0D"
proof -
  let ?m = "Join '' '' (map kvLine (acctFields AcctEnded i))"
  show ne: "?m \<noteq> []" by (simp add: acctFields_def endedFields_def acctHead_def kvLine_def)
  have "is_space CHR 0x0D" by (simp add: is_space_def)
  then show "last ?m \<noteq> CHR 0x0D" using ended_message [OF assms last_in_set [OF ne]] by auto
qed

lemma recordBody_line:
  assumes "record_ok r"
  shows "CHR 0x0A \<notin> set (recordBody r)" and "length (recordBody r) < maxScanToken"
    and "TrimSuffix (recordBody r) [CHR 0x0D] = recordBody r"
proof -
  obtain ts jobID i where r: "r = (ts, jobID, i)" by (cases r)
  have ok: "acct_ok i" using assms by (simp add: r record_ok_def)
  have sp: "is_space CHR 0x0A" by (simp add: is_space_def)
  show "CHR 0x0A \<notin> set (recordBody r)"
    using assms ended_message [OF ok, of "CHR 0x0A"] sp by (auto simp: r record_ok_def recordBody_def acctType_def)
  show "length (recordBody r) < maxScanToken"
    using assms by (simp add: r record_ok_def Record_body)
  have "last (recordBody r) \<noteq> CHR 0x0D"
    using ended_message_last [OF ok] by (simp add: r recordBody_def)
  then show "TrimSuffix (recordBody r) [CHR 0x0D] = recordBody r"
    using HasSuffix_last [of "recordBody r"] by (auto simp: TrimSuffix_def)
qed

lemma ParseAccounting_ended:
  assumes "list_all record_ok rs"
  shows "ParseAccounting (concat (map (\<lambda>(ts, jobID, i). Record ts AcctEnded jobID i) rs)) =
           Some (concat (map (\<lambda>(ts, jobID, i). jobUsage i) rs))"
proof -
  let ?s = "concat (map (\<lambda>(ts, jobID, i). Record ts AcctEnded jobID i) rs)"
  have "?s = concat (map (\<lambda>l. l @ [CHR 0x0A]) (map recordBody rs))"
    by (induction rs) (auto simp: Record_body)
  moreover have "list_all (\<lambda>x. CHR 0x0A \<notin> set x) (map recordBody rs)"
    using assms recordBody_line(1) by (auto simp: list_all_iff)
  ultimately have sp: "Split CHR 0x0A ?s = map recordBody rs @ [[]]" by (simp only: Split_lines)
  have short: "\<not> list_ex (\<lambda>l. length l \<ge> maxScanToken) (Split CHR 0x0A ?s)"
    using assms recordBody_line(2) unfolding sp by (auto simp: list_ex_iff list_all_iff maxScanToken_def not_le)
  have "map (\<lambda>l. TrimSuffix l [CHR 0x0D]) (map recordBody rs) = map recordBody rs"
    using assms recordBody_line(3) by (auto simp: list_all_iff)
  then have lines: "scanLines ?s = map recordBody rs" unfolding scanLines_def Let_def sp by simp
  have "parseAcctLine (recordBody r) = (case r of (ts, jobID, i) \<Rightarrow> jobUsage i)" if "r \<in> set rs" for r
    using that assms parseAcctLine_ended by (cases r) (auto simp: list_all_iff record_ok_def recordBody_def)
  then have "concat (map parseAcctLine (scanLines ?s)) = concat (map (\<lambda>(ts, jobID, i). jobUsage i) rs)"
    unfolding lines by (simp cong: map_cong)
  then show ?thesis unfolding ParseAccounting_def using short by simp
qed


definition sampleEnded :: AcctInfo where
  "sampleEnded = \<lparr>ai_User = ''ann@head'', ai_Group = ''g'', ai_Account = ''projA'', ai_JobName = ''run'', ai_Queue = ''batch'',
     ai_CreateTime = 10, ai_QueueTime = 10, ai_EligTime = 20, ai_StartTime = 20, ai_EndTime = 50, ai_ExitStatus = 0,
     ai_ExecHost = ''n1/0+n2/0'', ai_SessionID = 0, ai_ResourceReq = [(''ncpus'', ''4'')], ai_ResourceUsed = []\<rparr>"


end
