(* ===== verification/Server_State.thy ===== *)
theory Server_State
  imports Accounting Route Server_Request
begin

text \<open>
  The state of \<^verbatim>\<open>pbs_server\<close>: the type \<^verbatim>\<open>Server\<close> of \<^verbatim>\<open>src/internal/server/server.go\<close>, the file store of
  \<^verbatim>\<open>src/internal/server/store.go\<close> and the token check of \<^verbatim>\<open>src/internal/auth/token.go\<close>. Pointers into a manager are the
  keys under which the manager holds the object; the mutexes are left out, each handler is one step.
\<close>

section \<open>The store\<close>

text \<open>The documents of the file store. Writing a file succeeds.\<close>

record Store =
  st_serverDB :: "string option"
  st_queues :: "string smap"
  st_nodes :: "string option"
  st_jobs :: "string smap"
  st_scripts :: "string smap"

definition emptyStore :: Store where
  "emptyStore = \<lparr>st_serverDB = None, st_queues = [], st_nodes = None, st_jobs = [], st_scripts = []\<rparr>"

definition SaveServerDB :: "string \<Rightarrow> Store \<Rightarrow> Store" where
  "SaveServerDB dat st = st\<lparr>st_serverDB := Some dat\<rparr>"

definition SaveQueue :: "string \<Rightarrow> string \<Rightarrow> Store \<Rightarrow> Store" where
  "SaveQueue name dat st = st\<lparr>st_queues := mput name dat (st_queues st)\<rparr>"

definition SaveNodes :: "string \<Rightarrow> Store \<Rightarrow> Store" where
  "SaveNodes dat st = st\<lparr>st_nodes := Some dat\<rparr>"

definition SaveJob :: "string \<Rightarrow> string \<Rightarrow> Store \<Rightarrow> Store" where
  "SaveJob ident attrs st = st\<lparr>st_jobs := mput ident attrs (st_jobs st)\<rparr>"

definition SaveJobScript :: "string \<Rightarrow> string \<Rightarrow> Store \<Rightarrow> Store" where
  "SaveJobScript ident dat st = st\<lparr>st_scripts := mput ident dat (st_scripts st)\<rparr>"

definition LoadJobScript :: "string \<Rightarrow> Store \<Rightarrow> string option" where
  "LoadJobScript ident st = mget (st_scripts st) ident"

definition DeleteJob :: "string \<Rightarrow> Store \<Rightarrow> Store" where
  "DeleteJob ident st = st\<lparr>st_jobs := mdel ident (st_jobs st), st_scripts := mdel ident (st_scripts st)\<rparr>"

text \<open>\<^verbatim>\<open>os.Remove\<close> of the script file and of the queue file, which the handlers call beside the store.\<close>

definition removeScriptFile :: "string \<Rightarrow> Store \<Rightarrow> Store" where
  "removeScriptFile ident st = st\<lparr>st_scripts := mdel ident (st_scripts st)\<rparr>"

definition removeQueueFile :: "string \<Rightarrow> Store \<Rightarrow> Store" where
  "removeQueueFile name st = st\<lparr>st_queues := mdel name (st_queues st)\<rparr>"

section \<open>Tokens\<close>

abbreviation (input) MaxClockSkew :: int where "MaxClockSkew \<equiv> 300"

datatype token_error = TokenExpired | TokenInvalid

text \<open>The text that a token signs. The signature itself, HMAC-SHA256 in hexadecimal, is the parameter \<open>sign\<close>.\<close>

definition ComputeToken :: "(string \<Rightarrow> string \<Rightarrow> string) \<Rightarrow> string \<Rightarrow> int \<Rightarrow> string \<Rightarrow> string" where
  "ComputeToken sign user timestamp key = sign key (user @ ''|'' @ FormatInt timestamp)"

text \<open>The difference and its negation are 64-bit operations and wrap around.\<close>

definition clockSkew :: "int \<Rightarrow> int \<Rightarrow> int" where
  "clockSkew now timestamp =
     (let diff = wrap64 (now - timestamp) in if diff < 0 then wrap64 (- diff) else diff)"

definition VerifyToken :: "(string \<Rightarrow> string \<Rightarrow> string) \<Rightarrow> int \<Rightarrow> string \<Rightarrow> int \<Rightarrow> string \<Rightarrow> string \<Rightarrow> token_error option" where
  "VerifyToken sign now user timestamp token key =
     (if clockSkew now timestamp > MaxClockSkew then Some TokenExpired
      else if token \<noteq> ComputeToken sign user timestamp key then Some TokenInvalid
      else None)"

text \<open>A token stamped 2^63 seconds before now passes: the difference is the least integer, which has no negation.\<close>

lemma far_token_accepted:
  assumes "0 \<le> now" "now \<le> max_int64"
  shows "VerifyToken sign now user (now - 2 ^ 63) (ComputeToken sign user (now - 2 ^ 63) key) key = None"
proof -
  have "wrap64 (2 ^ 63) = - (2 ^ 63)" by code_simp
  then show ?thesis by (simp add: VerifyToken_def clockSkew_def Let_def)
qed

section \<open>The server\<close>

record Server =
  s_cfg :: SrvConfig
  s_jobMgr :: JobManager
  s_queueMgr :: QueueManager
  s_nodeMgr :: NodeManager
  s_store :: Store
  s_haEnabled :: bool
  s_haActive :: bool
  s_authMap :: "string smap"
  s_authKey :: "string option"
  s_acctLog :: "(acct_event \<times> string \<times> AcctInfo) list option"
  s_notified :: nat
  s_dispatching :: "(string \<times> string) list"
  s_killed :: "string list"

text \<open>
  The last three fields stand for what the server sets off outside: how often it woke the scheduler, the dispatches to
  MOMs that are under way (job and node) and the jobs that it asked a MOM to kill. \<^verbatim>\<open>s_acctLog\<close> is the log of
  accounting records, or \<^const>\<open>None\<close> where the log could not be opened.
\<close>

abbreviation ServerName :: "Server \<Rightarrow> string" where
  "ServerName s \<equiv> cs (s_cfg s) F_ServerName"

definition updQueue :: "string \<Rightarrow> (Queue \<Rightarrow> Queue) \<Rightarrow> Server \<Rightarrow> Server" where
  "updQueue name f s = (case GetQueue (s_queueMgr s) name of
      Some q \<Rightarrow> s\<lparr>s_queueMgr := (s_queueMgr s)\<lparr>qm_queues := mput name (f q) (qm_queues (s_queueMgr s))\<rparr>\<rparr>
    | None \<Rightarrow> s)"

definition onJobs :: "(JobManager \<Rightarrow> JobManager) \<Rightarrow> Server \<Rightarrow> Server" where
  "onJobs f s = s\<lparr>s_jobMgr := f (s_jobMgr s)\<rparr>"

definition onNodes :: "(NodeManager \<Rightarrow> NodeManager) \<Rightarrow> Server \<Rightarrow> Server" where
  "onNodes f s = s\<lparr>s_nodeMgr := f (s_nodeMgr s)\<rparr>"

definition onStore :: "(Store \<Rightarrow> Store) \<Rightarrow> Server \<Rightarrow> Server" where
  "onStore f s = s\<lparr>s_store := f (s_store s)\<rparr>"

definition GetJobS :: "Server \<Rightarrow> string \<Rightarrow> Job option" where
  "GetJobS s ident = GetJob (s_jobMgr s) ident"

text \<open>The accounting record of a job, for the identifier that the handler has at hand.\<close>

definition acct :: "acct_event \<Rightarrow> string \<Rightarrow> Job \<Rightarrow> Server \<Rightarrow> Server" where
  "acct e ident j s = s\<lparr>s_acctLog := map_option (\<lambda>l. l @ [(e, ident, buildJobInfo j)]) (s_acctLog s)\<rparr>"

text \<open>\<^verbatim>\<open>saveJob\<close> writes the job object that the manager holds.\<close>

definition saveJob :: "string \<Rightarrow> Server \<Rightarrow> Server" where
  "saveJob ident s = (case lookupJob (s_jobMgr s) ident of
      Some j \<Rightarrow> onStore (SaveJob (j_ID j) (serializeJob j)) s
    | None \<Rightarrow> s)"

definition removeJobFiles :: "string \<Rightarrow> Server \<Rightarrow> Server" where
  "removeJobFiles ident s = onStore (DeleteJob ident) s"

definition triggerSched :: "Server \<Rightarrow> Server" where
  "triggerSched s =
     (if s_haEnabled s \<and> \<not> s_haActive s then s
      else if cb (s_cfg s) F_EventDriven \<and> ci (s_cfg s) F_SchedTriggerPort > 0
        then s\<lparr>s_notified := s_notified s + 1\<rparr>
      else s)"

text \<open>What the scheduler and the queue listing count: the live jobs of the queue.\<close>

definition liveStates :: "JobManager \<Rightarrow> string \<Rightarrow> int list" where
  "liveStates jm name =
     fold (\<lambda>j states. incr_at (j_State j) states) (JobsInQueue jm name) (replicate 7 0)"

definition refreshQueueCounts :: "string \<Rightarrow> Server \<Rightarrow> Server" where
  "refreshQueueCounts name s =
     updQueue name (\<lambda>q. q\<lparr>q_TotalJobs := int (length (JobsInQueue (s_jobMgr s) (q_Name q))),
       q_StateJobs := liveStates (s_jobMgr s) (q_Name q)\<rparr>) s"

section \<open>Documents of nodes\<close>

definition nodeLine :: "Node \<Rightarrow> string" where
  "nodeLine n =
     n_Name n @ '' np='' @ FormatInt (n_NumProcs n) @
     (if n_Queue n \<noteq> [] then '' queue='' @ n_Queue n else []) @
     (if n_Dynamic n then '' dynamic=1'' else []) @
     (if n_Groups n \<noteq> [] then '' groups='' @ Join '','' (n_Groups n) else []) @
     concat (map (\<lambda>(name, cnt). '' gres.'' @ name @ ''='' @ FormatInt cnt) (n_GRes n))"

definition nodesText :: "NodeManager \<Rightarrow> string" where
  "nodesText nm = concat (map (\<lambda>n. nodeLine n @ [CHR 0x0A]) (AllNodes nm))"

definition saveNodes :: "Server \<Rightarrow> Server" where
  "saveNodes s = onStore (SaveNodes (nodesText (s_nodeMgr s))) s"

text \<open>The fields of a line of the node file behind the name.\<close>

definition nodeAttrNp :: "string list \<Rightarrow> int" where
  "nodeAttrNp ps = fold (\<lambda>p np. if HasPrefix p ''np='' then scanOr np (drop 3 p) else np) ps 1"

definition lastValue :: "string \<Rightarrow> string list \<Rightarrow> string option" where
  "lastValue key ps = fold (\<lambda>p v. if HasPrefix p key then Some (drop (length key) p) else v) ps None"

definition gresField :: "string \<Rightarrow> Node \<Rightarrow> Node" where
  "gresField p n =
     (if HasPrefix p ''gres.'' then
        (case cut CHR ''='' (drop 5 p) of
           Some (k, v) \<Rightarrow>
             (case ParseInt v of
                (x, None) \<Rightarrow> if x \<ge> 0 then n\<lparr>n_GRes := mput k x (n_GRes n)\<rparr> else n
              | _ \<Rightarrow> n)
         | None \<Rightarrow> n)
      else n)"

definition recoverNodeFields :: "string list \<Rightarrow> Node \<Rightarrow> Node" where
  "recoverNodeFields ps n =
     (let n1 = (case lastValue ''queue='' ps of Some (c # q) \<Rightarrow> n\<lparr>n_Queue := c # q\<rparr> | _ \<Rightarrow> n);
          n2 = fold gresField ps n1;
          n3 = (case lastValue ''groups='' ps of
                  Some v \<Rightarrow> (if ParseList v \<noteq> [] then n2\<lparr>n_Groups := ParseList v\<rparr> else n2)
                | None \<Rightarrow> n2)
      in if ''dynamic=1'' \<in> set ps then n3\<lparr>n_Dynamic := True\<rparr> else n3)"

definition recoverNodeLine :: "string \<Rightarrow> NodeManager \<Rightarrow> NodeManager" where
  "recoverNodeLine line0 nm =
     (let l = TrimSpace line0 in
      if l = [] \<or> HasPrefix l ''#'' then nm
      else (case Fields l of
              [] \<Rightarrow> nm
            | name # ps \<Rightarrow> updNode name (recoverNodeFields ps) (AddNode nm name (nodeAttrNp ps))))"

definition recoverNodes :: "string option \<Rightarrow> NodeManager \<Rightarrow> NodeManager" where
  "recoverNodes doc nm = (case doc of
      None \<Rightarrow> nm
    | Some dat \<Rightarrow> fold recoverNodeLine (Split CHR 0x0A dat) nm)"

end
