(* ===== verification/Queue_Persist.thy ===== *)
theory Queue_Persist
  imports Server_State Server_DB
begin

text \<open>
  The documents in which queues survive a restart, and the recovery of the whole server: \<^verbatim>\<open>saveQueue\<close>,
  \<^verbatim>\<open>recoverQueues\<close>, \<^verbatim>\<open>recoverJobs\<close>, \<^verbatim>\<open>restoreRecoveredRunningJobs\<close>, \<^verbatim>\<open>recoverState\<close> and \<^verbatim>\<open>saveState\<close> of
  \<^verbatim>\<open>src/internal/server/server.go\<close>.
\<close>

section \<open>Queues\<close>

definition intLine :: "string \<Rightarrow> int \<Rightarrow> (string \<times> string) list" where
  "intLine key v = (if v > 0 then [(key, FormatInt v)] else [])"

definition flagLine :: "string \<Rightarrow> bool \<Rightarrow> (string \<times> string) list" where
  "flagLine key b = (if b then [(key, ''True'')] else [])"

definition listLine :: "string \<Rightarrow> string list \<Rightarrow> (string \<times> string) list" where
  "listLine key l = (if l \<noteq> [] then [(key, Join '','' l)] else [])"

definition rescLines :: "string \<Rightarrow> string smap \<Rightarrow> (string \<times> string) list" where
  "rescLines pre m = map (\<lambda>(resc, v). (pre @ resc, v)) m"

definition goBool :: "bool \<Rightarrow> string" where
  "goBool b = (if b then ''True'' else ''False'')"

definition cloudLines :: "Queue \<Rightarrow> (string \<times> string) list" where
  "cloudLines q =
     textLine ''cloud_provider'' (q_CloudProvider q) @ textLine ''cloud_vm_sku'' (q_CloudVMSKU q) @
     intLine ''cloud_min_nodes'' (q_CloudMinNodes q) @ intLine ''cloud_max_nodes'' (q_CloudMaxNodes q) @
     intLine ''cloud_idle_time'' (q_CloudIdleTime q) @ intLine ''cloud_provision_timeout'' (q_CloudProvisionTimeout q) @
     textLine ''cloud_reclaim'' (q_CloudReclaim q) @ textLine ''cloud_subnet_id'' (q_CloudSubnetID q) @
     textLine ''cloud_image_id'' (q_CloudImageID q) @ intLine ''cloud_disk_size'' (q_CloudDiskSize q) @
     textLine ''cloud_disk_type'' (q_CloudDiskType q) @ textLine ''cloud_ssh_key'' (q_CloudSSHKey q) @
     textLine ''cloud_location'' (q_CloudLocation q) @ textLine ''cloud_rg_name'' (q_CloudRgName q) @
     intLine ''cloud_cooldown'' (q_CloudCooldown q) @ intLine ''cloud_scale_headroom'' (q_CloudScaleHeadroom q) @
     intLine ''cloud_drain_timeout'' (q_CloudDrainTimeout q)"

text \<open>The access policy and the host list are written inside the block of the submission hosts.\<close>

definition aclLines :: "Queue \<Rightarrow> (string \<times> string) list" where
  "aclLines q =
     intLine ''max_user_queuable'' (q_MaxUserJobs q) @ intLine ''max_user_run'' (q_MaxUserRun q) @
     flagLine ''acl_user_enable'' (q_ACLUserEnabled q) @ listLine ''acl_users'' (q_ACLUsers q) @
     flagLine ''acl_group_enable'' (q_ACLGroupEnabled q) @ listLine ''acl_groups'' (q_ACLGroups q) @
     flagLine ''acl_host_enable'' (q_ACLHostEnabled q) @
     (if q_ACLHosts q \<noteq> [] then
        (''acl_hosts'', Join '','' (q_ACLHosts q)) # textLine ''naccesspolicy'' (q_NaccessPolicy q) @
        listLine ''hostlist'' (q_HostList q)
      else []) @
     listLine ''route_destinations'' (q_RouteDestin q) @
     flagLine ''from_route_only'' (qAttrTrue (sget (q_Attrs q) ''from_route_only''))"

definition limitLines :: "Queue \<Rightarrow> (string \<times> string) list" where
  "limitLines q =
     intLine ''max_queuable'' (q_MaxJobs q) @ intLine ''max_running'' (q_MaxRun q) @
     (if q_Priority q \<noteq> 0 then [(''Priority'', FormatInt (q_Priority q))] else []) @
     listLine ''disallowed_types'' (q_DisallowedTypes q) @
     rescLines ''resources_min.'' (q_ResourceMin q) @ rescLines ''resources_max.'' (q_ResourceMax q) @
     rescLines ''resources_default.'' (q_ResourceDflt q)"

definition queueLines :: "Queue \<Rightarrow> (string \<times> string) list" where
  "queueLines q =
     [(''queue_type'', if q_Type q = TypeExecution then ''Execution'' else ''Route''),
      (''enabled'', goBool (q_Enabled q)), (''started'', goBool (q_Started q))] @
     cloudLines q @ aclLines q @ limitLines q"

definition queueText :: "Queue \<Rightarrow> string" where
  "queueText q = concat (map (\<lambda>kv. kvLine kv @ [CHR 0x0A]) (queueLines q))"

definition saveQueue :: "Queue \<Rightarrow> Server \<Rightarrow> Server" where
  "saveQueue q s = onStore (SaveQueue (q_Name q) (queueText q)) s"

definition queueKeyTable :: "string \<Rightarrow> (string \<times> (Queue \<Rightarrow> Queue)) list" where
  "queueKeyTable v =
     [(''queue_type'', \<lambda>q. if v = ''Route'' then q\<lparr>q_Type := TypeRoute\<rparr> else q),
      (''enabled'', \<lambda>q. q\<lparr>q_Enabled := (v = ''True'')\<rparr>), (''started'', \<lambda>q. q\<lparr>q_Started := (v = ''True'')\<rparr>),
      (''cloud_provider'', \<lambda>q. q\<lparr>q_CloudProvider := ToLower v\<rparr>), (''cloud_vm_sku'', \<lambda>q. q\<lparr>q_CloudVMSKU := v\<rparr>),
      (''cloud_min_nodes'', \<lambda>q. q\<lparr>q_CloudMinNodes := scanOr (q_CloudMinNodes q) v\<rparr>),
      (''cloud_max_nodes'', \<lambda>q. q\<lparr>q_CloudMaxNodes := scanOr (q_CloudMaxNodes q) v\<rparr>),
      (''cloud_idle_time'', \<lambda>q. q\<lparr>q_CloudIdleTime := scanOr (q_CloudIdleTime q) v\<rparr>),
      (''cloud_provision_timeout'', \<lambda>q. q\<lparr>q_CloudProvisionTimeout := scanOr (q_CloudProvisionTimeout q) v\<rparr>),
      (''cloud_reclaim'', \<lambda>q. q\<lparr>q_CloudReclaim := ToLower v\<rparr>), (''cloud_subnet_id'', \<lambda>q. q\<lparr>q_CloudSubnetID := v\<rparr>),
      (''cloud_image_id'', \<lambda>q. q\<lparr>q_CloudImageID := v\<rparr>),
      (''cloud_disk_size'', \<lambda>q. q\<lparr>q_CloudDiskSize := scanOr (q_CloudDiskSize q) v\<rparr>),
      (''cloud_disk_type'', \<lambda>q. q\<lparr>q_CloudDiskType := v\<rparr>), (''cloud_ssh_key'', \<lambda>q. q\<lparr>q_CloudSSHKey := v\<rparr>),
      (''cloud_location'', \<lambda>q. q\<lparr>q_CloudLocation := v\<rparr>), (''cloud_rg_name'', \<lambda>q. q\<lparr>q_CloudRgName := v\<rparr>),
      (''cloud_cooldown'', \<lambda>q. q\<lparr>q_CloudCooldown := scanOr (q_CloudCooldown q) v\<rparr>),
      (''cloud_scale_headroom'', \<lambda>q. q\<lparr>q_CloudScaleHeadroom := scanOr (q_CloudScaleHeadroom q) v\<rparr>),
      (''cloud_drain_timeout'', \<lambda>q. q\<lparr>q_CloudDrainTimeout := scanOr (q_CloudDrainTimeout q) v\<rparr>),
      (''max_queuable'', \<lambda>q. q\<lparr>q_MaxJobs := scanOr (q_MaxJobs q) v\<rparr>),
      (''max_running'', \<lambda>q. q\<lparr>q_MaxRun := scanOr (q_MaxRun q) v\<rparr>),
      (''Priority'', \<lambda>q. q\<lparr>q_Priority := scanOr (q_Priority q) v\<rparr>),
      (''disallowed_types'', \<lambda>q. q\<lparr>q_DisallowedTypes := ParseList v\<rparr>),
      (''max_user_queuable'', \<lambda>q. q\<lparr>q_MaxUserJobs := scanOr (q_MaxUserJobs q) v\<rparr>),
      (''max_user_run'', \<lambda>q. q\<lparr>q_MaxUserRun := scanOr (q_MaxUserRun q) v\<rparr>),
      (''acl_user_enable'', \<lambda>q. q\<lparr>q_ACLUserEnabled := (v = ''True'')\<rparr>), (''acl_users'', \<lambda>q. q\<lparr>q_ACLUsers := ParseList v\<rparr>),
      (''acl_group_enable'', \<lambda>q. q\<lparr>q_ACLGroupEnabled := (v = ''True'')\<rparr>), (''acl_groups'', \<lambda>q. q\<lparr>q_ACLGroups := ParseList v\<rparr>),
      (''acl_host_enable'', \<lambda>q. q\<lparr>q_ACLHostEnabled := (v = ''True'')\<rparr>), (''acl_hosts'', \<lambda>q. q\<lparr>q_ACLHosts := ParseList v\<rparr>),
      (''naccesspolicy'', \<lambda>q. q\<lparr>q_NaccessPolicy := v\<rparr>), (''hostlist'', \<lambda>q. q\<lparr>q_HostList := ParseList v\<rparr>),
      (''route_destinations'', \<lambda>q. q\<lparr>q_RouteDestin := ParseList v\<rparr>),
      (''from_route_only'', \<lambda>q. q\<lparr>q_Attrs := mput ''from_route_only'' v (q_Attrs q)\<rparr>)]"

definition applyQueueKey :: "string \<times> string \<Rightarrow> Queue \<Rightarrow> Queue" where
  "applyQueueKey kv q = (case kv of (key, v) \<Rightarrow>
     if HasPrefix key ''resources_min.'' then q\<lparr>q_ResourceMin := mput (drop 14 key) v (q_ResourceMin q)\<rparr>
     else if HasPrefix key ''resources_max.'' then q\<lparr>q_ResourceMax := mput (drop 14 key) v (q_ResourceMax q)\<rparr>
     else if HasPrefix key ''resources_default.'' then q\<lparr>q_ResourceDflt := mput (drop 18 key) v (q_ResourceDflt q)\<rparr>
     else (case map_of (queueKeyTable v) key of Some upd \<Rightarrow> upd q | None \<Rightarrow> q))"

definition queueLine :: "string \<Rightarrow> Queue \<Rightarrow> Queue" where
  "queueLine line0 q = (case cut CHR ''='' (TrimSpace line0) of
      Some (c # key, v) \<Rightarrow> applyQueueKey (c # key, v) q
    | _ \<Rightarrow> q)"

text \<open>The format of the C server: a new queue is enabled and started, and nothing here clears the flags.\<close>

definition recoverQueueXML :: "string \<Rightarrow> Queue \<Rightarrow> Queue" where
  "recoverQueueXML content q =
     (let on = (\<lambda>tag. extractXMLTag content tag = ''1'' \<or> extractXMLTag content tag = ''true'');
          q1 = q\<lparr>q_Type := (if extractXMLTag content ''queue_type'' = ''Execution'' then TypeExecution else TypeRoute)\<rparr>;
          q2 = (if on ''enabled'' then q1\<lparr>q_Enabled := True\<rparr> else q1)
      in if on ''started'' then q2\<lparr>q_Started := True\<rparr> else q2)"

definition recoverQueue :: "string \<Rightarrow> string \<Rightarrow> Queue" where
  "recoverQueue qname content =
     (let q = NewQueue qname TypeExecution in
      if afterFirst ''<queue>'' content \<noteq> None then recoverQueueXML content q
      else fold queueLine (Split CHR 0x0A content) q)"

definition recoverQueues :: "Server \<Rightarrow> Server" where
  "recoverQueues s =
     fold (\<lambda>(qname, content) s. s\<lparr>s_queueMgr := AddQueue (s_queueMgr s) (recoverQueue qname content)\<rparr>)
       (st_queues (s_store s)) s"

section \<open>The whole server\<close>

definition recoverJob :: "int \<Rightarrow> string \<times> string \<Rightarrow> Server \<Rightarrow> Server" where
  "recoverJob now idoc s = (case idoc of (jobID, dat) \<Rightarrow>
     let j0 = deserializeJob now dat jobID (ServerName s);
         j = (case LoadJobScript jobID (s_store s) of Some sc \<Rightarrow> j0\<lparr>j_Script := sc\<rparr> | None \<Rightarrow> j0)
     in updQueue (j_Queue j) (\<lambda>q. IncrJobCount q (j_State j)) (onJobs (\<lambda>m. AddJob m j) s))"

definition recoverJobs :: "int \<Rightarrow> Server \<Rightarrow> Server" where
  "recoverJobs now s = fold (recoverJob now) (st_jobs (s_store s)) s"

definition hostName :: "string \<Rightarrow> string" where
  "hostName h = before CHR ''/'' h"

text \<open>The slots of a recovered job, unless the node lists the job already.\<close>

definition restoreOnNode :: "string \<Rightarrow> int \<Rightarrow> string \<Rightarrow> NodeManager \<Rightarrow> NodeManager" where
  "restoreOnNode jobID ppn h nm =
     updNode (hostName h) (\<lambda>n. if jobID \<in> set (n_AssignedJobs n) then n else AssignJob jobID ppn n) nm"

definition restoreJob :: "Job \<Rightarrow> NodeManager \<Rightarrow> NodeManager" where
  "restoreJob j nm =
     (if j_State j \<noteq> StateRunning \<or> j_ExecHost j = [] then nm
      else fold (restoreOnNode (j_ID j) (max 1 (snd (jobNodeRequest j)))) (Split CHR ''+'' (j_ExecHost j)) nm)"

definition restoreRecoveredRunningJobs :: "Server \<Rightarrow> Server" where
  "restoreRecoveredRunningJobs s = onNodes (fold restoreJob (AllJobs (s_jobMgr s))) s"

definition saveServerDBS :: "Server \<Rightarrow> Server" where
  "saveServerDBS s = onStore (SaveServerDB (saveServerDB (s_cfg s) (s_jobMgr s))) s"

definition saveState :: "Server \<Rightarrow> Server" where
  "saveState s =
     (let s1 = fold saveQueue (AllQueues (s_queueMgr s)) (saveServerDBS s)
      in fold (\<lambda>j. saveJob (j_ID j)) (AllJobs (s_jobMgr s1)) (saveNodes s1))"

definition recoverState :: "int \<Rightarrow> Server \<Rightarrow> Server" where
  "recoverState now s =
     (case recoverServerDB (st_serverDB (s_store s)) (s_cfg s, s_jobMgr s) of (c, jm) \<Rightarrow>
        let s1 = recoverQueues (s\<lparr>s_cfg := c, s_jobMgr := jm\<rparr>);
            s2 = onNodes (recoverNodes (st_nodes (s_store s1))) s1
        in restoreRecoveredRunningJobs (recoverJobs now s2))"

section \<open>What the queue documents lose\<close>

text \<open>Without submission hosts the access policy and the host list of a queue are not written.\<close>

lemma queue_policy_not_written:
  "q_ACLHosts q = [] \<Longrightarrow> queueText (q\<lparr>q_NaccessPolicy := p, q_HostList := h\<rparr>) = queueText q"
  by (simp add: queueText_def queueLines_def cloudLines_def aclLines_def limitLines_def)

text \<open>A queue read from the format of the C server is enabled and started, whatever its file says.\<close>

lemma xml_queue_always_open:
  assumes "afterFirst ''<queue>'' content \<noteq> None"
  shows "q_Enabled (recoverQueue name content) \<and> q_Started (recoverQueue name content)"
  using assms by (auto simp: recoverQueue_def recoverQueueXML_def Let_def NewQueue_def)

end
