(* ===== verification/Server_Jobs.thy ===== *)
theory Server_Jobs
  imports Queue_Persist
begin

text \<open>
  The request handlers of \<^verbatim>\<open>src/internal/server/server.go\<close> that work on jobs: submission, commit, deletion, holds,
  moves, reruns, obituaries and the start of a job on a node. A handler takes the state and the request and gives the
  new state, the reply and whether the connection stays open.
\<close>

datatype reply =
    ReplyOk
  | ReplyErr int
  | ReplyJobID int string
  | ReplyText string
  | ReplyStatus "StatusObject list"
  | NoReply

type_synonym outcome = "Server \<times> reply \<times> bool"

abbreviation (input) PbseQueNoDeflt :: int where "PbseQueNoDeflt \<equiv> 15005"
abbreviation (input) PbseBadCred :: int where "PbseBadCred \<equiv> 15021"

section \<open>Submission\<close>

definition enforceSubmitLimits :: "Server \<Rightarrow> string \<Rightarrow> bool" where
  "enforceSubmitLimits s user =
     (if cb (s_cfg s) F_ACLUserEnable \<and> cs (s_cfg s) F_ACLUsers \<noteq> [] \<and>
         \<not> aclContains (cs (s_cfg s) F_ACLUsers) (extractUser user) then False
      else if ci (s_cfg s) F_MaxUserQueuable > 0 \<and>
         CountJobsByOwner (s_jobMgr s) user \<ge> ci (s_cfg s) F_MaxUserQueuable then False
      else True)"

definition submitQueue :: "Server \<Rightarrow> string \<Rightarrow> string option" where
  "submitQueue s dest = (if dest \<noteq> [] then Some dest else map_option q_Name (DefaultQueue (s_queueMgr s)))"

definition submittedJob :: "int \<Rightarrow> Server \<Rightarrow> string \<Rightarrow> string \<Rightarrow> string \<Rightarrow> SvrAttrl list \<Rightarrow> Job" where
  "submittedJob now s jobID queueName user attrs =
     (let j = applyJobAttrs now attrs ((NewJob now jobID queueName (ServerName s))\<lparr>j_Owner := user\<rparr>)
      in if j_Owner j = [] then j\<lparr>j_Owner := user\<rparr> else j)"

definition handleQueueJob :: "int \<Rightarrow> string \<Rightarrow> string \<Rightarrow> SvrAttrl list \<Rightarrow> Server \<Rightarrow> outcome" where
  "handleQueueJob now user dest attrs s = (case submitQueue s dest of
      None \<Rightarrow> (s, ReplyErr PbseQueNoDeflt, False)
    | Some queueName \<Rightarrow>
        if GetQueue (s_queueMgr s) queueName = None then (s, ReplyErr PbseUnkQue, False)
        else (case NextJobID (s_jobMgr s) of (jobID, jm) \<Rightarrow>
          let s1 = s\<lparr>s_jobMgr := jm\<rparr>;
              j = submittedJob now s1 jobID queueName user attrs
          in if \<not> enforceSubmitLimits s1 user then (s1, ReplyErr PbsePerm, False)
             else if \<not> queueAllowsSubmitHost (s_queueMgr s1) queueName j then (s1, ReplyErr PbsePerm, False)
             else (onJobs (\<lambda>m. AddJob m j) s1, ReplyJobID ReplyChoiceQueue jobID, True)))"

section \<open>Commit\<close>

text \<open>
  The state a committed job ends in. The commit first makes it Queued, and the gate of the queue then counts it
  among the queued jobs.
\<close>

definition commitState :: "int \<Rightarrow> Job \<Rightarrow> (int \<times> int) option" where
  "commitState now j =
     (if j_HoldTypes j \<noteq> [] \<and> j_HoldTypes j \<noteq> ''n'' then Some (StateHeld, SubstateHeld)
      else if timeAfter (j_ExecutionTime j) now then Some (StateWaiting, SubstateWaiting)
      else None)"

definition finishCommit :: "int \<Rightarrow> Job \<Rightarrow> Server \<Rightarrow> Server" where
  "finishCommit now j s =
     (let ident = j_ID j;
          s1 = (case commitState now j of
                  Some (st, sub) \<Rightarrow> onJobs (\<lambda>m. UpdateJobState now m ident st sub) s
                | None \<Rightarrow> s);
          s2 = updQueue (j_Queue j) (\<lambda>q. IncrJobCount q StateQueued) s1;
          s3 = saveJob ident s2;
          s4 = (case lookupJob (s_jobMgr s3) ident of Some j' \<Rightarrow> acct AcctQueued ident j' s3 | None \<Rightarrow> s3)
      in triggerSched s4)"

definition commitJobInstance :: "int \<Rightarrow> string \<Rightarrow> string \<Rightarrow> string \<Rightarrow> Server \<Rightarrow> Server \<times> route_error option" where
  "commitJobInstance now hostname ident owner s =
     (let s1 = onJobs (\<lambda>m. UpdateJobState now (updJob ident (setDefaultOutputPaths hostname) m) ident StateQueued SubstateQueued) s
      in case lookupJob (s_jobMgr s1) ident of
           None \<Rightarrow> (s1, None)
         | Some j \<Rightarrow>
             (case finalizeRoute (s_queueMgr s1) (s_jobMgr s1) j owner of
                (jm, Some e) \<Rightarrow> (s1\<lparr>s_jobMgr := jm\<rparr>, Some e)
              | (jm, None) \<Rightarrow>
                  let s2 = s1\<lparr>s_jobMgr := jm\<rparr>
                  in case lookupJob jm ident of
                       Some j2 \<Rightarrow> (finishCommit now j2 s2, None)
                     | None \<Rightarrow> (s2, None)))"

definition taskID :: "Server \<Rightarrow> Job \<Rightarrow> int \<Rightarrow> string" where
  "taskID s j i = seqOf (j_ID j) @ ''['' @ FormatInt i @ ''].'' @ ServerName s"

definition addTask :: "int \<Rightarrow> Job \<Rightarrow> int \<Rightarrow> Server \<Rightarrow> Server" where
  "addTask now j i s =
     (let task = (CloneForArray now j i (ServerName s))\<lparr>j_ID := taskID s j i\<rparr>
      in onStore (SaveJobScript (j_ID task) (j_Script j)) (onJobs (\<lambda>m. AddJob m task) s))"

definition dropJob :: "string \<Rightarrow> Server \<Rightarrow> Server" where
  "dropJob ident s = onStore (removeScriptFile ident) (onJobs (\<lambda>m. RemoveJob m ident) s)"

fun commitTasks :: "int \<Rightarrow> string \<Rightarrow> string \<Rightarrow> string list \<Rightarrow> Server \<Rightarrow> Server \<times> route_error option" where
  "commitTasks now hostname owner [] s = (s, None)"
| "commitTasks now hostname owner (t # ts) s = (case commitJobInstance now hostname t owner s of
      (s', Some e) \<Rightarrow> (s', Some e)
    | (s', None) \<Rightarrow> commitTasks now hostname owner ts s')"

datatype array_result = NotArray | Expanded | ArrayRejected

text \<open>
  \<^verbatim>\<open>processJobArray\<close>; the result is \<^const>\<open>None\<close> where the expansion of the specification never ends. A rejected
  task removes every task, committed ones included.
\<close>

definition processJobArray :: "int \<Rightarrow> string \<Rightarrow> Job \<Rightarrow> string \<Rightarrow> Server \<Rightarrow> (Server \<times> array_result) option" where
  "processJobArray now hostname j owner s =
     (if TrimSpace (j_JobArrayReq j) = [] then Some (s, NotArray)
      else (case parseArraySpec (j_JobArrayReq j) of
              None \<Rightarrow> None
            | Some (Inl _) \<Rightarrow> Some (s, ArrayRejected)
            | Some (Inr []) \<Rightarrow> Some (s, NotArray)
            | Some (Inr indices) \<Rightarrow>
                let s1 = fold (addTask now j) indices s;
                    ids = map (taskID s j) indices
                in (case commitTasks now hostname owner ids s1 of
                      (s2, Some e) \<Rightarrow> Some (fold dropJob ids s2, ArrayRejected)
                    | (s2, None) \<Rightarrow> Some (dropJob (j_ID j) s2, Expanded))))"

text \<open>Committing a job that a request names by \<open>jobID\<close>; False where the job is refused and dropped.\<close>

definition commitRequest :: "int \<Rightarrow> string \<Rightarrow> string \<Rightarrow> Job \<Rightarrow> Server \<Rightarrow> (Server \<times> bool) option" where
  "commitRequest now hostname jobID j s = (case processJobArray now hostname j (j_Owner j) s of
      None \<Rightarrow> None
    | Some (s1, ArrayRejected) \<Rightarrow> Some (dropJob jobID s1, False)
    | Some (s1, Expanded) \<Rightarrow> Some (s1, True)
    | Some (s1, NotArray) \<Rightarrow>
        (case commitJobInstance now hostname (j_ID j) (j_Owner j) s1 of
           (s2, Some e) \<Rightarrow> Some (dropJob jobID s2, False)
         | (s2, None) \<Rightarrow> Some (s2, True)))"

definition handleCommit :: "int \<Rightarrow> string \<Rightarrow> string \<Rightarrow> Server \<Rightarrow> outcome option" where
  "handleCommit now hostname jobID s = (case GetJobS s jobID of
      None \<Rightarrow> Some (s, ReplyErr PbseUnkjobid, False)
    | Some j \<Rightarrow>
        map_option (\<lambda>(s', ok). if ok then (s', ReplyJobID ReplyChoiceCommit jobID, True) else (s', ReplyErr PbsePerm, False))
          (commitRequest now hostname jobID j s))"

definition handleJobScript :: "int \<Rightarrow> string \<Rightarrow> string \<Rightarrow> string \<Rightarrow> bool \<Rightarrow> Server \<Rightarrow> outcome option" where
  "handleJobScript now hostname jobID dat autoCommit s = (case GetJobS s jobID of
      None \<Rightarrow> Some (s, ReplyErr PbseUnkjobid, False)
    | Some j \<Rightarrow>
        let s1 = onStore (SaveJobScript jobID dat) (onJobs (updJob (j_ID j) (\<lambda>j. j\<lparr>j_Script := dat\<rparr>)) s)
        in if autoCommit then
             map_option (\<lambda>(s', ok). if ok then (s', ReplyOk, True) else (s', ReplyErr PbsePerm, False))
               (commitRequest now hostname jobID (j\<lparr>j_Script := dat\<rparr>) s1)
           else Some (s1, ReplyOk, True))"

section \<open>Deletion\<close>

definition releaseNodeResources :: "string \<Rightarrow> string \<Rightarrow> Server \<Rightarrow> Server" where
  "releaseNodeResources execHost jobID s =
     (let slots = (case GetJobS s jobID of Some j \<Rightarrow> jobRequestedCPUs j | None \<Rightarrow> 1)
      in onNodes (fold (\<lambda>part. updNode (hostName part) (ReleaseJob jobID slots)) (Split CHR ''+'' execHost)) s)"

text \<open>The request to kill a job goes to the first host only; without a host there is none.\<close>

definition sendDeleteToMOM :: "Job \<Rightarrow> Server \<Rightarrow> Server" where
  "sendDeleteToMOM j s = (if j_ExecHost j = [] then s else s\<lparr>s_killed := s_killed s @ [j_ID j]\<rparr>)"

text \<open>
  The handler reads the job through \<^verbatim>\<open>GetJob\<close>, which accepts a short identifier, but marks and removes it under the
  identifier as it came.
\<close>

definition handleDeleteJob :: "int \<Rightarrow> string \<Rightarrow> Server \<Rightarrow> outcome" where
  "handleDeleteJob now jobID s = (case GetJobS s jobID of
      None \<Rightarrow> (s, ReplyErr PbseUnkjobid, True)
    | Some j \<Rightarrow>
        let s1 = acct AcctDeleted jobID j s;
            s2 = (if j_State j = StateRunning
                  then releaseNodeResources (j_ExecHost j) jobID (sendDeleteToMOM j s1) else s1);
            s3 = updQueue (j_Queue j) (\<lambda>q. DecrJobCount q (j_State j)) s2;
            s4 = onJobs (\<lambda>m. UpdateJobState now m jobID StateComplete SubstateComplete) s3;
            s5 = removeJobFiles jobID s4
        in (onJobs (\<lambda>m. RemoveJob m jobID) s5, ReplyOk, True))"

section \<open>Holds and attributes\<close>

definition handleHoldJob :: "int \<Rightarrow> string \<Rightarrow> Server \<Rightarrow> outcome" where
  "handleHoldJob now jobID s = (case GetJobS s jobID of
      None \<Rightarrow> (s, ReplyErr PbseUnkjobid, True)
    | Some j \<Rightarrow>
        let s1 = (if j_State j = StateQueued \<or> j_State j = StateWaiting
                  then onJobs (updJob (j_ID j) (SetState now StateHeld SubstateHeld)) s else s);
            s2 = (if j_State j = StateQueued
                  then updQueue (j_Queue j) (\<lambda>q. TransferJobState q StateQueued StateHeld) s1 else s1)
        in (s2, ReplyOk, True))"

definition handleReleaseJob :: "int \<Rightarrow> string \<Rightarrow> Server \<Rightarrow> outcome" where
  "handleReleaseJob now jobID s = (case GetJobS s jobID of
      None \<Rightarrow> (s, ReplyErr PbseUnkjobid, True)
    | Some j \<Rightarrow>
        let s1 = onJobs (updJob (j_ID j) (\<lambda>j. j\<lparr>j_HoldTypes := []\<rparr>)) s;
            s2 = (if j_State j = StateHeld
                  then updQueue (j_Queue j) (\<lambda>q. TransferJobState q StateHeld StateQueued)
                         (onJobs (updJob (j_ID j) (SetState now StateQueued SubstateQueued)) s1)
                  else s1)
        in (triggerSched s2, ReplyOk, True))"

definition handleModifyJob :: "int \<Rightarrow> string \<Rightarrow> SvrAttrl list \<Rightarrow> Server \<Rightarrow> outcome" where
  "handleModifyJob now jobID attrs s = (case GetJobS s jobID of
      None \<Rightarrow> (s, ReplyErr PbseUnkjobid, True)
    | Some j \<Rightarrow>
        (saveJob (j_ID j) (onJobs (updJob (j_ID j) (\<lambda>j. (applyJobAttrs now attrs j)\<lparr>j_Modified := True\<rparr>)) s),
         ReplyOk, True))"

text \<open>The handlers that only look the job up.\<close>

definition handleSignalJob :: "string \<Rightarrow> Server \<Rightarrow> outcome" where
  "handleSignalJob jobID s =
     (if GetJobS s jobID = None then (s, ReplyErr PbseUnkjobid, True) else (s, ReplyOk, True))"

definition handleLocateJob :: "string \<Rightarrow> Server \<Rightarrow> outcome" where
  "handleLocateJob jobID s =
     (if GetJobS s jobID = None then (s, ReplyErr PbseUnkjobid, True) else (s, ReplyText (ServerName s), True))"

definition handleSelectJobs :: "Server \<Rightarrow> outcome" where
  "handleSelectJobs s = (s, ReplyText (Join [CHR 0x0A] (map j_ID (AllJobs (s_jobMgr s)))), True)"

definition handleMessJob :: "string \<Rightarrow> Server \<Rightarrow> outcome" where
  "handleMessJob jobID s =
     (if GetJobS s jobID = None then (s, ReplyErr PbseUnkjobid, True) else (s, ReplyOk, True))"

definition handleCheckpointJob :: "string \<Rightarrow> Server \<Rightarrow> outcome" where
  "handleCheckpointJob jobID s = (case GetJobS s jobID of
      None \<Rightarrow> (s, ReplyErr PbseUnkjobid, True)
    | Some j \<Rightarrow> if j_State j \<noteq> StateRunning then (s, ReplyErr PbseBadReq, True) else (s, ReplyOk, True))"

section \<open>Moving, requeueing and ordering\<close>

definition handleMoveJob :: "string \<Rightarrow> string \<Rightarrow> Server \<Rightarrow> outcome" where
  "handleMoveJob jobID dest s = (case GetJobS s jobID of
      None \<Rightarrow> (s, ReplyErr PbseUnkjobid, True)
    | Some j \<Rightarrow>
        let queueName = before CHR ''@'' dest; st = j_State j in
        if GetQueue (s_queueMgr s) queueName = None then (s, ReplyErr PbseUnkQue, True)
        else if st \<in> {StateRunning, StateExiting, StateComplete, StateProvisioning} then (s, ReplyErr PbseBadReq, True)
        else if j_Queue j = queueName then (s, ReplyOk, True)
        else
          let s1 = onJobs (updJob (j_ID j) (\<lambda>j. j\<lparr>j_Queue := queueName\<rparr>)) s;
              s2 = updQueue (j_Queue j) (\<lambda>q. DecrJobCount q st) s1;
              s3 = updQueue queueName (\<lambda>q. IncrJobCount q st) s2
          in (saveJob (j_ID j) (triggerSched s3), ReplyOk, True))"

definition clearHost :: "int \<Rightarrow> Job \<Rightarrow> Job" where
  "clearHost now j = SetState now StateQueued SubstateQueued (j\<lparr>j_ExecHost := [], j_ExecPort := 0\<rparr>)"

text \<open>Only the first host of a job that runs on several gives its slots back.\<close>

definition handleRerunJob :: "int \<Rightarrow> string \<Rightarrow> Server \<Rightarrow> outcome" where
  "handleRerunJob now jobID s = (case GetJobS s jobID of
      None \<Rightarrow> (s, ReplyErr PbseUnkjobid, True)
    | Some j \<Rightarrow>
        if j_State j \<noteq> StateRunning \<and> j_State j \<noteq> StateQueued then (s, ReplyErr PbseBadReq, True)
        else
          let s1 = (if j_State j = StateRunning \<and> j_ExecHost j \<noteq> []
                    then onNodes (updNode (hostName (j_ExecHost j)) (ReleaseJob (j_ID j) (jobRequestedCPUs j))) s
                    else s);
              s2 = onJobs (updJob (j_ID j) (clearHost now)) s1;
              s3 = updQueue (j_Queue j) (\<lambda>q. TransferJobState q (j_State j) StateQueued) s2
          in (triggerSched (saveJob (j_ID j) s3), ReplyOk, True))"

text \<open>
  \<^verbatim>\<open>handleOrderJob\<close> locks both jobs before it swaps their creation times. The locks are not reentrant: for one job
  named twice the second lock is never granted and the handler does not return.
\<close>

definition handleOrderJob :: "string \<Rightarrow> string \<Rightarrow> Server \<Rightarrow> outcome option" where
  "handleOrderJob jobID1 jobID2 s = (case (GetJobS s jobID1, GetJobS s jobID2) of
      (Some j1, Some j2) \<Rightarrow>
        if j_ID j1 = j_ID j2 then None
        else
          let s1 = onJobs (\<lambda>m. updJob (j_ID j2) (\<lambda>j. j\<lparr>j_CreateTime := j_CreateTime j1\<rparr>)
                     (updJob (j_ID j1) (\<lambda>j. j\<lparr>j_CreateTime := j_CreateTime j2\<rparr>) m)) s
          in Some (saveJob (j_ID j2) (saveJob (j_ID j1) s1), ReplyOk, True)
    | _ \<Rightarrow> Some (s, ReplyErr PbseUnkjobid, True))"

section \<open>Dependencies and limits\<close>

datatype dep_result = DepOk | DepWait | DepFailed string

definition depCheck :: "Server \<Rightarrow> string \<Rightarrow> string \<Rightarrow> dep_result" where
  "depCheck s depType depID =
     (let dep = GetJobS s depID in
      if depID = [] then DepOk
      else if depType = ''afterok'' then
        (case dep of
           None \<Rightarrow> DepOk
         | Some d \<Rightarrow>
             if j_State d \<noteq> StateComplete then DepWait
             else if j_ExitStatus d \<noteq> 0
               then DepFailed (''dependency '' @ depID @ '' failed (exit='' @ FormatInt (j_ExitStatus d) @ '')'')
             else DepOk)
      else if depType = ''afternotok'' then
        (case dep of
           None \<Rightarrow> DepWait
         | Some d \<Rightarrow> if j_State d \<noteq> StateComplete \<or> j_ExitStatus d = 0 then DepWait else DepOk)
      else if depType = ''afterany'' then
        (case dep of
           None \<Rightarrow> DepOk
         | Some d \<Rightarrow> if j_State d \<noteq> StateComplete then DepWait else DepOk)
      else DepOk)"

definition clauseChecks :: "Server \<Rightarrow> string \<Rightarrow> dep_result list" where
  "clauseChecks s clause = (case cut CHR '':'' clause of
      None \<Rightarrow> []
    | Some (depType, ids) \<Rightarrow> map (\<lambda>i. depCheck s depType (TrimSpace i)) (Split CHR '':'' ids))"

definition checkDependencies :: "Job \<Rightarrow> Server \<Rightarrow> Server \<times> bool" where
  "checkDependencies j s =
     (if j_DependList j = [] then (s, True)
      else (case find (\<lambda>r. r \<noteq> DepOk) (concat (map (clauseChecks s) (Split CHR '','' (j_DependList j)))) of
              None \<Rightarrow> (s, True)
            | Some (DepFailed why) \<Rightarrow> (onJobs (updJob (j_ID j) (\<lambda>j. j\<lparr>j_Comment := why\<rparr>)) s, False)
            | Some _ \<Rightarrow> (s, False)))"

definition enforceRunLimits :: "Job \<Rightarrow> Server \<Rightarrow> bool" where
  "enforceRunLimits j s =
     (let c = s_cfg s; jm = s_jobMgr s in
      if ci c F_MaxRunning > 0 \<and> CountByState jm StateRunning \<ge> ci c F_MaxRunning then False
      else if ci c F_MaxUserRun > 0 \<and> CountRunningByOwner jm (j_Owner j) \<ge> ci c F_MaxUserRun then False
      else if ci c F_MaxGroupRun > 0 \<and> j_EGroup j \<noteq> [] \<and> CountRunningByGroup jm (j_EGroup j) \<ge> ci c F_MaxGroupRun
        then False
      else True)"

section \<open>Starting a job\<close>

definition startOn :: "int \<Rightarrow> string \<Rightarrow> int \<Rightarrow> Job \<Rightarrow> Job" where
  "startOn now execHost momPort j =
     SetState now StateRunning SubstateRunning (j\<lparr>j_ExecHost := execHost, j_ExecPort := momPort\<rparr>)"

text \<open>What follows once the job object says Running: counters, document, accounting record, dispatches.\<close>

definition afterStart :: "string \<Rightarrow> Job \<Rightarrow> string list \<Rightarrow> Server \<Rightarrow> Server" where
  "afterStart jobID j nodes s =
     (let s1 = saveJob (j_ID j) (updQueue (j_Queue j) (\<lambda>q. TransferJobState q (j_State j) StateRunning) s);
          s2 = (case lookupJob (s_jobMgr s1) (j_ID j) of Some j' \<Rightarrow> acct AcctStarted jobID j' s1 | None \<Rightarrow> s1)
      in s2\<lparr>s_dispatching := s_dispatching s2 @ map (\<lambda>n. (j_ID j, n)) nodes\<rparr>)"

fun pickNodes :: "int \<Rightarrow> int \<Rightarrow> string list \<Rightarrow> Node list \<Rightarrow> string list" where
  "pickNodes nodeCount ppn sel [] = sel"
| "pickNodes nodeCount ppn sel (n # ns) =
     (if int (length sel) \<ge> nodeCount then sel
      else if n_Name n \<notin> set sel \<and> IsFree n \<and> AvailableSlots n \<ge> ppn
        then pickNodes nodeCount ppn (sel @ [n_Name n]) ns
      else pickNodes nodeCount ppn sel ns)"

definition startMulti :: "int \<Rightarrow> string \<Rightarrow> int \<Rightarrow> int \<Rightarrow> int \<Rightarrow> Job \<Rightarrow> Job" where
  "startMulti now execHost momPort nodeCount ppn j =
     SetState now StateRunning SubstateRunning
       (j\<lparr>j_ExecHost := execHost, j_ExecPort := momPort, j_NodeCount := nodeCount, j_TaskCount := wrap64 (nodeCount * ppn)\<rparr>)"

definition runJobMulti :: "int \<Rightarrow> Job \<Rightarrow> Node \<Rightarrow> int \<Rightarrow> int \<Rightarrow> Server \<Rightarrow> Server" where
  "runJobMulti now j firstNode nodeCount ppn s =
     (let sel = pickNodes nodeCount ppn [n_Name firstNode] (AllNodes (s_nodeMgr s)) in
      if int (length sel) < nodeCount then s
      else
        let execHost = Join ''+'' (map (\<lambda>n. n @ ''/0'') sel);
            s1 = onNodes (fold (\<lambda>n. updNode n (AssignJob (j_ID j) ppn)) sel) s;
            s2 = onJobs (updJob (j_ID j) (startMulti now execHost (n_MomPort firstNode) nodeCount ppn)) s1
        in afterStart (j_ID j) j sel s2)"

definition runOnNode :: "int \<Rightarrow> string \<Rightarrow> Job \<Rightarrow> Node \<Rightarrow> Server \<Rightarrow> Server" where
  "runOnNode now jobID j n s =
     (case jobNodeRequest j of (nodeCount, ppn) \<Rightarrow>
        if nodeCount > 1 then runJobMulti now j n nodeCount ppn s
        else
          let s1 = onNodes (updNode (n_Name n) (AssignJob (j_ID j) (jobRequestedCPUs j))) s;
              s2 = onJobs (updJob (j_ID j) (startOn now (n_Name n @ ''/0'') (n_MomPort n))) s1
          in afterStart jobID j [n_Name n] s2)"

definition handleRunJob :: "int \<Rightarrow> string \<Rightarrow> string \<Rightarrow> Server \<Rightarrow> outcome" where
  "handleRunJob now jobID dest s =
     (if s_haEnabled s \<and> \<not> s_haActive s then (s, ReplyErr PbseBadReq, True)
      else (case GetJobS s jobID of
         None \<Rightarrow> (s, ReplyErr PbseUnkjobid, True)
       | Some j \<Rightarrow>
           if j_State j \<noteq> StateQueued \<and> j_State j \<noteq> StateProvisioning then (s, ReplyErr PbseBadReq, True)
           else if \<not> enforceRunLimits j s then (s, ReplyErr PbsePerm, True)
           else (case checkDependencies j s of
              (s1, False) \<Rightarrow> (s1, ReplyErr PbseBadReq, True)
            | (s1, True) \<Rightarrow>
                if dest = [] then (triggerSched s1, ReplyOk, True)
                else (case GetNode (s_nodeMgr s1) (hostName dest) of
                        None \<Rightarrow> (s1, ReplyErr PbseUnkNode, True)
                      | Some n \<Rightarrow> (runOnNode now jobID j n s1, ReplyOk, True)))))"

section \<open>Obituaries\<close>

definition usedAttr :: "SvrAttrl \<Rightarrow> Job \<Rightarrow> Job" where
  "usedAttr a j =
     (if sa_Name a = ''resources_used'' \<and> sa_HasResc a
      then j\<lparr>j_ResourceUsed := mput (sa_Resc a) (sa_Value a) (j_ResourceUsed j)\<rparr> else j)"

definition endJob :: "int \<Rightarrow> int \<Rightarrow> SvrAttrl list \<Rightarrow> Job \<Rightarrow> Job" where
  "endJob now exitStatus attrs j =
     fold usedAttr attrs (SetState now StateComplete SubstateComplete (j\<lparr>j_ExitStatus := exitStatus\<rparr>))"

definition handleJobObit :: "int \<Rightarrow> string \<Rightarrow> bool \<Rightarrow> string \<Rightarrow> int \<Rightarrow> SvrAttrl list \<Rightarrow> Server \<Rightarrow> outcome" where
  "handleJobObit now remote privileged jobID exitStatus attrs s =
     (if \<not> privileged \<and> mget (s_authMap s) remote = None then (s, ReplyErr PbseBadCred, False)
      else (case GetJobS s jobID of
         None \<Rightarrow> (s, ReplyOk, True)
       | Some j \<Rightarrow>
           let s1 = onJobs (updJob (j_ID j) (endJob now exitStatus attrs)) s;
               s2 = (if j_ExecHost j \<noteq> [] then releaseNodeResources (j_ExecHost j) jobID s1 else s1);
               s3 = saveJob (j_ID j) (updQueue (j_Queue j) (\<lambda>q. TransferJobState q (j_State j) StateComplete) s2);
               s4 = (case lookupJob (s_jobMgr s3) (j_ID j) of
                       Some j' \<Rightarrow>
                         acct (if exitStatus < 0 \<or> exitStatus > 128 then AcctAborted else AcctEnded) jobID j' s3
                     | None \<Rightarrow> s3)
           in (triggerSched s4, ReplyOk, True)))"

end
