(* ===== verification/Server_Tasks.thy ===== *)
theory Server_Tasks
  imports Server_Jobs
begin

text \<open>
  The rest of what changes the state of \<^verbatim>\<open>src/internal/server/server.go\<close>: the dispatch of a job to a MOM and its
  undoing, the background tasks, the status messages of MOMs, authentication and the requests of \<^verbatim>\<open>qmgr\<close>. What comes
  from outside (the answers of a MOM, name resolution, address ranges) is an argument.
\<close>

section \<open>Dispatch to a MOM\<close>

definition momAttr :: "string \<Rightarrow> string \<Rightarrow> SvrAttrl list" where
  "momAttr name v =
     (if v \<noteq> [] then [\<lparr>sa_Name = name, sa_HasResc = False, sa_Resc = [], sa_Value = v, sa_Op = 2\<rparr>] else [])"

definition momResc :: "string \<times> string \<Rightarrow> SvrAttrl list" where
  "momResc kv = (case kv of (resc, v) \<Rightarrow>
     if v \<noteq> [] then [\<lparr>sa_Name = ''Resource_List'', sa_HasResc = True, sa_Resc = resc, sa_Value = v, sa_Op = 2\<rparr>] else [])"

definition orDefault :: "string \<Rightarrow> string \<Rightarrow> string" where
  "orDefault v d = (if v = [] then d else v)"

definition buildMOMJobAttrs :: "int \<Rightarrow> Job \<Rightarrow> SvrAttrl list" where
  "buildMOMJobAttrs now j =
     momAttr ''Job_Name'' (j_Name j) @ momAttr ''Job_Owner'' (j_Owner j) @ momAttr ''queue'' (j_Queue j) @
     momAttr ''server'' (j_Server j) @ momAttr ''Checkpoint'' (orDefault (j_Checkpoint j) ''u'') @
     momAttr ''Error_Path'' (j_StderrPath j) @ momAttr ''exec_host'' (j_ExecHost j) @
     momAttr ''provision_vm'' (j_ProvisionVM j) @ momAttr ''provision_node'' (j_ProvisionNode j) @
     momAttr ''exec_port'' (FormatInt (j_ExecPort j)) @ momAttr ''Join_Path'' (orDefault (j_JoinPath j) ''n'') @
     momAttr ''Keep_Files'' (orDefault (j_KeepFiles j) ''n'') @ momAttr ''Output_Path'' (j_StdoutPath j) @
     concat (map momResc (j_ResourceReq j)) @
     momAttr ''Variable_List'' (Join '','' (map kvLine (j_VariableList j))) @
     momAttr ''euser'' (j_EUser j) @ momAttr ''egroup'' (j_EGroup j) @ momAttr ''hashname'' (j_HashName j) @
     momAttr ''start_time'' (FormatInt now) @ momAttr ''fault_tolerant'' ''False'' @ momAttr ''job_radix'' ''0'' @
     momAttr ''request_version'' ''1'' @ momAttr ''Shell_Path_List'' (j_Shell j) @ momAttr ''stagein'' (j_StageinList j) @
     momAttr ''stageout'' (j_StageoutList j) @ momAttr ''Rerunable'' (j_Rerunnable j)"

definition sendQueueJobToMOM :: "string \<Rightarrow> string \<Rightarrow> SvrAttrl list \<Rightarrow> string" where
  "sendQueueJobToMOM serverName jobID attrs =
     WriteRequestHeader BatchReqQueueJob serverName @ WriteString jobID @ WriteString serverName @
     WriteSvrAttrl attrs @ WriteReqExtend []"

definition sendJobScriptToMOM :: "string \<Rightarrow> string \<Rightarrow> string \<Rightarrow> string" where
  "sendJobScriptToMOM serverName jobID script =
     WriteRequestHeader BatchReqJobScript serverName @ WriteUint 0 @ WriteUint 0 @ WriteUint (of_nat (length script)) @
     WriteString jobID @ WriteString script @ WriteReqExtend []"

definition sendCommitToMOM :: "string \<Rightarrow> string \<Rightarrow> string" where
  "sendCommitToMOM serverName jobID =
     WriteRequestHeader BatchReqCommit serverName @ WriteString jobID @ WriteReqExtend []"

text \<open>The MOM at the other end: no connection, or the bytes with which it answers each request.\<close>

type_synonym mom_peer = "(string \<Rightarrow> string) option"

definition accepted :: "string \<Rightarrow> bool" where
  "accepted answer = (case ReadReply answer of (Inr (code, _, _, _), _) \<Rightarrow> code = 0 | _ \<Rightarrow> False)"

definition sessionOf :: "string \<Rightarrow> int option" where
  "sessionOf answer = (case ReadReply answer of
      (Inr (_, _, choice, dat), _) \<Rightarrow>
        if choice = ReplyChoiceText \<and> dat \<noteq> [] then
          (case Atoi dat of (sid, None) \<Rightarrow> Some sid | _ \<Rightarrow> None)
        else None
    | _ \<Rightarrow> None)"

definition undoJobDispatch :: "int \<Rightarrow> Job \<Rightarrow> string \<Rightarrow> Server \<Rightarrow> Server" where
  "undoJobDispatch now j nodeName s =
     (let s1 = onJobs (updJob (j_ID j) (\<lambda>j. (SetState now StateQueued SubstateQueued j)\<lparr>j_ExecHost := [], j_ExecPort := 0\<rparr>)) s;
          s2 = onNodes (updNode nodeName (ReleaseJob (j_ID j) (jobRequestedCPUs j))) s1
      in updQueue (j_Queue j) (\<lambda>q. TransferJobState q StateRunning StateQueued) s2)"

text \<open>
  The dialogue: QueueJob, JobScript and Commit, each followed by its reply. \<open>j\<close> is the job object; where the job has
  left the manager it is the object that the dispatch still holds.
\<close>

definition dispatchJobToMOM :: "int \<Rightarrow> mom_peer \<Rightarrow> Job \<Rightarrow> string \<Rightarrow> Server \<Rightarrow> Server" where
  "dispatchJobToMOM now peer j nodeName s = (case peer of
      None \<Rightarrow> undoJobDispatch now j nodeName s
    | Some answer \<Rightarrow>
        if \<not> accepted (answer (sendQueueJobToMOM (ServerName s) (j_ID j) (buildMOMJobAttrs now j))) \<or>
           \<not> accepted (answer (sendJobScriptToMOM (ServerName s) (j_ID j) (j_Script j))) \<or>
           \<not> accepted (answer (sendCommitToMOM (ServerName s) (j_ID j)))
        then undoJobDispatch now j nodeName s
        else (case sessionOf (answer (sendCommitToMOM (ServerName s) (j_ID j))) of
                Some sid \<Rightarrow> onJobs (updJob (j_ID j) (\<lambda>j. j\<lparr>j_SessionID := sid\<rparr>)) s
              | None \<Rightarrow> s))"

section \<open>Background tasks\<close>

definition promoteJob :: "int \<Rightarrow> Job \<Rightarrow> Server \<Rightarrow> Server" where
  "promoteJob now j s =
     (if j_State j = StateWaiting \<and> (case j_ExecutionTime j of Some ts \<Rightarrow> ts < now | None \<Rightarrow> False)
      then onJobs (\<lambda>m. UpdateJobState now m (j_ID j) StateQueued SubstateQueued) s else s)"

definition promoteWaitingJobs :: "int \<Rightarrow> Server \<Rightarrow> Server" where
  "promoteWaitingJobs now s = fold (promoteJob now) (AllJobs (s_jobMgr s)) s"

definition requeueOnNode :: "int \<Rightarrow> string \<Rightarrow> string \<Rightarrow> Server \<Rightarrow> Server" where
  "requeueOnNode now nodeName jid s = (case GetJobS s jid of
      None \<Rightarrow> s
    | Some j \<Rightarrow>
        if j_State j \<noteq> StateRunning then s
        else
          let s1 = onNodes (updNode nodeName (ReleaseJob (j_ID j) (jobRequestedCPUs j))) s;
              s2 = onJobs (updJob (j_ID j) (clearHost now)) s1
          in saveJob (j_ID j) (updQueue (j_Queue j) (\<lambda>q. TransferJobState q StateRunning StateQueued) s2))"

definition requeueNodeJobs :: "int \<Rightarrow> string \<Rightarrow> Server \<Rightarrow> Server" where
  "requeueNodeJobs now nodeName s =
     (if cb (s_cfg s) F_DisableAutoRequeue then s
      else (case GetNode (s_nodeMgr s) nodeName of
              None \<Rightarrow> s
            | Some n \<Rightarrow> triggerSched (fold (requeueOnNode now nodeName) (n_AssignedJobs n) s)))"

definition checkNode :: "int \<Rightarrow> Node \<Rightarrow> Server \<Rightarrow> Server" where
  "checkNode now n s =
     (if \<not> IsDown n \<and> (case n_LastUpdate n of Some t \<Rightarrow> now - t > 300 | None \<Rightarrow> False)
      then requeueNodeJobs now (n_Name n) (onNodes (MarkNodeDown (n_Name n)) s) else s)"

definition checkNodes :: "int \<Rightarrow> Server \<Rightarrow> Server" where
  "checkNodes now s = fold (checkNode now) (AllNodes (s_nodeMgr s)) s"

definition requeueRecoveredJob :: "int \<Rightarrow> Job \<Rightarrow> Server \<Rightarrow> Server" where
  "requeueRecoveredJob now j s =
     (let ppn = max 1 (snd (jobNodeRequest j));
          s1 = onNodes (fold (\<lambda>h. updNode (hostName h) (ReleaseJob (j_ID j) ppn)) (Split CHR ''+'' (j_ExecHost j))) s;
          s2 = onJobs (updJob (j_ID j) (clearHost now)) s1;
          s3 = updQueue (j_Queue j) (\<lambda>q. TransferJobState q (j_State j) StateQueued) s2
      in triggerSched (saveJob (j_ID j) s3))"

definition momAddr :: "Node \<Rightarrow> string" where
  "momAddr n =
     (let host = (if n_IP n \<noteq> [] then n_IP n else n_Name n);
          port = (if n_MomPort n = 0 then 15002 else n_MomPort n)
      in (if CHR '':'' \<in> set host then ''['' @ host @ '']'' else host) @ '':'' @ FormatInt port)"

text \<open>The request for the jobs of a MOM and its answer. The first two numbers of the answer are read and dropped.\<close>

definition momStatusRequest :: "string \<Rightarrow> string" where
  "momStatusRequest serverName = WriteRequestHeader 63 serverName @ WriteString ''jobs'' @ WriteUint 0"

definition momStatusAnswer :: "string \<Rightarrow> string option" where
  "momStatusAnswer r0 =
     (let r2 = snd (ReadUint (snd (ReadUint r0))) in
      case ReadInt r2 of
        (Inl _, _) \<Rightarrow> None
      | (Inr code, r3) \<Rightarrow>
          (case ReadUint (snd (ReadInt r3)) of (choice, r5) \<Rightarrow>
             if code \<noteq> 0 \<or> choice \<noteq> Inr 7 then None
             else (case ReadString r5 of (Inr v, _) \<Rightarrow> Some v | (Inl _, _) \<Rightarrow> None)))"

definition momRunningJobs :: "string \<Rightarrow> mom_peer \<Rightarrow> string list option" where
  "momRunningJobs serverName peer = (case peer of
      None \<Rightarrow> None
    | Some answer \<Rightarrow>
        map_option (\<lambda>v. filter (\<lambda>i. i \<noteq> []) (map TrimSpace (Split CHR '','' v)))
          (momStatusAnswer (answer (momStatusRequest serverName))))"

definition reconcileJob :: "int \<Rightarrow> (string \<Rightarrow> mom_peer) \<Rightarrow> Job \<Rightarrow> Server \<times> int \<Rightarrow> Server \<times> int" where
  "reconcileJob now query j sp = (case sp of (s, waiting) \<Rightarrow>
     if j_State j \<noteq> StateRunning \<or> j_ExecHost j = [] then (s, waiting)
     else (case GetNode (s_nodeMgr s) (hostName (before CHR ''+'' (j_ExecHost j))) of
             None \<Rightarrow> (s, waiting)
           | Some n \<Rightarrow>
               (case momRunningJobs (ServerName s) (query (momAddr n)) of
                  None \<Rightarrow> (s, waiting + 1)
                | Some running \<Rightarrow>
                    if j_ID j \<in> set running then (s, waiting) else (requeueRecoveredJob now j s, waiting))))"

definition reconcileRunningJobsWithMOMs :: "int \<Rightarrow> (string \<Rightarrow> mom_peer) \<Rightarrow> Server \<Rightarrow> Server \<times> int" where
  "reconcileRunningJobsWithMOMs now query s = fold (reconcileJob now query) (AllJobs (s_jobMgr s)) (s, 0)"

definition purgeJob :: "int \<Rightarrow> Job \<Rightarrow> Server \<Rightarrow> Server" where
  "purgeJob now j s =
     (case j_CompTime j of
        Some t \<Rightarrow>
          if now - t > ci (s_cfg s) F_KeepCompleted then
            onJobs (\<lambda>m. RemoveJob m (j_ID j))
              (removeJobFiles (j_ID j) (updQueue (j_Queue j) (\<lambda>q. DecrJobCount q StateComplete) s))
          else s
      | None \<Rightarrow> s)"

definition completedJobCleanup :: "int \<Rightarrow> Server \<Rightarrow> Server" where
  "completedJobCleanup now s = fold (purgeJob now) (CompletedJobs (s_jobMgr s)) s"

section \<open>Authentication\<close>

text \<open>\<^verbatim>\<open>net.SplitHostPort\<close>: the host, or nothing where the address has no port.\<close>

definition splitHost :: "string \<Rightarrow> string" where
  "splitHost remote = (case remote of
      CHR ''['' # r \<Rightarrow> (case cut CHR '']'' r of Some (h, CHR '':'' # p) \<Rightarrow> if CHR '':'' \<in> set p then [] else h | _ \<Rightarrow> [])
    | _ \<Rightarrow> (case cut CHR '':'' remote of Some (h, p) \<Rightarrow> if CHR '':'' \<in> set p then [] else h | None \<Rightarrow> []))"

definition handleAuthenUser :: "string \<Rightarrow> string \<Rightarrow> 64 word \<Rightarrow> Server \<Rightarrow> outcome" where
  "handleAuthenUser user remote clientPort s =
     (s\<lparr>s_authMap := mput (splitHost remote @ '':'' @ FormatInt (uint clientPort)) user (s_authMap s)\<rparr>, ReplyOk, True)"

definition handleAuthToken ::
  "(string \<Rightarrow> string \<Rightarrow> string) \<Rightarrow> int \<Rightarrow> string \<Rightarrow> string \<Rightarrow> 64 word \<Rightarrow> string \<Rightarrow> Server \<Rightarrow> outcome" where
  "handleAuthToken sign now user remote timestamp token s = (case s_authKey s of
      None \<Rightarrow> (s, ReplyErr PbseBadCred, False)
    | Some key \<Rightarrow>
        if VerifyToken sign now user (sint timestamp) token key \<noteq> None then (s, ReplyErr PbseBadCred, False)
        else (s\<lparr>s_authMap := mput remote user (s_authMap s)\<rparr>, ReplyOk, True))"

section \<open>Status messages of MOMs\<close>

text \<open>
  Name resolution and addresses: the names of a host, the address that a host text denotes, and whether a range (a CIDR
  prefix, \<^const>\<open>None\<close> where it does not parse) holds an address.
\<close>

record Network =
  nw_names :: "string \<Rightarrow> string list"
  nw_parseIP :: "string \<Rightarrow> string option"
  nw_contains :: "string \<Rightarrow> string \<Rightarrow> bool option"

definition ipInAllowedRanges :: "Network \<Rightarrow> string \<Rightarrow> Server \<Rightarrow> bool" where
  "ipInAllowedRanges nw ip s =
     list_ex (\<lambda>r. TrimSpace r \<noteq> [] \<and> nw_contains nw (TrimSpace r) ip = Some True)
       (Split CHR '','' (cs (s_cfg s) F_NodeAllowedIPRanges))"

definition tryAutoRegisterNode :: "Network \<Rightarrow> string \<Rightarrow> string option \<Rightarrow> Server \<Rightarrow> Server \<times> bool" where
  "tryAutoRegisterNode nw hostname remoteIP s =
     (if \<not> cb (s_cfg s) F_AllowDynamicNodes then (s, False)
      else (case remoteIP of
         None \<Rightarrow> (s, False)
       | Some ip \<Rightarrow>
           if \<not> ipInAllowedRanges nw ip s then (s, False)
           else
             let np = (if cb (s_cfg s) F_AutoNodeNP \<and> ci (s_cfg s) F_NPDefault > 0 then ci (s_cfg s) F_NPDefault else 1)
             in (saveNodes (onNodes (\<lambda>m. updNode hostname (\<lambda>n. n\<lparr>n_Dynamic := True\<rparr>) (AddNode m hostname np)) s), True)))"

definition nodeOfItems :: "string list \<Rightarrow> string" where
  "nodeOfItems items = (case find (\<lambda>i. HasPrefix i ''node='') items of Some i \<Rightarrow> drop 5 i | None \<Rightarrow> [])"

definition isHostname :: "Network \<Rightarrow> string \<Rightarrow> string list \<Rightarrow> string" where
  "isHostname nw remote items =
     (let named = nodeOfItems items; host = splitHost remote
      in if named \<noteq> [] then named
         else (case nw_names nw host of nm # _ \<Rightarrow> TrimSuffix nm ''.'' | [] \<Rightarrow> host))"

definition applyStatus :: "int \<Rightarrow> string option \<Rightarrow> ISMessage \<Rightarrow> Node \<Rightarrow> Node" where
  "applyStatus now remoteIP msg n =
     (let n1 = n\<lparr>n_MomPort := is_MomPort msg, n_RmPort := is_RmPort msg\<rparr>;
          n2 = (case remoteIP of Some ip \<Rightarrow> n1\<lparr>n_IP := ip\<rparr> | None \<Rightarrow> n1)
      in UpdateFromStatus now (is_Items msg) n2)"

text \<open>The acknowledgement, or nothing for a node that is unknown and may not register.\<close>

definition isAck :: string where
  "isAck = WriteInt 4 @ WriteInt 3 @ WriteInt 0"

definition handleISMessage :: "Network \<Rightarrow> int \<Rightarrow> string \<Rightarrow> ISMessage \<Rightarrow> Server \<Rightarrow> Server \<times> string" where
  "handleISMessage nw now remote msg s =
     (let hostname = isHostname nw remote (is_Items msg);
          remoteIP = nw_parseIP nw (splitHost remote);
          s1 = (if GetNode (s_nodeMgr s) hostname = None then fst (tryAutoRegisterNode nw hostname remoteIP s) else s)
      in if GetNode (s_nodeMgr s1) hostname = None then (s1, [])
         else (onNodes (updNode hostname (applyStatus now remoteIP msg)) s1, isAck))"

section \<open>Requests of qmgr\<close>

definition mgrCreateQueue :: "string \<Rightarrow> SvrAttrl list \<Rightarrow> Server \<Rightarrow> Server \<times> bool" where
  "mgrCreateQueue name attrs s =
     (if GetQueue (s_queueMgr s) name \<noteq> None then (s, False)
      else let q = applyQueueAttrs attrs (NewQueue name TypeExecution)
           in (saveQueue q (s\<lparr>s_queueMgr := AddQueue (s_queueMgr s) q\<rparr>), True))"

definition mgrDeleteQueue :: "string \<Rightarrow> Server \<Rightarrow> Server \<times> bool" where
  "mgrDeleteQueue name s = (case RemoveQueue (s_queueMgr s) name of
      (qm, True) \<Rightarrow> (onStore (removeQueueFile name) (s\<lparr>s_queueMgr := qm\<rparr>), True)
    | (qm, False) \<Rightarrow> (s, False))"

definition saveQueueOf :: "string \<Rightarrow> Server \<Rightarrow> Server" where
  "saveQueueOf name s = (case GetQueue (s_queueMgr s) name of Some q \<Rightarrow> saveQueue q s | None \<Rightarrow> s)"

definition mgrSetQueue :: "string \<Rightarrow> SvrAttrl list \<Rightarrow> Server \<Rightarrow> Server \<times> bool" where
  "mgrSetQueue name attrs s =
     (if GetQueue (s_queueMgr s) name = None then (s, False)
      else (saveQueueOf name (updQueue name (applyQueueAttrs attrs) s), True))"

definition mgrUnsetQueue :: "string \<Rightarrow> SvrAttrl list \<Rightarrow> Server \<Rightarrow> Server \<times> bool" where
  "mgrUnsetQueue name attrs s =
     (if GetQueue (s_queueMgr s) name = None then (s, False)
      else (saveQueueOf name (updQueue name (\<lambda>q. q\<lparr>q_Attrs := fold (\<lambda>a. mdel (sa_Name a)) attrs (q_Attrs q)\<rparr>) s), True))"

definition createNp :: "SvrAttrl list \<Rightarrow> int" where
  "createNp attrs =
     fold (\<lambda>a np. if sa_Name a = ''np'' \<or> (sa_Name a = ''resources_available'' \<and> sa_Resc a = ''np'')
                  then scanOr np (sa_Value a) else np) attrs 1"

definition mgrCreateNode :: "string \<Rightarrow> SvrAttrl list \<Rightarrow> Server \<Rightarrow> Server \<times> bool" where
  "mgrCreateNode name attrs s =
     (saveNodes (onNodes (\<lambda>m. updNode name (applyNodeAttrs attrs) (AddNode m name (createNp attrs))) s), True)"

definition mgrDeleteNode :: "string \<Rightarrow> Server \<Rightarrow> Server \<times> bool" where
  "mgrDeleteNode name s = (case RemoveNode (s_nodeMgr s) name of
      (nm, True) \<Rightarrow> (saveNodes (s\<lparr>s_nodeMgr := nm\<rparr>), True)
    | (nm, False) \<Rightarrow> (s, False))"

definition mgrSetNode :: "string \<Rightarrow> SvrAttrl list \<Rightarrow> Server \<Rightarrow> Server \<times> bool" where
  "mgrSetNode name attrs s =
     (if GetNode (s_nodeMgr s) name = None then (s, False)
      else (triggerSched (saveNodes (onNodes (updNode name (applyNodeAttrs attrs)) s)), True))"

definition mgrOperation :: "int \<Rightarrow> int \<Rightarrow> string \<Rightarrow> SvrAttrl list \<Rightarrow> Server \<Rightarrow> Server \<times> bool" where
  "mgrOperation command objType objName attrs s =
     (if objType = MgrObjQueue \<and> command = 1 then mgrCreateQueue objName attrs s
      else if objType = MgrObjQueue \<and> command = 2 then mgrDeleteQueue objName s
      else if objType = MgrObjQueue \<and> command = 3 then mgrSetQueue objName attrs s
      else if objType = MgrObjQueue \<and> command = 4 then mgrUnsetQueue objName attrs s
      else if objType = MgrObjNode \<and> command = 1 then mgrCreateNode objName attrs s
      else if objType = MgrObjNode \<and> command = 2 then mgrDeleteNode objName s
      else if objType = MgrObjNode \<and> command = 3 then mgrSetNode objName attrs s
      else if objType = MgrObjServer \<and> command = 3 then (s\<lparr>s_cfg := mgrSetServer attrs (s_cfg s)\<rparr>, True)
      else if objType = MgrObjServer \<and> command = 4 then (s\<lparr>s_cfg := mgrUnsetServer attrs (s_cfg s)\<rparr>, True)
      else (s, False))"

definition handleManager :: "int \<Rightarrow> int \<Rightarrow> string \<Rightarrow> SvrAttrl list \<Rightarrow> Server \<Rightarrow> outcome" where
  "handleManager command objType objName attrs s = (case mgrOperation command objType objName attrs s of
      (s1, False) \<Rightarrow> (s1, ReplyErr PbseBadReq, True)
    | (s1, True) \<Rightarrow> (if objType = MgrObjServer then saveServerDBS s1 else s1, ReplyOk, True))"

end
