(* ===== verification/Server_Status.thy ===== *)
theory Server_Status
  imports Server_Tasks
begin

text \<open>
  What the server tells of jobs, queues, nodes and itself: \<^verbatim>\<open>formatJobStatus\<close>, \<^verbatim>\<open>formatQueueStatus\<close>, \<^verbatim>\<open>formatNodeStatus\<close>
  and \<^verbatim>\<open>formatServerStatus\<close> of \<^verbatim>\<open>src/internal/server/server.go\<close> with the handlers that send them. The scheduler and the
  commands read the cluster through these objects.
\<close>

section \<open>Attributes\<close>

definition oneAttr :: "string \<Rightarrow> string \<Rightarrow> SvrAttrl list" where
  "oneAttr name v = [\<lparr>sa_Name = name, sa_HasResc = False, sa_Resc = [], sa_Value = v, sa_Op = 1\<rparr>]"

definition strAttr :: "string \<Rightarrow> string \<Rightarrow> SvrAttrl list" where
  "strAttr name v = (if v \<noteq> [] then oneAttr name v else [])"

definition boolAttr :: "string \<Rightarrow> bool \<Rightarrow> SvrAttrl list" where
  "boolAttr name b = oneAttr name (goBool b)"

definition flagAttr :: "string \<Rightarrow> bool \<Rightarrow> SvrAttrl list" where
  "flagAttr name b = (if b then oneAttr name ''True'' else [])"

definition intAttr :: "string \<Rightarrow> int \<Rightarrow> SvrAttrl list" where
  "intAttr name v = oneAttr name (FormatInt v)"

definition intAttrNZ :: "string \<Rightarrow> int \<Rightarrow> SvrAttrl list" where
  "intAttrNZ name v = (if v \<noteq> 0 then intAttr name v else [])"

definition intAttrPos :: "string \<Rightarrow> int \<Rightarrow> SvrAttrl list" where
  "intAttrPos name v = (if v > 0 then intAttr name v else [])"

definition listAttrS :: "string \<Rightarrow> string list \<Rightarrow> SvrAttrl list" where
  "listAttrS name l = (if l \<noteq> [] then oneAttr name (Join '','' l) else [])"

definition timeAttr :: "string \<Rightarrow> gotime \<Rightarrow> SvrAttrl list" where
  "timeAttr name t = (case t of Some ts \<Rightarrow> intAttr name ts | None \<Rightarrow> [])"

definition oneResc :: "string \<Rightarrow> string \<times> string \<Rightarrow> SvrAttrl" where
  "oneResc name kv = (case kv of (resc, v) \<Rightarrow>
     \<lparr>sa_Name = name, sa_HasResc = True, sa_Resc = resc, sa_Value = v, sa_Op = 1\<rparr>)"

definition rescAttr :: "string \<Rightarrow> string smap \<Rightarrow> SvrAttrl list" where
  "rescAttr name m = map (oneResc name) m"

text \<open>The resources of a job; an empty value is left out.\<close>

definition rescAttrNE :: "string \<Rightarrow> string smap \<Rightarrow> SvrAttrl list" where
  "rescAttrNE name m = map (oneResc name) (filter (\<lambda>kv. snd kv \<noteq> []) m)"

definition stateCount :: "(int \<Rightarrow> int) \<Rightarrow> string" where
  "stateCount f =
     ''Transit:'' @ FormatInt (f 0) @ '' Queued:'' @ FormatInt (f 1) @ '' Held:'' @ FormatInt (f 2) @
     '' Waiting:'' @ FormatInt (f 3) @ '' Running:'' @ FormatInt (f 4) @ '' Exiting:'' @ FormatInt (f 5) @
     '' Complete:'' @ FormatInt (f 6)"

section \<open>Jobs\<close>

definition jobPaths :: "Job \<Rightarrow> SvrAttrl list" where
  "jobPaths j =
     strAttr ''Checkpoint'' (orDefault (j_Checkpoint j) ''u'') @
     strAttr ''Output_Path'' (j_StdoutPath j) @ strAttr ''Error_Path'' (j_StderrPath j) @
     strAttr ''Join_Path'' (j_JoinPath j) @ strAttr ''Keep_Files'' (j_KeepFiles j) @
     strAttr ''Account_Name'' (j_Account j) @ strAttr ''Shell_Path_List'' (j_Shell j) @
     strAttr ''Mail_Points'' (j_MailPoints j) @ strAttr ''Mail_Users'' (j_MailUsers j) @
     strAttr ''Rerunable'' (j_Rerunnable j) @ strAttr ''Hold_Types'' (j_HoldTypes j) @
     strAttr ''User_List'' (j_UserList j) @ strAttr ''depend'' (j_DependList j) @
     strAttr ''stagein'' (j_StageinList j) @ strAttr ''stageout'' (j_StageoutList j) @
     strAttr ''group_list'' (j_GroupList j) @ strAttr ''job_array_request'' (j_JobArrayReq j) @
     strAttr ''init_work_dir'' (j_InitWorkDir j) @ strAttr ''comment'' (j_Comment j)"

definition jobExec :: "Job \<Rightarrow> SvrAttrl list" where
  "jobExec j =
     strAttr ''exec_host'' (j_ExecHost j) @ strAttr ''provision_vm'' (j_ProvisionVM j) @
     strAttr ''provision_node'' (j_ProvisionNode j) @ intAttrPos ''exec_port'' (j_ExecPort j) @
     intAttrPos ''session_id'' (j_SessionID j) @ timeAttr ''ctime'' (j_CreateTime j)"

definition jobTimes :: "Job \<Rightarrow> SvrAttrl list" where
  "jobTimes j =
     timeAttr ''start_time'' (j_StartTime j) @ timeAttr ''comp_time'' (j_CompTime j) @ timeAttr ''mtime'' (j_MTime j) @
     strAttr ''euser'' (j_EUser j) @ strAttr ''egroup'' (j_EGroup j) @
     (if j_State j = StateComplete \<or> j_State j = StateExiting then intAttr ''exit_status'' (j_ExitStatus j) else [])"

definition jobRest :: "Job \<Rightarrow> SvrAttrl list" where
  "jobRest j =
     rescAttrNE ''resources_used'' (j_ResourceUsed j) @
     strAttr ''Variable_List'' (Join '','' (map kvLine (j_VariableList j))) @
     strAttr ''hashname'' (j_HashName j) @ strAttr ''fault_tolerant'' (j_FaultTolerant j) @
     strAttr ''job_radix'' (j_JobRadix j) @ strAttr ''request_version'' (j_ReqVersion j)"

definition formatJobStatus :: "Job \<Rightarrow> StatusObject" where
  "formatJobStatus j =
     \<lparr>so_Type = MgrObjJob, so_Name = j_ID j, so_Attrs =
        strAttr ''Job_Name'' (j_Name j) @ strAttr ''Job_Owner'' (j_Owner j) @ strAttr ''job_state'' (StateName j) @
        strAttr ''queue'' (j_Queue j) @ strAttr ''server'' (j_Server j) @ jobPaths j @
        intAttrNZ ''Priority'' (j_Priority j) @ timeAttr ''Execution_Time'' (j_ExecutionTime j) @ jobExec j @
        timeAttr ''qtime'' (j_QueueTime j) @ jobTimes j @ rescAttrNE ''Resource_List'' (j_ResourceReq j) @ jobRest j\<rparr>"

section \<open>Queues\<close>

definition queueLimits :: "Queue \<Rightarrow> SvrAttrl list" where
  "queueLimits q =
     intAttrNZ ''Priority'' (q_Priority q) @ listAttrS ''disallowed_types'' (q_DisallowedTypes q) @
     intAttrPos ''max_queuable'' (q_MaxJobs q) @ intAttrPos ''max_running'' (q_MaxRun q) @
     intAttrPos ''max_user_queuable'' (q_MaxUserJobs q) @ intAttrPos ''max_user_run'' (q_MaxUserRun q)"

definition queueAccess :: "Queue \<Rightarrow> SvrAttrl list" where
  "queueAccess q =
     flagAttr ''acl_user_enable'' (q_ACLUserEnabled q) @ listAttrS ''acl_users'' (q_ACLUsers q) @
     flagAttr ''acl_group_enable'' (q_ACLGroupEnabled q) @ listAttrS ''acl_groups'' (q_ACLGroups q) @
     flagAttr ''acl_host_enable'' (q_ACLHostEnabled q) @ listAttrS ''acl_hosts'' (q_ACLHosts q) @
     strAttr ''naccesspolicy'' (q_NaccessPolicy q) @ listAttrS ''hostlist'' (q_HostList q) @
     listAttrS ''route_destinations'' (q_RouteDestin q) @
     flagAttr ''from_route_only'' (qAttrTrue (sget (q_Attrs q) ''from_route_only'')) @
     rescAttr ''resources_min'' (q_ResourceMin q) @ rescAttr ''resources_max'' (q_ResourceMax q) @
     rescAttr ''resources_default'' (q_ResourceDflt q)"

definition queueCloud :: "Queue \<Rightarrow> SvrAttrl list" where
  "queueCloud q =
     strAttr ''cloud_provider'' (q_CloudProvider q) @ strAttr ''cloud_vm_sku'' (q_CloudVMSKU q) @
     intAttrPos ''cloud_min_nodes'' (q_CloudMinNodes q) @ intAttrPos ''cloud_max_nodes'' (q_CloudMaxNodes q) @
     intAttrPos ''cloud_idle_time'' (q_CloudIdleTime q) @
     intAttrPos ''cloud_provision_timeout'' (q_CloudProvisionTimeout q) @
     strAttr ''cloud_reclaim'' (q_CloudReclaim q) @ strAttr ''cloud_subnet_id'' (q_CloudSubnetID q) @
     strAttr ''cloud_image_id'' (q_CloudImageID q) @ intAttrPos ''cloud_disk_size'' (q_CloudDiskSize q) @
     strAttr ''cloud_disk_type'' (q_CloudDiskType q) @ strAttr ''cloud_ssh_key'' (q_CloudSSHKey q) @
     strAttr ''cloud_location'' (q_CloudLocation q) @ strAttr ''cloud_rg_name'' (q_CloudRgName q) @
     intAttrPos ''cloud_cooldown'' (q_CloudCooldown q) @ intAttrPos ''cloud_scale_headroom'' (q_CloudScaleHeadroom q) @
     intAttrPos ''cloud_drain_timeout'' (q_CloudDrainTimeout q)"

text \<open>The object of a queue whose counters are fresh.\<close>

definition queueObject :: "Queue \<Rightarrow> StatusObject" where
  "queueObject q =
     \<lparr>so_Type = MgrObjQueue, so_Name = q_Name q, so_Attrs =
        oneAttr ''queue_type'' (if q_Type q = TypeExecution then ''Execution'' else ''Route'') @
        intAttr ''total_jobs'' (q_TotalJobs q) @ oneAttr ''state_count'' (stateCount (\<lambda>i. q_StateJobs q ! nat i)) @
        boolAttr ''enabled'' (q_Enabled q) @ boolAttr ''started'' (q_Started q) @
        queueLimits q @ queueAccess q @ queueCloud q\<rparr>"

definition formatQueueStatus :: "string \<Rightarrow> Server \<Rightarrow> Server \<times> StatusObject list" where
  "formatQueueStatus name s =
     (let s1 = refreshQueueCounts name s
      in (s1, case GetQueue (s_queueMgr s1) name of Some q \<Rightarrow> [queueObject q] | None \<Rightarrow> []))"

section \<open>Nodes\<close>

definition builtinResources :: "string list" where
  "builtinResources =
     [''ncpus'', ''mem'', ''walltime'', ''nodes'', ''select'', ''ppn'', ''host'', ''feature'', ''features'', ''properties'']"

definition jobGenericReqs :: "Job \<Rightarrow> int smap" where
  "jobGenericReqs j =
     fold (\<lambda>(name, v) m. if name \<in> set builtinResources then m
                         else (case ParseInt v of (n, None) \<Rightarrow> if n > 0 then mput name n m else m | _ \<Rightarrow> m))
       (j_ResourceReq j) []"

definition usedCPUs :: "JobManager \<Rightarrow> Node \<Rightarrow> int" where
  "usedCPUs jm n =
     sum_list (map (\<lambda>jid. case GetJob jm jid of Some j \<Rightarrow> jobRequestedCPUs j | None \<Rightarrow> 1) (n_AssignedJobs n))"

definition addCount :: "string \<times> int \<Rightarrow> int smap \<Rightarrow> int smap" where
  "addCount kv m = (case kv of (k, v) \<Rightarrow> mput k ((case mget m k of Some x \<Rightarrow> x | None \<Rightarrow> 0) + v) m)"

definition gresUsed :: "JobManager \<Rightarrow> Node \<Rightarrow> int smap" where
  "gresUsed jm n =
     fold (\<lambda>jid m. case GetJob jm jid of Some j \<Rightarrow> fold addCount (jobGenericReqs j) m | None \<Rightarrow> m)
       (n_AssignedJobs n) []"

definition formatNodeStatus :: "JobManager \<Rightarrow> Node \<Rightarrow> StatusObject" where
  "formatNodeStatus jm n =
     \<lparr>so_Type = MgrObjNode, so_Name = n_Name n, so_Attrs =
        oneAttr ''state'' (NodeStateName n) @ oneAttr ''power_state'' (n_PowerState n) @
        intAttr ''np'' (n_NumProcs n) @ oneAttr ''ntype'' ''cluster'' @
        concat (map (\<lambda>(k, v). oneAttr k v) (filter (\<lambda>kv. fst kv \<noteq> ''state'') (n_Status n))) @
        (if n_AssignedJobs n \<noteq> []
         then oneAttr ''jobs'' (Join '', '' (n_AssignedJobs n)) @ intAttr ''used_cpus'' (usedCPUs jm n) else []) @
        concat (map (\<lambda>(k, v). intAttr (''resources_available.'' @ k) v) (n_GRes n)) @
        concat (map (\<lambda>(k, v). intAttr (''gres_used.'' @ k) v) (gresUsed jm n)) @
        listAttrS ''properties'' (n_Properties n) @ listAttrS ''hostgroups'' (n_Groups n) @
        strAttr ''note'' (n_Note n) @ (if n_Dynamic n then oneAttr ''is_dynamic'' ''true'' else [])\<rparr>"

section \<open>The server\<close>

definition srvTiming :: "SrvConfig \<Rightarrow> JobManager \<Rightarrow> SvrAttrl list" where
  "srvTiming c jm =
     intAttr ''scheduler_iteration'' (ci c F_SchedulerIteration) @
     boolAttr ''event_driven'' (cb c F_EventDriven) @
     intAttr ''sched_min_interval'' (ci c F_SchedMinInterval) @
     intAttr ''default_queue_depth'' (ci c F_DefaultQueueDepth) @
     intAttr ''sched_max_job_start'' (ci c F_SchedMaxJobStart) @
     intAttr ''max_sched_time'' (ci c F_MaxSchedTime) @ boolAttr ''defer'' (cb c F_SchedDefer) @
     boolAttr ''defer_batch'' (cb c F_SchedDeferBatch) @
     intAttr ''sched_trigger_port'' (ci c F_SchedTriggerPort) @
     intAttr ''node_check_rate'' (ci c F_NodeCheckRate) @ intAttr ''tcp_timeout'' (ci c F_TCPTimeout) @
     intAttr ''keep_completed'' (ci c F_KeepCompleted) @ intAttrNZ ''job_stat_rate'' (ci c F_JobStatRate) @
     flagAttr ''poll_jobs'' (cb c F_PollJobs) @ intAttr ''ping_rate'' (ci c F_PingRate) @
     intAttr ''job_start_timeout'' (ci c F_JobStartTimeout) @
     intAttrNZ ''job_force_cancel_time'' (ci c F_JobForceCancelTime) @
     intAttr ''job_sync_timeout'' (ci c F_JobSyncTimeout) @
     intAttr ''next_job_number'' (GetNextJobIDNum jm)"

definition srvLogging :: "SrvConfig \<Rightarrow> SvrAttrl list" where
  "srvLogging c =
     intAttr ''log_events'' (ci c F_LogLevel) @ intAttrNZ ''log_file_max_size'' (ci c F_LogFileMaxSize) @
     intAttr ''log_file_roll_depth'' (ci c F_LogFileRollDepth) @
     intAttrNZ ''log_keep_days'' (ci c F_LogKeepDays) @ flagAttr ''record_job_info'' (cb c F_RecordJobInfo) @
     flagAttr ''record_job_script'' (cb c F_RecordJobScript) @
     intAttrNZ ''job_log_file_max_size'' (ci c F_JobLogFileMaxSize) @
     intAttrNZ ''job_log_file_roll_depth'' (ci c F_JobLogFileRollDepth) @
     intAttrNZ ''job_log_keep_days'' (ci c F_JobLogKeepDays)"

definition srvACL :: "SrvConfig \<Rightarrow> SvrAttrl list" where
  "srvACL c =
     strAttr ''managers'' (cs c F_Managers) @ strAttr ''operators'' (cs c F_Operators) @
     flagAttr ''acl_host_enable'' (cb c F_ACLHostEnable) @ strAttr ''acl_hosts'' (cs c F_ACLHosts) @
     flagAttr ''acl_user_enable'' (cb c F_ACLUserEnable) @ strAttr ''acl_users'' (cs c F_ACLUsers) @
     strAttr ''acl_roots'' (cs c F_ACLRoots) @ flagAttr ''acl_logic_or'' (cb c F_ACLLogicOr) @
     flagAttr ''acl_group_sloppy'' (cb c F_ACLGroupSloppy) @ strAttr ''acl_user_hosts'' (cs c F_ACLUserHosts) @
     strAttr ''acl_group_hosts'' (cs c F_ACLGroupHosts)"

definition srvLimits :: "SrvConfig \<Rightarrow> SvrAttrl list" where
  "srvLimits c =
     intAttrNZ ''max_running'' (ci c F_MaxRunning) @ intAttrNZ ''max_user_run'' (ci c F_MaxUserRun) @
     intAttrNZ ''max_group_run'' (ci c F_MaxGroupRun) @
     intAttrNZ ''max_user_queuable'' (ci c F_MaxUserQueuable) @
     rescAttr ''resources_available'' (cm c F_ResourcesAvail) @
     rescAttr ''resources_default'' (cm c F_ResourcesDefault) @
     rescAttr ''resources_max'' (cm c F_ResourcesMax) @ rescAttr ''resources_cost'' (cm c F_ResourcesCost)"

definition srvMail :: "SrvConfig \<Rightarrow> SvrAttrl list" where
  "srvMail c =
     strAttr ''mail_domain'' (cs c F_MailDomain) @ strAttr ''mail_from'' (cs c F_MailFrom) @
     flagAttr ''no_mail_force'' (cb c F_NoMailForce) @ strAttr ''mail_subject_fmt'' (cs c F_MailSubjectFmt) @
     strAttr ''mail_body_fmt'' (cs c F_MailBodyFmt) @
     intAttrNZ ''email_batch_seconds'' (ci c F_EmailBatchSeconds)"

definition srvPolicy :: "SrvConfig \<Rightarrow> SvrAttrl list" where
  "srvPolicy c =
     strAttr ''default_node'' (cs c F_DefaultNode) @ flagAttr ''node_pack'' (cb c F_NodePack) @
     boolAttr ''query_other_jobs'' (cb c F_QueryOtherJobs) @ boolAttr ''mom_job_sync'' (cb c F_MOMJobSync) @
     flagAttr ''down_on_error'' (cb c F_DownOnError) @
     flagAttr ''disable_server_id_check'' (cb c F_DisableServerIdCheck) @
     flagAttr ''allow_node_submit'' (cb c F_AllowNodeSubmit) @
     flagAttr ''allow_proxy_user'' (cb c F_AllowProxyUser) @ flagAttr ''auto_node_np'' (cb c F_AutoNodeNP) @
     intAttrNZ ''np_default'' (ci c F_NPDefault) @
     flagAttr ''allow_dynamic_nodes'' (cb c F_AllowDynamicNodes) @
     strAttr ''node_allowed_ip_ranges'' (cs c F_NodeAllowedIPRanges) @
     flagAttr ''job_nanny'' (cb c F_JobNanny) @ flagAttr ''owner_purge'' (cb c F_OwnerPurge) @
     flagAttr ''copy_on_rerun'' (cb c F_CopyOnRerun) @
     flagAttr ''job_exclusive_on_use'' (cb c F_JobExclusiveOnUse) @
     flagAttr ''disable_automatic_requeue'' (cb c F_DisableAutoRequeue) @
     (if ci c F_AutoRequeueExitCode \<ge> 0 then intAttr ''automatic_requeue_exit_code'' (ci c F_AutoRequeueExitCode) else []) @
     flagAttr ''dont_write_nodes_file'' (cb c F_DontWriteNodesFile)"

definition srvArrays :: "SrvConfig \<Rightarrow> SvrAttrl list" where
  "srvArrays c =
     intAttr ''max_job_array_size'' (ci c F_MaxJobArraySize) @
     intAttrNZ ''max_slot_limit'' (ci c F_MaxSlotLimit) @
     intAttr ''clone_batch_size'' (ci c F_CloneBatchSize) @
     intAttr ''clone_batch_delay'' (ci c F_CloneBatchDelay) @
     flagAttr ''moab_array_compatible'' (cb c F_MoabArrayCompatible) @
     boolAttr ''display_job_server_suffix'' (cb c F_DisplayJobServerSuffix) @
     strAttr ''job_suffix_alias'' (cs c F_JobSuffixAlias) @
     flagAttr ''use_jobs_subdirs'' (cb c F_UseJobsSubdirs)"

definition srvKill :: "SrvConfig \<Rightarrow> SvrAttrl list" where
  "srvKill c =
     intAttr ''kill_delay'' (ci c F_KillDelay) @ intAttrNZ ''user_kill_delay'' (ci c F_UserKillDelay) @
     intAttr ''exit_code_canceled_job'' (ci c F_ExitCodeCanceledJob) @
     intAttr ''timeout_for_job_delete'' (ci c F_TimeoutForJobDelete) @
     intAttr ''timeout_for_job_requeue'' (ci c F_TimeoutForJobRequeue)"

definition srvHardware :: "SrvConfig \<Rightarrow> SvrAttrl list" where
  "srvHardware c =
     strAttr ''default_gpu_mode'' (cs c F_DefaultGpuMode) @
     intAttrNZ ''idle_slot_limit'' (ci c F_IdleSlotLimit) @
     flagAttr ''cgroup_per_task'' (cb c F_CgroupPerTask) @ flagAttr ''pass_cpu_clock'' (cb c F_PassCpuClock)"

definition srvOther :: "SrvConfig \<Rightarrow> SvrAttrl list" where
  "srvOther c =
     strAttr ''submit_hosts'' (cs c F_SubmitHosts) @
     strAttr ''node_submit_exceptions'' (cs c F_NodeSubmitExceptions) @
     strAttr ''node_suffix'' (cs c F_NodeSuffix) @ strAttr ''comment'' (cs c F_Comment) @
     intAttrNZ ''lock_file_update_time'' (ci c F_LockFileUpdateTime) @
     intAttrNZ ''lock_file_check_time'' (ci c F_LockFileCheckTime) @
     flagAttr ''interactive_jobs_can_roam'' (cb c F_InteractiveJobsCanRoam) @
     flagAttr ''legacy_vmem'' (cb c F_LegacyVmem) @
     flagAttr ''ghost_array_recovery'' (cb c F_GhostArrayRecovery) @
     intAttrNZ ''tcp_incoming_timeout'' (ci c F_TCPIncomingTimeout) @
     intAttrNZ ''job_full_report_time'' (ci c F_JobFullReportTime)"

text \<open>The snapshot of a pool: its nodes, and of the nodes that are up their number, their slots and the free ones.\<close>

definition poolOf :: "Node \<Rightarrow> string" where
  "poolOf n = orDefault (n_Queue n) ''default''"

definition nodeUsable :: "Node \<Rightarrow> bool" where
  "nodeUsable n = (n_State n AND (StateDown OR StateOffline) = 0)"

definition poolSum :: "(Node \<Rightarrow> int) \<Rightarrow> Node list \<Rightarrow> string smap" where
  "poolSum f ns = map (\<lambda>(k, v). (k, FormatInt v)) (fold (\<lambda>n. addCount (poolOf n, f n)) ns [])"

definition srvPools :: "Node list \<Rightarrow> SvrAttrl list" where
  "srvPools ns =
     (let up = filter nodeUsable ns in
      rescAttr ''pool_nodes'' (poolSum (\<lambda>_. 1) ns) @ rescAttr ''pool_up_nodes'' (poolSum (\<lambda>_. 1) up) @
      rescAttr ''pool_total_cores'' (poolSum n_SlotsTotal up) @
      rescAttr ''pool_free_cores'' (poolSum (\<lambda>n. max 0 (n_SlotsTotal n - n_SlotsUsed n)) up))"

definition formatServerStatus :: "Server \<Rightarrow> StatusObject" where
  "formatServerStatus s =
     (let c = s_cfg s; jm = s_jobMgr s in
      \<lparr>so_Type = MgrObjServer, so_Name = ServerName s, so_Attrs =
         oneAttr ''server_name'' (cs c F_ServerName) @ oneAttr ''server_host'' (cs c F_ServerName) @
         oneAttr ''pbs_version'' ''7.0.0-go'' @ oneAttr ''server_state'' ''Active'' @
         boolAttr ''scheduling'' (cb c F_Scheduling) @ intAttr ''total_jobs'' (JobCount jm) @
         oneAttr ''state_count'' (stateCount (StateCount jm)) @ oneAttr ''default_queue'' (cs c F_DefaultQueue) @
         srvTiming c jm @ srvLogging c @ srvACL c @ srvLimits c @ srvMail c @ srvPolicy c @ srvArrays c @
         srvKill c @ srvHardware c @ srvOther c @ srvPools (AllNodes (s_nodeMgr s))\<rparr>)"

section \<open>Handlers\<close>

definition handleStatusJob :: "string \<Rightarrow> Server \<Rightarrow> outcome" where
  "handleStatusJob ident s =
     (if ident \<noteq> [] then
        (case GetJobS s ident of
           None \<Rightarrow> (s, ReplyErr PbseUnkjobid, True)
         | Some j \<Rightarrow> (s, ReplyStatus [formatJobStatus j], True))
      else (s, ReplyStatus (map formatJobStatus (sort_key j_ID (AllJobs (s_jobMgr s)))), True))"

definition handleStatusQueue :: "string \<Rightarrow> Server \<Rightarrow> outcome" where
  "handleStatusQueue ident s =
     (if ident \<noteq> [] then
        (if GetQueue (s_queueMgr s) ident = None then (s, ReplyErr PbseUnkQue, True)
         else (case formatQueueStatus ident s of (s1, objs) \<Rightarrow> (s1, ReplyStatus objs, True)))
      else
        (case fold (\<lambda>name (s, objs). case formatQueueStatus name s of (s1, o1) \<Rightarrow> (s1, objs @ o1))
                (map fst (qm_queues (s_queueMgr s))) (s, []) of
           (s1, objs) \<Rightarrow> (s1, ReplyStatus objs, True)))"

definition handleStatusServer :: "Server \<Rightarrow> outcome" where
  "handleStatusServer s = (s, ReplyStatus [formatServerStatus s], True)"

definition handleStatusNode :: "string \<Rightarrow> Server \<Rightarrow> outcome" where
  "handleStatusNode ident s =
     (if ident \<noteq> [] then
        (case GetNode (s_nodeMgr s) ident of
           None \<Rightarrow> (s, ReplyErr PbseUnkNode, True)
         | Some n \<Rightarrow> (s, ReplyStatus [formatNodeStatus (s_jobMgr s) n], True))
      else (s, ReplyStatus (map (formatNodeStatus (s_jobMgr s)) (AllNodes (s_nodeMgr s))), True))"

end
