(* ===== verification/Server_Dispatch.thy ===== *)
theory Server_Dispatch
  imports Server_Status
begin

text \<open>
  Which handler a request goes to (\<^verbatim>\<open>dispatchRequest\<close> and \<^verbatim>\<open>handleConnection\<close> of \<^verbatim>\<open>src/internal/server/server.go\<close>) and
  the server as a machine: a step is one request, one status message, the end of one dispatch or one turn of a
  background task.
\<close>

section \<open>Requests\<close>

text \<open>What a step finds outside: the time, the host name and the signature function.\<close>

record Env =
  e_now :: int
  e_hostname :: string
  e_sign :: "string \<Rightarrow> string \<Rightarrow> string"

text \<open>\<^const>\<open>None\<close> stands for a handler that never returns. A shutdown saves the state before the process ends.\<close>

definition dispatchRequest :: "Env \<Rightarrow> string \<Rightarrow> bool \<Rightarrow> string \<Rightarrow> request \<Rightarrow> Server \<Rightarrow> outcome option" where
  "dispatchRequest env remote privileged user rq s = (case rq of
      RConnect \<Rightarrow> Some (s, ReplyOk, True)
    | RQueueJob dest attrs \<Rightarrow> Some (handleQueueJob (e_now env) user dest attrs s)
    | RJobCred \<Rightarrow> Some (s, ReplyOk, True)
    | RJobScript jobID dat auto \<Rightarrow> handleJobScript (e_now env) (e_hostname env) jobID dat auto s
    | RRdytoCommit jobID \<Rightarrow> Some (s, ReplyJobID ReplyChoiceRdytoCom jobID, True)
    | RCommit jobID \<Rightarrow> handleCommit (e_now env) (e_hostname env) jobID s
    | RDeleteJob jobID \<Rightarrow> Some (handleDeleteJob (e_now env) jobID s)
    | RHoldJob jobID \<Rightarrow> Some (handleHoldJob (e_now env) jobID s)
    | RModifyJob jobID attrs \<Rightarrow> Some (handleModifyJob (e_now env) jobID attrs s)
    | RStatusJob ident \<Rightarrow> Some (handleStatusJob ident s)
    | RStatusQueue ident \<Rightarrow> Some (handleStatusQueue ident s)
    | RStatusServer \<Rightarrow> Some (handleStatusServer s)
    | RStatusNode ident \<Rightarrow> Some (handleStatusNode ident s)
    | RManager command objType objName attrs \<Rightarrow> Some (handleManager command objType objName attrs s)
    | RShutdown \<Rightarrow> Some (saveState s, ReplyOk, False)
    | RSignalJob jobID _ \<Rightarrow> Some (handleSignalJob jobID s)
    | RJobObit jobID exitStatus attrs \<Rightarrow> Some (handleJobObit (e_now env) remote privileged jobID exitStatus attrs s)
    | RRunJob jobID dest \<Rightarrow> Some (handleRunJob (e_now env) jobID dest s)
    | RDisconnect \<Rightarrow> Some (s, NoReply, False)
    | RAuthenUser port \<Rightarrow> Some (handleAuthenUser user remote port s)
    | RAltAuthenUser \<Rightarrow> Some (s, ReplyOk, True)
    | RAuthToken timestamp token \<Rightarrow> Some (handleAuthToken (e_sign env) (e_now env) user remote timestamp token s)
    | RLocateJob jobID \<Rightarrow> Some (handleLocateJob jobID s)
    | RSelectJobs \<Rightarrow> Some (handleSelectJobs s)
    | RReleaseJob jobID \<Rightarrow> Some (handleReleaseJob (e_now env) jobID s)
    | RMoveJob jobID dest \<Rightarrow> Some (handleMoveJob jobID dest s)
    | RRerun jobID \<Rightarrow> Some (handleRerunJob (e_now env) jobID s)
    | ROrderJob jobID1 jobID2 \<Rightarrow> handleOrderJob jobID1 jobID2 s
    | RMessJob jobID _ \<Rightarrow> Some (handleMessJob jobID s)
    | RCheckpointJob jobID \<Rightarrow> Some (handleCheckpointJob jobID s)
    | RUnhandled _ \<Rightarrow> Some (s, ReplyErr PbseUnkReq, True))"

section \<open>Steps\<close>

text \<open>
  A dispatch that ends works on the object of its job: the one in the manager, or one of the same identifier where
  the job has left the manager since.
\<close>

inductive server_step :: "Server \<Rightarrow> Server \<Rightarrow> bool" where
  request: "dispatchRequest env remote privileged user rq s = Some (s', r, k) \<Longrightarrow> server_step s s'"
| status: "server_step s (fst (handleISMessage nw now remote msg s))"
| dispatched: "(j_ID j, n) \<in> set (s_dispatching s) \<Longrightarrow>
     (case lookupJob (s_jobMgr s) (j_ID j) of Some j' \<Rightarrow> j' = j | None \<Rightarrow> True) \<Longrightarrow>
     server_step s (dispatchJobToMOM now peer j n (s\<lparr>s_dispatching := remove1 (j_ID j, n) (s_dispatching s)\<rparr>))"
| promote: "server_step s (promoteWaitingJobs now s)"
| node_check: "server_step s (checkNodes now s)"
| reconcile: "server_step s (fst (reconcileRunningJobsWithMOMs now query s))"
| cleanup: "server_step s (completedJobCleanup now s)"

inductive_cases server_stepE: "server_step s s'"

text \<open>Runs, and the runs in which the limit of running jobs stays what it is.\<close>

inductive server_run :: "Server \<Rightarrow> Server \<Rightarrow> bool" for s0 where
  here: "server_run s0 s0"
| more: "server_run s0 s \<Longrightarrow> server_step s s' \<Longrightarrow> server_run s0 s'"

inductive limited_run :: "int \<Rightarrow> Server \<Rightarrow> Server \<Rightarrow> bool" for L s0 where
  limit_here: "ci (s_cfg s0) F_MaxRunning = L \<Longrightarrow> limited_run L s0 s0"
| limit_more: "limited_run L s0 s \<Longrightarrow> server_step s s' \<Longrightarrow> ci (s_cfg s') F_MaxRunning = L \<Longrightarrow> limited_run L s0 s'"

section \<open>Laws of the building blocks\<close>

text \<open>What a handler does to the managers, one building block at a time.\<close>

lemma onJobs_sel [simp]:
  "s_jobMgr (onJobs f s) = f (s_jobMgr s)" "s_queueMgr (onJobs f s) = s_queueMgr s"
  "s_nodeMgr (onJobs f s) = s_nodeMgr s" "s_cfg (onJobs f s) = s_cfg s" "s_store (onJobs f s) = s_store s"
  "s_authMap (onJobs f s) = s_authMap s" "s_haEnabled (onJobs f s) = s_haEnabled s" "s_haActive (onJobs f s) = s_haActive s"
  "s_dispatching (onJobs f s) = s_dispatching s"
  by (simp_all add: onJobs_def)

lemma onNodes_sel [simp]:
  "s_jobMgr (onNodes f s) = s_jobMgr s" "s_queueMgr (onNodes f s) = s_queueMgr s"
  "s_nodeMgr (onNodes f s) = f (s_nodeMgr s)" "s_cfg (onNodes f s) = s_cfg s" "s_store (onNodes f s) = s_store s"
  "s_authMap (onNodes f s) = s_authMap s" "s_haEnabled (onNodes f s) = s_haEnabled s" "s_haActive (onNodes f s) = s_haActive s"
  "s_dispatching (onNodes f s) = s_dispatching s"
  by (simp_all add: onNodes_def)

lemma onStore_sel [simp]:
  "s_jobMgr (onStore f s) = s_jobMgr s" "s_queueMgr (onStore f s) = s_queueMgr s"
  "s_nodeMgr (onStore f s) = s_nodeMgr s" "s_cfg (onStore f s) = s_cfg s" "s_store (onStore f s) = f (s_store s)"
  "s_authMap (onStore f s) = s_authMap s" "s_haEnabled (onStore f s) = s_haEnabled s" "s_haActive (onStore f s) = s_haActive s"
  "s_dispatching (onStore f s) = s_dispatching s"
  by (simp_all add: onStore_def)

lemma updQueue_sel [simp]:
  "s_jobMgr (updQueue n f s) = s_jobMgr s" "s_nodeMgr (updQueue n f s) = s_nodeMgr s" "s_cfg (updQueue n f s) = s_cfg s"
  "s_store (updQueue n f s) = s_store s" "s_authMap (updQueue n f s) = s_authMap s"
  "s_haEnabled (updQueue n f s) = s_haEnabled s" "s_haActive (updQueue n f s) = s_haActive s"
  "s_dispatching (updQueue n f s) = s_dispatching s"
  by (simp_all add: updQueue_def split: option.split)

lemma saveJob_sel [simp]:
  "s_jobMgr (saveJob i s) = s_jobMgr s" "s_queueMgr (saveJob i s) = s_queueMgr s" "s_nodeMgr (saveJob i s) = s_nodeMgr s"
  "s_cfg (saveJob i s) = s_cfg s" "s_authMap (saveJob i s) = s_authMap s"
  "s_haEnabled (saveJob i s) = s_haEnabled s" "s_haActive (saveJob i s) = s_haActive s"
  "s_dispatching (saveJob i s) = s_dispatching s"
  by (simp_all add: saveJob_def split: option.split)

lemma acct_sel [simp]:
  "s_jobMgr (acct e i j s) = s_jobMgr s" "s_queueMgr (acct e i j s) = s_queueMgr s" "s_nodeMgr (acct e i j s) = s_nodeMgr s"
  "s_cfg (acct e i j s) = s_cfg s" "s_store (acct e i j s) = s_store s" "s_authMap (acct e i j s) = s_authMap s"
  "s_haEnabled (acct e i j s) = s_haEnabled s" "s_haActive (acct e i j s) = s_haActive s"
  "s_dispatching (acct e i j s) = s_dispatching s"
  by (simp_all add: acct_def)

lemma triggerSched_sel [simp]:
  "s_jobMgr (triggerSched s) = s_jobMgr s" "s_queueMgr (triggerSched s) = s_queueMgr s"
  "s_nodeMgr (triggerSched s) = s_nodeMgr s" "s_cfg (triggerSched s) = s_cfg s" "s_store (triggerSched s) = s_store s"
  "s_authMap (triggerSched s) = s_authMap s" "s_haEnabled (triggerSched s) = s_haEnabled s"
  "s_haActive (triggerSched s) = s_haActive s" "s_dispatching (triggerSched s) = s_dispatching s"
  by (simp_all add: triggerSched_def)

lemma removeJobFiles_sel [simp]:
  "s_jobMgr (removeJobFiles i s) = s_jobMgr s" "s_queueMgr (removeJobFiles i s) = s_queueMgr s"
  "s_nodeMgr (removeJobFiles i s) = s_nodeMgr s" "s_cfg (removeJobFiles i s) = s_cfg s"
  by (simp_all add: removeJobFiles_def)

lemma saveNodes_sel [simp]:
  "s_jobMgr (saveNodes s) = s_jobMgr s" "s_queueMgr (saveNodes s) = s_queueMgr s" "s_nodeMgr (saveNodes s) = s_nodeMgr s"
  "s_cfg (saveNodes s) = s_cfg s"
  by (simp_all add: saveNodes_def)

lemma sendDeleteToMOM_sel [simp]:
  "s_jobMgr (sendDeleteToMOM j s) = s_jobMgr s" "s_queueMgr (sendDeleteToMOM j s) = s_queueMgr s"
  "s_nodeMgr (sendDeleteToMOM j s) = s_nodeMgr s" "s_cfg (sendDeleteToMOM j s) = s_cfg s"
  by (simp_all add: sendDeleteToMOM_def)

lemma releaseNodeResources_sel [simp]:
  "s_jobMgr (releaseNodeResources h i s) = s_jobMgr s" "s_queueMgr (releaseNodeResources h i s) = s_queueMgr s"
  "s_cfg (releaseNodeResources h i s) = s_cfg s"
  by (simp_all add: releaseNodeResources_def Let_def)

lemma saveQueue_sel [simp]:
  "s_jobMgr (saveQueue q s) = s_jobMgr s" "s_queueMgr (saveQueue q s) = s_queueMgr s" "s_nodeMgr (saveQueue q s) = s_nodeMgr s"
  "s_cfg (saveQueue q s) = s_cfg s"
  by (simp_all add: saveQueue_def)

end
