(* ===== verification/Server_Theorems.thy ===== *)
theory Server_Theorems
  imports Server_Dispatch
begin

text \<open>
  What holds in every state of the server. The locale \<open>job_changes\<close> holds the laws of the ways in which the handlers
  change the job manager; a relation that obeys them is kept by every handler but the one that starts a job.
\<close>

section \<open>Changes of jobs\<close>

definition calm :: "int set" where
  "calm = {StateQueued, StateHeld, StateWaiting, StateComplete}"

text \<open>A change of a job object that keeps the identifier and starts nothing.\<close>

definition tame :: "(Job \<Rightarrow> Job) \<Rightarrow> bool" where
  "tame f \<longleftrightarrow> (\<forall>j. j_ID (f j) = j_ID j \<and> (j_State (f j) = j_State j \<or> j_State (f j) \<in> calm))"

lemma tame_SetState: "st \<in> calm \<Longrightarrow> tame (SetState now st sub)"
  by (simp add: tame_def)

lemma tame_clearHost: "tame (clearHost now)"
  by (simp add: tame_def clearHost_def calm_def)

lemma tame_undo: "tame (\<lambda>j. (SetState now StateQueued SubstateQueued j)\<lparr>j_ExecHost := [], j_ExecPort := 0\<rparr>)"
  by (simp add: tame_def calm_def)

lemma usedAttr_frame: "j_ID (fold usedAttr attrs j) = j_ID j \<and> j_State (fold usedAttr attrs j) = j_State j"
  by (induction attrs arbitrary: j) (auto simp: usedAttr_def)

lemma tame_endJob: "tame (endJob now ex attrs)"
  by (simp add: tame_def endJob_def usedAttr_frame calm_def)

lemma tame_paths: "tame (setDefaultOutputPaths h)"
  using setDefaultOutputPaths_frame by (simp add: tame_def)

lemma tame_modify: "tame (\<lambda>j. (applyJobAttrs now attrs j)\<lparr>j_Modified := True\<rparr>)"
  using applyJobAttrs_frame [of now attrs] by (auto simp: tame_def calm_def)

lemma tame_fields:
  "tame (\<lambda>j. j\<lparr>j_Queue := q\<rparr>)" "tame (\<lambda>j. j\<lparr>j_Script := v\<rparr>)" "tame (\<lambda>j. j\<lparr>j_HoldTypes := v\<rparr>)"
  "tame (\<lambda>j. j\<lparr>j_CreateTime := t\<rparr>)" "tame (\<lambda>j. j\<lparr>j_Comment := v\<rparr>)" "tame (\<lambda>j. j\<lparr>j_SessionID := i\<rparr>)"
  by (simp_all add: tame_def)

lemmas tame_changes = tame_clearHost tame_undo tame_endJob tame_paths tame_modify tame_fields
  tame_SetState [of StateHeld] tame_SetState [of StateQueued]

lemma calm_states: "StateQueued \<in> calm" "StateHeld \<in> calm" "StateWaiting \<in> calm" "StateComplete \<in> calm"
  by (simp_all add: calm_def)

lemma submittedJob_state: "j_State (submittedJob now s jobID q user attrs) \<in> {StateTransit, StateHeld, StateWaiting}"
proof -
  have "j_State ((NewJob now jobID q (ServerName s))\<lparr>j_Owner := user\<rparr>) = StateTransit" by (simp add: NewJob_def)
  then show ?thesis
    using applyJobAttrs_frame(2) [of now attrs "(NewJob now jobID q (ServerName s))\<lparr>j_Owner := user\<rparr>"]
    by (simp add: submittedJob_def Let_def)
qed

text \<open>The requests that leave the jobs alone.\<close>

lemma saveState_jobs [simp]: "s_jobMgr (saveState s) = s_jobMgr s"
proof -
  have "s_jobMgr (fold saveQueue qs s) = s_jobMgr s" for qs s by (induction qs arbitrary: s) simp_all
  moreover have "s_jobMgr (fold (\<lambda>j. saveJob (j_ID j)) js s) = s_jobMgr s" for js :: "Job list" and s
    by (induction js arbitrary: s) simp_all
  ultimately show ?thesis by (simp add: saveState_def Let_def saveServerDBS_def)
qed

lemma statusQueue_jobs [simp]: "s_jobMgr (fst (handleStatusQueue i s)) = s_jobMgr s"
proof -
  have one: "s_jobMgr (fst (formatQueueStatus n s)) = s_jobMgr s" for n s
    by (simp add: formatQueueStatus_def refreshQueueCounts_def Let_def)
  have "s_jobMgr (fst (fold (\<lambda>n (s, os). case formatQueueStatus n s of (s1, o1) \<Rightarrow> (s1, os @ o1)) ns (s, os))) = s_jobMgr s" for ns s os
  proof (induction ns arbitrary: s os)
    case (Cons n ns)
    obtain s1 o1 where f: "formatQueueStatus n s = (s1, o1)" by fastforce
    then show ?case using one [of n s] Cons.IH [of s1 "os @ o1"] by simp
  qed simp
  then show ?thesis using one by (simp add: handleStatusQueue_def split: prod.split) (metis fst_conv)
qed

lemma status_jobs [simp]:
  "s_jobMgr (fst (handleStatusJob i s)) = s_jobMgr s" "s_jobMgr (fst (handleStatusServer s)) = s_jobMgr s"
  "s_jobMgr (fst (handleStatusNode i s)) = s_jobMgr s" "s_jobMgr (fst (handleSignalJob i s)) = s_jobMgr s"
  "s_jobMgr (fst (handleLocateJob i s)) = s_jobMgr s" "s_jobMgr (fst (handleSelectJobs s)) = s_jobMgr s"
  "s_jobMgr (fst (handleMessJob i s)) = s_jobMgr s" "s_jobMgr (fst (handleCheckpointJob i s)) = s_jobMgr s"
  "s_jobMgr (fst (handleAuthenUser user remote port s)) = s_jobMgr s"
  "s_jobMgr (fst (handleAuthToken sign now user remote ts token s)) = s_jobMgr s"
  by (simp_all add: handleStatusJob_def handleStatusServer_def handleStatusNode_def handleSignalJob_def handleLocateJob_def
      handleSelectJobs_def handleMessJob_def handleCheckpointJob_def handleAuthenUser_def handleAuthToken_def split: option.split)

lemma mgr_jobs [simp]:
  "s_jobMgr (fst (mgrCreateQueue n attrs s)) = s_jobMgr s" "s_jobMgr (fst (mgrDeleteQueue n s)) = s_jobMgr s"
  "s_jobMgr (fst (mgrSetQueue n attrs s)) = s_jobMgr s" "s_jobMgr (fst (mgrUnsetQueue n attrs s)) = s_jobMgr s"
  "s_jobMgr (fst (mgrCreateNode n attrs s)) = s_jobMgr s" "s_jobMgr (fst (mgrDeleteNode n s)) = s_jobMgr s"
  "s_jobMgr (fst (mgrSetNode n attrs s)) = s_jobMgr s"
  by (auto simp: mgrCreateQueue_def mgrDeleteQueue_def mgrSetQueue_def mgrUnsetQueue_def mgrCreateNode_def
      mgrDeleteNode_def mgrSetNode_def saveQueueOf_def Let_def split: option.split prod.split bool.split)

lemma manager_jobs [simp]: "s_jobMgr (fst (handleManager c t n attrs s)) = s_jobMgr s"
proof -
  have "s_jobMgr (fst (mgrOperation c t n attrs s)) = s_jobMgr s"
    by (simp add: mgrOperation_def)
  then show ?thesis
    by (cases "mgrOperation c t n attrs s") (simp add: handleManager_def saveServerDBS_def split: bool.split)
qed

lemma is_jobs [simp]: "s_jobMgr (fst (handleISMessage nw now remote msg s)) = s_jobMgr s"
  by (simp add: handleISMessage_def tryAutoRegisterNode_def Let_def split: option.split)

locale job_changes =
  fixes P :: "JobManager \<Rightarrow> JobManager \<Rightarrow> bool"
  assumes P_refl: "P m m"
    and P_trans: "P a b \<Longrightarrow> P b c \<Longrightarrow> P a c"
    and P_updJob: "tame f \<Longrightarrow> P m (updJob i f m)"
    and P_UpdateJobState: "st \<in> calm \<Longrightarrow> P m (UpdateJobState now m i st sub)"
    and P_RemoveJob: "P m (RemoveJob m i)"
    and P_AddJob: "j_State j \<in> {StateTransit, StateHeld, StateWaiting} \<Longrightarrow> P m (AddJob m j)"
    and P_NextJobID: "P m (snd (NextJobID m))"
begin

text \<open>The laws as rules that carry a chain of changes on.\<close>

lemma upd: "P a m \<Longrightarrow> tame f \<Longrightarrow> P a (updJob i f m)"
  using P_trans P_updJob by blast

lemma upd_state: "P a m \<Longrightarrow> st \<in> calm \<Longrightarrow> P a (UpdateJobState now m i st sub)"
  using P_trans P_UpdateJobState by blast

lemma remove: "P a m \<Longrightarrow> P a (RemoveJob m i)"
  using P_trans P_RemoveJob by blast

lemma add: "P a m \<Longrightarrow> j_State j \<in> {StateTransit, StateHeld, StateWaiting} \<Longrightarrow> P a (AddJob m j)"
  using P_trans P_AddJob by blast

lemmas chain = P_refl upd upd_state remove

lemma submitted: "P (s_jobMgr s) (s_jobMgr (fst (handleQueueJob now user dest attrs s)))"
proof -
  obtain jobID jm where n: "NextJobID (s_jobMgr s) = (jobID, jm)" by fastforce
  have jm: "P (s_jobMgr s) jm" using P_NextJobID [of "s_jobMgr s"] by (simp add: n)
  have "P (s_jobMgr s) (AddJob jm (submittedJob now s' jobID q user attrs))" for s' q
    by (rule add [OF jm submittedJob_state])
  with jm show ?thesis
    by (simp add: handleQueueJob_def n Let_def P_refl split: option.split)
qed

lemma routed: "P a jm \<Longrightarrow> P a (fst (finalizeRoute qm jm j owner))"
  by (auto simp: finalizeRoute_def Let_def tame_fields upd split: sum.split option.split)

lemma finished: "P a (s_jobMgr s) \<Longrightarrow> P a (s_jobMgr (finishCommit now j s))"
  by (auto simp: finishCommit_def Let_def commitState_def calm_states upd_state split: option.split)

lemma committed: "P a (s_jobMgr s) \<Longrightarrow> P a (s_jobMgr (fst (commitJobInstance now h i owner s)))"
proof -
  assume a: "P a (s_jobMgr s)"
  let ?m = "UpdateJobState now (updJob i (setDefaultOutputPaths h) (s_jobMgr s)) i StateQueued SubstateQueued"
  let ?s = "onJobs (\<lambda>m. UpdateJobState now (updJob i (setDefaultOutputPaths h) m) i StateQueued SubstateQueued) s"
  have m: "P a ?m" using a by (intro upd_state upd tame_paths calm_states)
  show ?thesis
  proof (cases "lookupJob ?m i")
    case None
    then show ?thesis using m by (simp add: commitJobInstance_def)
  next
    case (Some j)
    obtain jm e where r: "finalizeRoute (s_queueMgr s) ?m j owner = (jm, e)" by fastforce
    have jm: "P a jm" using routed [OF m, of "s_queueMgr s" j owner] by (simp add: r)
    then have "P a (s_jobMgr (finishCommit now j2 (?s\<lparr>s_jobMgr := jm\<rparr>)))" for j2
      by (intro finished) simp
    with jm Some r show ?thesis
      by (cases e; cases "lookupJob jm i") (simp_all add: commitJobInstance_def)
  qed
qed

lemma dropped: "P a (s_jobMgr s) \<Longrightarrow> P a (s_jobMgr (dropJob i s))"
  by (simp add: dropJob_def remove)

lemma dropped_all: "P a (s_jobMgr s) \<Longrightarrow> P a (s_jobMgr (fold dropJob ids s))"
  by (induction ids arbitrary: s) (simp_all add: dropped)

lemma tasks_added: "P a (s_jobMgr s) \<Longrightarrow> P a (s_jobMgr (fold (addTask now j) is s))"
proof (induction "is" arbitrary: s)
  case (Cons x xs)
  have "P a (s_jobMgr (addTask now j x s))"
    using Cons.prems by (simp add: addTask_def Let_def add CloneForArray_def)
  then show ?case using Cons.IH by simp
qed simp

lemma tasks_committed: "P a (s_jobMgr s) \<Longrightarrow> P a (s_jobMgr (fst (commitTasks now h owner ids s)))"
proof (induction ids arbitrary: s)
  case (Cons t ts)
  obtain s' e where c: "commitJobInstance now h t owner s = (s', e)" by fastforce
  have "P a (s_jobMgr s')" using committed [OF Cons.prems, of now h t owner] by (simp add: c)
  then show ?case using Cons.IH by (cases e) (simp_all add: c)
qed simp

lemma array_processed:
  assumes "P a (s_jobMgr s)" and "processJobArray now h j owner s = Some (s', r)"
  shows "P a (s_jobMgr s')"
proof (cases "TrimSpace (j_JobArrayReq j) = []")
  case False
  show ?thesis
  proof (cases "\<exists>idx. parseArraySpec (j_JobArrayReq j) = Some (Inr idx) \<and> idx \<noteq> []")
    case True
    then obtain idx where idx: "parseArraySpec (j_JobArrayReq j) = Some (Inr idx)" "idx \<noteq> []" by blast
    let ?ids = "map (taskID s j) idx" and ?s1 = "fold (addTask now j) idx s"
    obtain s2 e where c: "commitTasks now h owner ?ids ?s1 = (s2, e)" by fastforce
    have "P a (s_jobMgr s2)"
      using tasks_committed [OF tasks_added [OF assms(1)], of now h owner ?ids now j idx] by (simp add: c)
    then have "P a (s_jobMgr (fold dropJob ?ids s2))" "P a (s_jobMgr (dropJob (j_ID j) s2))"
      by (simp_all add: dropped dropped_all)
    then show ?thesis
      using assms(2) False idx c by (cases idx; cases e) (auto simp: processJobArray_def Let_def)
  next
    case no: False
    then show ?thesis
      using assms False by (auto simp: processJobArray_def Let_def split: option.splits sum.splits list.splits)
  qed
qed (use assms in \<open>simp add: processJobArray_def\<close>)

lemma commit_requested:
  assumes "P a (s_jobMgr s)" and "commitRequest now h jobID j s = Some (s', ok)"
  shows "P a (s_jobMgr s')"
proof (cases "processJobArray now h j (j_Owner j) s")
  case None
  then show ?thesis using assms(2) by (simp add: commitRequest_def)
next
  case (Some p)
  obtain s1 r where p: "p = (s1, r)" by fastforce
  have s1: "P a (s_jobMgr s1)" using array_processed [OF assms(1)] Some by (simp add: p)
  obtain s2 e where c: "commitJobInstance now h (j_ID j) (j_Owner j) s1 = (s2, e)" by fastforce
  have "P a (s_jobMgr s2)" using committed [OF s1, of now h "j_ID j" "j_Owner j"] by (simp add: c)
  then show ?thesis
    using assms(2) s1 dropped Some p c
    by (cases r; cases e) (auto simp: commitRequest_def)
qed

lemma commit_handled: "handleCommit now h jobID s = Some (s', r, k) \<Longrightarrow> P (s_jobMgr s) (s_jobMgr s')"
  by (auto simp: handleCommit_def P_refl split: option.splits if_splits dest!: commit_requested [OF P_refl])

lemma script_handled: "handleJobScript now h jobID dat auto s = Some (s', r, k) \<Longrightarrow> P (s_jobMgr s) (s_jobMgr s')"
proof (cases "GetJobS s jobID")
  case (Some j)
  let ?s1 = "onStore (SaveJobScript jobID dat) (onJobs (updJob (j_ID j) (\<lambda>j. j\<lparr>j_Script := dat\<rparr>)) s)"
  have s1: "P (s_jobMgr s) (s_jobMgr ?s1)" by (simp add: upd P_refl tame_fields)
  assume h: "handleJobScript now h jobID dat auto s = Some (s', r, k)"
  show ?thesis
  proof (cases auto)
    case True
    then obtain ok where "commitRequest now h jobID (j\<lparr>j_Script := dat\<rparr>) ?s1 = Some (s', ok)"
      using h Some by (auto simp: handleJobScript_def Let_def split: if_splits)
    then show ?thesis by (rule commit_requested [OF s1])
  next
    case False
    then show ?thesis using h Some s1 by (simp add: handleJobScript_def)
  qed
qed (simp add: handleJobScript_def P_refl)

lemma deleted: "P (s_jobMgr s) (s_jobMgr (fst (handleDeleteJob now jobID s)))"
  by (simp add: handleDeleteJob_def Let_def chain calm_states split: option.split)

lemma held: "P (s_jobMgr s) (s_jobMgr (fst (handleHoldJob now jobID s)))"
  by (simp add: handleHoldJob_def Let_def chain tame_changes calm_states split: option.split)

lemma released: "P (s_jobMgr s) (s_jobMgr (fst (handleReleaseJob now jobID s)))"
  by (simp add: handleReleaseJob_def Let_def chain tame_changes calm_states split: option.split)

lemma modified: "P (s_jobMgr s) (s_jobMgr (fst (handleModifyJob now jobID attrs s)))"
  by (simp add: handleModifyJob_def Let_def chain tame_changes split: option.split)

lemma moved: "P (s_jobMgr s) (s_jobMgr (fst (handleMoveJob jobID dest s)))"
  by (simp add: handleMoveJob_def Let_def chain tame_changes split: option.split)

lemma rerun: "P (s_jobMgr s) (s_jobMgr (fst (handleRerunJob now jobID s)))"
  by (simp add: handleRerunJob_def Let_def chain tame_changes split: option.split)

lemma ordered: "handleOrderJob i1 i2 s = Some (s', r, k) \<Longrightarrow> P (s_jobMgr s) (s_jobMgr s')"
  by (auto simp: handleOrderJob_def Let_def chain tame_changes split: option.splits if_splits)

lemma ended: "P (s_jobMgr s) (s_jobMgr (fst (handleJobObit now remote priv jobID ex attrs s)))"
  by (simp add: handleJobObit_def Let_def chain tame_changes split: option.split)

lemma dispatch_ended: "P a (s_jobMgr s) \<Longrightarrow> P a (s_jobMgr (dispatchJobToMOM now peer j n s))"
  by (simp add: dispatchJobToMOM_def undoJobDispatch_def Let_def chain tame_changes split: option.split)

lemma promoted: "P (s_jobMgr s) (s_jobMgr (promoteWaitingJobs now s))"
proof -
  have "P a (s_jobMgr s) \<Longrightarrow> P a (s_jobMgr (fold (promoteJob now) js s))" for a js s
    by (induction js arbitrary: s) (simp_all add: promoteJob_def upd_state calm_states split: option.split)
  then show ?thesis by (simp add: promoteWaitingJobs_def P_refl)
qed

lemma requeued: "P a (s_jobMgr s) \<Longrightarrow> P a (s_jobMgr (requeueOnNode now n jid s))"
  by (simp add: requeueOnNode_def Let_def upd tame_changes split: option.split)

lemma node_requeued: "P a (s_jobMgr s) \<Longrightarrow> P a (s_jobMgr (requeueNodeJobs now n s))"
proof -
  have "P a (s_jobMgr s) \<Longrightarrow> P a (s_jobMgr (fold (requeueOnNode now n) jids s))" for jids s
    by (induction jids arbitrary: s) (simp_all add: requeued)
  then show "P a (s_jobMgr s) \<Longrightarrow> ?thesis" by (simp add: requeueNodeJobs_def split: option.split)
qed

lemma nodes_checked: "P (s_jobMgr s) (s_jobMgr (checkNodes now s))"
proof -
  have "P a (s_jobMgr s) \<Longrightarrow> P a (s_jobMgr (fold (checkNode now) ns s))" for a ns s
    by (induction ns arbitrary: s) (simp_all add: checkNode_def node_requeued split: option.split)
  then show ?thesis by (simp add: checkNodes_def P_refl)
qed

lemma recovered: "P a (s_jobMgr s) \<Longrightarrow> P a (s_jobMgr (requeueRecoveredJob now j s))"
  by (simp add: requeueRecoveredJob_def Let_def upd tame_changes)

lemma reconciled: "P (s_jobMgr s) (s_jobMgr (fst (reconcileRunningJobsWithMOMs now query s)))"
proof -
  have one: "P a (s_jobMgr (fst sp)) \<Longrightarrow> P a (s_jobMgr (fst (reconcileJob now query j sp)))" for a j sp
    by (cases sp) (simp add: reconcileJob_def recovered split: option.split)
  have "P a (s_jobMgr (fst sp)) \<Longrightarrow> P a (s_jobMgr (fst (fold (reconcileJob now query) js sp)))" for a js sp
    by (induction js arbitrary: sp) (simp_all add: one)
  then show ?thesis by (simp add: reconcileRunningJobsWithMOMs_def P_refl)
qed

lemma cleaned: "P (s_jobMgr s) (s_jobMgr (completedJobCleanup now s))"
proof -
  have one: "P a (s_jobMgr s) \<Longrightarrow> P a (s_jobMgr (purgeJob now j s))" for a j s
    by (simp add: purgeJob_def remove split: option.split)
  have "P a (s_jobMgr s) \<Longrightarrow> P a (s_jobMgr (fold (purgeJob now) js s))" for a js s
    by (induction js arbitrary: s) (simp_all add: one)
  then show ?thesis by (simp add: completedJobCleanup_def P_refl)
qed

text \<open>Every request but the one that starts a job.\<close>

lemma request_handled:
  assumes "dispatchRequest env remote priv user rq s = Some (s', r, k)" and "\<And>i d. rq \<noteq> RRunJob i d"
  shows "P (s_jobMgr s) (s_jobMgr s')"
proof -
  have via: "dispatchRequest env remote priv user rq s = Some out \<Longrightarrow> P (s_jobMgr s) (s_jobMgr (fst out)) \<Longrightarrow> ?thesis"
    for out :: outcome using assms(1) by auto
  show ?thesis
  proof (cases rq)
    case (RJobScript i dat auto)
    then show ?thesis using assms script_handled by (simp add: dispatchRequest_def)
  next
    case (RCommit i)
    then show ?thesis using assms commit_handled by (simp add: dispatchRequest_def)
  next
    case (ROrderJob i1 i2)
    then show ?thesis using assms ordered by (simp add: dispatchRequest_def)
  next
    case (RRunJob i d)
    then show ?thesis using assms(2) by simp
  qed (rule via, simp only: dispatchRequest_def request.case,
      simp add: submitted deleted held released modified moved rerun ended P_refl)+
qed

text \<open>Every other step.\<close>

lemma step_handled:
  "server_step s s' \<Longrightarrow> (\<And>env remote priv user i d r k. dispatchRequest env remote priv user (RRunJob i d) s = Some (s', r, k) \<Longrightarrow>
     P (s_jobMgr s) (s_jobMgr s')) \<Longrightarrow> P (s_jobMgr s) (s_jobMgr s')"
proof (induction rule: server_step.induct)
  case (request env remote privileged user rq s s' r k)
  then show ?case using request_handled by (cases "\<exists>i d. rq = RRunJob i d") blast+
next
  case (dispatched j n s now peer)
  show ?case by (rule dispatch_ended) (simp add: P_refl)
qed (simp_all add: P_refl promoted nodes_checked reconciled cleaned)

end

section \<open>The job table\<close>

text \<open>
  The job table is well typed: a map whose keys are the identifiers of its jobs, every job in one of the states a server
  puts it in, one counter per state.
\<close>

definition serverStates :: "int set" where
  "serverStates =
     {StateTransit, StateQueued, StateHeld, StateWaiting, StateRunning, StateComplete, StateProvisioning}"

definition jobs_typed :: "JobManager \<Rightarrow> bool" where
  "jobs_typed m \<longleftrightarrow> jobs_ok m \<and> length (jm_stateCounts m) = 7 \<and>
     (\<forall>i j. lookupJob m i = Some j \<longrightarrow> j_State j \<in> serverStates)"

lemma calm_server: "st \<in> calm \<Longrightarrow> st \<in> serverStates" "StateRunning \<in> serverStates"
  "st \<in> {StateTransit, StateHeld, StateWaiting} \<Longrightarrow> st \<in> serverStates"
  by (auto simp: calm_def serverStates_def)

definition runset :: "JobManager \<Rightarrow> string set" where
  "runset m = {i. \<exists>j. lookupJob m i = Some j \<and> j_State j = StateRunning}"

lemma lookup_laws:
  "lookupJob (RemoveJob m i) k = (if k = i then None else lookupJob m k)"
  "lookupJob (AddJob m j) k = (if k = j_ID j then Some j else lookupJob m k)"
  "lookupJob (snd (NextJobID m)) k = lookupJob m k"
  "lookupJob (UpdateJobState now m i st sub) k =
     (if k = i then map_option (SetState now st sub) (lookupJob m i) else lookupJob m k)"
  by (auto simp: lookupJob_def RemoveJob_def AddJob_def NextJobID_def UpdateJobState_def map_laws split: option.split)

lemma counts_length:
  "length (jm_stateCounts (RemoveJob m i)) = length (jm_stateCounts m)"
  "length (jm_stateCounts (AddJob m j)) = length (jm_stateCounts m)"
  "length (jm_stateCounts (snd (NextJobID m))) = length (jm_stateCounts m)"
  "length (jm_stateCounts (UpdateJobState now m i st sub)) = length (jm_stateCounts m)"
  "length (jm_stateCounts (updJob i f m)) = length (jm_stateCounts m)"
  by (simp_all add: RemoveJob_def AddJob_def NextJobID_def UpdateJobState_def updJob_def incr_at_def decr_at_def split: option.split)

lemma typedI:
  assumes "jobs_ok m" "length (jm_stateCounts m) = 7" "\<And>i j. lookupJob m i = Some j \<Longrightarrow> j_State j \<in> serverStates"
  shows "jobs_typed m"
  using assms by (simp add: jobs_typed_def)

lemma typedD:
  assumes "jobs_typed m"
  shows "jobs_ok m" "length (jm_stateCounts m) = 7" "lookupJob m i = Some j \<Longrightarrow> j_State j \<in> serverStates"
  using assms by (simp_all add: jobs_typed_def)

lemma typed_upd:
  assumes m: "jobs_typed m" and id: "\<And>j. j_ID (f j) = j_ID j"
    and st: "\<And>j. j_State j \<in> serverStates \<Longrightarrow> j_State (f j) \<in> serverStates"
  shows "jobs_typed (updJob i f m)"
proof (rule typedI)
  show "jobs_ok (updJob i f m)" by (rule jobs_ok_updJob [OF typedD(1) [OF m] id])
  show "length (jm_stateCounts (updJob i f m)) = 7" using typedD(2) [OF m] by (simp only: counts_length)
  show "j_State j \<in> serverStates" if "lookupJob (updJob i f m) k = Some j" for k j
  proof (cases "k = i")
    case True
    with that obtain j0 where "lookupJob m i = Some j0" "j = f j0" by (auto simp: lookupJob_updJob)
    with st typedD(3) [OF m] show ?thesis by simp
  next
    case False
    with that typedD(3) [OF m] show ?thesis by (simp add: lookupJob_updJob)
  qed
qed

lemma typed_tame: "tame f \<Longrightarrow> jobs_typed m \<Longrightarrow> jobs_typed (updJob i f m)"
proof (rule typed_upd)
  fix j :: Job
  assume f: "tame f" and j: "j_State j \<in> serverStates"
  have "j_State (f j) = j_State j \<or> j_State (f j) \<in> calm" using f by (simp add: tame_def)
  with j calm_server(1) show "j_State (f j) \<in> serverStates" by auto
qed (simp_all add: tame_def)

interpretation typed: job_changes "\<lambda>m m'. jobs_typed m \<longrightarrow> jobs_typed m'"
proof unfold_locales
  fix m i and f :: "Job \<Rightarrow> Job"
  show "tame f \<Longrightarrow> jobs_typed m \<longrightarrow> jobs_typed (updJob i f m)" using typed_tame by blast
next
  fix m i now st sub
  assume st: "st \<in> calm"
  show "jobs_typed m \<longrightarrow> jobs_typed (UpdateJobState now m i st sub)"
  proof (intro impI typedI)
    assume m: "jobs_typed m"
    show "jobs_ok (UpdateJobState now m i st sub)" by (rule jobs_ok_UpdateJobState [OF typedD(1) [OF m]])
    show "length (jm_stateCounts (UpdateJobState now m i st sub)) = 7" using typedD(2) [OF m] by (simp only: counts_length)
    show "j_State j \<in> serverStates" if "lookupJob (UpdateJobState now m i st sub) k = Some j" for k j
      using that typedD(3) [OF m, of k] calm_server(1) [OF st] by (cases "k = i") (auto simp: lookup_laws)
  qed
next
  fix m i
  show "jobs_typed m \<longrightarrow> jobs_typed (RemoveJob m i)"
  proof (intro impI typedI)
    assume m: "jobs_typed m"
    show "jobs_ok (RemoveJob m i)" by (rule job_registry.inv_remove [OF typedD(1) [OF m]])
    show "length (jm_stateCounts (RemoveJob m i)) = 7" using typedD(2) [OF m] by (simp only: counts_length)
    show "j_State j \<in> serverStates" if "lookupJob (RemoveJob m i) k = Some j" for k j
      using that typedD(3) [OF m, of k] by (cases "k = i") (auto simp: lookup_laws)
  qed
next
  fix m and j :: Job
  assume st: "j_State j \<in> {StateTransit, StateHeld, StateWaiting}"
  show "jobs_typed m \<longrightarrow> jobs_typed (AddJob m j)"
  proof (intro impI typedI)
    assume m: "jobs_typed m"
    show "jobs_ok (AddJob m j)" by (rule job_registry.inv_add [OF typedD(1) [OF m]])
    show "length (jm_stateCounts (AddJob m j)) = 7" using typedD(2) [OF m] by (simp only: counts_length)
    show "j_State x \<in> serverStates" if "lookupJob (AddJob m j) k = Some x" for k x
      using that typedD(3) [OF m, of k] calm_server(3) [OF st] by (cases "k = j_ID j") (auto simp: lookup_laws)
  qed
next
  fix m
  show "jobs_typed m \<longrightarrow> jobs_typed (snd (NextJobID m))"
    by (simp add: jobs_typed_def lookup_laws counts_length)
qed simp_all

lemma runset_updJob: "tame f \<Longrightarrow> runset (updJob i f m) \<subseteq> runset m"
proof
  fix k assume f: "tame f" and "k \<in> runset (updJob i f m)"
  then obtain j where j: "lookupJob (updJob i f m) k = Some j" "j_State j = StateRunning" by (auto simp: runset_def)
  show "k \<in> runset m"
  proof (cases "k = i")
    case True
    with j obtain j0 where j0: "lookupJob m k = Some j0" "j = f j0" by (auto simp: lookupJob_updJob)
    have "j_State (f j0) = j_State j0 \<or> j_State (f j0) \<in> calm" using f by (simp add: tame_def)
    with j(2) j0 show ?thesis by (auto simp: runset_def calm_def)
  next
    case False
    with j show ?thesis by (simp add: runset_def lookupJob_updJob)
  qed
qed

interpretation running: job_changes "\<lambda>m m'. runset m' \<subseteq> runset m"
proof unfold_locales
  fix m i and f :: "Job \<Rightarrow> Job"
  show "tame f \<Longrightarrow> runset (updJob i f m) \<subseteq> runset m" by (rule runset_updJob)
next
  fix m i now st sub
  show "st \<in> calm \<Longrightarrow> runset (UpdateJobState now m i st sub) \<subseteq> runset m"
    by (auto simp: runset_def lookup_laws calm_def split: if_splits)
qed (auto simp: runset_def lookup_laws split: if_splits)

lemma running_card: "jobs_ok m \<Longrightarrow> CountByState m StateRunning = int (card (runset m))"
  by (simp add: CountByState_def mcount_card jobs_ok_def runset_def lookupJob_def)

lemma runset_finite: "finite (runset m)"
  by (rule finite_subset [OF _ finite_dom_map_of [of "jm_jobs m"]]) (auto simp: runset_def lookupJob_def)

section \<open>Starting a job\<close>

text \<open>What a start does to the job object.\<close>

definition starts :: "(Job \<Rightarrow> Job) \<Rightarrow> bool" where
  "starts f \<longleftrightarrow> (\<forall>j. j_ID (f j) = j_ID j \<and> j_State (f j) = StateRunning)"

lemma starts_on: "starts (startOn now h p)" "starts (startMulti now h p n t)"
  by (simp_all add: starts_def startOn_def startMulti_def)

lemma dependencies_jobs:
  "s_jobMgr (fst (checkDependencies j s)) = s_jobMgr s \<or>
   (\<exists>f. tame f \<and> s_jobMgr (fst (checkDependencies j s)) = updJob (j_ID j) f (s_jobMgr s))"
proof -
  let ?r = "find (\<lambda>r. r \<noteq> DepOk) (concat (map (clauseChecks s) (Split CHR '','' (j_DependList j))))"
  have "tame (\<lambda>j. j\<lparr>j_Comment := why\<rparr>)" for why by (rule tame_fields)
  then show ?thesis
    by (cases ?r rule: option.exhaust; cases "the ?r") (auto simp: checkDependencies_def)
qed

lemma afterStart_jobs [simp]: "s_jobMgr (afterStart i j ns s) = s_jobMgr s"
  by (simp add: afterStart_def Let_def split: option.split)

lemma runOnNode_jobs:
  "s_jobMgr (runOnNode now i j n s) = s_jobMgr s \<or>
   (\<exists>f. starts f \<and> s_jobMgr (runOnNode now i j n s) = updJob (j_ID j) f (s_jobMgr s))"
proof -
  have via: "starts f \<Longrightarrow> s_jobMgr (runOnNode now i j n s) = updJob (j_ID j) f (s_jobMgr s) \<Longrightarrow> ?thesis" for f by blast
  obtain c ppn where "jobNodeRequest j = (c, ppn)" by fastforce
  then show ?thesis
    using via [OF starts_on(1), of now "n_Name n @ ''/0''" "n_MomPort n"] via [OF starts_on(2)]
    by (auto simp: runOnNode_def runJobMulti_def Let_def)
qed

lemma handleRunJob_jobs:
  obtains (refused) "s_jobMgr (fst (handleRunJob now i d s)) = s_jobMgr s"
  | (kept) k f where "tame f" "s_jobMgr (fst (handleRunJob now i d s)) = updJob k f (s_jobMgr s)"
  | (started) j :: Job and f where "starts f" "enforceRunLimits j s" "s_jobMgr (fst (handleRunJob now i d s)) = updJob (j_ID j) f (s_jobMgr s)"
proof (cases "GetJobS s i")
  case None
  then show ?thesis using refused by (simp add: handleRunJob_def)
next
  case (Some j)
  show ?thesis
  proof (cases "(s_haEnabled s \<and> \<not> s_haActive s) \<or> (j_State j \<noteq> StateQueued \<and> j_State j \<noteq> StateProvisioning) \<or> \<not> enforceRunLimits j s")
    case True
    with Some show ?thesis by (intro refused) (auto simp: handleRunJob_def)
  next
    case ok: False
    obtain s1 b where dep: "checkDependencies j s = (s1, b)" by fastforce
    have b: "b \<Longrightarrow> s1 = s" using dep by (auto simp: checkDependencies_def split: if_splits option.splits dep_result.splits)
    show ?thesis
    proof (cases "b \<and> d \<noteq> [] \<and> GetNode (s_nodeMgr s1) (hostName d) \<noteq> None")
      case True
      then obtain n where n: "GetNode (s_nodeMgr s1) (hostName d) = Some n" by auto
      have "fst (handleRunJob now i d s) = runOnNode now i j n s"
        using True ok Some dep n b by (auto simp: handleRunJob_def)
      with runOnNode_jobs [of now i j n s] ok show ?thesis using refused started [of _ j] by auto
    next
      case False
      then have "s_jobMgr (fst (handleRunJob now i d s)) = s_jobMgr (fst (checkDependencies j s))"
        using ok Some dep by (auto simp: handleRunJob_def split: bool.split option.split)
      with dependencies_jobs [of j s] show ?thesis using refused kept [of _ "j_ID j"] by auto
    qed
  qed
qed

text \<open>A start goes through, or nothing is started.\<close>

lemma starts_typed: "starts f \<Longrightarrow> jobs_typed m \<Longrightarrow> jobs_typed (updJob i f m)"
  by (rule typed_upd) (simp_all add: starts_def calm_server)

lemma starts_runset: "runset (updJob i f m) \<subseteq> insert i (runset m)"
  by (auto simp: runset_def lookupJob_updJob split: if_splits)

lemma run_request:
  "dispatchRequest env remote priv user (RRunJob i d) s = Some (s', r, k) \<Longrightarrow> s' = fst (handleRunJob (e_now env) i d s)"
  by (simp add: dispatchRequest_def)

lemma typed_step: "server_step s s' \<Longrightarrow> jobs_typed (s_jobMgr s) \<longrightarrow> jobs_typed (s_jobMgr s')"
proof (erule typed.step_handled)
  fix env remote priv user i d r k
  assume "dispatchRequest env remote priv user (RRunJob i d) s = Some (s', r, k)"
  then have s': "s' = fst (handleRunJob (e_now env) i d s)" by (rule run_request)
  show "jobs_typed (s_jobMgr s) \<longrightarrow> jobs_typed (s_jobMgr s')"
    unfolding s' by (rule handleRunJob_jobs [of "e_now env" i d s]) (simp_all add: typed_tame starts_typed)
qed

lemma typed_run: "server_run s0 s \<Longrightarrow> jobs_typed (s_jobMgr s0) \<Longrightarrow> jobs_typed (s_jobMgr s)"
  by (induction rule: server_run.induct) (simp_all add: typed_step)

lemma limit_step:
  assumes step: "server_step s s'" and typed: "jobs_typed (s_jobMgr s)"
    and lim: "0 < ci (s_cfg s) F_MaxRunning" "int (card (runset (s_jobMgr s))) \<le> ci (s_cfg s) F_MaxRunning"
  shows "int (card (runset (s_jobMgr s'))) \<le> ci (s_cfg s) F_MaxRunning"
proof -
  let ?L = "ci (s_cfg s) F_MaxRunning"
  have down: ?thesis if "runset (s_jobMgr s') \<subseteq> runset (s_jobMgr s)"
    using card_mono [OF runset_finite that] lim(2) by linarith
  have start: ?thesis if run: "starts f" "enforceRunLimits j s" "s_jobMgr s' = updJob i f (s_jobMgr s)" for f i and j :: Job
  proof -
    have "CountByState (s_jobMgr s) StateRunning < ?L"
      using run(2) lim(1) by (simp add: enforceRunLimits_def Let_def not_le split: if_splits)
    then have "int (card (runset (s_jobMgr s))) < ?L" by (simp only: running_card [OF typedD(1) [OF typed]])
    moreover have "card (runset (s_jobMgr s')) \<le> Suc (card (runset (s_jobMgr s)))"
    proof -
      have "card (runset (s_jobMgr s')) \<le> card (insert i (runset (s_jobMgr s)))"
        unfolding run(3) by (rule card_mono) (simp_all add: runset_finite starts_runset)
      also have "\<dots> \<le> Suc (card (runset (s_jobMgr s)))" by (simp add: card_insert_if runset_finite)
      finally show ?thesis .
    qed
    ultimately show ?thesis by linarith
  qed
  show ?thesis
  proof (cases "\<exists>env remote priv user i d r k. dispatchRequest env remote priv user (RRunJob i d) s = Some (s', r, k)")
    case False
    have "runset (s_jobMgr s') \<subseteq> runset (s_jobMgr s)"
      by (rule running.step_handled [OF step]) (use False in blast)
    then show ?thesis by (rule down)
  next
    case True
    then obtain now i d where s': "s' = fst (handleRunJob now i d s)" using run_request by blast
    show ?thesis
    proof (rule handleRunJob_jobs [of now i d s, folded s'])
      show ?thesis if "s_jobMgr s' = s_jobMgr s" by (rule down) (simp only: that)
      show ?thesis if "tame f" "s_jobMgr s' = updJob k f (s_jobMgr s)" for f k
        by (rule down) (simp only: that(2) runset_updJob [OF that(1)])
      show ?thesis if "starts f" "enforceRunLimits j s" "s_jobMgr s' = updJob (j_ID j) f (s_jobMgr s)" for f and j :: Job
        by (rule start [OF that])
    qed
  qed
qed

section \<open>The life of a job\<close>

lemma GetJobS_exact: "TrimSpace i = i \<Longrightarrow> lookupJob (s_jobMgr s) i = Some j \<Longrightarrow> GetJobS s i = Some j"
  by (simp add: GetJobS_def GetJob_def lookupJob_def Let_def)

text \<open>A job that may start does start.\<close>

definition may_start :: "Server \<Rightarrow> Job \<Rightarrow> string \<Rightarrow> Node \<Rightarrow> bool" where
  "may_start s j dest n \<longleftrightarrow> \<not> (s_haEnabled s \<and> \<not> s_haActive s) \<and> j_State j = StateQueued \<and> j_DependList j = [] \<and>
     enforceRunLimits j s \<and> dest \<noteq> [] \<and> GetNode (s_nodeMgr s) (hostName dest) = Some n \<and> fst (jobNodeRequest j) \<le> 1"

lemma run_starts:
  assumes "TrimSpace i = i" "lookupJob (s_jobMgr s) i = Some j" "j_ID j = i" "may_start s j dest n"
  shows "s_jobMgr (fst (handleRunJob now i dest s)) = updJob i (startOn now (n_Name n @ ''/0'') (n_MomPort n)) (s_jobMgr s)"
    "(i, n_Name n) \<in> set (s_dispatching (fst (handleRunJob now i dest s)))"
proof -
  obtain c ppn where c: "jobNodeRequest j = (c, ppn)" by fastforce
  have run: "fst (handleRunJob now i dest s) = runOnNode now i j n s"
    using assms(4) GetJobS_exact [OF assms(1,2)] by (auto simp: handleRunJob_def may_start_def checkDependencies_def)
  have c1: "\<not> c > 1" using assms(4) c by (simp add: may_start_def)
  show "s_jobMgr (fst (handleRunJob now i dest s)) = updJob i (startOn now (n_Name n @ ''/0'') (n_MomPort n)) (s_jobMgr s)"
    using c c1 assms(3) by (simp add: run runOnNode_def Let_def)
  show "(i, n_Name n) \<in> set (s_dispatching (fst (handleRunJob now i dest s)))"
    using c c1 assms(3) by (simp add: run runOnNode_def afterStart_def Let_def split: option.split)
qed

text \<open>A dispatch that ends leaves the job running or puts it back into its queue.\<close>

lemma dispatch_ends:
  assumes "lookupJob (s_jobMgr s) (j_ID j) = Some j" "j_State j = StateRunning"
  shows "\<exists>j'. lookupJob (s_jobMgr (dispatchJobToMOM now peer j n s)) (j_ID j) = Some j' \<and>
     (j_State j' = StateRunning \<and> j_ExecHost j' = j_ExecHost j \<or> j_State j' = StateQueued \<and> j_ExecHost j' = [])"
proof (cases peer)
  case None
  then show ?thesis using assms by (simp add: dispatchJobToMOM_def undoJobDispatch_def Let_def lookupJob_updJob)
next
  case (Some answer)
  show ?thesis
    using assms
    by (simp add: Some dispatchJobToMOM_def undoJobDispatch_def Let_def lookupJob_updJob split: option.split)
qed

lemma usedAttr_more:
  "j_CompTime (fold usedAttr attrs j) = j_CompTime j \<and> j_ExitStatus (fold usedAttr attrs j) = j_ExitStatus j"
  by (induction attrs arbitrary: j) (auto simp: usedAttr_def)

text \<open>An obituary from a trusted source completes a job that is in the table, in whatever state the job is.\<close>

lemma obit_completes:
  assumes "TrimSpace i = i" "lookupJob (s_jobMgr s) i = Some j" "j_ID j = i" "priv \<or> mget (s_authMap s) remote \<noteq> None"
  shows "\<exists>j'. lookupJob (s_jobMgr (fst (handleJobObit now remote priv i ex attrs s))) i = Some j' \<and>
     j_State j' = StateComplete \<and> j_CompTime j' = Some now \<and> j_ExitStatus j' = ex \<and> j_ID j' = i"
proof -
  have "s_jobMgr (fst (handleJobObit now remote priv i ex attrs s)) = updJob i (endJob now ex attrs) (s_jobMgr s)"
    using assms(3,4) GetJobS_exact [OF assms(1,2)] by (auto simp: handleJobObit_def Let_def split: option.split)
  then show ?thesis
    using assms(2,3) by (simp add: lookupJob_updJob endJob_def usedAttr_frame usedAttr_more SetState_def)
qed

text \<open>The cleanup removes a job that has been complete for longer than the configured time.\<close>

lemma purge_sel: "s_cfg (purgeJob now j s) = s_cfg s"
  "lookupJob (s_jobMgr s) i = None \<Longrightarrow> lookupJob (s_jobMgr (purgeJob now j s)) i = None"
  by (simp_all add: purgeJob_def lookup_laws removeJobFiles_def split: option.split)

lemma purge_all:
  "j \<in> set js \<and> j_CompTime j = Some t \<and> now - t > ci (s_cfg s) F_KeepCompleted \<or> lookupJob (s_jobMgr s) (j_ID j) = None \<Longrightarrow>
   lookupJob (s_jobMgr (fold (purgeJob now) js s)) (j_ID j) = None"
proof (induction js arbitrary: s)
  case (Cons k js)
  show ?case
  proof (cases "k = j \<and> j_CompTime j = Some t \<and> now - t > ci (s_cfg s) F_KeepCompleted \<or> lookupJob (s_jobMgr s) (j_ID j) = None")
    case True
    then have "lookupJob (s_jobMgr (purgeJob now k s)) (j_ID j) = None"
      using purge_sel(2) by (auto simp: purgeJob_def lookup_laws)
    then show ?thesis using Cons.IH by simp
  next
    case False
    then show ?thesis using Cons.IH [of "purgeJob now k s"] Cons.prems by (auto simp: purge_sel)
  qed
qed simp

lemma cleanup_removes:
  assumes "lookupJob (s_jobMgr s) i = Some j" "j_ID j = i" "j_State j = StateComplete" "j_CompTime j = Some t"
    "now - t > ci (s_cfg s) F_KeepCompleted"
  shows "lookupJob (s_jobMgr (completedJobCleanup now s)) i = None"
proof -
  have "j \<in> set (CompletedJobs (s_jobMgr s))"
    using assms(1,3) map_of_SomeD [of "jm_jobs (s_jobMgr s)" i j] by (force simp: CompletedJobs_def AllJobs_def lookupJob_def)
  then show ?thesis using purge_all [of j _ t s now] assms(2,4,5) by (simp add: completedJobCleanup_def)
qed

text \<open>What a deletion does to the parts of the server.\<close>

lemma updQueue_queue: "GetQueue (s_queueMgr (updQueue n f s)) n = map_option f (GetQueue (s_queueMgr s) n)"
  by (simp add: updQueue_def GetQueue_def map_laws split: option.split)

lemma deleted_effect:
  assumes "GetJobS s i = Some j" and out: "handleDeleteJob now i s = (s', r, k)"
  shows "r = ReplyOk"
    "GetQueue (s_queueMgr s') (j_Queue j) = map_option (\<lambda>q. DecrJobCount q (j_State j)) (GetQueue (s_queueMgr s) (j_Queue j))"
    "lookupJob (s_jobMgr s') x = (if x = i then None else lookupJob (s_jobMgr s) x)"
    "mget (st_jobs (s_store s')) i = None" "mget (st_scripts (s_store s')) i = None"
  using assms(1) out
  by (auto simp: handleDeleteJob_def Let_def updQueue_queue lookup_laws removeJobFiles_def DeleteJob_def map_laws)

section \<open>An example\<close>

text \<open>A server with one queue, one node and one queued job, which lets one job run at a time.\<close>

definition demoJob :: Job where
  "demoJob = (NewJob 0 ''1.s'' ''q'' ''s'')\<lparr>j_State := StateQueued\<rparr>"

definition demoServer :: Server where
  "demoServer =
     \<lparr>s_cfg = (NewConfig ''/h'')\<lparr>ci := (ci (NewConfig ''/h''))(F_MaxRunning := 1)\<rparr>,
      s_jobMgr = AddJob (NewJobManager ''s'' 2) demoJob,
      s_queueMgr = AddQueue NewQueueManager (IncrJobCount (NewQueue ''q'' TypeExecution) StateQueued),
      s_nodeMgr = AddNode NewNodeManager ''n'' 1, s_store = emptyStore, s_haEnabled = False, s_haActive = False,
      s_authMap = [], s_authKey = None, s_acctLog = Some [], s_notified = 0, s_dispatching = [], s_killed = []\<rparr>"

definition demoRun :: Server where
  "demoRun = fst (handleRunJob 5 ''1.s'' ''n'' demoServer)"

lemma demo_id: "TrimSpace ''1.s'' = ''1.s''" "TrimSpace ''1'' = ''1''"
  by (simp_all add: TrimSpace_def is_space_def)

lemma demo_job: "lookupJob (s_jobMgr demoServer) k = (if k = ''1.s'' then Some demoJob else None)"
  by (simp add: demoServer_def AddJob_def NewJobManager_def lookupJob_def map_laws demoJob_def NewJob_def)

lemma demo_typed: "jobs_typed (s_jobMgr demoServer)"
proof (rule typedI)
  show "jobs_ok (s_jobMgr demoServer)" and "length (jm_stateCounts (s_jobMgr demoServer)) = 7"
    by (simp_all add: demoServer_def AddJob_def NewJobManager_def jobs_ok_def map_laws incr_at_def)
  show "lookupJob (s_jobMgr demoServer) i = Some j \<Longrightarrow> j_State j \<in> serverStates" for i j
    by (auto simp: demo_job demoJob_def serverStates_def split: if_splits)
qed

lemma demo_limit: "ci (s_cfg demoServer) F_MaxRunning = 1" "CountByState (s_jobMgr demoServer) StateRunning = 0"
  by (simp_all add: demoServer_def CountByState_def AddJob_def NewJobManager_def demoJob_def)

lemma demo_node: "\<exists>n. GetNode (s_nodeMgr demoServer) ''n'' = Some n \<and> n_Name n = ''n''"
  by (simp add: demoServer_def AddNode_def NewNodeManager_def GetNode_def NewNode_def map_laws)

lemma demo_may_start: "\<exists>n. n_Name n = ''n'' \<and> may_start demoServer demoJob ''n'' n"
proof -
  have "hostName ''n'' = ''n''" by code_simp
  moreover have "enforceRunLimits demoJob demoServer"
    using demo_limit by (simp add: enforceRunLimits_def Let_def) (simp add: demoServer_def NewConfig_def)
  moreover have "fst (jobNodeRequest demoJob) \<le> 1" by code_simp
  moreover have "\<not> (s_haEnabled demoServer \<and> \<not> s_haActive demoServer)" by (simp add: demoServer_def)
  moreover have "j_State demoJob = StateQueued" "j_DependList demoJob = []"
    by (simp_all add: demoJob_def NewJob_def zeroJob_def)
  ultimately show ?thesis using demo_node unfolding may_start_def by auto
qed

lemma demo_step: "server_step demoServer demoRun"
proof -
  obtain s' r k where out: "handleRunJob 5 ''1.s'' ''n'' demoServer = (s', r, k)" using prod_cases3 by blast
  have "server_step demoServer s'"
    by (rule server_step.request [of "\<lparr>e_now = 5, e_hostname = [], e_sign = (\<lambda>_ _. [])\<rparr>" "[]" True "[]" "RRunJob ''1.s'' ''n''" _ _ r k])
      (simp add: dispatchRequest_def out)
  then show ?thesis by (simp add: demoRun_def out)
qed

lemma demo_cfg: "s_cfg demoRun = s_cfg demoServer"
proof -
  obtain n where "may_start demoServer demoJob ''n'' n" using demo_may_start by blast
  then have "s_cfg (fst (handleRunJob now ''1.s'' ''n'' demoServer)) = s_cfg demoServer" for now
    using GetJobS_exact [OF demo_id(1)]
    by (cases "jobNodeRequest demoJob")
      (simp add: demo_job handleRunJob_def may_start_def checkDependencies_def runOnNode_def Let_def afterStart_def split: option.split)
  then show ?thesis by (simp add: demoRun_def)
qed

lemma demo_running: "\<exists>j. lookupJob (s_jobMgr demoRun) ''1.s'' = Some j \<and> j_State j = StateRunning"
proof -
  obtain n where "may_start demoServer demoJob ''n'' n" using demo_may_start by blast
  then have "s_jobMgr demoRun = updJob ''1.s'' (startOn 5 (n_Name n @ ''/0'') (n_MomPort n)) (s_jobMgr demoServer)"
    unfolding demoRun_def by (intro run_starts demo_id) (simp_all add: demo_job demoJob_def NewJob_def)
  then show ?thesis by (simp add: lookupJob_updJob demo_job startOn_def)
qed

section \<open>Properties of every run\<close>

text \<open>
C5: The job table of the server stays well typed in every run, whatever requests, status reports, ended dispatches and
rounds of the background tasks follow each other in whatever order: it is a map keyed by the identifiers of its jobs, it
has its seven counters, and every job is in one of the states the server puts jobs in; none is ever Exiting.
\<close>

theorem job_table_typed:
  assumes "server_run s0 s" "jobs_typed (s_jobMgr s0)"
  shows "jobs_typed (s_jobMgr s) \<and> (\<nexists>i j. lookupJob (s_jobMgr s) i = Some j \<and> j_State j = StateExiting)"
proof (rule conjI)
  show typed: "jobs_typed (s_jobMgr s)" by (rule typed_run [OF assms])
  show "\<nexists>i j. lookupJob (s_jobMgr s) i = Some j \<and> j_State j = StateExiting"
    using typedD(3) [OF typed] by (fastforce simp: serverStates_def)
qed

theorem job_table_typed_witness:
  "server_run demoServer demoRun \<and> jobs_typed (s_jobMgr demoServer) \<and> jobs_typed (s_jobMgr demoRun) \<and>
   (\<nexists>i j. lookupJob (s_jobMgr demoRun) i = Some j \<and> j_State j = StateExiting)"
proof -
  have run: "server_run demoServer demoRun" by (rule server_run.more [OF server_run.here demo_step])
  show ?thesis using run demo_typed job_table_typed [OF run demo_typed] by simp
qed



text \<open>
C2: A job that may run does run, and a job that ran is completed and in the end removed. In a server with a well typed
job table, a request to run a queued job that has no dependencies, is within the limits and fits on one known node, puts
the job into the Running state on that node with a dispatch under way. However the dialogue with the MOM goes, the end of the
dispatch leaves the job running there or back in its queue without a host. Whatever run of the server follows, as long as
the job is in the table an obituary of the job from a trusted source completes it with the exit status of the obituary, and
a round of the cleanup later than the configured time after that removes it.
\<close>

theorem job_runs_to_completion:
  assumes "jobs_typed (s_jobMgr s)" "lookupJob (s_jobMgr s) i = Some j" "TrimSpace i = i" "may_start s j dest n"
    and s1: "s1 = fst (handleRunJob now i dest s)"
  shows "(\<exists>j1. lookupJob (s_jobMgr s1) i = Some j1 \<and> j_State j1 = StateRunning \<and> j_ExecHost j1 = n_Name n @ ''/0'' \<and>
      (i, n_Name n) \<in> set (s_dispatching s1) \<and>
      (\<forall>now1 peer. \<exists>j2. lookupJob (s_jobMgr (dispatchJobToMOM now1 peer j1 (n_Name n) s1)) i = Some j2 \<and>
         (j_State j2 = StateRunning \<and> j_ExecHost j2 = n_Name n @ ''/0'' \<or> j_State j2 = StateQueued \<and> j_ExecHost j2 = []))) \<and>
    (\<forall>s2 remote priv t ex attrs.
      server_run s1 s2 \<and> lookupJob (s_jobMgr s2) i \<noteq> None \<and> (priv \<or> mget (s_authMap s2) remote \<noteq> None) \<longrightarrow>
      (let s3 = fst (handleJobObit t remote priv i ex attrs s2) in
         (\<exists>j3. lookupJob (s_jobMgr s3) i = Some j3 \<and> j_State j3 = StateComplete \<and> j_ExitStatus j3 = ex) \<and>
         (\<forall>t'. t' - t > ci (s_cfg s3) F_KeepCompleted \<longrightarrow> lookupJob (s_jobMgr (completedJobCleanup t' s3)) i = None)))"
proof (intro conjI allI impI)
  have id: "j_ID j = i" using assms(1,2) job_registry.get_key typedD(1) by blast
  note run = run_starts [OF assms(3,2) id assms(4), of now, folded s1]
  let ?j1 = "startOn now (n_Name n @ ''/0'') (n_MomPort n) j"
  have j1: "lookupJob (s_jobMgr s1) i = Some ?j1" using assms(2) by (simp add: run lookupJob_updJob)
  have sel: "j_ID ?j1 = i" "j_State ?j1 = StateRunning" "j_ExecHost ?j1 = n_Name n @ ''/0''"
    by (simp_all add: startOn_def id SetState_def)
  have "\<exists>j2. lookupJob (s_jobMgr (dispatchJobToMOM now1 peer ?j1 (n_Name n) s1)) i = Some j2 \<and>
         (j_State j2 = StateRunning \<and> j_ExecHost j2 = n_Name n @ ''/0'' \<or> j_State j2 = StateQueued \<and> j_ExecHost j2 = [])" for now1 peer
    using dispatch_ends [of s1 ?j1 now1 peer "n_Name n"] j1 sel by simp
  with j1 sel run(2) show "\<exists>j1. lookupJob (s_jobMgr s1) i = Some j1 \<and> j_State j1 = StateRunning \<and> j_ExecHost j1 = n_Name n @ ''/0'' \<and>
      (i, n_Name n) \<in> set (s_dispatching s1) \<and>
      (\<forall>now1 peer. \<exists>j2. lookupJob (s_jobMgr (dispatchJobToMOM now1 peer j1 (n_Name n) s1)) i = Some j2 \<and>
         (j_State j2 = StateRunning \<and> j_ExecHost j2 = n_Name n @ ''/0'' \<or> j_State j2 = StateQueued \<and> j_ExecHost j2 = []))"
    by blast
  fix s2 remote priv t ex attrs
  assume later: "server_run s1 s2 \<and> lookupJob (s_jobMgr s2) i \<noteq> None \<and> (priv \<or> mget (s_authMap s2) remote \<noteq> None)"
  then obtain j2 where j2: "lookupJob (s_jobMgr s2) i = Some j2" by blast
  have "jobs_typed (s_jobMgr s1)" unfolding run(1) by (rule starts_typed [OF starts_on(1) assms(1)])
  then have "jobs_typed (s_jobMgr s2)" using typed_run later by blast
  then have "j_ID j2 = i" using j2 job_registry.get_key typedD(1) by blast
  then show "let s3 = fst (handleJobObit t remote priv i ex attrs s2) in
         (\<exists>j3. lookupJob (s_jobMgr s3) i = Some j3 \<and> j_State j3 = StateComplete \<and> j_ExitStatus j3 = ex) \<and>
         (\<forall>t'. t' - t > ci (s_cfg s3) F_KeepCompleted \<longrightarrow> lookupJob (s_jobMgr (completedJobCleanup t' s3)) i = None)"
    using obit_completes [OF assms(3) j2 _ conjunct2 [OF conjunct2 [OF later]], of t ex attrs] cleanup_removes
    by (auto simp: Let_def)
qed

theorem job_runs_to_completion_witness:
  "jobs_typed (s_jobMgr demoServer) \<and> lookupJob (s_jobMgr demoServer) ''1.s'' = Some demoJob \<and> TrimSpace ''1.s'' = ''1.s'' \<and>
   (\<exists>n. may_start demoServer demoJob ''n'' n) \<and>
   (\<exists>j3. lookupJob (s_jobMgr (fst (handleJobObit 9 [] True ''1.s'' 3 [] demoRun))) ''1.s'' = Some j3 \<and>
      j_State j3 = StateComplete \<and> j_ExitStatus j3 = 3)"
proof -
  obtain n where n: "may_start demoServer demoJob ''n'' n" using demo_may_start by blast
  have j: "lookupJob (s_jobMgr demoServer) ''1.s'' = Some demoJob" by (simp add: demo_job)
  note life = job_runs_to_completion [OF demo_typed j demo_id(1) n demoRun_def]
  have "server_run demoRun demoRun \<and> lookupJob (s_jobMgr demoRun) ''1.s'' \<noteq> None \<and> (True \<or> mget (s_authMap demoRun) [] \<noteq> None)"
    using demo_running server_run.here by auto
  from conjunct2 [OF life, rule_format, OF this, of 9 3 "[]"]
  show ?thesis using demo_typed j n demo_id(1) by (auto simp: Let_def)
qed



end
