(* ===== verification/Server_View.thy ===== *)
theory Server_View
  imports Server_Status Sched_Model
begin

text \<open>
  The server through the eyes of the scheduler: what \<^verbatim>\<open>parseJobInfo\<close> of \<^verbatim>\<open>src/internal/sched/scheduler/scheduler.go\<close> reads
  in the status objects that \<^verbatim>\<open>formatJobStatus\<close> of \<^verbatim>\<open>src/internal/server/server.go\<close> makes.
\<close>

section \<open>Attributes that the scheduler passes over\<close>

definition job_keys :: "string list" where
  "job_keys = [''Job_Name'', ''Job_Owner'', ''job_state'', ''queue'', ''Priority'', ''qtime'']"

lemma quiet_attr:
  assumes "n \<notin> set job_keys" "CHR ''.'' \<notin> set n"
  shows "fold parseJobAttr (oneAttr n v) x = x"
proof -
  have "n \<noteq> ''Resource_List.walltime'' \<and> n \<noteq> ''Resource_List.mem'' \<and> n \<noteq> ''Resource_List.ncpus'' \<and>
    n \<noteq> ''Resource_List.nodes'' \<and> n \<noteq> ''Resource_List.select'' \<and> n \<noteq> ''Resource_List.ppn'' \<and>
    n \<noteq> ''Resource_List.host'' \<and> n \<noteq> ''Resource_List.feature'' \<and> n \<noteq> ''Resource_List.features'' \<and>
    n \<noteq> ''Resource_List.properties''"
    using assms(2) by auto
  then show ?thesis
    using assms HasPrefix_dot [of n "''Resource_List''"] by (auto simp add: oneAttr_def parseJobAttr_def job_keys_def)
qed

lemma quiet_str: "n \<notin> set job_keys \<Longrightarrow> CHR ''.'' \<notin> set n \<Longrightarrow> fold parseJobAttr (strAttr n v) x = x"
  by (simp add: strAttr_def quiet_attr)

lemma quiet_num:
  "n \<notin> set job_keys \<Longrightarrow> CHR ''.'' \<notin> set n \<Longrightarrow> fold parseJobAttr (intAttr n i) x = x"
  "n \<notin> set job_keys \<Longrightarrow> CHR ''.'' \<notin> set n \<Longrightarrow> fold parseJobAttr (intAttrPos n i) x = x"
  "n \<notin> set job_keys \<Longrightarrow> CHR ''.'' \<notin> set n \<Longrightarrow> fold parseJobAttr (timeAttr n t) x = x"
  by (simp_all add: intAttr_def intAttrPos_def timeAttr_def quiet_attr split: option.split)

lemma quiet_used: "fold parseJobAttr (rescAttrNE ''resources_used'' m) x = x"
proof -
  have "parseJobAttr (oneResc ''resources_used'' kv) x = x" for kv x
    by (cases kv) (simp add: oneResc_def parseJobAttr_def HasPrefix_def)
  then show ?thesis by (induction m arbitrary: x) (simp_all add: rescAttrNE_def)
qed

lemmas quiet = quiet_str quiet_num quiet_used job_keys_def

lemma quiet_blocks:
  "fold parseJobAttr (jobPaths j) x = x" "fold parseJobAttr (jobExec j) x = x"
  "fold parseJobAttr (jobTimes j) x = x" "fold parseJobAttr (jobRest j) x = x"
  by (simp_all add: jobPaths_def jobExec_def jobTimes_def jobRest_def quiet)

section \<open>Resources\<close>

definition sees :: "(string \<times> string) list \<Rightarrow> JobInfo \<Rightarrow> JobInfo" where
  "sees m x = fold parseJobAttr (rescAttrNE ''Resource_List'' m) x"

lemma resc_frame:
  fixes kv x
  defines "y \<equiv> parseJobAttr (oneResc ''Resource_List'' kv) x"
  shows "ji_ID y = ji_ID x" "ji_Name y = ji_Name x" "ji_Owner y = ji_Owner x" "ji_State y = ji_State x"
    "ji_Queue y = ji_Queue x" "ji_Priority y = ji_Priority x" "ji_QueueTime y = ji_QueueTime x"
    "ji_CPUReq y = (if fst kv = ''ncpus'' then fst (Atoi (snd kv)) else ji_CPUReq x)"
  by (cases kv; simp add: y_def oneResc_def parseJobAttr_def Let_def split: prod.split option.split)+

lemma sees_frame:
  "ji_ID (sees m x) = ji_ID x" "ji_Name (sees m x) = ji_Name x" "ji_Owner (sees m x) = ji_Owner x"
  "ji_State (sees m x) = ji_State x" "ji_Queue (sees m x) = ji_Queue x" "ji_Priority (sees m x) = ji_Priority x"
  "ji_QueueTime (sees m x) = ji_QueueTime x"
  unfolding sees_def by (induction m arbitrary: x; simp add: rescAttrNE_def resc_frame)+

lemma sees_cpus:
  "is_map m \<Longrightarrow> ji_CPUReq (sees m x) =
     (case mget m ''ncpus'' of None \<Rightarrow> ji_CPUReq x | Some v \<Rightarrow> if v = [] then ji_CPUReq x else fst (Atoi v))"
proof (induction m arbitrary: x)
  case (Cons kv m)
  then have m: "is_map m" and new: "fst kv = ''ncpus'' \<Longrightarrow> mget m ''ncpus'' = None"
    by (auto simp: map_of_eq_None_iff)
  show ?case
    using Cons.IH [OF m] new by (cases kv) (auto simp: sees_def rescAttrNE_def resc_frame split: option.split)
qed (simp add: sees_def rescAttrNE_def)

section \<open>The job as the scheduler sees it\<close>

definition ownerName :: "string \<Rightarrow> string" where
  "ownerName v = (case cut CHR ''@'' v of Some (c # rest, _) \<Rightarrow> c # rest | _ \<Rightarrow> v)"

lemma ownerName_Nil [simp]: "ownerName [] = []"
  by code_simp

lemma loud_str:
  "fold parseJobAttr (strAttr ''Job_Name'' v) x = (if v = [] then x else x\<lparr>ji_Name := v\<rparr>)"
  "fold parseJobAttr (strAttr ''Job_Owner'' v) x = (if v = [] then x else x\<lparr>ji_Owner := ownerName v\<rparr>)"
  "fold parseJobAttr (strAttr ''job_state'' v) x = (if v = [] then x else x\<lparr>ji_State := v\<rparr>)"
  "fold parseJobAttr (strAttr ''queue'' v) x = (if v = [] then x else x\<lparr>ji_Queue := v\<rparr>)"
  by (simp_all add: strAttr_def oneAttr_def parseJobAttr_def ownerName_def)

lemma loud_num:
  "is_int64 i \<Longrightarrow> fold parseJobAttr (intAttrNZ ''Priority'' i) x = (if i = 0 then x else x\<lparr>ji_Priority := i\<rparr>)"
  "(\<And>ts. t = Some ts \<Longrightarrow> is_int64 ts) \<Longrightarrow>
     fold parseJobAttr (timeAttr ''qtime'' t) x = (case t of None \<Rightarrow> x | Some ts \<Rightarrow> x\<lparr>ji_QueueTime := ts\<rparr>)"
  by (simp_all add: intAttrNZ_def timeAttr_def intAttr_def oneAttr_def parseJobAttr_def dec_simps split: option.split)

definition jobHead :: "Job \<Rightarrow> JobInfo" where
  "jobHead j =
     (emptyJobInfo (j_ID j))\<lparr>ji_Name := j_Name j, ji_Owner := ownerName (j_Owner j), ji_State := StateName j,
        ji_Queue := j_Queue j, ji_Priority := j_Priority j,
        ji_QueueTime := (case j_QueueTime j of None \<Rightarrow> zeroTime | Some ts \<Rightarrow> ts)\<rparr>"

lemma StateName_not_Nil: "StateName j \<noteq> []"
  by (simp add: StateName_def StateNames_def)

lemma parse_format:
  assumes "is_int64 (j_Priority j)" "\<And>ts. j_QueueTime j = Some ts \<Longrightarrow> is_int64 ts"
  shows "parseJobInfo (formatJobStatus j) = sees (j_ResourceReq j) (jobHead j)"
proof -
  have "parseJobInfo (formatJobStatus j) =
      sees (j_ResourceReq j)
        (fold parseJobAttr (timeAttr ''qtime'' (j_QueueTime j))
          (fold parseJobAttr (intAttrNZ ''Priority'' (j_Priority j))
            (fold parseJobAttr (strAttr ''queue'' (j_Queue j))
              (fold parseJobAttr (strAttr ''job_state'' (StateName j))
                (fold parseJobAttr (strAttr ''Job_Owner'' (j_Owner j))
                  (fold parseJobAttr (strAttr ''Job_Name'' (j_Name j)) (emptyJobInfo (j_ID j))))))))"
    by (simp add: parseJobInfo_def formatJobStatus_def quiet_blocks quiet sees_def)
  also have "\<dots> = sees (j_ResourceReq j) (jobHead j)"
    using assms StateName_not_Nil [of j]
    by (simp add: loud_str loud_num jobHead_def emptyJobInfo_def split: option.split)
  finally show ?thesis .
qed

lemma Atoi_error_not_one: "Atoi v = (n, Some e) \<Longrightarrow> n \<noteq> 1"
  by (auto simp: ParseInt_def Let_def max_int64_def min_int64_def split: if_splits list.splits)



end
