(* ===== verification/Spec2Isabelle.thy ===== *)
theory Spec2Isabelle
  imports Server_Request Job_Manager Queue_Model Node_Model Route Sched_Theorems Cec_Theorems Server_DB Server_Attrs Job_Persist Accounting Server_Theorems Server_View
begin

text \<open>
  A verification development for the OpenTorque batch system, the Go program under \<^verbatim>\<open>src/\<close>.

  \<^bold>\<open>The program.\<close> Commands submit and manage jobs over a text protocol (DIS). The server \<^verbatim>\<open>pbs_server\<close> keeps jobs, queues
  and nodes in memory, writes them to a store, and hands a job to the daemon of a compute node (the MOM) when the scheduler
  \<^verbatim>\<open>pbs_sched\<close> asks for it. The scheduler reads the cluster through status requests and, for queues in the cloud, reports
  missing capacity to an elastic controller that buys and returns machines. \<^verbatim>\<open>pbs_cost\<close> reads the accounting records of
  the server and divides the bills of the machines among the accounts.

  \<^bold>\<open>Foundations.\<close>
  \<^item> \<^verbatim>\<open>Prelude\<close>: 64-bit integers (\<^verbatim>\<open>wrap64\<close> writes out the overflow of Go's \<^verbatim>\<open>int\<close>), \<^verbatim>\<open>strconv\<close>, and the collections of
    simplification rules. \<^verbatim>\<open>Go_Strings\<close>: the part of package \<^verbatim>\<open>strings\<close> that the sources use, Go maps as association
    lists with distinct keys, and the locale \<open>registry\<close>, the contract of a manager that keeps objects by name.

  \<^bold>\<open>Protocol.\<close>
  \<^item> \<^verbatim>\<open>Dis_Codec\<close> (\<^verbatim>\<open>internal/dis/codec.go\<close>), \<^verbatim>\<open>Dis_Message\<close> (\<^verbatim>\<open>internal/dis/message.go\<close>), \<^verbatim>\<open>Dis_Client\<close>
    (\<^verbatim>\<open>internal/cli/dis\<close>, \<^verbatim>\<open>internal/cli/client\<close>, \<^verbatim>\<open>internal/mom\<close>) and \<^verbatim>\<open>Server_Request\<close> (the reading half of
    \<^verbatim>\<open>handleConnection\<close>). A reader is a function from the bytes left to a result or an error and the bytes after it. The locale
    \<open>dis_codec\<close> is the round trip of one writer and its reader; \<open>dis_codec_sim\<close> carries it over to a second reader
    that agrees with the first. The theorems give the round trips of numbers, attribute lists, replies and
    status objects, that each request of a client reaches its handler with its arguments, and where messages go wrong.

  \<^bold>\<open>Jobs, queues, nodes.\<close>
  \<^item> \<^verbatim>\<open>Job_Model\<close> and \<^verbatim>\<open>Job_Manager\<close> (\<^verbatim>\<open>internal/job\<close>): identifiers are never given twice, lookups resolve what they
    document, counters agree with the jobs while states change through the manager.
  \<^item> \<^verbatim>\<open>Queue_Model\<close> (\<^verbatim>\<open>internal/queue\<close>): the counters refine the multiset of the states of the jobs (locale \<open>job_tally\<close>).
  \<^item> \<^verbatim>\<open>Node_Model\<close> (\<^verbatim>\<open>internal/node\<close>): the flag word as a machine word, the slots against a ledger of assignments.
  \<^item> \<^verbatim>\<open>Route\<close> (\<^verbatim>\<open>internal/server/route.go\<close>): the admission gate and routing, characterised exactly.

  \<^bold>\<open>Server\<close> (\<^verbatim>\<open>internal/server/server.go\<close>, \<^verbatim>\<open>store.go\<close>, \<^verbatim>\<open>internal/config\<close>, \<^verbatim>\<open>internal/auth\<close>, \<^verbatim>\<open>internal/acct\<close>).
  \<^item> \<^verbatim>\<open>Server_Config\<close>: the fields of the configuration and the tables of the attributes that \<^verbatim>\<open>qmgr\<close> sets; the long switches of
    the source are association lists from attribute names to changes. \<^verbatim>\<open>Server_DB\<close>: saving and recovering the server
    database. \<^verbatim>\<open>Server_Attrs\<close>: the attribute lists of requests, array specifications, node requests.
  \<^item> \<^verbatim>\<open>Job_Persist\<close>: the documents of jobs. \<^verbatim>\<open>Queue_Persist\<close>: those of queues, and the recovery of the whole server.
  \<^item> \<^verbatim>\<open>Accounting\<close>: the records, and the cost report made from them (\<^verbatim>\<open>internal/cost\<close>, \<^verbatim>\<open>cmd/pbs_cost\<close>).
  \<^item> \<^verbatim>\<open>Server_State\<close>: the record \<^typ>\<open>Server\<close> with the managers, the store as maps of documents, tokens.
  \<^item> \<^verbatim>\<open>Server_Jobs\<close>, \<^verbatim>\<open>Server_Tasks\<close>, \<^verbatim>\<open>Server_Status\<close>: one function per handler and per round of a background task, from the
    server to the server, the reply and whether the connection stays open. A MOM is the function from the bytes of a
    request to the bytes of its answer; name resolution, address ranges and the keyed hash are parameters.
  \<^item> \<^verbatim>\<open>Server_Dispatch\<close>: which handler a request goes to, and the step relation \<^const>\<open>server_step\<close>: a request, a status
    message, the end of a dispatch, or a round of a task, in any order. \<^const>\<open>limited_run\<close> are the runs in which the limit of
    running jobs stays the same.
  \<^item> \<^verbatim>\<open>Server_Theorems\<close>: the locale \<open>job_changes\<close> states how handlers change the job table; a relation that obeys its laws
    is kept by every step but the start of a job. Its two interpretations give the typing of the table and that the
    set of running jobs only shrinks, and with the guard of the start handler the limit of running jobs. The same theory
    follows a job from its start over the dispatch and the obituary to its removal, and specifies deletion.
  \<^item> \<^verbatim>\<open>Server_View\<close>: the scheduler reads a job as the server has it.

  \<^bold>\<open>Scheduler\<close> (\<^verbatim>\<open>internal/sched/scheduler\<close>). \<^verbatim>\<open>Sched_Model\<close>: parsing and node selection; \<^verbatim>\<open>Sched_Cycle\<close>: the cycle with its three
  iterators and the capacity events; \<^verbatim>\<open>Sched_Theorems\<close>: what an iterator promises (locale \<open>job_source\<close>), that a cycle
  returns and when it does not, that it dispatches no job twice and no processor twice. The main loop is a partial
  function whose value None is a cycle that does not return. \<^verbatim>\<open>sort.Slice\<close> is a parameter with its documented law.

  \<^bold>\<open>Elastic controller\<close> (\<^verbatim>\<open>internal/cec\<close>, \<^verbatim>\<open>internal/crp/crp.go\<close>). \<^verbatim>\<open>Cec_Model\<close>: pools and events; \<^verbatim>\<open>Cec_Books\<close>: the locale
  \<open>cloud_provider\<close> with the laws the controller needs of a provider, interpreted on the stub provider; \<^verbatim>\<open>Cec_Theorems\<close>:
  the books of every pool in every reachable state, the bounds of scaling, what the sweeps destroy.

  \<^bold>\<open>Conventions.\<close> Strings are lists of bytes, times are seconds (None is Go's zero time), and a Go map is iterated in the
  order of its list, which stands for any order. No definition uses fuel: loops are structural, or have a termination
  proof, or are partial functions. Each handler is one step: the locks of the source and the interleaving inside a handler
  are left out, so the limit of running jobs is proved for requests that are handled one at a time. Writing a file always
  succeeds. Amounts of money are rational numbers where the source has \<^verbatim>\<open>float64\<close>.

  \<^bold>\<open>Not modelled.\<close> The MOM daemon and its execution of jobs (processes, signals, cgroups and file staging of the operating
  system) and its configuration; the sockets, timers, signals and flags of the daemons; the Azure provider (HTTP and JSON) and
  the PostgreSQL store with the leader lease (SQL), behind the interfaces that are modelled; making and reading the key file;
  the reading of \<^verbatim>\<open>sched_config\<close>; the client of the scheduler, which repeats the requests of the command-line client;
  the commands, which parse flags, call that client and print; the PAM check, the DRMAA wrapper and the dated log.
\<close>

end
